(* ===== verification/Prelude.thy ===== *)
theory Prelude
  imports Main "HOL-Library.Word"
begin

text \<open>
  Shared vocabulary of the development: the model's base types, results that may carry an
  exception, the Python string operations the adapter uses, and the generic list lemmas.

  A Python \<open>str\<close> is a \<^typ>\<open>string\<close> whose characters are code points below 256; within that range
  the operations below (\<open>strip\<close>, \<open>lower\<close>, \<open>\d\<close>) are those of Python 3. A \<open>uuid.UUID\<close> is a 128 bit
  word, \<open>bytes\<close> a list of 8 bit words, a \<open>datetime\<close> (always UTC in the code) an integer number of
  microseconds, the resolution of the Python type.
\<close>

named_theorems result_simps \<open>elimination of the error monad\<close>
named_theorems text_simps \<open>evaluation of Python string operations\<close>

type_synonym uuid = "128 word"
type_synonym bytes = "8 word list"
type_synonym time = int

section \<open>Results\<close>

text \<open>A computation that may raise: \<^term>\<open>Inl e\<close> is the exception in flight, \<^term>\<open>Inr x\<close> the value.\<close>

definition and_then :: "'e + 'a \<Rightarrow> ('a \<Rightarrow> 'e + 'b) \<Rightarrow> 'e + 'b" where
  "and_then r f = (case r of Inl e \<Rightarrow> Inl e | Inr x \<Rightarrow> f x)"

lemma and_then_simps [simp, result_simps]:
  "and_then (Inl e) f = Inl e"
  "and_then (Inr x) f = f x"
  by (simp_all add: and_then_def)

lemma and_then_Inr_iff [result_simps]:
  "and_then r f = Inr y \<longleftrightarrow> (\<exists>x. r = Inr x \<and> f x = Inr y)"
  by (simp add: and_then_def split: sum.splits)

lemma and_then_Inl_iff [result_simps]:
  "and_then r f = Inl e \<longleftrightarrow> r = Inl e \<or> (\<exists>x. r = Inr x \<and> f x = Inl e)"
  by (auto simp: and_then_def split: sum.splits)

lemma and_then_assoc: "and_then (and_then r f) g = and_then r (\<lambda>x. and_then (f x) g)"
  by (simp add: and_then_def split: sum.splits)

section \<open>Characters and strings\<close>

abbreviation code_point :: "char \<Rightarrow> nat" where
  "code_point c \<equiv> of_char c"

definition py_space :: "char \<Rightarrow> bool" where
  "py_space c \<longleftrightarrow> (9 \<le> code_point c \<and> code_point c \<le> 13) \<or> (28 \<le> code_point c \<and> code_point c \<le> 32)
     \<or> code_point c = 133 \<or> code_point c = 160"

definition is_digit :: "char \<Rightarrow> bool" where
  "is_digit c \<longleftrightarrow> 48 \<le> code_point c \<and> code_point c \<le> 57"

definition digit_val :: "char \<Rightarrow> nat" where
  "digit_val c = code_point c - 48"

definition lower_char :: "char \<Rightarrow> char" where
  "lower_char c =
     (if (65 \<le> code_point c \<and> code_point c \<le> 90) \<or> (192 \<le> code_point c \<and> code_point c \<le> 222 \<and> code_point c \<noteq> 215)
      then char_of (code_point c + 32) else c)"

definition py_lower :: "string \<Rightarrow> string" where
  "py_lower s = map lower_char s"

definition py_strip :: "string \<Rightarrow> string" where
  "py_strip s = rev (dropWhile py_space (rev (dropWhile py_space s)))"

fun starts_with :: "string \<Rightarrow> string \<Rightarrow> bool" where
  "starts_with s [] = True"
| "starts_with [] (p # ps) = False"
| "starts_with (c # s) (p # ps) = (c = p \<and> starts_with s ps)"

text \<open>\<open>s.split(d)\<close> for a one-character separator.\<close>

fun py_split :: "char \<Rightarrow> string \<Rightarrow> string list" where
  "py_split d [] = [[]]"
| "py_split d (c # s) =
     (if c = d then [] # py_split d s
      else (case py_split d s of [] \<Rightarrow> [[c]] | w # ws \<Rightarrow> (c # w) # ws))"

text \<open>\<open>str(n)\<close> of a natural number.\<close>

fun show_nat :: "nat \<Rightarrow> string" where
  "show_nat n = (if n < 10 then [char_of (48 + n)] else show_nat (n div 10) @ [char_of (48 + n mod 10)])"

declare show_nat.simps [simp del]

lemma starts_with_iff: "starts_with s p \<longleftrightarrow> (\<exists>r. s = p @ r)"
  by (induction s p rule: starts_with.induct) auto

lemma digit_not_space: "is_digit c \<Longrightarrow> \<not> py_space c"
  by (auto simp: is_digit_def py_space_def)

lemma digit_val_bound: "is_digit c \<Longrightarrow> digit_val c < 10"
  unfolding is_digit_def digit_val_def by linarith

lemma dropWhile_none: "\<forall>x \<in> set xs. \<not> P x \<Longrightarrow> dropWhile P xs = xs"
  by (cases xs) auto

lemma py_strip_id: "\<forall>c \<in> set s. \<not> py_space c \<Longrightarrow> py_strip s = s"
  by (simp add: py_strip_def dropWhile_none)

lemma dropWhile_append_tail:
  "dropWhile P (xs @ ys) = (if \<forall>x \<in> set xs. P x then dropWhile P ys else dropWhile P xs @ ys)"
  by (induction xs) auto

lemma dropWhile_idem: "dropWhile P (dropWhile P xs) = dropWhile P xs"
  by (induction xs) auto

text \<open>Stripping twice is stripping once: the front of a stripped string is not a blank.\<close>

lemma dropWhile_rev_front:
  assumes "xs = [] \<or> \<not> P (hd xs)"
  shows "dropWhile P (rev (dropWhile P (rev xs))) = rev (dropWhile P (rev xs))"
proof (cases xs)
  case Nil
  then show ?thesis by simp
next
  case (Cons c t)
  with assms have "\<not> P c" by simp
  then show ?thesis using Cons by (simp add: dropWhile_append_tail)
qed

lemma py_strip_idem: "py_strip (py_strip s) = py_strip s"
proof -
  let ?a = "dropWhile py_space s"
  have "?a = [] \<or> \<not> py_space (hd ?a)" using hd_dropWhile by blast
  then show ?thesis
    by (simp add: py_strip_def dropWhile_rev_front dropWhile_idem)
qed

section \<open>Lists\<close>

text \<open>The first element that satisfies a predicate.\<close>

lemma find_filter: "List.find P xs = (case filter P xs of [] \<Rightarrow> None | x # _ \<Rightarrow> Some x)"
  by (induction xs) auto

lemma find_SomeD: "List.find P xs = Some x \<Longrightarrow> P x \<and> x \<in> set xs"
  by (induction xs) (auto split: if_splits)

lemma distinct_filter_one:
  "distinct (map f xs) \<Longrightarrow> x \<in> set xs \<Longrightarrow> filter (\<lambda>y. f y = f x) xs = [x]"
proof (induction xs)
  case Nil
  then show ?case by simp
next
  case (Cons y ys)
  show ?case
  proof (cases "y = x")
    case True
    with Cons.prems have "\<forall>z \<in> set ys. f z \<noteq> f x" by (force simp: image_iff)
    with True show ?thesis by (simp add: filter_empty_conv)
  next
    case False
    with Cons.prems have "x \<in> set ys" and "f y \<noteq> f x" by force+
    with Cons show ?thesis by simp
  qed
qed

section \<open>Residues modulo 11\<close>

text \<open>Changing one decimal digit changes a sum weighted by 1..10 modulo 11.\<close>

lemma coprime_11: "w \<in> {1..10} \<Longrightarrow> coprime (11::int) (int w)"
proof -
  assume "w \<in> {1..10}"
  then have "w = 1 \<or> w = 2 \<or> w = 3 \<or> w = 4 \<or> w = 5 \<or> w = 6 \<or> w = 7 \<or> w = 8 \<or> w = 9 \<or> w = 10"
    by (simp, presburger)
  then show ?thesis by (elim disjE) (simp_all add: coprime_iff_gcd_eq_1 gcd_non_0_int)
qed

lemma residue_moves:
  fixes A B d x w :: nat
  assumes eq: "A + d * w = B + x * w" and "A mod 11 = B mod 11" "d < 10" "x < 10" "w \<in> {1..10}"
  shows "d = x"
proof -
  have "int A mod 11 = int B mod 11"
    using assms(2) by (metis of_nat_mod of_nat_numeral)
  then have "11 dvd int A - int B" by (simp add: mod_eq_dvd_iff)
  moreover have "int A - int B = (int x - int d) * int w"
    using arg_cong [OF eq, of int] by (simp add: algebra_simps)
  ultimately have "11 dvd int x - int d"
    using coprime_11 [OF assms(5)] by (simp add: coprime_dvd_mult_left_iff)
  then show ?thesis using assms(3,4) by presburger
qed

lemma two_residues: 
  assumes "(a::nat) < 11" "b < 11" "a mod 10 = b mod 10" "a \<noteq> b" shows "{a, b} = {0, 10}"
proof -
  have "a = 10 \<or> a < 10" and "b = 10 \<or> b < 10" using assms(1,2) by auto
  then show ?thesis using assms(3,4) by (elim disjE) auto
qed

end
