(* ===== verification/ValueObjects.thy ===== *)
theory ValueObjects
  imports Prelude
begin

text \<open>
  The value objects of \<open>src/domain/value_objects\<close>: the \<open>StrEnum\<close>s with their wire strings, the
  classification of document statuses, and the INN / KPP validators with their checksums.
  A \<open>StrEnum\<close> is a datatype with its \<open>value\<close> function; calling the enum class on a string
  (\<open>UnifiedDocumentStatus(s)\<close>) is the partial inverse, \<^term>\<open>None\<close> standing for its \<open>ValueError\<close>.
\<close>

section \<open>Enumerations\<close>

datatype unified_status =
  PENDING | SENDING | SENT | DELIVERED | SIGNED | REJECTED | CANCELLED | FAILED | UNKNOWN

fun status_value :: "unified_status \<Rightarrow> string" where
  "status_value PENDING = ''PENDING''"
| "status_value SENDING = ''SENDING''"
| "status_value SENT = ''SENT''"
| "status_value DELIVERED = ''DELIVERED''"
| "status_value SIGNED = ''SIGNED''"
| "status_value REJECTED = ''REJECTED''"
| "status_value CANCELLED = ''CANCELLED''"
| "status_value FAILED = ''FAILED''"
| "status_value UNKNOWN = ''UNKNOWN''"

text \<open>Iterating over the enum class yields the members in declaration order.\<close>

instantiation unified_status :: enum
begin

definition enum_unified_status :: "unified_status list" where
  "enum_unified_status =
     [PENDING, SENDING, SENT, DELIVERED, SIGNED, REJECTED, CANCELLED, FAILED, UNKNOWN]"

definition enum_all_unified_status :: "(unified_status \<Rightarrow> bool) \<Rightarrow> bool" where
  "enum_all_unified_status P \<longleftrightarrow> list_all P enum_class.enum"

definition enum_ex_unified_status :: "(unified_status \<Rightarrow> bool) \<Rightarrow> bool" where
  "enum_ex_unified_status P \<longleftrightarrow> list_ex P enum_class.enum"

instance
proof
  show "UNIV = set (enum_class.enum :: unified_status list)"
    using unified_status.exhaust by (auto simp: enum_unified_status_def)
  then show "enum_class.enum_all P \<longleftrightarrow> Ball UNIV P" and "enum_class.enum_ex P \<longleftrightarrow> Bex UNIV P"
    for P :: "unified_status \<Rightarrow> bool"
    by (simp_all add: enum_all_unified_status_def enum_ex_unified_status_def list_all_iff list_ex_iff)
  show "distinct (enum_class.enum :: unified_status list)"
    by (simp add: enum_unified_status_def)
qed

end

definition parse_status :: "string \<Rightarrow> unified_status option" where
  "parse_status s = List.find (\<lambda>u. status_value u = s) enum_class.enum"

definition status_is_terminal :: "unified_status \<Rightarrow> bool" where
  "status_is_terminal s \<longleftrightarrow> s \<in> {SIGNED, REJECTED, CANCELLED, FAILED}"

definition status_is_retryable :: "unified_status \<Rightarrow> bool" where
  "status_is_retryable s \<longleftrightarrow> s \<in> {PENDING, SENDING, FAILED}"

datatype delivery_status = QUEUED | IN_PROGRESS | SUCCESS | DS_RETRYING | DEAD

fun delivery_status_value :: "delivery_status \<Rightarrow> string" where
  "delivery_status_value QUEUED = ''QUEUED''"
| "delivery_status_value IN_PROGRESS = ''IN_PROGRESS''"
| "delivery_status_value SUCCESS = ''SUCCESS''"
| "delivery_status_value DS_RETRYING = ''RETRYING''"
| "delivery_status_value DEAD = ''DEAD''"

datatype circuit_state = CLOSED | OPEN | HALF_OPEN

fun circuit_value :: "circuit_state \<Rightarrow> string" where
  "circuit_value CLOSED = ''CLOSED''"
| "circuit_value OPEN = ''OPEN''"
| "circuit_value HALF_OPEN = ''HALF_OPEN''"

definition parse_circuit :: "string \<Rightarrow> circuit_state option" where
  "parse_circuit s = List.find (\<lambda>u. circuit_value u = s) [CLOSED, OPEN, HALF_OPEN]"

datatype webhook_signature_status = SIG_VALID | SIG_INVALID | SIG_SKIPPED

fun webhook_signature_value :: "webhook_signature_status \<Rightarrow> string" where
  "webhook_signature_value SIG_VALID = ''VALID''"
| "webhook_signature_value SIG_INVALID = ''INVALID''"
| "webhook_signature_value SIG_SKIPPED = ''SKIPPED''"

datatype retry_state = RS_PENDING | RS_RETRYING | EXHAUSTED | REPLAYED

fun retry_state_value :: "retry_state \<Rightarrow> string" where
  "retry_state_value RS_PENDING = ''PENDING''"
| "retry_state_value RS_RETRYING = ''RETRYING''"
| "retry_state_value EXHAUSTED = ''EXHAUSTED''"
| "retry_state_value REPLAYED = ''REPLAYED''"

datatype provider_type = DIADOC | SBIS | KONTUR_EDO | STUB

fun provider_type_value :: "provider_type \<Rightarrow> string" where
  "provider_type_value DIADOC = ''DIADOC''"
| "provider_type_value SBIS = ''SBIS''"
| "provider_type_value KONTUR_EDO = ''KONTUR_EDO''"
| "provider_type_value STUB = ''STUB''"

definition parse_provider_type :: "string \<Rightarrow> provider_type option" where
  "parse_provider_type s = List.find (\<lambda>p. provider_type_value p = s) [DIADOC, SBIS, KONTUR_EDO, STUB]"

text \<open>Every enum string parses back to its member, and only the listed strings parse.\<close>

lemma parse_status_value [simp]: "parse_status (status_value u) = Some u"
  by (cases u) (simp_all add: parse_status_def enum_unified_status_def)

lemma parse_status_Some: "parse_status s = Some u \<longleftrightarrow> s = status_value u"
proof
  assume "parse_status s = Some u"
  then show "s = status_value u"
    unfolding parse_status_def by (auto dest: find_SomeD)
next
  assume "s = status_value u"
  then show "parse_status s = Some u" by simp
qed

lemma status_value_inject [simp]: "status_value a = status_value b \<longleftrightarrow> a = b"
  by (metis option.inject parse_status_value)

lemma parse_circuit_value [simp]: "parse_circuit (circuit_value c) = Some c"
  by (cases c) (simp_all add: parse_circuit_def)

lemma circuit_value_inject [simp]: "circuit_value a = circuit_value b \<longleftrightarrow> a = b"
  by (metis option.inject parse_circuit_value)

lemma parse_provider_type_value [simp]: "parse_provider_type (provider_type_value p) = Some p"
  by (cases p) (simp_all add: parse_provider_type_def)

lemma status_is_terminal_simps [simp]:
  "\<not> status_is_terminal PENDING" "\<not> status_is_terminal SENDING" "\<not> status_is_terminal SENT"
  "\<not> status_is_terminal DELIVERED" "status_is_terminal SIGNED" "status_is_terminal REJECTED"
  "status_is_terminal CANCELLED" "status_is_terminal FAILED" "\<not> status_is_terminal UNKNOWN"
  by (simp_all add: status_is_terminal_def)

text \<open>The two classifications overlap in exactly one status.\<close>

lemma terminal_and_retryable: "status_is_terminal s \<and> status_is_retryable s \<longleftrightarrow> s = FAILED"
  by (cases s) (simp_all add: status_is_retryable_def)

section \<open>INN and KPP\<close>

text \<open>The two \<open>ValueError\<close>s of the constructors, with the offending (stripped) value.\<close>

datatype inn_error = BadFormat string | BadChecksum string

datatype inn = INN (inn_value: string)
datatype kpp = KPP (kpp_value: string)

definition legal_weights_1 :: "nat list" where
  "legal_weights_1 = [2, 4, 10, 3, 5, 9, 4, 6, 8]"

definition indiv_weights_1 :: "nat list" where
  "indiv_weights_1 = [7, 2, 4, 10, 3, 5, 9, 4, 6, 8]"

definition indiv_weights_2 :: "nat list" where
  "indiv_weights_2 = [3, 7, 2, 4, 10, 3, 5, 9, 4, 6, 8]"

text \<open>\<open>sum(d * w for d, w in zip(digits, weights))\<close>, then the two reductions.\<close>

definition dot :: "nat list \<Rightarrow> nat list \<Rightarrow> nat" where
  "dot digits weights = sum_list (map (\<lambda>(d, w). d * w) (zip digits weights))"

definition weighted :: "nat list \<Rightarrow> nat list \<Rightarrow> nat" where
  "weighted digits weights = dot digits weights mod 11 mod 10"

definition inn_validate :: "string \<Rightarrow> bool" where
  "inn_validate value =
     (let digits = map digit_val value in
      if length digits = 10
      then digits ! 9 = weighted (take 9 digits) legal_weights_1
      else (let c1 = weighted (take 10 digits) indiv_weights_1;
                c2 = weighted (take 11 digits) indiv_weights_2
            in digits ! 10 = c1 \<and> digits ! 11 = c2))"

text \<open>\<open>re.fullmatch(r"\d{n}", s)\<close>.\<close>

definition full_digits :: "nat \<Rightarrow> string \<Rightarrow> bool" where
  "full_digits n s \<longleftrightarrow> length s = n \<and> list_all is_digit s"

definition inn_init :: "string \<Rightarrow> inn_error + inn" where
  "inn_init value =
     (let v = py_strip value in
      if \<not> (full_digits 10 v \<or> full_digits 12 v) then Inl (BadFormat v)
      else if \<not> inn_validate v then Inl (BadChecksum v)
      else Inr (INN v))"

definition kpp_init :: "string \<Rightarrow> inn_error + kpp" where
  "kpp_init value =
     (let v = py_strip value in
      if \<not> full_digits 9 v then Inl (BadFormat v) else Inr (KPP v))"

lemma full_digits_strip: "full_digits n s \<Longrightarrow> py_strip s = s"
  by (rule py_strip_id) (auto simp: full_digits_def list_all_iff dest: digit_not_space)

lemma inn_init_Inr:
  "inn_init s = Inr i \<longleftrightarrow>
     i = INN (py_strip s) \<and> (full_digits 10 (py_strip s) \<or> full_digits 12 (py_strip s))
     \<and> inn_validate (py_strip s)"
  by (auto simp: inn_init_def Let_def)

lemma kpp_init_Inr: "kpp_init s = Inr k \<longleftrightarrow> k = KPP (py_strip s) \<and> full_digits 9 (py_strip s)"
  by (auto simp: kpp_init_def Let_def)

text \<open>An accepted INN is a fixed point of validation: its text is 10 or 12 decimal digits without
  blanks, and constructing an INN from the text of an accepted one succeeds with the same value.\<close>

theorem inn_round_trip:
  assumes "inn_init s = Inr i"
  shows "inn_init (inn_value i) = Inr i \<and> length (inn_value i) \<in> {10, 12}
    \<and> list_all is_digit (inn_value i)"
  using assms by (auto simp: inn_init_Inr py_strip_idem full_digits_def)

theorem inn_round_trip_witness:
  "inn_init '' 7707083893 '' = Inr (INN ''7707083893'')
   \<and> inn_init ''7707083893'' = Inr (INN ''7707083893'')"
proof -
  have h: "inn_init '' 7707083893 '' = Inr (INN ''7707083893'')" by code_simp
  from inn_round_trip [OF h] h show ?thesis by simp
qed

lemma dot_update:
  assumes "k < length ds" "k < length ws"
  shows "dot (ds[k := x]) ws + ds ! k * ws ! k
    = dot ds ws + x * ws ! k"
  using assms
proof (induction ds arbitrary: k ws)
  case Nil
  then show ?case by simp
next
  case (Cons d ds)
  then obtain w ws' where ws: "ws = w # ws'" by (cases ws) auto
  show ?case
  proof (cases k)
    case 0
    then show ?thesis by (simp add: ws dot_def)
  next
    case (Suc j)
    then show ?thesis using Cons.IH [of j ws'] Cons.prems by (simp add: ws dot_def)
  qed
qed

lemma legal_weights_range: "k < 9 \<Longrightarrow> legal_weights_1 ! k \<in> {1..10}"
proof -
  assume "k < 9"
  then have "legal_weights_1 ! k \<in> set legal_weights_1"
    by (intro nth_mem) (simp add: legal_weights_1_def)
  then show ?thesis by (auto simp: legal_weights_1_def)
qed

lemma digit_val_inject: "is_digit c \<Longrightarrow> is_digit d \<Longrightarrow> digit_val c = digit_val d \<Longrightarrow> c = d"
proof -
  assume "is_digit c" "is_digit d" "digit_val c = digit_val d"
  then have "code_point c = code_point d"
    unfolding is_digit_def digit_val_def by linarith
  then show ?thesis using of_char_eq_iff by blast
qed

text \<open>The remainder of the weighted sum of the first nine digits, before its reduction modulo 10.\<close>

definition legal_residue :: "string \<Rightarrow> nat" where
  "legal_residue s = dot (take 9 (map digit_val s)) legal_weights_1 mod 11"

lemma legal_valid_iff:
  assumes "length s = 10"
  shows "inn_validate s \<longleftrightarrow> digit_val (s ! 9) = legal_residue s mod 10"
  using assms by (simp add: inn_validate_def legal_residue_def weighted_def)

lemma legal_residue_changes:
  assumes s: "length s = 10" "list_all is_digit s" and k: "k < 9"
    and c: "is_digit c" "c \<noteq> s ! k"
  shows "legal_residue (s[k := c]) \<noteq> legal_residue s"
proof
  assume same: "legal_residue (s[k := c]) = legal_residue s"
  let ?ds = "take 9 (map digit_val s)"
  have sk: "is_digit (s ! k)" using s k by (simp add: list_all_length)
  have upd: "take 9 (map digit_val (s[k := c])) = ?ds[k := digit_val c]"
    using k by (simp add: map_update take_update_swap)
  have "dot (?ds[k := digit_val c]) legal_weights_1 + digit_val (s ! k) * legal_weights_1 ! k
      = dot ?ds legal_weights_1 + digit_val c * legal_weights_1 ! k"
    using dot_update [of k ?ds legal_weights_1 "digit_val c"] s k
    by (simp add: legal_weights_1_def)
  then have "digit_val (s ! k) = digit_val c"
    by (rule residue_moves [OF _ _ _ _ legal_weights_range [OF k]])
      (use same upd sk c(1) in \<open>simp_all add: legal_residue_def digit_val_bound\<close>)
  then show False using digit_val_inject [OF sk c(1)] c(2) by simp
qed

text \<open>C39: A mistyped digit of a legal-entity INN goes unnoticed only in one narrow case. If an accepted
  10-digit INN is still accepted after one digit is replaced by another, the digit is not the check
  digit, and the two weighted sums leave the remainders 0 and 10, which the code's final
  reduction modulo 10 identifies.\<close>

theorem inn_single_digit_error:
  assumes ok: "inn_init s = Inr (INN s)" and len: "length s = 10"
    and k: "k < 10" and c: "is_digit c" "c \<noteq> s ! k"
    and ok': "inn_init (s[k := c]) = Inr (INN (s[k := c]))"
  shows "k < 9 \<and> {legal_residue s, legal_residue (s[k := c])} = {0, 10}"
proof -
  from ok have ps: "py_strip s = s" by (auto simp: inn_init_Inr)
  with ok len have s: "length s = 10" "list_all is_digit s" and v: "inn_validate s"
    by (auto simp: inn_init_Inr full_digits_def)
  from ok' have "py_strip (s[k := c]) = s[k := c]" by (auto simp: inn_init_Inr)
  with ok' have v': "inn_validate (s[k := c])" by (auto simp: inn_init_Inr)
  have k9: "k < 9"
  proof (rule ccontr)
    assume "\<not> k < 9"
    with k have [simp]: "k = 9" by simp
    have "legal_residue (s[k := c]) = legal_residue s"
      by (simp add: legal_residue_def take_map)
    with v v' len have "digit_val c = digit_val (s ! 9)"
      by (simp add: legal_valid_iff)
    with c s show False using digit_val_inject [of c "s ! 9"] by (auto simp: list_all_length)
  qed
  with v v' len have eq: "legal_residue (s[k := c]) mod 10 = legal_residue s mod 10"
    by (simp add: legal_valid_iff)
  have "{legal_residue s, legal_residue (s[k := c])} = {0, 10}"
    by (rule two_residues)
      (use eq legal_residue_changes [OF s k9 c] in \<open>auto simp: legal_residue_def\<close>)
  with k9 show ?thesis by simp
qed

theorem inn_single_digit_error_witness:
  "{legal_residue ''7707083830'', legal_residue (''7707083830''[0 := CHR ''2''])} = {0, 10}"
proof -
  have 1: "inn_init ''7707083830'' = Inr (INN ''7707083830'')" by code_simp
  have 2: "inn_init (''7707083830''[0 := CHR ''2'']) = Inr (INN (''7707083830''[0 := CHR ''2'']))"
    by code_simp
  show ?thesis
    using inn_single_digit_error [OF 1 _ _ _ _ 2] by (simp add: is_digit_def)
qed

end
