(* ===== verification/Exceptions.thy ===== *)
theory Exceptions
  imports ValueObjects
begin

text \<open>
  The exception hierarchy of \<open>src/domain/exceptions/domain_exceptions.py\<close> and its translation to
  HTTP responses in \<open>src/presentation/exception_handlers.py\<close>. A domain error is a constructor with
  the texts its \<open>__init__\<close> receives; \<open>err_code\<close>, \<open>err_message\<close> read the two attributes the base class
  stores, \<open>err_class\<close> its Python class and \<open>class_parent\<close> the base class named in the \<open>class\<close> statement.
  The remaining Python exceptions that the modelled code can raise are collected in \<open>exc\<close>.
\<close>

section \<open>Domain errors\<close>

datatype domain_error =
    DomainError string string
  | DocumentNotFoundError string
  | DuplicateDocumentError string
  | DeliveryNotFoundError string
  | DeliveryAlreadyFinalError string
  | IdempotencyConflictError string
  | ProviderAccountNotFoundError string
  | ProviderAccountInactiveError string
  | ProviderTransientError string string
  | ProviderPermanentError string string
  | ProviderRateLimitError string
  | CircuitOpenError string
  | WebhookSignatureError string
  | WebhookDuplicateError string
  | AuthenticationError
  | AuthorizationError string
  | DLQEntryNotFoundError string
  | DLQEntryNotRetryableError string

fun err_message :: "domain_error \<Rightarrow> string" where
  "err_message (DomainError m c) = m"
| "err_message (DocumentNotFoundError i) = ''Document not found: '' @ i"
| "err_message (DuplicateDocumentError i) = ''Document already exists: '' @ i"
| "err_message (DeliveryNotFoundError i) = ''Delivery not found: '' @ i"
| "err_message (DeliveryAlreadyFinalError i) = ''Delivery is already final: '' @ i"
| "err_message (IdempotencyConflictError k) = ''Idempotency key already exists: '' @ k"
| "err_message (ProviderAccountNotFoundError i) = ''Provider account not found: '' @ i"
| "err_message (ProviderAccountInactiveError i) = ''Provider account is inactive: '' @ i"
| "err_message (ProviderTransientError m p) = m"
| "err_message (ProviderPermanentError m p) = m"
| "err_message (ProviderRateLimitError p) = ''Provider rate limit exceeded''"
| "err_message (CircuitOpenError i) = ''Circuit breaker OPEN for account: '' @ i"
| "err_message (WebhookSignatureError p) = ''Webhook signature invalid for provider: '' @ p"
| "err_message (WebhookDuplicateError i) = ''Duplicate webhook event: '' @ i"
| "err_message AuthenticationError = ''Authentication failed''"
| "err_message (AuthorizationError a) = ''Not authorized to: '' @ a"
| "err_message (DLQEntryNotFoundError i) = ''DLQ entry not found: '' @ i"
| "err_message (DLQEntryNotRetryableError i) = ''DLQ entry is not retryable: '' @ i"

text \<open>\<open>ProviderRateLimitError\<close> overwrites the code its base class has set.\<close>

fun err_code :: "domain_error \<Rightarrow> string" where
  "err_code (DomainError m c) = c"
| "err_code (DocumentNotFoundError i) = ''DOCUMENT_NOT_FOUND''"
| "err_code (DuplicateDocumentError i) = ''DUPLICATE_DOCUMENT''"
| "err_code (DeliveryNotFoundError i) = ''DELIVERY_NOT_FOUND''"
| "err_code (DeliveryAlreadyFinalError i) = ''DELIVERY_ALREADY_FINAL''"
| "err_code (IdempotencyConflictError k) = ''IDEMPOTENCY_CONFLICT''"
| "err_code (ProviderAccountNotFoundError i) = ''PROVIDER_ACCOUNT_NOT_FOUND''"
| "err_code (ProviderAccountInactiveError i) = ''PROVIDER_ACCOUNT_INACTIVE''"
| "err_code (ProviderTransientError m p) = ''PROVIDER_TRANSIENT_ERROR''"
| "err_code (ProviderPermanentError m p) = ''PROVIDER_PERMANENT_ERROR''"
| "err_code (ProviderRateLimitError p) = ''PROVIDER_RATE_LIMIT''"
| "err_code (CircuitOpenError i) = ''CIRCUIT_OPEN''"
| "err_code (WebhookSignatureError p) = ''WEBHOOK_SIGNATURE_INVALID''"
| "err_code (WebhookDuplicateError i) = ''WEBHOOK_DUPLICATE''"
| "err_code AuthenticationError = ''AUTHENTICATION_FAILED''"
| "err_code (AuthorizationError a) = ''AUTHORIZATION_FAILED''"
| "err_code (DLQEntryNotFoundError i) = ''DLQ_ENTRY_NOT_FOUND''"
| "err_code (DLQEntryNotRetryableError i) = ''DLQ_ENTRY_NOT_RETRYABLE''"

section \<open>Classes\<close>

datatype exc_class =
    C_Exception | C_DomainError | C_DocumentNotFound | C_DuplicateDocument | C_DeliveryNotFound
  | C_DeliveryAlreadyFinal | C_IdempotencyConflict | C_ProviderAccountNotFound
  | C_ProviderAccountInactive | C_ProviderTransient | C_ProviderPermanent | C_ProviderRateLimit
  | C_CircuitOpen | C_WebhookSignature | C_WebhookDuplicate | C_Authentication | C_Authorization
  | C_DLQEntryNotFound | C_DLQEntryNotRetryable

fun err_class :: "domain_error \<Rightarrow> exc_class" where
  "err_class (DomainError m c) = C_DomainError"
| "err_class (DocumentNotFoundError i) = C_DocumentNotFound"
| "err_class (DuplicateDocumentError i) = C_DuplicateDocument"
| "err_class (DeliveryNotFoundError i) = C_DeliveryNotFound"
| "err_class (DeliveryAlreadyFinalError i) = C_DeliveryAlreadyFinal"
| "err_class (IdempotencyConflictError k) = C_IdempotencyConflict"
| "err_class (ProviderAccountNotFoundError i) = C_ProviderAccountNotFound"
| "err_class (ProviderAccountInactiveError i) = C_ProviderAccountInactive"
| "err_class (ProviderTransientError m p) = C_ProviderTransient"
| "err_class (ProviderPermanentError m p) = C_ProviderPermanent"
| "err_class (ProviderRateLimitError p) = C_ProviderRateLimit"
| "err_class (CircuitOpenError i) = C_CircuitOpen"
| "err_class (WebhookSignatureError p) = C_WebhookSignature"
| "err_class (WebhookDuplicateError i) = C_WebhookDuplicate"
| "err_class AuthenticationError = C_Authentication"
| "err_class (AuthorizationError a) = C_Authorization"
| "err_class (DLQEntryNotFoundError i) = C_DLQEntryNotFound"
| "err_class (DLQEntryNotRetryableError i) = C_DLQEntryNotRetryable"

fun class_parent :: "exc_class \<Rightarrow> exc_class option" where
  "class_parent C_Exception = None"
| "class_parent C_DomainError = Some C_Exception"
| "class_parent C_ProviderRateLimit = Some C_ProviderTransient"
| "class_parent _ = Some C_DomainError"

text \<open>The method resolution order: the class, its base, and so on up to \<open>Exception\<close>.\<close>

fun class_mro :: "exc_class \<Rightarrow> exc_class list" where
  "class_mro C_Exception = [C_Exception]"
| "class_mro C_DomainError = [C_DomainError, C_Exception]"
| "class_mro C_ProviderRateLimit = [C_ProviderRateLimit, C_ProviderTransient, C_DomainError, C_Exception]"
| "class_mro c = [c, C_DomainError, C_Exception]"

lemma class_mro_unfold:
  "class_mro c = c # (case class_parent c of None \<Rightarrow> [] | Some p \<Rightarrow> class_mro p)"
  by (cases c) simp_all

definition is_instance :: "domain_error \<Rightarrow> exc_class \<Rightarrow> bool" where
  "is_instance e c \<longleftrightarrow> c \<in> set (class_mro (err_class e))"

lemma is_transient_class:
  "is_instance e C_ProviderTransient \<longleftrightarrow>
     (\<exists>m p. e = ProviderTransientError m p) \<or> (\<exists>p. e = ProviderRateLimitError p)"
  by (cases e) (simp_all add: is_instance_def)

lemma is_permanent_class:
  "is_instance e C_ProviderPermanent \<longleftrightarrow> (\<exists>m p. e = ProviderPermanentError m p)"
  by (cases e) (simp_all add: is_instance_def)

section \<open>Exceptions in flight\<close>

text \<open>\<open>ErrHTTP\<close> is FastAPI's \<open>HTTPException\<close> with its status code and detail.\<close>

datatype exc =
    Domain domain_error
  | ValueError string
  | TypeError string
  | AttributeError string
  | KeyError string
  | OverflowError string
  | PermissionError string
  | IntegrityError string
  | MultipleResultsFound
  | BrokerError string
  | OtherError string
  | ErrHTTP nat string

type_synonym 'a res = "exc + 'a"

text \<open>\<open>str(exc)\<close>; a domain error passes its message to \<open>Exception.__init__\<close>, and a
  \<open>KeyError\<close> shows its key in quotes.\<close>

fun exc_str :: "exc \<Rightarrow> string" where
  "exc_str (Domain e) = err_message e"
| "exc_str (ValueError m) = m"
| "exc_str (TypeError m) = m"
| "exc_str (AttributeError m) = m"
| "exc_str (KeyError m) = CHR 0x27 # m @ [CHR 0x27]"
| "exc_str (OverflowError m) = m"
| "exc_str (PermissionError m) = m"
| "exc_str (IntegrityError m) = m"
| "exc_str MultipleResultsFound = ''Multiple rows were found when one or none was required''"
| "exc_str (BrokerError m) = m"
| "exc_str (OtherError m) = m"
| "exc_str (ErrHTTP n m) = show_nat n @ '': '' @ m"

section \<open>HTTP translation\<close>

record error_response =
  resp_status :: nat
  resp_code :: string
  resp_message :: string

datatype handler =
    domain_error_handler | not_found_handler | conflict_handler | unauthorized_handler
  | forbidden_handler | service_unavailable_handler

definition error_response_of :: "nat \<Rightarrow> string \<Rightarrow> string \<Rightarrow> error_response" where
  "error_response_of status_code code message =
     \<lparr>resp_status = status_code, resp_code = code, resp_message = message\<rparr>"

fun handler_status :: "handler \<Rightarrow> nat" where
  "handler_status domain_error_handler = 400"
| "handler_status not_found_handler = 404"
| "handler_status conflict_handler = 409"
| "handler_status unauthorized_handler = 401"
| "handler_status forbidden_handler = 403"
| "handler_status service_unavailable_handler = 503"

definition run_handler :: "handler \<Rightarrow> domain_error \<Rightarrow> error_response" where
  "run_handler h e = error_response_of (handler_status h) (err_code e) (err_message e)"

definition exception_handlers :: "(exc_class \<times> handler) list" where
  "exception_handlers =
    [(C_DocumentNotFound, not_found_handler),
     (C_DeliveryAlreadyFinal, conflict_handler),
     (C_DLQEntryNotFound, not_found_handler),
     (C_ProviderAccountNotFound, not_found_handler),
     (C_DuplicateDocument, conflict_handler),
     (C_IdempotencyConflict, conflict_handler),
     (C_Authentication, unauthorized_handler),
     (C_Authorization, forbidden_handler),
     (C_CircuitOpen, service_unavailable_handler),
     (C_ProviderTransient, service_unavailable_handler),
     (C_ProviderPermanent, domain_error_handler),
     (C_WebhookSignature, domain_error_handler),
     (C_DomainError, domain_error_handler)]"

text \<open>
  The application registers the table with the web framework (\<open>main.create_app\<close>), which is not part of
  the repository: \<open>lookup\<close> stands for it. Its documented rule is that the handler of the most specific
  class of the exception's method resolution order runs.
\<close>

definition translate ::
  "((exc_class \<times> handler) list \<Rightarrow> exc_class list \<Rightarrow> handler option) \<Rightarrow> domain_error \<Rightarrow> error_response option"
where
  "translate lookup e =
     map_option (\<lambda>h. run_handler h e) (lookup exception_handlers (class_mro (err_class e)))"

definition mro_lookup ::
  "((exc_class \<times> handler) list \<Rightarrow> exc_class list \<Rightarrow> handler option) \<Rightarrow> bool"
where
  "mro_lookup lookup \<longleftrightarrow>
     (\<forall>table c cs. lookup table (c # cs) =
        (case map_of table c of Some h \<Rightarrow> Some h | None \<Rightarrow> lookup table cs))"

fun first_in_mro :: "(exc_class \<times> handler) list \<Rightarrow> exc_class list \<Rightarrow> handler option" where
  "first_in_mro table [] = None"
| "first_in_mro table (c # cs) =
     (case map_of table c of Some h \<Rightarrow> Some h | None \<Rightarrow> first_in_mro table cs)"

lemma mro_lookup_first_in_mro: "mro_lookup first_in_mro"
  by (simp add: mro_lookup_def)

fun http_status :: "domain_error \<Rightarrow> nat" where
  "http_status (DocumentNotFoundError i) = 404"
| "http_status (ProviderAccountNotFoundError i) = 404"
| "http_status (DLQEntryNotFoundError i) = 404"
| "http_status (DeliveryAlreadyFinalError i) = 409"
| "http_status (DuplicateDocumentError i) = 409"
| "http_status (IdempotencyConflictError k) = 409"
| "http_status AuthenticationError = 401"
| "http_status (AuthorizationError a) = 403"
| "http_status (CircuitOpenError i) = 503"
| "http_status (ProviderTransientError m p) = 503"
| "http_status (ProviderRateLimitError p) = 503"
| "http_status _ = 400"

text \<open>C40: Every domain error that escapes a route is answered: the response carries the error's own code
  and message, with status 404, 409, 401, 403 or 503 for the classes registered so, 503 for the rate
  limit subclass by inheritance, and 400 for every class without a registration of its own.\<close>

theorem every_domain_error_answered:
  assumes "mro_lookup lookup"
  shows "translate lookup e =
    Some \<lparr>resp_status = http_status e, resp_code = err_code e, resp_message = err_message e\<rparr>"
proof -
  have step: "lookup table (c # cs) =
      (case map_of table c of Some h \<Rightarrow> Some h | None \<Rightarrow> lookup table cs)" for table c cs
    using assms by (simp add: mro_lookup_def)
  show ?thesis
    by (cases e)
      (simp_all add: translate_def step exception_handlers_def run_handler_def error_response_of_def)
qed

theorem every_domain_error_answered_witness:
  "translate first_in_mro (ProviderRateLimitError ''SBIS'') =
    Some \<lparr>resp_status = 503, resp_code = ''PROVIDER_RATE_LIMIT'',
          resp_message = ''Provider rate limit exceeded''\<rparr>"
  using every_domain_error_answered [OF mro_lookup_first_in_mro, of "ProviderRateLimitError ''SBIS''"]
  by simp

end
