(* ===== verification/Codec.thy ===== *)
theory Codec
  imports Exceptions
begin

text \<open>
  The text encodings that carry data between the API process and the workers: \<open>bytes.hex()\<close> and
  \<open>bytes.fromhex\<close>, \<open>str(uuid)\<close> and \<open>uuid.UUID(text)\<close>, and the base64 functions. They belong to the
  Python standard library; what the adapter relies on is that each decoder inverts its encoder.
  \<open>uuid.UUID\<close> is modelled on the plain hexadecimal spelling with optional dashes and braces, and
  \<open>b64decode\<close> on padded groups of four characters of the alphabet.
\<close>

section \<open>Hexadecimal\<close>

definition hex_char :: "nat \<Rightarrow> char" where
  "hex_char n = (if n < 10 then char_of (48 + n) else char_of (87 + n))"

definition hex_val :: "char \<Rightarrow> nat option" where
  "hex_val c =
     (if 48 \<le> code_point c \<and> code_point c \<le> 57 then Some (code_point c - 48)
      else if 97 \<le> code_point c \<and> code_point c \<le> 102 then Some (code_point c - 87)
      else if 65 \<le> code_point c \<and> code_point c \<le> 70 then Some (code_point c - 55)
      else None)"

definition ascii_space :: "char \<Rightarrow> bool" where
  "ascii_space c \<longleftrightarrow> (9 \<le> code_point c \<and> code_point c \<le> 13) \<or> code_point c = 32"

fun bytes_hex :: "bytes \<Rightarrow> string" where
  "bytes_hex [] = []"
| "bytes_hex (b # bs) = hex_char (unat b div 16) # hex_char (unat b mod 16) # bytes_hex bs"

abbreviation bad_hex :: exc where
  "bad_hex \<equiv> ValueError ''non-hexadecimal number found in fromhex() arg''"

fun bytes_fromhex :: "string \<Rightarrow> bytes res" where
  "bytes_fromhex [] = Inr []"
| "bytes_fromhex [c] = (if ascii_space c then Inr [] else Inl bad_hex)"
| "bytes_fromhex (c # d # s) =
     (if ascii_space c then bytes_fromhex (d # s)
      else (case (hex_val c, hex_val d) of
              (Some h, Some l) \<Rightarrow> and_then (bytes_fromhex s) (\<lambda>bs. Inr (of_nat (16 * h + l) # bs))
            | _ \<Rightarrow> Inl bad_hex))"

lemma code_point_char_of [simp]: "n < 256 \<Longrightarrow> code_point (char_of n) = n"
  by simp

lemma hex_val_hex_char [simp]: "n < 16 \<Longrightarrow> hex_val (hex_char n) = Some n"
  by (auto simp: hex_val_def hex_char_def)

lemma hex_char_no_space [simp]: "n < 16 \<Longrightarrow> \<not> ascii_space (hex_char n)"
  by (auto simp: ascii_space_def hex_char_def)

lemma byte_nibbles:
  fixes b :: "8 word"
  shows "unat b div 16 < 16" and "unat b mod 16 < 16"
proof -
  have "unat b < 256" using unsigned_less [of b] by simp
  then show "unat b div 16 < 16" by linarith
qed simp

lemma fromhex_hex [simp]: "bytes_fromhex (bytes_hex bs) = Inr bs"
proof (induction bs)
  case Nil
  then show ?case by simp
next
  case (Cons b bs)
  have "(of_nat (16 * (unat b div 16) + unat b mod 16) :: 8 word) = b"
    by (simp only: mult_div_mod_eq) simp
  then show ?case using Cons.IH by (simp add: byte_nibbles)
qed

section \<open>UUID texts\<close>

fun hex_pad :: "nat \<Rightarrow> nat \<Rightarrow> string" where
  "hex_pad 0 n = []"
| "hex_pad (Suc k) n = hex_pad k (n div 16) @ [hex_char (n mod 16)]"

fun hex_num :: "nat \<Rightarrow> string \<Rightarrow> nat option" where
  "hex_num acc [] = Some acc"
| "hex_num acc (c # s) = (case hex_val c of None \<Rightarrow> None | Some h \<Rightarrow> hex_num (16 * acc + h) s)"

definition uuid_str :: "uuid \<Rightarrow> string" where
  "uuid_str u =
     (let h = hex_pad 32 (unat u) in
      take 8 h @ ''-'' @ take 4 (drop 8 h) @ ''-'' @ take 4 (drop 12 h) @ ''-''
        @ take 4 (drop 16 h) @ ''-'' @ drop 20 h)"

definition is_brace :: "char \<Rightarrow> bool" where
  "is_brace c \<longleftrightarrow> c = CHR ''{'' \<or> c = CHR ''}''"

definition uuid_parse :: "string \<Rightarrow> uuid res" where
  "uuid_parse s =
     (let t = rev (dropWhile is_brace (rev (dropWhile is_brace s)));
          h = filter (\<lambda>c. c \<noteq> CHR ''-'') t
      in if length h \<noteq> 32 then Inl (ValueError ''badly formed hexadecimal UUID string'')
         else (case hex_num 0 h of
                 None \<Rightarrow> Inl (ValueError ''invalid literal for int() with base 16'')
               | Some n \<Rightarrow> Inr (of_nat n)))"

lemma length_hex_pad [simp]: "length (hex_pad k n) = k"
  by (induction k arbitrary: n) auto

lemma hex_num_append: "hex_num acc (s @ t) = Option.bind (hex_num acc s) (\<lambda>a. hex_num a t)"
  by (induction s arbitrary: acc) (auto split: option.splits)

lemma hex_num_pad: "n < 16 ^ k \<Longrightarrow> hex_num 0 (hex_pad k n) = Some n"
proof (induction k arbitrary: n)
  case 0
  then show ?case by simp
next
  case (Suc k)
  then have "n div 16 < 16 ^ k" by (simp add: less_mult_imp_div_less mult.commute)
  then show ?case using Suc.IH by (simp add: hex_num_append)
qed

lemma hex_char_plain: "n < 16 \<Longrightarrow> hex_char n \<noteq> CHR ''-'' \<and> \<not> is_brace (hex_char n)"
proof -
  assume "n < 16"
  then have "hex_val (hex_char n) = Some n" by simp
  moreover have "hex_val CHR ''-'' = None" "hex_val CHR ''{'' = None" "hex_val CHR ''}'' = None"
    by (simp_all add: hex_val_def)
  ultimately show ?thesis by (auto simp: is_brace_def)
qed

lemma hex_pad_plain: "c \<in> set (hex_pad k n) \<Longrightarrow> c \<noteq> CHR ''-'' \<and> \<not> is_brace c"
  by (induction k arbitrary: n) (auto simp: hex_char_plain)

lemma uuid_str_plain: "c \<in> set (uuid_str u) \<Longrightarrow> \<not> is_brace c"
  by (auto simp: uuid_str_def Let_def is_brace_def dest!: in_set_takeD in_set_dropD hex_pad_plain)

lemma uuid_str_digits: "filter (\<lambda>c. c \<noteq> CHR ''-'') (uuid_str u) = hex_pad 32 (unat u)"
proof -
  let ?h = "hex_pad 32 (unat u)"
  have f: "filter (\<lambda>c. c \<noteq> CHR ''-'') s = s" if "set s \<subseteq> set ?h" for s
    using that hex_pad_plain by (auto simp: filter_id_conv)
  have "filter (\<lambda>c. c \<noteq> CHR ''-'') (uuid_str u)
      = take 8 ?h @ take 4 (drop 8 ?h) @ take 4 (drop 12 ?h) @ take 4 (drop 16 ?h) @ drop 20 ?h"
    unfolding uuid_str_def Let_def
    by (simp only: filter_append f [OF set_take_subset] f [OF set_drop_subset]
        f [OF subset_trans [OF set_take_subset set_drop_subset]]) simp
  also have "\<dots> = ?h"
    using take_add [of 8 4 ?h] take_add [of 12 4 ?h] take_add [of 16 4 ?h]
      append_take_drop_id [of 20 ?h] by (simp add: append_assoc [symmetric] del: append_assoc)
  finally show ?thesis .
qed

lemma uuid_parse_str [simp]: "uuid_parse (uuid_str u) = Inr u"
proof -
  have n: "unat u < 16 ^ 32" using unsigned_less [of u] by simp
  have s: "rev (dropWhile is_brace (rev (dropWhile is_brace (uuid_str u)))) = uuid_str u"
    by (simp add: dropWhile_none uuid_str_plain)
  show ?thesis by (simp add: uuid_parse_def s uuid_str_digits hex_num_pad [OF n])
qed

lemma uuid_str_inject [simp]: "uuid_str a = uuid_str b \<longleftrightarrow> a = b"
  by (metis Inr_inject uuid_parse_str)

text \<open>\<open>str\<close> of an optional uuid: the text \<open>None\<close> when there is none.\<close>

definition opt_uuid_str :: "uuid option \<Rightarrow> string" where
  "opt_uuid_str o' = (case o' of None \<Rightarrow> ''None'' | Some u \<Rightarrow> uuid_str u)"

lemma uuid_parse_None: "uuid_parse ''None'' = Inl (ValueError ''badly formed hexadecimal UUID string'')"
  by (simp add: uuid_parse_def is_brace_def)

end
