(* ===== verification/Entities.thy ===== *)
theory Entities
  imports Codec
begin

text \<open>
  The domain entities of \<open>src/domain/entities\<close>: one record per dataclass, one definition per factory and
  mutator. The clock and \<open>uuid.uuid4()\<close> are inputs: every definition that reads them takes the values
  read as arguments, in the order of the reads. A mutator of the code becomes a function from the old
  record to the new one.
\<close>

named_theorems entity_defs \<open>definitions of the entity mutators\<close>

section \<open>JSON values\<close>

datatype json =
    JNull | JBool bool | JNum int | JStr string
  | JArr "json list" | JObj "(string \<times> json) list"

type_synonym dict = "(string \<times> json) list"

section \<open>Deliveries\<close>

record delivery =
  dl_id :: uuid
  dl_tenant_id :: uuid
  dl_document_id :: uuid
  dl_provider_account_id :: uuid
  dl_idempotency_key :: string
  dl_status :: unified_status
  dl_provider_document_id :: "string option"
  dl_provider_raw_status :: "string option"
  dl_retry_count :: nat
  dl_next_retry_at :: "time option"
  dl_last_error_code :: "string option"
  dl_last_error_message :: "string option"
  dl_sent_at :: "time option"
  dl_delivered_at :: "time option"
  dl_signed_at :: "time option"
  dl_rejected_at :: "time option"
  dl_final_at :: "time option"
  dl_created_at :: time
  dl_updated_at :: time

definition create_delivery ::
  "uuid \<Rightarrow> time \<Rightarrow> time \<Rightarrow> uuid \<Rightarrow> uuid \<Rightarrow> uuid \<Rightarrow> string \<Rightarrow> delivery"
where
  "create_delivery new_id now1 now2 tenant document account key =
     \<lparr>dl_id = new_id, dl_tenant_id = tenant, dl_document_id = document,
      dl_provider_account_id = account, dl_idempotency_key = key, dl_status = PENDING,
      dl_provider_document_id = None, dl_provider_raw_status = None, dl_retry_count = 0,
      dl_next_retry_at = None, dl_last_error_code = None, dl_last_error_message = None,
      dl_sent_at = None, dl_delivered_at = None, dl_signed_at = None, dl_rejected_at = None,
      dl_final_at = None, dl_created_at = now1, dl_updated_at = now2\<rparr>"

definition mark_sending :: "time \<Rightarrow> delivery \<Rightarrow> delivery" where
  "mark_sending now d = d\<lparr>dl_status := SENDING, dl_updated_at := now\<rparr>"

definition mark_sent :: "time \<Rightarrow> string \<Rightarrow> delivery \<Rightarrow> delivery" where
  "mark_sent now pid d =
     d\<lparr>dl_status := SENT, dl_provider_document_id := Some pid, dl_sent_at := Some now,
       dl_updated_at := now\<rparr>"

definition mark_delivered :: "time \<Rightarrow> delivery \<Rightarrow> delivery" where
  "mark_delivered now d =
     d\<lparr>dl_status := DELIVERED, dl_delivered_at := Some now, dl_updated_at := now\<rparr>"

definition mark_signed :: "time \<Rightarrow> delivery \<Rightarrow> delivery" where
  "mark_signed now d =
     d\<lparr>dl_status := SIGNED, dl_signed_at := Some now, dl_final_at := Some now,
       dl_updated_at := now\<rparr>"

definition mark_rejected :: "time \<Rightarrow> delivery \<Rightarrow> delivery" where
  "mark_rejected now d =
     d\<lparr>dl_status := REJECTED, dl_rejected_at := Some now, dl_final_at := Some now,
       dl_updated_at := now\<rparr>"

definition mark_failed :: "time \<Rightarrow> string \<Rightarrow> string \<Rightarrow> delivery \<Rightarrow> delivery" where
  "mark_failed now code message d =
     d\<lparr>dl_status := FAILED, dl_last_error_code := Some code, dl_last_error_message := Some message,
       dl_final_at := Some now, dl_updated_at := now\<rparr>"

definition schedule_retry :: "time \<Rightarrow> time \<Rightarrow> delivery \<Rightarrow> delivery" where
  "schedule_retry now next_retry d =
     d\<lparr>dl_retry_count := dl_retry_count d + 1, dl_next_retry_at := Some next_retry,
       dl_status := PENDING, dl_updated_at := now\<rparr>"

definition delivery_is_terminal :: "delivery \<Rightarrow> bool" where
  "delivery_is_terminal d = status_is_terminal (dl_status d)"

lemmas delivery_ops [entity_defs] =
  mark_sending_def mark_sent_def mark_delivered_def mark_signed_def mark_rejected_def
  mark_failed_def schedule_retry_def

section \<open>Documents\<close>

record document =
  doc_id :: uuid
  doc_tenant_id :: uuid
  doc_internal_document_id :: uuid
  doc_document_type :: string
  doc_sender_inn :: string
  doc_sender_kpp :: "string option"
  doc_recipient_inn :: string
  doc_recipient_kpp :: "string option"
  doc_title :: string
  doc_file_name :: string
  doc_mime_type :: string
  doc_file_checksum :: string
  doc_metadata :: dict
  doc_created_by :: uuid
  doc_created_at :: time

text \<open>\<open>sha256\<close> is \<open>hashlib.sha256(...).digest()\<close>; an absent or empty \<open>metadata\<close> becomes the empty dict.\<close>

definition create_document ::
  "(bytes \<Rightarrow> bytes) \<Rightarrow> uuid \<Rightarrow> time \<Rightarrow> uuid \<Rightarrow> uuid \<Rightarrow> string \<Rightarrow> string \<Rightarrow> string option \<Rightarrow> string
   \<Rightarrow> string option \<Rightarrow> string \<Rightarrow> string \<Rightarrow> string \<Rightarrow> bytes \<Rightarrow> uuid \<Rightarrow> dict option \<Rightarrow> document"
where
  "create_document sha256 new_id now tenant internal_id doc_type s_inn s_kpp r_inn r_kpp title
     file_name mime_type file_bytes created_by metadata =
     \<lparr>doc_id = new_id, doc_tenant_id = tenant, doc_internal_document_id = internal_id,
      doc_document_type = doc_type, doc_sender_inn = s_inn, doc_sender_kpp = s_kpp,
      doc_recipient_inn = r_inn, doc_recipient_kpp = r_kpp, doc_title = title,
      doc_file_name = file_name, doc_mime_type = mime_type,
      doc_file_checksum = bytes_hex (sha256 file_bytes),
      doc_metadata = (case metadata of None \<Rightarrow> [] | Some m \<Rightarrow> m),
      doc_created_by = created_by, doc_created_at = now\<rparr>"

section \<open>Provider accounts\<close>

record account =
  acc_id :: uuid
  acc_tenant_id :: uuid
  acc_provider_type :: provider_type
  acc_account_name :: string
  acc_credentials_json :: dict
  acc_is_active :: bool
  acc_priority :: int
  acc_webhook_secret :: "string option"
  acc_rate_limit_per_minute :: "int option"
  acc_created_at :: time
  acc_updated_at :: time

definition create_account ::
  "uuid \<Rightarrow> time \<Rightarrow> uuid \<Rightarrow> provider_type \<Rightarrow> string \<Rightarrow> dict \<Rightarrow> string option \<Rightarrow> int option \<Rightarrow> int \<Rightarrow> account"
where
  "create_account new_id now tenant ptype name creds secret rate priority =
     \<lparr>acc_id = new_id, acc_tenant_id = tenant, acc_provider_type = ptype,
      acc_account_name = name, acc_credentials_json = creds, acc_is_active = True,
      acc_priority = priority, acc_webhook_secret = secret, acc_rate_limit_per_minute = rate,
      acc_created_at = now, acc_updated_at = now\<rparr>"

definition deactivate :: "time \<Rightarrow> account \<Rightarrow> account" where
  "deactivate now a = a\<lparr>acc_is_active := False, acc_updated_at := now\<rparr>"

definition activate :: "time \<Rightarrow> account \<Rightarrow> account" where
  "activate now a = a\<lparr>acc_is_active := True, acc_updated_at := now\<rparr>"

lemmas account_ops [entity_defs] = deactivate_def activate_def

section \<open>Dead letters, audit events, webhooks, incoming documents\<close>

record dlq_entry =
  dlq_id :: uuid
  dlq_tenant_id :: uuid
  dlq_delivery_id :: "uuid option"
  dlq_provider_account_id :: "uuid option"
  dlq_task_name :: string
  dlq_payload :: dict
  dlq_reason_code :: string
  dlq_reason_message :: string
  dlq_retryable :: bool
  dlq_replayed_at :: "time option"
  dlq_created_at :: time

definition create_dlq_entry ::
  "uuid \<Rightarrow> time \<Rightarrow> uuid \<Rightarrow> string \<Rightarrow> dict \<Rightarrow> string \<Rightarrow> string \<Rightarrow> bool \<Rightarrow> uuid option \<Rightarrow> uuid option \<Rightarrow> dlq_entry"
where
  "create_dlq_entry new_id now tenant task payload code message retryable delivery account =
     \<lparr>dlq_id = new_id, dlq_tenant_id = tenant, dlq_delivery_id = delivery,
      dlq_provider_account_id = account, dlq_task_name = task, dlq_payload = payload,
      dlq_reason_code = code, dlq_reason_message = message, dlq_retryable = retryable,
      dlq_replayed_at = None, dlq_created_at = now\<rparr>"

definition mark_replayed :: "time \<Rightarrow> dlq_entry \<Rightarrow> dlq_entry" where
  "mark_replayed now e = e\<lparr>dlq_replayed_at := Some now\<rparr>"

record audit_event =
  aud_id :: uuid
  aud_tenant_id :: uuid
  aud_actor_user_id :: "uuid option"
  aud_resource_type :: string
  aud_resource_id :: uuid
  aud_event_type :: string
  aud_trace_id :: "string option"
  aud_payload :: dict
  aud_created_at :: time

definition create_audit_event ::
  "uuid \<Rightarrow> time \<Rightarrow> uuid \<Rightarrow> string \<Rightarrow> uuid \<Rightarrow> string \<Rightarrow> dict option \<Rightarrow> uuid option \<Rightarrow> string option \<Rightarrow> audit_event"
where
  "create_audit_event new_id now tenant rtype rid etype payload actor trace =
     \<lparr>aud_id = new_id, aud_tenant_id = tenant, aud_actor_user_id = actor,
      aud_resource_type = rtype, aud_resource_id = rid, aud_event_type = etype,
      aud_trace_id = trace, aud_payload = (case payload of None \<Rightarrow> [] | Some p \<Rightarrow> p),
      aud_created_at = now\<rparr>"

record webhook_event =
  wh_id :: uuid
  wh_tenant_id :: uuid
  wh_provider_account_id :: uuid
  wh_provider_type :: string
  wh_external_event_id :: "string option"
  wh_signature_status :: webhook_signature_status
  wh_payload :: dict
  wh_headers :: "(string \<times> string) list"
  wh_processed :: bool
  wh_processed_at :: "time option"
  wh_error_message :: "string option"
  wh_created_at :: time

definition create_webhook_event ::
  "uuid \<Rightarrow> time \<Rightarrow> uuid \<Rightarrow> uuid \<Rightarrow> string \<Rightarrow> webhook_signature_status \<Rightarrow> dict
   \<Rightarrow> (string \<times> string) list \<Rightarrow> string option \<Rightarrow> webhook_event"
where
  "create_webhook_event new_id now tenant account ptype sig payload headers ext =
     \<lparr>wh_id = new_id, wh_tenant_id = tenant, wh_provider_account_id = account,
      wh_provider_type = ptype, wh_external_event_id = ext, wh_signature_status = sig,
      wh_payload = payload, wh_headers = headers, wh_processed = False, wh_processed_at = None,
      wh_error_message = None, wh_created_at = now\<rparr>"

definition webhook_mark_processed :: "time \<Rightarrow> webhook_event \<Rightarrow> webhook_event" where
  "webhook_mark_processed now w = w\<lparr>wh_processed := True, wh_processed_at := Some now\<rparr>"

definition webhook_mark_failed :: "string \<Rightarrow> webhook_event \<Rightarrow> webhook_event" where
  "webhook_mark_failed message w = w\<lparr>wh_processed := False, wh_error_message := Some message\<rparr>"

record incoming_document =
  inc_id :: uuid
  inc_tenant_id :: uuid
  inc_provider_account_id :: uuid
  inc_provider_document_id :: string
  inc_document_type :: string
  inc_sender_inn :: string
  inc_sender_name :: "string option"
  inc_file_name :: string
  inc_mime_type :: string
  inc_unified_status :: unified_status
  inc_metadata :: dict
  inc_received_at :: time
  inc_created_at :: time

definition create_incoming_document ::
  "time \<Rightarrow> uuid \<Rightarrow> uuid \<Rightarrow> uuid \<Rightarrow> string \<Rightarrow> string \<Rightarrow> string \<Rightarrow> string option \<Rightarrow> string \<Rightarrow> string
   \<Rightarrow> unified_status \<Rightarrow> dict option \<Rightarrow> time option \<Rightarrow> incoming_document"
where
  "create_incoming_document now new_id tenant account pid dtype inn name fname mime status
     metadata received =
     \<lparr>inc_id = new_id, inc_tenant_id = tenant, inc_provider_account_id = account,
      inc_provider_document_id = pid, inc_document_type = dtype, inc_sender_inn = inn,
      inc_sender_name = name, inc_file_name = fname, inc_mime_type = mime,
      inc_unified_status = status, inc_metadata = (case metadata of None \<Rightarrow> [] | Some m \<Rightarrow> m),
      inc_received_at = (case received of None \<Rightarrow> now | Some r \<Rightarrow> r), inc_created_at = now\<rparr>"

end
