(* ===== verification/Lifecycle.thy ===== *)
theory Lifecycle
  imports Entities
begin

text \<open>
  The life of a delivery: its mutators as the steps of a state machine, the data invariant that ties
  the status to the timestamps and error fields, and the fields no step may write.
\<close>

section \<open>Steps\<close>

datatype delivery_op =
    Op_sending | Op_sent string | Op_delivered | Op_signed | Op_rejected
  | Op_failed string string | Op_retry time

fun apply_op :: "time \<Rightarrow> delivery_op \<Rightarrow> delivery \<Rightarrow> delivery" where
  "apply_op now Op_sending d = mark_sending now d"
| "apply_op now (Op_sent pid) d = mark_sent now pid d"
| "apply_op now Op_delivered d = mark_delivered now d"
| "apply_op now Op_signed d = mark_signed now d"
| "apply_op now Op_rejected d = mark_rejected now d"
| "apply_op now (Op_failed code msg) d = mark_failed now code msg d"
| "apply_op now (Op_retry at) d = schedule_retry now at d"

inductive delivery_step :: "delivery \<Rightarrow> delivery \<Rightarrow> bool" where
  step: "dl_updated_at d \<le> now \<Longrightarrow> delivery_step d (apply_op now op d)"

inductive delivery_reach :: "delivery \<Rightarrow> delivery \<Rightarrow> bool" for d0 where
  start: "delivery_reach d0 d0"
| further: "delivery_reach d0 d \<Longrightarrow> delivery_step d d' \<Longrightarrow> delivery_reach d0 d'"

inductive_cases delivery_stepE: "delivery_step d d'"

section \<open>Invariant\<close>

text \<open>What the status of a delivery says about its other fields.\<close>

fun status_evidence :: "unified_status \<Rightarrow> delivery \<Rightarrow> bool" where
  "status_evidence PENDING d = True"
| "status_evidence SENDING d = True"
| "status_evidence SENT d =
     (dl_provider_document_id d \<noteq> None \<and> dl_sent_at d = Some (dl_updated_at d))"
| "status_evidence DELIVERED d = (dl_delivered_at d = Some (dl_updated_at d))"
| "status_evidence SIGNED d =
     (dl_signed_at d = Some (dl_updated_at d) \<and> dl_final_at d = dl_signed_at d)"
| "status_evidence REJECTED d =
     (dl_rejected_at d = Some (dl_updated_at d) \<and> dl_final_at d = dl_rejected_at d)"
| "status_evidence FAILED d =
     (dl_last_error_code d \<noteq> None \<and> dl_last_error_message d \<noteq> None
      \<and> dl_final_at d = Some (dl_updated_at d))"
| "status_evidence CANCELLED d = False"
| "status_evidence UNKNOWN d = False"

definition delivery_inv :: "delivery \<Rightarrow> bool" where
  "delivery_inv d \<longleftrightarrow> status_evidence (dl_status d) d"

definition same_identity :: "delivery \<Rightarrow> delivery \<Rightarrow> bool" where
  "same_identity d e \<longleftrightarrow> dl_id e = dl_id d \<and> dl_tenant_id e = dl_tenant_id d
     \<and> dl_document_id e = dl_document_id d \<and> dl_provider_account_id e = dl_provider_account_id d
     \<and> dl_idempotency_key e = dl_idempotency_key d \<and> dl_created_at e = dl_created_at d"

lemma create_delivery_inv: "delivery_inv (create_delivery i n1 n2 t d a k)"
  by (simp add: delivery_inv_def create_delivery_def)

lemma apply_op_inv: "delivery_inv (apply_op now op d)"
  by (cases op) (simp_all add: delivery_inv_def entity_defs)

lemma apply_op_identity: "same_identity d (apply_op now op d)"
  by (cases op) (simp_all add: same_identity_def entity_defs)

lemma apply_op_updated: "dl_updated_at (apply_op now op d) = now"
  by (cases op) (simp_all add: entity_defs)

lemma apply_op_retry_count:
  "dl_retry_count (apply_op now op d) =
     dl_retry_count d + (case op of Op_retry at \<Rightarrow> 1 | _ \<Rightarrow> 0)"
  by (cases op) (simp_all add: entity_defs)

lemma same_identity_refl [simp]: "same_identity d d"
  by (simp add: same_identity_def)

lemma same_identity_trans: "same_identity d e \<Longrightarrow> same_identity e f \<Longrightarrow> same_identity d f"
  by (simp add: same_identity_def)

text \<open>C32: Along every run of the mutators from a well-formed delivery (a new one is), the status never
  lies: a sent delivery has the provider's document id and its sending time, a failed one its error
  code and message, a terminal one its final time, equal to the last update; no mutator ever produces
  \<open>CANCELLED\<close> or \<open>UNKNOWN\<close>; the ids, the idempotency key and the creation time never change, and
  neither the update time nor the retry count ever goes back.\<close>

theorem delivery_lifecycle:
  assumes "delivery_reach d0 d" and "delivery_inv d0"
  shows "delivery_inv d \<and> same_identity d0 d \<and> dl_updated_at d0 \<le> dl_updated_at d
    \<and> dl_retry_count d0 \<le> dl_retry_count d"
  using assms
proof (induction rule: delivery_reach.induct)
  case start
  then show ?case by simp
next
  case (further d d')
  from further.hyps(2) obtain now op
    where d': "d' = apply_op now op d" and now: "dl_updated_at d \<le> now"
    by (rule delivery_stepE)
  from further show ?case
    by (auto simp: d' apply_op_inv apply_op_updated apply_op_retry_count
        intro: same_identity_trans apply_op_identity order_trans [OF _ now])
qed

lemma reach_one: "dl_updated_at d \<le> now \<Longrightarrow> delivery_reach d (apply_op now op d)"
  by (rule delivery_reach.further [OF delivery_reach.start]) (rule delivery_step.step)

theorem delivery_lifecycle_witness:
  "dl_final_at (mark_failed 7 ''E'' ''m'' (create_delivery 1 5 5 2 3 4 ''k'')) = Some 7
   \<and> delivery_inv (mark_failed 7 ''E'' ''m'' (create_delivery 1 5 5 2 3 4 ''k''))"
proof -
  let ?d = "create_delivery 1 5 5 2 3 4 ''k''"
  have "delivery_reach ?d (apply_op 7 (Op_failed ''E'' ''m'') ?d)"
    by (rule reach_one) (simp add: create_delivery_def)
  from delivery_lifecycle [OF this create_delivery_inv] show ?thesis
    by (simp add: mark_failed_def)
qed

end
