(* ===== verification/Config.thy ===== *)
theory Config
  imports Complex_Main Lifecycle
begin

text \<open>
  \<open>src/core/config.py\<close>: the settings with their defaults, the derived connection strings, the CORS
  origin list and the validator of the secret. Durations that the code keeps as floats are
  rationals, so that the arithmetic of the back-off is exact.
\<close>

section \<open>Settings\<close>

datatype app_env = Dev | Staging | Prod

record settings =
  app_env :: app_env
  app_host :: string
  app_port :: nat
  app_title :: string
  app_version :: string
  debug :: bool
  postgres_host :: string
  postgres_port :: nat
  postgres_db :: string
  postgres_user :: string
  postgres_password :: string
  db_pool_size :: nat
  db_max_overflow :: nat
  db_pool_timeout :: nat
  db_echo :: bool
  redis_host :: string
  redis_port :: nat
  redis_password :: string
  redis_db :: nat
  paseto_secret_key :: string
  access_token_ttl_minutes :: int
  refresh_token_ttl_days :: int
  cors_allow_origins_raw :: string
  otel_exporter_otlp_endpoint :: string
  otel_service_name :: string
  enable_log_masking :: bool
  default_retry_max_attempts :: nat
  default_retry_base_seconds :: rat
  default_retry_max_seconds :: rat
  circuit_failure_threshold :: int
  circuit_recovery_timeout_seconds :: int
  circuit_half_open_max_calls :: int
  provider_request_timeout_seconds :: rat
  provider_connect_timeout_seconds :: rat
  webhook_dedup_ttl_seconds :: nat
  idempotency_key_ttl_seconds :: nat

definition default_settings :: settings where
  "default_settings =
     \<lparr>app_env = Dev, app_host = ''0.0.0.0'', app_port = 8099,
      app_title = ''EDO-Adapter Enterprise'', app_version = ''0.1.0'', debug = False,
      postgres_host = ''localhost'', postgres_port = 5499, postgres_db = ''edo_adapter'',
      postgres_user = ''edo'', postgres_password = ''edo'', db_pool_size = 20,
      db_max_overflow = 10, db_pool_timeout = 30, db_echo = False,
      redis_host = ''localhost'', redis_port = 6399, redis_password = ''change-me'', redis_db = 0,
      paseto_secret_key = ''replace-with-32-byte-secret-key!!'',
      access_token_ttl_minutes = 30, refresh_token_ttl_days = 14,
      cors_allow_origins_raw = ''http://localhost:3099,http://localhost:8099'',
      otel_exporter_otlp_endpoint = ''http://localhost:4399'', otel_service_name = ''edo-adapter-api'',
      enable_log_masking = True, default_retry_max_attempts = 5,
      default_retry_base_seconds = 10, default_retry_max_seconds = 900,
      circuit_failure_threshold = 5, circuit_recovery_timeout_seconds = 60,
      circuit_half_open_max_calls = 2, provider_request_timeout_seconds = 30,
      provider_connect_timeout_seconds = 5, webhook_dedup_ttl_seconds = 86400,
      idempotency_key_ttl_seconds = 604800\<rparr>"

definition database_url :: "settings \<Rightarrow> string" where
  "database_url s = ''postgresql+asyncpg://'' @ postgres_user s @ '':'' @ postgres_password s
     @ ''@'' @ postgres_host s @ '':'' @ show_nat (postgres_port s) @ ''/'' @ postgres_db s"

definition sync_database_url :: "settings \<Rightarrow> string" where
  "sync_database_url s = ''postgresql+psycopg2://'' @ postgres_user s @ '':'' @ postgres_password s
     @ ''@'' @ postgres_host s @ '':'' @ show_nat (postgres_port s) @ ''/'' @ postgres_db s"

definition redis_url :: "settings \<Rightarrow> string" where
  "redis_url s = ''redis://:'' @ redis_password s @ ''@'' @ redis_host s @ '':''
     @ show_nat (redis_port s) @ ''/'' @ show_nat (redis_db s)"

text \<open>
  \<open>loads\<close> is \<open>json.loads\<close>, \<open>to_str\<close> is \<open>str\<close> on a decoded value. Iterating over a decoded object yields
  its keys; a number, a boolean or \<open>null\<close> is not iterable, a string yields its characters.
\<close>

fun json_iter :: "json \<Rightarrow> json list res" where
  "json_iter (JArr xs) = Inr xs"
| "json_iter (JObj kvs) = Inr (map (\<lambda>(k, v). JStr k) kvs)"
| "json_iter (JStr s) = Inr (map (\<lambda>c. JStr [c]) s)"
| "json_iter _ = Inl (TypeError ''object is not iterable'')"

definition nonblank :: "string \<Rightarrow> bool" where
  "nonblank s \<longleftrightarrow> py_strip s \<noteq> []"

definition cors_allow_origins ::
  "(string \<Rightarrow> json res) \<Rightarrow> (json \<Rightarrow> string) \<Rightarrow> settings \<Rightarrow> string list res"
where
  "cors_allow_origins loads to_str s =
     (let value = py_strip (cors_allow_origins_raw s) in
      if value = [] then Inr []
      else if starts_with value ''['' then
        and_then (loads value) (\<lambda>parsed.
        and_then (json_iter parsed) (\<lambda>items.
          Inr [py_strip (to_str origin). origin \<leftarrow> items, nonblank (to_str origin)]))
      else Inr [py_strip origin. origin \<leftarrow> py_split CHR '','' value, nonblank origin])"

definition validate_secret_length :: "settings \<Rightarrow> settings res" where
  "validate_secret_length s =
     (if length (paseto_secret_key s) < 32
      then Inl (ValueError ''paseto_secret_key must be at least 32 characters'')
      else Inr s)"

lemma cors_item_clean:
  "\<forall>o' \<in> set [py_strip (f x). x \<leftarrow> xs, nonblank (f x)]. o' \<noteq> [] \<and> py_strip o' = o'"
  by (auto simp: nonblank_def py_strip_idem)

text \<open>Whatever the \<open>CORS_ALLOW_ORIGINS\<close> text is (blank, comma separated or a JSON array), every origin
  handed to the CORS middleware is non-empty and carries no surrounding blanks.\<close>

theorem cors_origins_clean:
  assumes "cors_allow_origins loads to_str s = Inr origins"
  shows "\<forall>o' \<in> set origins. o' \<noteq> [] \<and> py_strip o' = o'"
proof -
  let ?v = "py_strip (cors_allow_origins_raw s)"
  consider "?v = []" | "?v \<noteq> []" "starts_with ?v ''[''" | "?v \<noteq> []" "\<not> starts_with ?v ''[''"
    by blast
  then show ?thesis
  proof cases
    case 1
    with assms show ?thesis by (simp add: cors_allow_origins_def)
  next
    case 2
    with assms obtain items where
      "origins = [py_strip (to_str origin). origin \<leftarrow> items, nonblank (to_str origin)]"
      by (auto simp: cors_allow_origins_def Let_def and_then_Inr_iff)
    then show ?thesis using cors_item_clean by blast
  next
    case 3
    with assms have
      "origins = [py_strip origin. origin \<leftarrow> py_split CHR '','' ?v, nonblank origin]"
      by (simp add: cors_allow_origins_def Let_def)
    then show ?thesis using cors_item_clean [of "\<lambda>x. x"] by blast
  qed
qed

theorem cors_origins_clean_witness:
  "cors_allow_origins (\<lambda>_. Inr JNull) (\<lambda>_. []) (default_settings\<lparr>cors_allow_origins_raw := '' a, ,b ''\<rparr>)
     = Inr [''a'', ''b'']
   \<and> (\<forall>o' \<in> {''a'', ''b''}. o' \<noteq> [] \<and> py_strip o' = o')"
proof -
  have h: "cors_allow_origins (\<lambda>_. Inr JNull) (\<lambda>_. []) (default_settings\<lparr>cors_allow_origins_raw := '' a, ,b ''\<rparr>)
     = Inr [''a'', ''b'']"
    by (simp add: cors_allow_origins_def default_settings_def nonblank_def py_strip_def py_space_def
        Let_def)
  from cors_origins_clean [OF h] h show ?thesis by simp
qed

end
