(* ===== verification/RetryBackoff.thy ===== *)
theory RetryBackoff
  imports Config
begin

text \<open>
  \<open>src/infrastructure/reliability/retry_backoff.py\<close>. \<open>random.uniform(0, delay)\<close> is \<open>delay\<close> times the next
  number \<open>u\<close> of the generator, an input between 0 and 1; \<open>timedelta(seconds=...)\<close> rounds to whole
  microseconds, half to even. The delays are exact: multiplying a float by a power of two does not
  round, and a product that overflows to infinity is cut to the maximum. \<open>base * 2 ** n\<close> converts the
  integer \<open>2 ** n\<close> to a float, which raises from \<open>n = 1024\<close> on.
\<close>

definition microseconds :: "rat \<Rightarrow> int" where
  "microseconds seconds =
     (let x = seconds * 1000000; f = floor x; r = x - of_int f in
      if r < 1 / 2 then f else if r > 1 / 2 then f + 1 else if even f then f else f + 1)"

definition retry_delay :: "settings \<Rightarrow> nat \<Rightarrow> rat res" where
  "retry_delay s retry_count =
     (if 1024 \<le> retry_count then Inl (OverflowError ''int too large to convert to float'')
      else Inr (min (default_retry_base_seconds s * 2 ^ retry_count) (default_retry_max_seconds s)))"

definition compute_next_retry :: "settings \<Rightarrow> rat \<Rightarrow> time \<Rightarrow> nat \<Rightarrow> time res" where
  "compute_next_retry s u now retry_count =
     and_then (retry_delay s retry_count) (\<lambda>delay.
       let jitter = 0 + (delay - 0) * u in Inr (now + microseconds jitter))"

definition should_retry :: "settings \<Rightarrow> nat \<Rightarrow> bool" where
  "should_retry s retry_count \<longleftrightarrow> retry_count < default_retry_max_attempts s"

definition is_transient :: "string \<Rightarrow> bool" where
  "is_transient error_code \<longleftrightarrow>
     list_ex (starts_with error_code)
       [''PROVIDER_TRANSIENT_ERROR'', ''PROVIDER_RATE_LIMIT'', ''CIRCUIT_OPEN'']"

section \<open>Rounding\<close>

lemma microseconds_bounds:
  "floor (x * 1000000) \<le> microseconds x \<and> microseconds x \<le> floor (x * 1000000) + 1"
  by (simp add: microseconds_def Let_def)

lemma microseconds_mono: "x \<le> y \<Longrightarrow> microseconds x \<le> microseconds y"
proof -
  assume "x \<le> y"
  then have le: "x * 1000000 \<le> y * 1000000" by simp
  then have fl: "floor (x * 1000000) \<le> floor (y * 1000000)" by (rule floor_mono)
  show ?thesis
  proof (cases "floor (x * 1000000) = floor (y * 1000000)")
    case True
    with le show ?thesis by (auto simp: microseconds_def Let_def)
  next
    case False
    with fl have "floor (x * 1000000) + 1 \<le> floor (y * 1000000)" by simp
    with microseconds_bounds [of x] microseconds_bounds [of y] show ?thesis by linarith
  qed
qed

lemma microseconds_int [simp]: "microseconds (of_int n) = n * 1000000"
proof -
  have "floor (of_int n * 1000000 :: rat) = n * 1000000"
    by (metis floor_of_int of_int_mult of_int_numeral)
  then show ?thesis by (simp add: microseconds_def Let_def)
qed

lemma microseconds_0 [simp]: "microseconds 0 = 0"
  using microseconds_int [of 0] by simp

section \<open>Delays\<close>

lemma retry_delay_mono:
  assumes "0 \<le> default_retry_base_seconds s" and "m \<le> n"
    and "retry_delay s m = Inr a" and "retry_delay s n = Inr b"
  shows "a \<le> b"
proof -
  have "(2::rat) ^ m \<le> 2 ^ n" using assms(2) by simp
  then have "default_retry_base_seconds s * 2 ^ m \<le> default_retry_base_seconds s * 2 ^ n"
    using assms(1) by (rule mult_left_mono)
  then show ?thesis using assms(3,4) by (auto simp: retry_delay_def split: if_splits)
qed

lemma retry_delay_nonneg:
  "0 \<le> default_retry_base_seconds s \<Longrightarrow> 0 \<le> default_retry_max_seconds s \<Longrightarrow>
   retry_delay s n = Inr d \<Longrightarrow> 0 \<le> d \<and> d \<le> default_retry_max_seconds s"
  by (auto simp: retry_delay_def split: if_splits)

text \<open>C34: The next attempt is scheduled within the back-off window: for fewer than 1024 attempts the
  computed time is never before now, never later than now plus the exponential delay, and never
  later than now plus the configured maximum, whatever number the generator returns. From attempt
  1024 on the computation raises \<open>OverflowError\<close> instead.\<close>

theorem next_retry_window:
  assumes base: "0 \<le> default_retry_base_seconds s" and max: "0 \<le> default_retry_max_seconds s"
    and u: "0 \<le> u" "u \<le> 1"
  shows "if n < 1024
    then (\<exists>t. compute_next_retry s u now n = Inr t \<and> now \<le> t
          \<and> t \<le> now + microseconds (default_retry_base_seconds s * 2 ^ n)
          \<and> t \<le> now + microseconds (default_retry_max_seconds s))
    else compute_next_retry s u now n = Inl (OverflowError ''int too large to convert to float'')"
proof (cases "n < 1024")
  case True
  obtain d where d: "retry_delay s n = Inr d"
    and le: "d \<le> default_retry_base_seconds s * 2 ^ n" "d \<le> default_retry_max_seconds s"
    using True by (simp add: retry_delay_def)
  have "0 \<le> d" using retry_delay_nonneg [OF base max d] by simp
  then have pos: "0 \<le> d * u" and cut: "d * u \<le> d"
    using u by (simp_all add: mult_left_le)
  have "0 \<le> microseconds (d * u)"
    using microseconds_mono [OF pos] by simp
  moreover have "microseconds (d * u) \<le> microseconds (default_retry_base_seconds s * 2 ^ n)"
    and "microseconds (d * u) \<le> microseconds (default_retry_max_seconds s)"
    using cut le by (auto intro: microseconds_mono order_trans)
  ultimately show ?thesis using True d by (simp add: compute_next_retry_def)
qed (simp add: compute_next_retry_def retry_delay_def)

theorem next_retry_window_witness:
  "compute_next_retry default_settings 1 0 7 = Inr 900000000
   \<and> (\<exists>t. compute_next_retry default_settings 1 0 7 = Inr t \<and> 0 \<le> t \<and> t \<le> microseconds 900)"
proof -
  have "compute_next_retry default_settings 1 0 7 = Inr 900000000"
    using microseconds_int [of 900]
    by (simp add: compute_next_retry_def retry_delay_def default_settings_def)
  moreover have "\<exists>t. compute_next_retry default_settings 1 0 7 = Inr t \<and> 0 \<le> t \<and> t \<le> microseconds 900"
    using next_retry_window [of default_settings 1 7 0] by (auto simp: default_settings_def)
  ultimately show ?thesis by simp
qed

section \<open>Classification of error codes\<close>

text \<open>The textual classification agrees with the exception hierarchy: an error code counts as
  transient exactly when the error is a \<open>ProviderTransientError\<close> (its rate limit subclass included)
  or a \<open>CircuitOpenError\<close>; no permanent, not-found or authorisation code has a transient prefix.\<close>

theorem is_transient_by_class:
  assumes "err_class e \<noteq> C_DomainError"
  shows "is_transient (err_code e) \<longleftrightarrow>
    is_instance e C_ProviderTransient \<or> is_instance e C_CircuitOpen"
  using assms by (cases e) (simp_all add: is_transient_def is_instance_def)

theorem is_transient_by_class_witness:
  "is_transient (err_code (ProviderRateLimitError ''SBIS''))
   \<and> \<not> is_transient (err_code (ProviderPermanentError ''m'' ''SBIS''))"
  using is_transient_by_class [of "ProviderRateLimitError ''SBIS''"]
    is_transient_by_class [of "ProviderPermanentError ''m'' ''SBIS''"]
  by (simp add: is_instance_def)

end
