(* ===== verification/RedisStore.thy ===== *)
theory RedisStore
  imports RetryBackoff "HOL-Library.AList"
begin

text \<open>
  The Redis client as the circuit breaker sees it. The server is not part of the repository: its
  operations are a parameter \<open>R\<close> of every definition that talks to it, and the locale
  \<open>redis_store\<close> states the documented behaviour the code relies on: reads return what is stored, a
  pipeline runs its commands in order without interleaving, and an unreachable server raises and
  changes nothing. \<open>mem_redis\<close> is an instance, used to run the model on concrete inputs.

  The value of a hash field is kept with the type the client encoded it from: text, integer or float
  (a time stamp, here in microseconds).
\<close>

section \<open>Commands\<close>

datatype hval = HText string | HInt int | HFloat time

type_synonym hashes = "string \<Rightarrow> string \<rightharpoonup> hval"

datatype rcmd = HINCRBY string string int | HSET string string hval

type_synonym ('a, 's) rd = "'s \<Rightarrow> 'a res \<times> 's"

definition rd_return :: "'a \<Rightarrow> ('a, 's) rd" where
  "rd_return x s = (Inr x, s)"

definition rd_raise :: "exc \<Rightarrow> ('a, 's) rd" where
  "rd_raise e s = (Inl e, s)"

definition rd_bind :: "('a, 's) rd \<Rightarrow> ('a \<Rightarrow> ('b, 's) rd) \<Rightarrow> ('b, 's) rd" where
  "rd_bind m f s = (case m s of (Inl e, s') \<Rightarrow> (Inl e, s') | (Inr x, s') \<Rightarrow> f x s')"

lemmas rd_defs = rd_return_def rd_raise_def rd_bind_def

record 's redis_ops =
  op_hgetall :: "string \<Rightarrow> ((string \<times> hval) list, 's) rd"
  op_hget :: "string \<Rightarrow> string \<Rightarrow> (hval option, 's) rd"
  op_exec :: "rcmd list \<Rightarrow> (int list, 's) rd"

text \<open>What a command does to the stored hashes, and its reply; \<^term>\<open>None\<close> where the server reports
  that the field is not an integer.\<close>

fun run_cmd :: "rcmd \<Rightarrow> hashes \<Rightarrow> (int \<times> hashes) option" where
  "run_cmd (HSET k f v) h = Some (if h k f = None then 1 else 0, h(k := (h k)(f \<mapsto> v)))"
| "run_cmd (HINCRBY k f n) h =
     (case h k f of
        None \<Rightarrow> Some (n, h(k := (h k)(f \<mapsto> HInt n)))
      | Some (HInt m) \<Rightarrow> Some (m + n, h(k := (h k)(f \<mapsto> HInt (m + n))))
      | Some _ \<Rightarrow> None)"

fun run_cmds :: "rcmd list \<Rightarrow> hashes \<Rightarrow> (int list \<times> hashes) option" where
  "run_cmds [] h = Some ([], h)"
| "run_cmds (c # cs) h =
     (case run_cmd c h of
        None \<Rightarrow> None
      | Some (r, h') \<Rightarrow> map_option (\<lambda>(rs, h''). (r # rs, h'')) (run_cmds cs h'))"

section \<open>The interface\<close>

locale redis_store =
  fixes R :: "'s redis_ops"
    and contents :: "'s \<Rightarrow> hashes"
    and up :: "'s \<Rightarrow> bool"
  assumes hgetall_up: "up s \<Longrightarrow> \<exists>data. op_hgetall R k s = (Inr data, s) \<and> map_of data = contents s k"
    and hget_up: "up s \<Longrightarrow> op_hget R k f s = (Inr (contents s k f), s)"
    and exec_up: "up s \<Longrightarrow> run_cmds cs (contents s) = Some (rs, h) \<Longrightarrow>
      \<exists>s'. op_exec R cs s = (Inr rs, s') \<and> contents s' = h \<and> up s'"
    and hgetall_down: "\<not> up s \<Longrightarrow> \<exists>e. op_hgetall R k s = (Inl e, s)"
    and exec_down: "\<not> up s \<Longrightarrow> \<exists>e. op_exec R cs s = (Inl e, s)"

section \<open>An instance in memory\<close>

record mem_store =
  mem_hashes :: "string \<Rightarrow> (string \<times> hval) list"
  mem_up :: bool

definition mem_contents :: "mem_store \<Rightarrow> hashes" where
  "mem_contents s k = map_of (mem_hashes s k)"

definition mem_down :: exc where
  "mem_down = OtherError ''ConnectionError''"

fun mem_cmd :: "rcmd \<Rightarrow> mem_store \<Rightarrow> (int \<times> mem_store) option" where
  "mem_cmd (HSET k f v) s =
     Some (if map_of (mem_hashes s k) f = None then 1 else 0,
           s\<lparr>mem_hashes := (mem_hashes s)(k := AList.update f v (mem_hashes s k))\<rparr>)"
| "mem_cmd (HINCRBY k f n) s =
     (case map_of (mem_hashes s k) f of
        None \<Rightarrow> Some (n, s\<lparr>mem_hashes := (mem_hashes s)(k := AList.update f (HInt n) (mem_hashes s k))\<rparr>)
      | Some (HInt m) \<Rightarrow>
          Some (m + n, s\<lparr>mem_hashes := (mem_hashes s)(k := AList.update f (HInt (m + n)) (mem_hashes s k))\<rparr>)
      | Some _ \<Rightarrow> None)"

fun mem_cmds :: "rcmd list \<Rightarrow> mem_store \<Rightarrow> (int list \<times> mem_store) option" where
  "mem_cmds [] s = Some ([], s)"
| "mem_cmds (c # cs) s =
     (case mem_cmd c s of
        None \<Rightarrow> None
      | Some (r, s') \<Rightarrow> map_option (\<lambda>(rs, s''). (r # rs, s'')) (mem_cmds cs s'))"

definition mem_redis :: "mem_store redis_ops" where
  "mem_redis =
     \<lparr>op_hgetall = (\<lambda>k s. if mem_up s then (Inr (mem_hashes s k), s) else (Inl mem_down, s)),
      op_hget = (\<lambda>k f s. if mem_up s then (Inr (map_of (mem_hashes s k) f), s) else (Inl mem_down, s)),
      op_exec = (\<lambda>cs s. if mem_up s
        then (case mem_cmds cs s of
                None \<Rightarrow> (Inl (OtherError ''ResponseError''), s)
              | Some (rs, s') \<Rightarrow> (Inr rs, s'))
        else (Inl mem_down, s))\<rparr>"

definition mem_empty :: mem_store where
  "mem_empty = \<lparr>mem_hashes = (\<lambda>k. []), mem_up = True\<rparr>"

lemma mem_contents_update:
  "mem_contents (s\<lparr>mem_hashes := (mem_hashes s)(k := AList.update f v (mem_hashes s k))\<rparr>)
     = (mem_contents s)(k := (mem_contents s k)(f \<mapsto> v))"
  by (rule ext) (simp add: mem_contents_def update_conv')

lemma mem_cmd_run:
  "run_cmd c (mem_contents s) = Some (r, h) \<Longrightarrow>
   \<exists>s'. mem_cmd c s = Some (r, s') \<and> mem_contents s' = h \<and> mem_up s' = mem_up s"
proof (cases c)
  case (HINCRBY k f n)
  moreover assume "run_cmd c (mem_contents s) = Some (r, h)"
  ultimately show ?thesis
    by (auto simp: mem_contents_update mem_contents_def split: option.splits hval.splits)
next
  case (HSET k f v)
  moreover assume "run_cmd c (mem_contents s) = Some (r, h)"
  ultimately show ?thesis
    by (auto simp: mem_contents_update) (simp_all add: mem_contents_def)
qed

lemma mem_cmds_run:
  "run_cmds cs (mem_contents s) = Some (rs, h) \<Longrightarrow>
   \<exists>s'. mem_cmds cs s = Some (rs, s') \<and> mem_contents s' = h \<and> mem_up s' = mem_up s"
proof (induction cs arbitrary: s rs)
  case Nil
  then show ?case by simp
next
  case (Cons c cs)
  then obtain r h1 rs' where c: "run_cmd c (mem_contents s) = Some (r, h1)"
    and cs: "run_cmds cs h1 = Some (rs', h)" and rs: "rs = r # rs'"
    by (auto split: option.splits)
  from mem_cmd_run [OF c] obtain s1 where
    "mem_cmd c s = Some (r, s1)" "mem_contents s1 = h1" "mem_up s1 = mem_up s" by blast
  with Cons.IH [of s1 rs'] cs rs show ?case by auto
qed

interpretation mem: redis_store mem_redis mem_contents mem_up
proof
  fix s :: mem_store and k
  assume "mem_up s"
  then show "\<exists>data. op_hgetall mem_redis k s = (Inr data, s) \<and> map_of data = mem_contents s k"
    by (simp add: mem_redis_def mem_contents_def)
next
  fix s :: mem_store and k f
  assume "mem_up s"
  then show "op_hget mem_redis k f s = (Inr (mem_contents s k f), s)"
    by (simp add: mem_redis_def mem_contents_def)
next
  fix s :: mem_store and cs rs h
  assume "mem_up s" and "run_cmds cs (mem_contents s) = Some (rs, h)"
  with mem_cmds_run [of cs s rs h]
  show "\<exists>s'. op_exec mem_redis cs s = (Inr rs, s') \<and> mem_contents s' = h \<and> mem_up s'"
    by (auto simp: mem_redis_def)
qed (simp_all add: mem_redis_def)

end
