(* ===== verification/CircuitBreaker.thy ===== *)
theory CircuitBreaker
  imports RedisStore
begin

text \<open>
  \<open>src/infrastructure/reliability/circuit_breaker.py\<close>. The breaker of an account is the Redis hash
  \<open>circuit:<account id>\<close>; its operations are written over the client \<open>R\<close> exactly as the methods are.
  The second half gives the abstract breaker (\<open>breaker\<close>, one record of four values with one pure
  function per method), proves inside the locale that each method implements its pure function on any
  store that meets the interface, and lifts this to sequences of calls.
\<close>

section \<open>The methods\<close>

definition cb_key :: "string \<Rightarrow> string" where
  "cb_key account_id = ''circuit:'' @ account_id"

text \<open>\<open>float(data.get(b"opened_at", 0))\<close> and \<open>int(value or 0)\<close>.\<close>

fun as_float :: "hval option \<Rightarrow> time res" where
  "as_float None = Inr 0"
| "as_float (Some (HFloat t)) = Inr t"
| "as_float (Some (HInt n)) = Inr (n * 1000000)"
| "as_float (Some (HText s)) = Inl (ValueError ''could not convert string to float'')"

fun as_int :: "hval option \<Rightarrow> int res" where
  "as_int None = Inr 0"
| "as_int (Some (HInt n)) = Inr n"
| "as_int (Some _) = Inl (ValueError ''invalid literal for int() with base 10'')"

fun as_state :: "hval option \<Rightarrow> circuit_state option" where
  "as_state None = Some CLOSED"
| "as_state (Some (HText s)) = parse_circuit s"
| "as_state (Some _) = None"

definition lift_res :: "'a res \<Rightarrow> ('a, 's) rd" where
  "lift_res r s = (r, s)"

definition transition :: "'s redis_ops \<Rightarrow> time \<Rightarrow> string \<Rightarrow> circuit_state \<Rightarrow> (int list, 's) rd" where
  "transition R now account_id state =
     op_exec R
       ([HSET (cb_key account_id) ''state'' (HText (circuit_value state))]
        @ (if state = OPEN
           then [HSET (cb_key account_id) ''opened_at'' (HFloat now),
                 HSET (cb_key account_id) ''failures'' (HInt 0)] else [])
        @ (if state = CLOSED
           then [HSET (cb_key account_id) ''failures'' (HInt 0),
                 HSET (cb_key account_id) ''half_open_successes'' (HInt 0)] else []))"

definition get_state :: "'s redis_ops \<Rightarrow> settings \<Rightarrow> time \<Rightarrow> string \<Rightarrow> (circuit_state, 's) rd" where
  "get_state R cfg now account_id =
     rd_bind (op_hgetall R (cb_key account_id)) (\<lambda>data.
       if data = [] then rd_return CLOSED
       else
         (case as_state (map_of data ''state'') of
            None \<Rightarrow> rd_raise (ValueError ''not a valid CircuitState'')
          | Some state \<Rightarrow>
              if state = OPEN then
                rd_bind (lift_res (as_float (map_of data ''opened_at''))) (\<lambda>opened_at.
                  if circuit_recovery_timeout_seconds cfg * 1000000 \<le> now - opened_at
                  then rd_bind (transition R now account_id HALF_OPEN) (\<lambda>_. rd_return HALF_OPEN)
                  else rd_return OPEN)
              else rd_return state))"

definition record_success :: "'s redis_ops \<Rightarrow> settings \<Rightarrow> time \<Rightarrow> string \<Rightarrow> (unit, 's) rd" where
  "record_success R cfg now account_id =
     rd_bind (get_state R cfg now account_id) (\<lambda>state.
       if state = HALF_OPEN then
         rd_bind (op_hget R (cb_key account_id) ''half_open_successes'') (\<lambda>v.
         rd_bind (lift_res (as_int v)) (\<lambda>n.
         let half_open_count = n + 1 in
         rd_bind (op_exec R [HSET (cb_key account_id) ''half_open_successes'' (HInt half_open_count)]) (\<lambda>_.
           if circuit_half_open_max_calls cfg \<le> half_open_count
           then rd_bind (transition R now account_id CLOSED) (\<lambda>_. rd_return ())
           else rd_return ())))
       else if state = CLOSED then
         rd_bind (op_exec R [HSET (cb_key account_id) ''failures'' (HInt 0)]) (\<lambda>_. rd_return ())
       else rd_return ())"

definition record_failure :: "'s redis_ops \<Rightarrow> settings \<Rightarrow> time \<Rightarrow> string \<Rightarrow> (unit, 's) rd" where
  "record_failure R cfg now account_id =
     rd_bind (op_exec R [HINCRBY (cb_key account_id) ''failures'' 1,
                         HSET (cb_key account_id) ''state'' (HText (circuit_value CLOSED))]) (\<lambda>results.
       if circuit_failure_threshold cfg \<le> results ! 0
       then rd_bind (transition R now account_id OPEN) (\<lambda>_. rd_return ())
       else rd_return ())"

definition guard :: "'s redis_ops \<Rightarrow> settings \<Rightarrow> time \<Rightarrow> string \<Rightarrow> (unit, 's) rd" where
  "guard R cfg now account_id =
     rd_bind (get_state R cfg now account_id) (\<lambda>state.
       if state = OPEN then rd_raise (Domain (CircuitOpenError account_id)) else rd_return ())"

section \<open>The abstract breaker\<close>

record breaker =
  br_state :: circuit_state
  br_failures :: int
  br_half :: int
  br_opened :: time

definition fresh_breaker :: breaker where
  "fresh_breaker = \<lparr>br_state = CLOSED, br_failures = 0, br_half = 0, br_opened = 0\<rparr>"

definition timed_out :: "settings \<Rightarrow> time \<Rightarrow> breaker \<Rightarrow> bool" where
  "timed_out cfg now b \<longleftrightarrow> circuit_recovery_timeout_seconds cfg * 1000000 \<le> now - br_opened b"

definition br_look :: "settings \<Rightarrow> time \<Rightarrow> breaker \<Rightarrow> breaker" where
  "br_look cfg now b = (if br_state b = OPEN \<and> timed_out cfg now b then b\<lparr>br_state := HALF_OPEN\<rparr> else b)"

definition br_success :: "settings \<Rightarrow> time \<Rightarrow> breaker \<Rightarrow> breaker" where
  "br_success cfg now b =
     (let b' = br_look cfg now b in
      case br_state b' of
        HALF_OPEN \<Rightarrow>
          if circuit_half_open_max_calls cfg \<le> br_half b' + 1
          then b'\<lparr>br_state := CLOSED, br_failures := 0, br_half := 0\<rparr>
          else b'\<lparr>br_half := br_half b' + 1\<rparr>
      | CLOSED \<Rightarrow> b'\<lparr>br_failures := 0\<rparr>
      | OPEN \<Rightarrow> b')"

definition br_failure :: "settings \<Rightarrow> time \<Rightarrow> breaker \<Rightarrow> breaker" where
  "br_failure cfg now b =
     (if circuit_failure_threshold cfg \<le> br_failures b + 1
      then b\<lparr>br_state := OPEN, br_failures := 0, br_opened := now\<rparr>
      else b\<lparr>br_state := CLOSED, br_failures := br_failures b + 1\<rparr>)"

lemmas br_defs = br_look_def br_success_def br_failure_def

text \<open>The breaker stored in a hash; \<^term>\<open>None\<close> for a hash the methods could not have written.\<close>

fun ok_int :: "hval option \<Rightarrow> int option" where
  "ok_int None = Some 0"
| "ok_int (Some (HInt n)) = Some n"
| "ok_int (Some _) = None"

fun ok_time :: "hval option \<Rightarrow> time option" where
  "ok_time None = Some 0"
| "ok_time (Some (HFloat t)) = Some t"
| "ok_time (Some _) = None"

definition hash_breaker :: "(string \<rightharpoonup> hval) \<Rightarrow> breaker option" where
  "hash_breaker h =
     (case (as_state (h ''state''), ok_int (h ''failures''), ok_int (h ''half_open_successes''),
            ok_time (h ''opened_at'')) of
        (Some st, Some f, Some s, Some t) \<Rightarrow>
          Some \<lparr>br_state = st, br_failures = f, br_half = s, br_opened = t\<rparr>
      | _ \<Rightarrow> None)"

lemma hash_breaker_Some:
  "hash_breaker h = Some b \<longleftrightarrow>
     as_state (h ''state'') = Some (br_state b) \<and> ok_int (h ''failures'') = Some (br_failures b)
     \<and> ok_int (h ''half_open_successes'') = Some (br_half b)
     \<and> ok_time (h ''opened_at'') = Some (br_opened b)"
  by (auto simp: hash_breaker_def split: option.splits)

lemma hash_breaker_empty [simp]: "hash_breaker Map.empty = Some fresh_breaker"
  by (simp add: hash_breaker_Some fresh_breaker_def)

lemma ok_int_as_int: "ok_int v = Some n \<Longrightarrow> as_int v = Inr n"
  by (cases v rule: ok_int.cases) simp_all

lemma ok_time_as_float: "ok_time v = Some t \<Longrightarrow> as_float v = Inr t"
  by (cases v rule: ok_time.cases) simp_all

lemma ok_int_hincrby:
  "ok_int (h k f) = Some n \<Longrightarrow>
   run_cmd (HINCRBY k f i) h = Some (n + i, h(k := (h k)(f \<mapsto> HInt (n + i))))"
  by (cases "h k f" rule: ok_int.cases) simp_all

section \<open>Implementation\<close>

text \<open>The breaker of an account in a store, and a step that touches the hash of one account only.\<close>

definition br_holds :: "('s \<Rightarrow> hashes) \<Rightarrow> ('s \<Rightarrow> bool) \<Rightarrow> 's \<Rightarrow> string \<Rightarrow> breaker \<Rightarrow> bool" where
  "br_holds contents up s account_id b \<longleftrightarrow>
     up s \<and> hash_breaker (contents s (cb_key account_id)) = Some b"

definition only_account :: "('s \<Rightarrow> hashes) \<Rightarrow> string \<Rightarrow> 's \<Rightarrow> 's \<Rightarrow> bool" where
  "only_account contents account_id s s' \<longleftrightarrow>
     (\<forall>k. k \<noteq> cb_key account_id \<longrightarrow> contents s' k = contents s k)"

context redis_store
begin

abbreviation holds :: "'s \<Rightarrow> string \<Rightarrow> breaker \<Rightarrow> bool" where
  "holds \<equiv> br_holds contents up"

abbreviation only_key :: "string \<Rightarrow> 's \<Rightarrow> 's \<Rightarrow> bool" where
  "only_key \<equiv> only_account contents"

lemmas holds_def = br_holds_def [of contents up]
lemmas only_key_def = only_account_def [of contents]

lemma only_key_refl [simp]: "only_key a s s"
  by (simp add: only_key_def)

lemma only_key_trans: "only_key a s t \<Longrightarrow> only_key a t u \<Longrightarrow> only_key a s u"
  by (simp add: only_key_def)

lemma transition_impl:
  assumes "holds s a b"
  shows "\<exists>rs s'. transition R now a st s = (Inr rs, s') \<and> only_key a s s'
    \<and> holds s' a (case st of
         OPEN \<Rightarrow> b\<lparr>br_state := OPEN, br_failures := 0, br_opened := now\<rparr>
       | CLOSED \<Rightarrow> b\<lparr>br_state := CLOSED, br_failures := 0, br_half := 0\<rparr>
       | HALF_OPEN \<Rightarrow> b\<lparr>br_state := HALF_OPEN\<rparr>)"
proof -
  let ?k = "cb_key a"
  let ?cs = "[HSET ?k ''state'' (HText (circuit_value st))]
      @ (if st = OPEN then [HSET ?k ''opened_at'' (HFloat now), HSET ?k ''failures'' (HInt 0)] else [])
      @ (if st = CLOSED then [HSET ?k ''failures'' (HInt 0), HSET ?k ''half_open_successes'' (HInt 0)]
         else [])"
  obtain rs h where run: "run_cmds ?cs (contents s) = Some (rs, h)"
    and h: "\<forall>k. k \<noteq> ?k \<longrightarrow> h k = contents s k"
    and b: "hash_breaker (h ?k) = Some (case st of
         OPEN \<Rightarrow> b\<lparr>br_state := OPEN, br_failures := 0, br_opened := now\<rparr>
       | CLOSED \<Rightarrow> b\<lparr>br_state := CLOSED, br_failures := 0, br_half := 0\<rparr>
       | HALF_OPEN \<Rightarrow> b\<lparr>br_state := HALF_OPEN\<rparr>)"
    using assms by (cases st) (auto simp: holds_def hash_breaker_Some simp del: circuit_value.simps)
  from assms have "up s" by (simp add: holds_def)
  from exec_up [OF this run] h b show ?thesis
    by (auto simp: transition_def holds_def only_key_def)
qed

lemma get_state_impl:
  assumes "holds s a b"
  shows "\<exists>s'. get_state R cfg now a s = (Inr (br_state (br_look cfg now b)), s') \<and> only_key a s s'
    \<and> holds s' a (br_look cfg now b)"
proof -
  from assms have "up s" by (simp add: holds_def)
  then obtain data where data: "op_hgetall R (cb_key a) s = (Inr data, s)"
    "map_of data = contents s (cb_key a)"
    using hgetall_up by blast
  from assms have b: "as_state (map_of data ''state'') = Some (br_state b)"
    "as_float (map_of data ''opened_at'') = Inr (br_opened b)"
    by (auto simp: holds_def hash_breaker_Some data(2) ok_time_as_float)
  show ?thesis
  proof (cases "br_state b = OPEN \<and> timed_out cfg now b")
    case True
    then have "data \<noteq> []" using b by auto
    with True b data(1) transition_impl [OF assms, of now HALF_OPEN] show ?thesis
      by (auto simp: get_state_def rd_defs lift_res_def br_look_def timed_out_def)
  next
    case False
    then have "get_state R cfg now a s = (Inr (br_state b), s)"
      using b data(1) by (auto simp: get_state_def rd_defs lift_res_def timed_out_def)
    with False assms show ?thesis by (auto simp: br_look_def)
  qed
qed

lemma set_field_impl:
  assumes "holds s a b" and "hash_breaker ((contents s (cb_key a))(f \<mapsto> v)) = Some b'"
  shows "\<exists>rs s'. op_exec R [HSET (cb_key a) f v] s = (Inr rs, s') \<and> only_key a s s' \<and> holds s' a b'"
proof -
  from assms have "up s" by (simp add: holds_def)
  obtain rs where "run_cmds [HSET (cb_key a) f v] (contents s)
      = Some (rs, (contents s)(cb_key a := (contents s (cb_key a))(f \<mapsto> v)))"
    by simp
  from exec_up [OF \<open>up s\<close> this] assms(2) show ?thesis
    by (auto simp: holds_def only_key_def)
qed

lemma record_failure_impl:
  assumes "holds s a b"
  shows "\<exists>s'. record_failure R cfg now a s = (Inr (), s') \<and> only_key a s s'
    \<and> holds s' a (br_failure cfg now b)"
proof -
  let ?k = "cb_key a"
  let ?h = "(contents s)(?k := (contents s ?k)(''failures'' \<mapsto> HInt (br_failures b + 1),
      ''state'' \<mapsto> HText (circuit_value CLOSED)))"
  from assms have up: "up s" and f: "ok_int (contents s ?k ''failures'') = Some (br_failures b)"
    by (auto simp: holds_def hash_breaker_Some)
  have "\<exists>r. run_cmds [HINCRBY ?k ''failures'' 1, HSET ?k ''state'' (HText (circuit_value CLOSED))]
      (contents s) = Some ([br_failures b + 1, r], ?h)"
    by (simp add: ok_int_hincrby [where h = "contents s", OF f] fun_upd_upd
        del: run_cmd.simps(2) circuit_value.simps)
  then obtain r s1 where ex: "op_exec R [HINCRBY ?k ''failures'' 1,
        HSET ?k ''state'' (HText (circuit_value CLOSED))] s = (Inr [br_failures b + 1, r], s1)"
    and s1: "contents s1 = ?h" "up s1"
    using exec_up [OF up] by blast
  have h1: "holds s1 a (b\<lparr>br_state := CLOSED, br_failures := br_failures b + 1\<rparr>)"
    using assms s1 by (auto simp: holds_def hash_breaker_Some simp del: circuit_value.simps)
  have o1: "only_key a s s1" using s1(1) by (simp add: only_key_def)
  show ?thesis
  proof (cases "circuit_failure_threshold cfg \<le> br_failures b + 1")
    case True
    with ex transition_impl [OF h1, of now OPEN] o1 show ?thesis
      by (auto simp: record_failure_def rd_defs br_failure_def intro: only_key_trans)
  next
    case False
    with ex h1 o1 show ?thesis by (auto simp: record_failure_def rd_defs br_failure_def)
  qed
qed

lemma record_success_impl:
  assumes "holds s a b"
  shows "\<exists>s'. record_success R cfg now a s = (Inr (), s') \<and> only_key a s s'
    \<and> holds s' a (br_success cfg now b)"
proof -
  let ?b = "br_look cfg now b"
  obtain s1 where g: "get_state R cfg now a s = (Inr (br_state ?b), s1)" "only_key a s s1"
    and h1: "holds s1 a ?b"
    using get_state_impl [OF assms] by blast
  show ?thesis
  proof (cases "br_state ?b")
    case CLOSED
    have "hash_breaker ((contents s1 (cb_key a))(''failures'' \<mapsto> HInt 0)) = Some (?b\<lparr>br_failures := 0\<rparr>)"
      using h1 by (auto simp: holds_def hash_breaker_Some)
    from set_field_impl [OF h1 this] CLOSED g show ?thesis
      by (auto simp: record_success_def rd_defs br_success_def Let_def intro: only_key_trans)
  next
    case OPEN
    with g h1 show ?thesis by (auto simp: record_success_def rd_defs br_success_def Let_def)
  next
    case HALF_OPEN
    have get: "op_hget R (cb_key a) ''half_open_successes'' s1
        = (Inr (contents s1 (cb_key a) ''half_open_successes''), s1)"
      and n: "as_int (contents s1 (cb_key a) ''half_open_successes'') = Inr (br_half ?b)"
      using h1 by (auto simp: holds_def hash_breaker_Some hget_up ok_int_as_int)
    have "hash_breaker ((contents s1 (cb_key a))(''half_open_successes'' \<mapsto> HInt (br_half ?b + 1)))
        = Some (?b\<lparr>br_half := br_half ?b + 1\<rparr>)"
      using h1 by (auto simp: holds_def hash_breaker_Some)
    from set_field_impl [OF h1 this] obtain rs s2 where
      s2: "op_exec R [HSET (cb_key a) ''half_open_successes'' (HInt (br_half ?b + 1))] s1 = (Inr rs, s2)"
        "only_key a s1 s2" and h2: "holds s2 a (?b\<lparr>br_half := br_half ?b + 1\<rparr>)"
      by blast
    show ?thesis
    proof (cases "circuit_half_open_max_calls cfg \<le> br_half ?b + 1")
      case True
      obtain rs3 s3 where s3: "transition R now a CLOSED s2 = (Inr rs3, s3)" "only_key a s2 s3"
        and h3: "holds s3 a (?b\<lparr>br_state := CLOSED, br_failures := 0, br_half := 0\<rparr>)"
        using transition_impl [OF h2, of now CLOSED] by auto
      have "only_key a s s3"
        using g(2) s2(2) s3(2) by (blast intro: only_key_trans)
      with True g s2 s3 h3 get n HALF_OPEN show ?thesis
        by (auto simp: record_success_def rd_defs lift_res_def br_success_def Let_def)
    next
      case False
      with g s2 h2 get n HALF_OPEN show ?thesis
        by (auto simp: record_success_def rd_defs lift_res_def br_success_def Let_def
            intro: only_key_trans)
    qed
  qed
qed

lemma guard_impl:
  assumes "holds s a b"
  shows "\<exists>s'. guard R cfg now a s =
      (if br_state (br_look cfg now b) = OPEN then Inl (Domain (CircuitOpenError a)) else Inr (), s')
    \<and> only_key a s s' \<and> holds s' a (br_look cfg now b)"
  using get_state_impl [OF assms, of cfg now] by (auto simp: guard_def rd_defs)

text \<open>An unreachable server: every method raises and the store is as before.\<close>

lemma methods_down:
  assumes "\<not> up s"
  shows "\<exists>e. guard R cfg now a s = (Inl e, s) \<and> record_success R cfg now a s = (Inl e, s)"
    and "\<exists>e. record_failure R cfg now a s = (Inl e, s)"
proof -
  obtain e where "op_hgetall R (cb_key a) s = (Inl e, s)"
    using hgetall_down [OF assms] by blast
  then show "\<exists>e. guard R cfg now a s = (Inl e, s) \<and> record_success R cfg now a s = (Inl e, s)"
    by (simp add: guard_def record_success_def get_state_def rd_bind_def)
  obtain e where "op_exec R [HINCRBY (cb_key a) ''failures'' 1,
      HSET (cb_key a) ''state'' (HText (circuit_value CLOSED))] s = (Inl e, s)"
    using exec_down [OF assms] by blast
  then show "\<exists>e. record_failure R cfg now a s = (Inl e, s)"
    by (simp add: record_failure_def rd_bind_def del: circuit_value.simps)
qed

end

end
