(* ===== verification/BreakerProps.thy ===== *)
theory BreakerProps
  imports CircuitBreaker
begin

text \<open>
  What the circuit breaker promises over sequences of calls: the methods run on any Redis store that
  meets the interface behave as the abstract breaker, the counters stay in range, and the
  closed / open / half-open cycle runs through its transitions.
\<close>

section \<open>Sequences of calls\<close>

datatype cb_call = Call_success | Call_failure | Call_guard

fun cb_step :: "'s redis_ops \<Rightarrow> settings \<Rightarrow> string \<Rightarrow> time \<times> cb_call \<Rightarrow> (unit, 's) rd" where
  "cb_step R cfg a (now, Call_success) = record_success R cfg now a"
| "cb_step R cfg a (now, Call_failure) = record_failure R cfg now a"
| "cb_step R cfg a (now, Call_guard) = guard R cfg now a"

fun cb_calls :: "'s redis_ops \<Rightarrow> settings \<Rightarrow> string \<Rightarrow> (time \<times> cb_call) list \<Rightarrow> 's \<Rightarrow> unit res list \<times> 's" where
  "cb_calls R cfg a [] s = ([], s)"
| "cb_calls R cfg a (c # cs) s =
     (let (r, s') = cb_step R cfg a c s; (rs, s'') = cb_calls R cfg a cs s' in (r # rs, s''))"

fun br_step :: "settings \<Rightarrow> string \<Rightarrow> time \<times> cb_call \<Rightarrow> breaker \<Rightarrow> unit res \<times> breaker" where
  "br_step cfg a (now, Call_success) b = (Inr (), br_success cfg now b)"
| "br_step cfg a (now, Call_failure) b = (Inr (), br_failure cfg now b)"
| "br_step cfg a (now, Call_guard) b =
     (if br_state (br_look cfg now b) = OPEN then Inl (Domain (CircuitOpenError a)) else Inr (),
      br_look cfg now b)"

fun br_calls :: "settings \<Rightarrow> string \<Rightarrow> (time \<times> cb_call) list \<Rightarrow> breaker \<Rightarrow> unit res list \<times> breaker" where
  "br_calls cfg a [] b = ([], b)"
| "br_calls cfg a (c # cs) b =
     (let (r, b') = br_step cfg a c b; (rs, b'') = br_calls cfg a cs b' in (r # rs, b''))"

context redis_store
begin

lemma step_impl:
  assumes "holds s a b"
  shows "\<exists>s'. cb_step R cfg a c s = (fst (br_step cfg a c b), s') \<and> only_key a s s'
    \<and> holds s' a (snd (br_step cfg a c b))"
proof (cases c)
  case (Pair now call)
  then show ?thesis
    using record_success_impl [OF assms, of cfg now] record_failure_impl [OF assms, of cfg now]
      guard_impl [OF assms, of cfg now]
    by (cases call) auto
qed

lemma calls_impl:
  assumes "holds s a b"
  shows "\<exists>s'. cb_calls R cfg a cs s = (fst (br_calls cfg a cs b), s') \<and> only_key a s s'
    \<and> holds s' a (snd (br_calls cfg a cs b))"
  using assms
proof (induction cs arbitrary: s b)
  case Nil
  then show ?case by simp
next
  case (Cons c cs)
  obtain s1 where s1: "cb_step R cfg a c s = (fst (br_step cfg a c b), s1)" "only_key a s s1"
    and h1: "holds s1 a (snd (br_step cfg a c b))"
    using step_impl [OF Cons.prems] by blast
  from Cons.IH [OF h1] s1 show ?case
    by (auto simp: Let_def split: prod.splits intro: only_key_trans)
qed

end

section \<open>Refinement\<close>

text \<open>C2: On every Redis store that meets the client's interface, and for every sequence of
  \<open>guard\<close>, \<open>record_success\<close> and \<open>record_failure\<close> calls on an account, the outcomes (which calls raise
  \<open>CircuitOpenError\<close>) and the final state are those of the abstract breaker, and the breakers of all
  other accounts are untouched.\<close>

theorem breaker_refinement:
  assumes "redis_store R contents up" and "br_holds contents up s a b"
  shows "\<exists>s'. cb_calls R cfg a cs s = (fst (br_calls cfg a cs b), s')
    \<and> br_holds contents up s' a (snd (br_calls cfg a cs b)) \<and> only_account contents a s s'"
  using redis_store.calls_impl [OF assms] by blast

lemma mem_empty_holds: "br_holds mem_contents mem_up mem_empty a fresh_breaker"
proof -
  have "mem_contents mem_empty k = Map.empty" for k
    by (rule ext) (simp add: mem_contents_def mem_empty_def)
  then show ?thesis by (simp add: br_holds_def) (simp add: mem_empty_def)
qed

theorem breaker_refinement_witness:
  "\<exists>s'. cb_calls mem_redis default_settings ''x'' [(0, Call_failure), (1, Call_guard)] mem_empty
      = ([Inr (), Inr ()], s')
    \<and> br_holds mem_contents mem_up s' ''x''
        \<lparr>br_state = CLOSED, br_failures = 1, br_half = 0, br_opened = 0\<rparr>"
  using breaker_refinement [OF mem.redis_store_axioms mem_empty_holds,
      of default_settings "''x''" "[(0, Call_failure), (1, Call_guard)]"]
  by (auto simp: br_defs fresh_breaker_def default_settings_def)

section \<open>Ranges\<close>

text \<open>The counters of a breaker the methods maintain.\<close>

definition br_ok :: "settings \<Rightarrow> breaker \<Rightarrow> bool" where
  "br_ok cfg b \<longleftrightarrow> 0 \<le> br_failures b \<and> br_failures b < circuit_failure_threshold cfg
     \<and> 0 \<le> br_half b \<and> br_half b < circuit_half_open_max_calls cfg
     \<and> (br_state b \<noteq> CLOSED \<longrightarrow> br_failures b = 0)"

lemma br_step_ok: "br_ok cfg b \<Longrightarrow> br_ok cfg (snd (br_step cfg a c b))"
  by (cases "(cfg, a, c, b)" rule: br_step.cases)
    (auto simp: br_ok_def br_defs Let_def split: circuit_state.splits)

lemma br_calls_ok: "br_ok cfg b \<Longrightarrow> br_ok cfg (snd (br_calls cfg a cs b))"
proof (induction cs arbitrary: b)
  case Nil
  then show ?case by simp
next
  case (Cons c cs)
  from Cons.IH [OF br_step_ok [OF Cons.prems, of a c]] show ?case
    by (auto simp: Let_def split: prod.splits)
qed

text \<open>C20: After any sequence of calls on a fresh breaker the stored failure count is below the threshold,
  the half-open success count below its limit, neither is negative, and an open or half-open breaker
  has a failure count of zero.\<close>

theorem breaker_counters_in_range:
  assumes "redis_store R contents up" and "br_holds contents up s a fresh_breaker"
    and "0 < circuit_failure_threshold cfg" and "0 < circuit_half_open_max_calls cfg"
  shows "\<exists>rs s' b. cb_calls R cfg a cs s = (rs, s') \<and> br_holds contents up s' a b \<and> br_ok cfg b"
proof -
  have "br_ok cfg fresh_breaker" using assms(3,4) by (simp add: br_ok_def fresh_breaker_def)
  then have "br_ok cfg (snd (br_calls cfg a cs fresh_breaker))" by (rule br_calls_ok)
  then show ?thesis using redis_store.calls_impl [OF assms(1,2)] by blast
qed

theorem breaker_counters_in_range_witness:
  "\<exists>rs s' b. cb_calls mem_redis default_settings ''x'' (replicate 7 (0, Call_failure)) mem_empty
     = (rs, s') \<and> br_holds mem_contents mem_up s' ''x'' b \<and> br_ok default_settings b"
  by (rule breaker_counters_in_range [OF mem.redis_store_axioms mem_empty_holds])
    (simp_all add: default_settings_def)

section \<open>The cycle\<close>

abbreviation failures_at :: "time list \<Rightarrow> (time \<times> cb_call) list" where
  "failures_at ts \<equiv> map (\<lambda>t. (t, Call_failure)) ts"

abbreviation successes_at :: "time list \<Rightarrow> (time \<times> cb_call) list" where
  "successes_at ts \<equiv> map (\<lambda>t. (t, Call_success)) ts"

lemma br_failures_below:
  "br_state b = CLOSED \<Longrightarrow> br_failures b + int (length ts) < circuit_failure_threshold cfg \<Longrightarrow>
   snd (br_calls cfg a (failures_at ts) b) = b\<lparr>br_failures := br_failures b + int (length ts)\<rparr>"
proof (induction ts arbitrary: b)
  case Nil
  then show ?case by simp
next
  case (Cons t ts)
  have "snd (br_calls cfg a (failures_at ts) (br_failure cfg t b))
      = (br_failure cfg t b)\<lparr>br_failures := br_failures b + 1 + int (length ts)\<rparr>"
    using Cons.prems Cons.IH [of "br_failure cfg t b"] by (simp add: br_failure_def)
  then show ?case using Cons.prems
    by (auto simp: Let_def br_failure_def split: prod.splits)
qed

lemma br_calls_append:
  "br_calls cfg a (cs @ ds) b =
     (let (rs, b') = br_calls cfg a cs b; (qs, b'') = br_calls cfg a ds b' in (rs @ qs, b''))"
  by (induction cs arbitrary: b) (auto simp: Let_def split: prod.splits)

lemma br_snd_append:
  "snd (br_calls cfg a (cs @ ds) b) = snd (br_calls cfg a ds (snd (br_calls cfg a cs b)))"
  by (auto simp: br_calls_append Let_def split: prod.splits)

text \<open>C17: A closed breaker without recorded failures opens at the threshold and not before. After
  fewer consecutive failures than the threshold, \<open>guard\<close> lets the next call through; after
  exactly as many, \<open>guard\<close> raises \<open>CircuitOpenError\<close> until the recovery time has passed since the last
  of them, and lets calls through (half-open) from then on.\<close>

theorem breaker_opens_at_threshold:
  assumes "redis_store R contents up" and "br_holds contents up s a b"
    and "br_state b = CLOSED" and "br_failures b = 0"
    and n: "int (Suc (length ts)) = circuit_failure_threshold cfg"
  shows "fst (guard R cfg now a (snd (cb_calls R cfg a (failures_at ts) s))) = Inr ()
    \<and> fst (guard R cfg now a (snd (cb_calls R cfg a (failures_at (ts @ [t])) s)))
       = (if now - t < circuit_recovery_timeout_seconds cfg * 1000000
          then Inl (Domain (CircuitOpenError a)) else Inr ())"
proof -
  let ?b = "snd (br_calls cfg a (failures_at ts) b)"
  have b: "?b = b\<lparr>br_failures := int (length ts)\<rparr>"
    using br_failures_below [of b ts cfg a] assms(3,4) n by simp
  then have look: "br_state (br_look cfg now ?b) = CLOSED"
    using assms(3) by (simp add: br_look_def)
  obtain s1 where s1: "snd (cb_calls R cfg a (failures_at ts) s) = s1" "br_holds contents up s1 a ?b"
    using redis_store.calls_impl [OF assms(1,2), of cfg "failures_at ts"] by auto
  have 1: "fst (guard R cfg now a s1) = Inr ()"
    using redis_store.guard_impl [OF assms(1) s1(2), of cfg now] look by auto
  let ?o = "snd (br_calls cfg a (failures_at (ts @ [t])) b)"
  have "?o = b\<lparr>br_state := OPEN, br_failures := 0, br_opened := t\<rparr>"
    using n by (simp add: br_snd_append b br_failure_def)
  then have look': "br_state (br_look cfg now ?o)
      = (if now - t < circuit_recovery_timeout_seconds cfg * 1000000 then OPEN else HALF_OPEN)"
    by (auto simp: br_look_def timed_out_def)
  obtain s2 where s2: "snd (cb_calls R cfg a (failures_at (ts @ [t])) s) = s2"
      "br_holds contents up s2 a ?o"
    using redis_store.calls_impl [OF assms(1,2), of cfg "failures_at (ts @ [t])"] by auto
  have "fst (guard R cfg now a s2)
       = (if now - t < circuit_recovery_timeout_seconds cfg * 1000000
          then Inl (Domain (CircuitOpenError a)) else Inr ())"
    using redis_store.guard_impl [OF assms(1) s2(2), of cfg now] look' by auto
  with 1 s1(1) s2(1) show ?thesis by blast
qed

theorem breaker_opens_at_threshold_witness:
  "fst (guard mem_redis default_settings 9 ''x''
     (snd (cb_calls mem_redis default_settings ''x'' (failures_at ([1, 2, 3, 4] @ [5])) mem_empty)))
   = Inl (Domain (CircuitOpenError ''x''))"
  using breaker_opens_at_threshold [OF mem.redis_store_axioms mem_empty_holds, where
      cfg = default_settings and now = 9 and a = "''x''" and ts = "[1, 2, 3, 4]" and t = 5]
  by (simp add: fresh_breaker_def default_settings_def)

lemma br_half_successes:
  "br_state b = HALF_OPEN \<Longrightarrow> br_half b + int (length ts) < circuit_half_open_max_calls cfg \<Longrightarrow>
   snd (br_calls cfg a (successes_at ts) b) = b\<lparr>br_half := br_half b + int (length ts)\<rparr>"
proof (induction ts arbitrary: b)
  case Nil
  then show ?case by simp
next
  case (Cons t ts)
  have s: "br_success cfg t b = b\<lparr>br_half := br_half b + 1\<rparr>"
    using Cons.prems by (simp add: br_success_def br_look_def Let_def)
  have "snd (br_calls cfg a (successes_at ts) (br_success cfg t b))
      = b\<lparr>br_half := br_half b + 1 + int (length ts)\<rparr>"
    using Cons.prems Cons.IH [of "br_success cfg t b"] by (simp add: s)
  then show ?case by (auto simp: Let_def split: prod.splits)
qed

text \<open>C18: A half-open breaker with no successes counted yet closes with clean counters after exactly
  \<open>circuit_half_open_max_calls\<close> successes in a row, and stays half-open before.\<close>

theorem breaker_closes_after_half_open_successes:
  assumes "redis_store R contents up" and "br_holds contents up s a b"
    and "br_state b = HALF_OPEN" and "br_half b = 0"
    and n: "int (Suc (length ts)) = circuit_half_open_max_calls cfg"
  shows "br_holds contents up (snd (cb_calls R cfg a (successes_at ts) s)) a
      (b\<lparr>br_half := int (length ts)\<rparr>)
    \<and> br_holds contents up (snd (cb_calls R cfg a (successes_at (ts @ [t])) s)) a
      (b\<lparr>br_state := CLOSED, br_failures := 0, br_half := 0\<rparr>)"
proof -
  have b: "snd (br_calls cfg a (successes_at ts) b) = b\<lparr>br_half := int (length ts)\<rparr>"
    using br_half_successes [of b ts cfg a] assms(3,4) n by simp
  have b': "snd (br_calls cfg a (successes_at (ts @ [t])) b)
      = b\<lparr>br_state := CLOSED, br_failures := 0, br_half := 0\<rparr>"
    using assms(3) n by (simp add: br_snd_append b br_success_def br_look_def Let_def)
  show ?thesis
    using redis_store.calls_impl [OF assms(1,2), of cfg "successes_at ts"]
      redis_store.calls_impl [OF assms(1,2), of cfg "successes_at (ts @ [t])"] b b' by auto
qed

definition half_open_store :: mem_store where
  "half_open_store = \<lparr>mem_hashes = (\<lambda>k. [(''state'', HText ''HALF_OPEN'')]), mem_up = True\<rparr>"

lemma half_open_store_holds:
  "br_holds mem_contents mem_up half_open_store a (fresh_breaker\<lparr>br_state := HALF_OPEN\<rparr>)"
  by (simp add: br_holds_def half_open_store_def mem_contents_def hash_breaker_Some fresh_breaker_def
      parse_circuit_def)

theorem breaker_closes_after_half_open_successes_witness:
  "br_holds mem_contents mem_up
     (snd (cb_calls mem_redis default_settings ''x'' (successes_at ([1] @ [2])) half_open_store))
     ''x'' fresh_breaker"
  using breaker_closes_after_half_open_successes [OF mem.redis_store_axioms half_open_store_holds,
      where cfg = default_settings and a = "''x''" and ts = "[1]" and t = 2]
  by (simp add: fresh_breaker_def default_settings_def)

text \<open>C19: A failure does not re-open a breaker. \<open>record_failure\<close> writes the state \<open>CLOSED\<close> before it
  compares the count, and the count of an open or half-open breaker is zero: with a threshold above
  one, a failed trial call in the half-open state, or a late failure while the breaker is open,
  leaves it closed, and the next \<open>guard\<close> lets calls through at any time.\<close>

theorem failure_closes_the_breaker:
  assumes "redis_store R contents up" and "br_holds contents up s a b" and "br_ok cfg b"
    and "br_state b \<noteq> CLOSED" and "1 < circuit_failure_threshold cfg"
  shows "\<exists>s'. record_failure R cfg t a s = (Inr (), s')
    \<and> br_holds contents up s' a (b\<lparr>br_state := CLOSED, br_failures := 1\<rparr>)
    \<and> fst (guard R cfg now a s') = Inr ()"
proof -
  have b: "br_failure cfg t b = b\<lparr>br_state := CLOSED, br_failures := 1\<rparr>"
    using assms(3-5) by (simp add: br_failure_def br_ok_def)
  obtain s' where s': "record_failure R cfg t a s = (Inr (), s')"
    "br_holds contents up s' a (b\<lparr>br_state := CLOSED, br_failures := 1\<rparr>)"
    using redis_store.record_failure_impl [OF assms(1,2), of cfg t] b by auto
  have "fst (guard R cfg now a s') = Inr ()"
    using redis_store.guard_impl [OF assms(1) s'(2), of cfg now] by (auto simp: br_look_def)
  with s' show ?thesis by blast
qed

theorem failure_closes_the_breaker_witness:
  "\<exists>s'. record_failure mem_redis default_settings 1 ''x'' half_open_store = (Inr (), s')
    \<and> fst (guard mem_redis default_settings 2 ''x'' s') = Inr ()"
  using failure_closes_the_breaker [OF mem.redis_store_axioms half_open_store_holds,
      where cfg = default_settings and a = "''x''" and t = 1 and now = 2]
  by (auto simp: br_ok_def fresh_breaker_def default_settings_def)

end
