(* ===== verification/Database.thy ===== *)
theory Database
  imports BreakerProps
begin

text \<open>
  The relational store behind the repositories: the rows of the ORM classes of
  \<open>src/infrastructure/database/models\<close>, the unique constraints those classes declare, and the session
  of \<open>src/infrastructure/database/session.py\<close> (\<open>autoflush=False\<close>, so added rows are invisible to queries
  until the commit). A table is the list of its rows in insertion order; the statements the code
  builds are list operations on it. Foreign keys and column widths are not enforced by the model.
\<close>

section \<open>Rows\<close>

text \<open>Where a row differs from its entity it has a record of its own: the status and the provider type
  are strings in the database. The other tables hold the entities themselves.\<close>

record delivery_row =
  dr_id :: uuid
  dr_tenant_id :: uuid
  dr_document_id :: uuid
  dr_provider_account_id :: uuid
  dr_provider_document_id :: "string option"
  dr_unified_status :: string
  dr_provider_raw_status :: "string option"
  dr_retry_count :: nat
  dr_next_retry_at :: "time option"
  dr_last_error_code :: "string option"
  dr_last_error_message :: "string option"
  dr_idempotency_key :: string
  dr_sent_at :: "time option"
  dr_delivered_at :: "time option"
  dr_signed_at :: "time option"
  dr_rejected_at :: "time option"
  dr_final_at :: "time option"
  dr_created_at :: time
  dr_updated_at :: time

record account_row =
  ar_id :: uuid
  ar_tenant_id :: uuid
  ar_provider_type :: string
  ar_account_name :: string
  ar_credentials_json :: dict
  ar_is_active :: bool
  ar_priority :: int
  ar_webhook_secret :: "string option"
  ar_rate_limit_per_minute :: "int option"
  ar_created_at :: time
  ar_updated_at :: time

record api_user =
  usr_id :: uuid
  usr_tenant_id :: uuid
  usr_email :: string
  usr_hashed_password :: string
  usr_role :: string
  usr_is_active :: bool

record tenant =
  tn_id :: uuid
  tn_name :: string
  tn_slug :: string
  tn_is_active :: bool

record db =
  db_tenants :: "tenant list"
  db_users :: "api_user list"
  db_accounts :: "account_row list"
  db_documents :: "document list"
  db_deliveries :: "delivery_row list"
  db_incoming :: "incoming_document list"
  db_webhooks :: "webhook_event list"
  db_dlq :: "dlq_entry list"
  db_audit :: "audit_event list"

definition empty_db :: db where
  "empty_db = \<lparr>db_tenants = [], db_users = [], db_accounts = [], db_documents = [],
     db_deliveries = [], db_incoming = [], db_webhooks = [], db_dlq = [], db_audit = []\<rparr>"

section \<open>Constraints\<close>

text \<open>Primary keys and unique constraints; a null \<open>provider_document_id\<close> never collides.\<close>

definition deliveries_ok :: "delivery_row list \<Rightarrow> bool" where
  "deliveries_ok rs \<longleftrightarrow> distinct (map dr_id rs)
     \<and> distinct (map (\<lambda>r. (dr_provider_account_id r, dr_idempotency_key r)) rs)
     \<and> distinct [(dr_provider_account_id r, dr_provider_document_id r).
          r \<leftarrow> rs, dr_provider_document_id r \<noteq> None]"

definition accounts_ok :: "account_row list \<Rightarrow> bool" where
  "accounts_ok rs \<longleftrightarrow> distinct (map ar_id rs)
     \<and> distinct (map (\<lambda>r. (ar_tenant_id r, ar_provider_type r, ar_account_name r)) rs)"

definition documents_ok :: "document list \<Rightarrow> bool" where
  "documents_ok rs \<longleftrightarrow> distinct (map doc_id rs)
     \<and> distinct (map (\<lambda>r. (doc_tenant_id r, doc_internal_document_id r)) rs)"

definition db_ok :: "db \<Rightarrow> bool" where
  "db_ok d \<longleftrightarrow> distinct (map tn_id (db_tenants d)) \<and> distinct (map tn_slug (db_tenants d))
     \<and> distinct (map usr_id (db_users d)) \<and> distinct (map usr_email (db_users d))
     \<and> accounts_ok (db_accounts d) \<and> documents_ok (db_documents d)
     \<and> deliveries_ok (db_deliveries d)
     \<and> distinct (map inc_id (db_incoming d))
     \<and> distinct (map (\<lambda>r. (inc_provider_account_id r, inc_provider_document_id r)) (db_incoming d))
     \<and> distinct (map wh_id (db_webhooks d))
     \<and> distinct (map dlq_id (db_dlq d)) \<and> distinct (map aud_id (db_audit d))"

section \<open>Sessions\<close>

datatype new_row =
    New_account account_row | New_document document | New_delivery delivery_row
  | New_dlq dlq_entry | New_audit audit_event

record session =
  view :: db
  pending :: "new_row list"

definition open_session :: "db \<Rightarrow> session" where
  "open_session d = \<lparr>view = d, pending = []\<rparr>"

definition session_add :: "new_row \<Rightarrow> session \<Rightarrow> session" where
  "session_add r s = s\<lparr>pending := pending s @ [r]\<rparr>"

fun insert_row :: "new_row \<Rightarrow> db \<Rightarrow> db" where
  "insert_row (New_account r) d = d\<lparr>db_accounts := db_accounts d @ [r]\<rparr>"
| "insert_row (New_document r) d = d\<lparr>db_documents := db_documents d @ [r]\<rparr>"
| "insert_row (New_delivery r) d = d\<lparr>db_deliveries := db_deliveries d @ [r]\<rparr>"
| "insert_row (New_dlq r) d = d\<lparr>db_dlq := db_dlq d @ [r]\<rparr>"
| "insert_row (New_audit r) d = d\<lparr>db_audit := db_audit d @ [r]\<rparr>"

definition unique_violation :: exc where
  "unique_violation = IntegrityError ''duplicate key value violates unique constraint''"

text \<open>\<open>commit\<close> flushes the added rows; a violated constraint raises and the transaction is rolled back.\<close>

definition commit :: "session \<Rightarrow> db res" where
  "commit s = (let d = fold insert_row (pending s) (view s) in
     if db_ok d then Inr d else Inl unique_violation)"

text \<open>An \<open>UPDATE\<close> is executed at once, and its constraints are checked at once.\<close>

definition write_view :: "db \<Rightarrow> session \<Rightarrow> session res" where
  "write_view d s = (if db_ok d then Inr (s\<lparr>view := d\<rparr>) else Inl unique_violation)"

text \<open>\<open>get_session\<close>: the request's work, then a commit; an exception (of the work or of the commit)
  rolls back and is raised again. The first component is the database afterwards.\<close>

definition with_session :: "(session \<Rightarrow> ('a \<times> session) res) \<Rightarrow> db \<Rightarrow> db \<times> 'a res" where
  "with_session work d =
     (case work (open_session d) of
        Inl e \<Rightarrow> (d, Inl e)
      | Inr (x, s) \<Rightarrow> (case commit s of Inl e \<Rightarrow> (d, Inl e) | Inr d' \<Rightarrow> (d', Inr x)))"

definition scalar_one_or_none :: "'a list \<Rightarrow> 'a option res" where
  "scalar_one_or_none rows =
     (case rows of [] \<Rightarrow> Inr None | [r] \<Rightarrow> Inr (Some r) | _ \<Rightarrow> Inl MultipleResultsFound)"

lemma scalar_simps [simp]:
  "scalar_one_or_none [] = Inr None" "scalar_one_or_none [r] = Inr (Some r)"
  by (simp_all add: scalar_one_or_none_def)

lemma with_session_ok: "db_ok d \<Longrightarrow> db_ok (fst (with_session work d))"
  by (auto simp: with_session_def commit_def Let_def split: sum.splits if_splits)

lemma with_session_error: "with_session work d = (d', Inl e) \<Longrightarrow> d' = d"
  by (auto simp: with_session_def split: sum.splits prod.splits)

section \<open>Tables with a primary key\<close>

text \<open>
  The contract between an entity and its table: \<open>to_row\<close> and \<open>of_row\<close> are the two mappers of a
  repository, \<open>merge e r\<close> the row after an update statement that writes \<open>e\<close>'s mutable columns.
\<close>

definition select_by :: "('r \<Rightarrow> uuid) \<Rightarrow> uuid \<Rightarrow> 'r list \<Rightarrow> 'r option res" where
  "select_by key i rows = scalar_one_or_none (filter (\<lambda>r. key r = i) rows)"

definition update_by :: "('r \<Rightarrow> uuid) \<Rightarrow> uuid \<Rightarrow> ('r \<Rightarrow> 'r) \<Rightarrow> 'r list \<Rightarrow> 'r list" where
  "update_by key i f rows = map (\<lambda>r. if key r = i then f r else r) rows"

definition load :: "('r \<Rightarrow> 'e res) \<Rightarrow> 'r option res \<Rightarrow> 'e option res" where
  "load of_row r =
     and_then r (\<lambda>o'. case o' of None \<Rightarrow> Inr None | Some x \<Rightarrow> and_then (of_row x) (\<lambda>e. Inr (Some e)))"

definition get_row :: "('r \<Rightarrow> 'e res) \<Rightarrow> ('r \<Rightarrow> uuid) \<Rightarrow> uuid \<Rightarrow> 'r list \<Rightarrow> 'e option res" where
  "get_row of_row key i rows = load of_row (select_by key i rows)"

lemma load_scalar_Some:
  "load f (scalar_one_or_none rows) = Inr (Some e) \<longleftrightarrow> (\<exists>r. rows = [r] \<and> f r = Inr e)"
  by (cases rows rule: remdups_adj.cases)
    (auto simp: load_def scalar_one_or_none_def and_then_Inr_iff)

lemma load_scalar_None: "load f (scalar_one_or_none rows) = Inr None \<longleftrightarrow> rows = []"
  by (cases rows rule: remdups_adj.cases)
    (auto simp: load_def scalar_one_or_none_def and_then_Inr_iff)

fun load_all :: "('r \<Rightarrow> 'e res) \<Rightarrow> 'r list \<Rightarrow> 'e list res" where
  "load_all of_row [] = Inr []"
| "load_all of_row (r # rs) =
     and_then (of_row r) (\<lambda>e. and_then (load_all of_row rs) (\<lambda>es. Inr (e # es)))"

lemma load_all_Inr: "load_all f rs = Inr es \<longleftrightarrow> map f rs = map Inr es"
proof (induction rs arbitrary: es)
  case Nil
  then show ?case by auto
next
  case (Cons r rs)
  show ?case
    by (cases es) (auto simp: and_then_Inr_iff Cons.IH)
qed

lemma load_all_total: "(\<And>r. r \<in> set rs \<Longrightarrow> f r = Inr (g r)) \<Longrightarrow> load_all f rs = Inr (map g rs)"
  by (induction rs) auto

locale entity_table =
  fixes to_row :: "'e \<Rightarrow> 'r"
    and of_row :: "'r \<Rightarrow> 'e res"
    and ekey :: "'e \<Rightarrow> uuid"
    and rkey :: "'r \<Rightarrow> uuid"
    and merge :: "'e \<Rightarrow> 'r \<Rightarrow> 'r"
    and emerge :: "'e \<Rightarrow> 'e \<Rightarrow> 'e"
  assumes round_trip: "of_row (to_row e) = Inr e"
    and key_to_row: "rkey (to_row e) = ekey e"
    and key_merge: "rkey (merge e r) = rkey r"
    and of_row_merge: "of_row r = Inr e0 \<Longrightarrow> of_row (merge e r) = Inr (emerge e e0)"
begin

abbreviation get :: "uuid \<Rightarrow> 'r list \<Rightarrow> 'e option res" where
  "get \<equiv> get_row of_row rkey"

lemmas get_def = get_row_def [of of_row rkey]

lemma keys_update: "map rkey (update_by rkey i (merge e) rows) = map rkey rows"
  by (simp add: update_by_def key_merge)

lemma get_inserted:
  assumes "distinct (map rkey (rows @ [to_row e]))"
  shows "get (ekey e) (rows @ [to_row e]) = Inr (Some e)"
proof -
  have "filter (\<lambda>r. rkey r = ekey e) (rows @ [to_row e]) = [to_row e]"
    using distinct_filter_one [OF assms, of "to_row e"] by (simp add: key_to_row)
  then show ?thesis by (simp add: get_def select_by_def load_def round_trip)
qed

lemma get_insert_other: "i \<noteq> ekey e \<Longrightarrow> get i (rows @ [to_row e]) = get i rows"
  by (simp add: get_def select_by_def key_to_row)

lemma filter_update_by:
  "filter (\<lambda>r. rkey r = i) (update_by rkey j (merge e) rows)
     = map (\<lambda>r. if rkey r = j then merge e r else r) (filter (\<lambda>r. rkey r = i) rows)"
  by (induction rows) (auto simp: update_by_def key_merge)

lemma get_update:
  assumes "get i rows = Inr (Some e0)"
  shows "get i (update_by rkey i (merge e) rows) = Inr (Some (emerge e e0))"
proof -
  from assms obtain r where r: "filter (\<lambda>r. rkey r = i) rows = [r]" "of_row r = Inr e0"
    unfolding get_def select_by_def load_scalar_Some by blast
  then have "rkey r = i" by (auto dest: filter_eq_ConsD)
  with r show ?thesis
    by (simp add: get_def select_by_def filter_update_by load_def of_row_merge)
qed

lemma get_update_other:
  assumes "i \<noteq> j"
  shows "get i (update_by rkey j (merge e) rows) = get i rows"
proof -
  have "map (\<lambda>r. if rkey r = j then merge e r else r) (filter (\<lambda>r. rkey r = i) rows)
      = filter (\<lambda>r. rkey r = i) rows"
    using assms by (intro map_idI) simp
  then show ?thesis by (simp add: get_def select_by_def filter_update_by)
qed

lemma get_None: "get i rows = Inr None \<longleftrightarrow> i \<notin> rkey ` set rows"
  by (auto simp: get_def select_by_def load_scalar_None filter_empty_conv)

lemma get_Some_key: "get i rows = Inr (Some e) \<Longrightarrow> \<exists>r \<in> set rows. rkey r = i \<and> of_row r = Inr e"
  unfolding get_def select_by_def load_scalar_Some
  by (metis (mono_tags, lifting) filter_eq_ConsD in_set_conv_decomp)

end

end
