(* ===== verification/Repositories.thy ===== *)
theory Repositories
  imports Database
begin

text \<open>
  \<open>src/infrastructure/database/repositories\<close>: the mappers between rows and entities and the five
  repositories. A repository method acts on the session it was constructed with: a query reads
  the session's \<open>view\<close>, \<open>save\<close> adds a pending row, \<open>update\<close> executes an update statement. The
  interpretations show that each repository keeps the contract \<open>entity_table\<close>.
\<close>

section \<open>Mappers\<close>

definition delivery_to_entity :: "delivery_row \<Rightarrow> delivery res" where
  "delivery_to_entity m =
     (case parse_status (dr_unified_status m) of
        None \<Rightarrow> Inl (ValueError ''not a valid UnifiedDocumentStatus'')
      | Some st \<Rightarrow> Inr
         \<lparr>dl_id = dr_id m, dl_tenant_id = dr_tenant_id m, dl_document_id = dr_document_id m,
          dl_provider_account_id = dr_provider_account_id m,
          dl_idempotency_key = dr_idempotency_key m, dl_status = st,
          dl_provider_document_id = dr_provider_document_id m,
          dl_provider_raw_status = dr_provider_raw_status m,
          dl_retry_count = dr_retry_count m, dl_next_retry_at = dr_next_retry_at m,
          dl_last_error_code = dr_last_error_code m,
          dl_last_error_message = dr_last_error_message m,
          dl_sent_at = dr_sent_at m, dl_delivered_at = dr_delivered_at m,
          dl_signed_at = dr_signed_at m, dl_rejected_at = dr_rejected_at m,
          dl_final_at = dr_final_at m, dl_created_at = dr_created_at m,
          dl_updated_at = dr_updated_at m\<rparr>)"

text \<open>The row that \<open>SQLDeliveryRepository.save\<close> constructs.\<close>

definition delivery_to_row :: "delivery \<Rightarrow> delivery_row" where
  "delivery_to_row d =
     \<lparr>dr_id = dl_id d, dr_tenant_id = dl_tenant_id d, dr_document_id = dl_document_id d,
      dr_provider_account_id = dl_provider_account_id d,
      dr_provider_document_id = dl_provider_document_id d,
      dr_unified_status = status_value (dl_status d),
      dr_provider_raw_status = dl_provider_raw_status d,
      dr_retry_count = dl_retry_count d, dr_next_retry_at = dl_next_retry_at d,
      dr_last_error_code = dl_last_error_code d, dr_last_error_message = dl_last_error_message d,
      dr_idempotency_key = dl_idempotency_key d, dr_sent_at = dl_sent_at d,
      dr_delivered_at = dl_delivered_at d, dr_signed_at = dl_signed_at d,
      dr_rejected_at = dl_rejected_at d, dr_final_at = dl_final_at d,
      dr_created_at = dl_created_at d, dr_updated_at = dl_updated_at d\<rparr>"

text \<open>\<open>m.metadata_ or {}\<close> is the metadata itself: the column is not nullable.\<close>

definition document_to_entity :: "document \<Rightarrow> document res" where
  "document_to_entity m = Inr m"

definition provider_to_entity :: "account_row \<Rightarrow> account res" where
  "provider_to_entity m =
     (case parse_provider_type (ar_provider_type m) of
        None \<Rightarrow> Inl (ValueError ''not a valid ProviderType'')
      | Some p \<Rightarrow> Inr
         \<lparr>acc_id = ar_id m, acc_tenant_id = ar_tenant_id m, acc_provider_type = p,
          acc_account_name = ar_account_name m, acc_credentials_json = ar_credentials_json m,
          acc_is_active = ar_is_active m, acc_priority = ar_priority m,
          acc_webhook_secret = ar_webhook_secret m,
          acc_rate_limit_per_minute = ar_rate_limit_per_minute m,
          acc_created_at = ar_created_at m, acc_updated_at = ar_updated_at m\<rparr>)"

definition account_to_row :: "account \<Rightarrow> account_row" where
  "account_to_row a =
     \<lparr>ar_id = acc_id a, ar_tenant_id = acc_tenant_id a,
      ar_provider_type = provider_type_value (acc_provider_type a),
      ar_account_name = acc_account_name a, ar_credentials_json = acc_credentials_json a,
      ar_is_active = acc_is_active a, ar_priority = acc_priority a,
      ar_webhook_secret = acc_webhook_secret a,
      ar_rate_limit_per_minute = acc_rate_limit_per_minute a,
      ar_created_at = acc_created_at a, ar_updated_at = acc_updated_at a\<rparr>"

section \<open>Documents\<close>

definition save_document :: "document \<Rightarrow> session \<Rightarrow> session" where
  "save_document d s = session_add (New_document d) s"

definition get_document_by_id :: "uuid \<Rightarrow> session \<Rightarrow> document option res" where
  "get_document_by_id i s = get_row document_to_entity doc_id i (db_documents (view s))"

definition get_document_by_internal_id :: "uuid \<Rightarrow> uuid \<Rightarrow> session \<Rightarrow> document option res" where
  "get_document_by_internal_id tenant internal s =
     load document_to_entity (scalar_one_or_none
       (filter (\<lambda>r. doc_tenant_id r = tenant \<and> doc_internal_document_id r = internal)
          (db_documents (view s))))"

text \<open>\<open>ORDER BY created_at DESC\<close>, then \<open>OFFSET\<close> and \<open>LIMIT\<close>.\<close>

definition list_documents_by_tenant :: "uuid \<Rightarrow> nat \<Rightarrow> nat \<Rightarrow> session \<Rightarrow> document list res" where
  "list_documents_by_tenant tenant offset limit s =
     load_all document_to_entity
       (take limit (drop offset
         (sort_key (\<lambda>r. - doc_created_at r)
            (filter (\<lambda>r. doc_tenant_id r = tenant) (db_documents (view s))))))"

section \<open>Deliveries\<close>

definition save_delivery :: "delivery \<Rightarrow> session \<Rightarrow> session" where
  "save_delivery d s = session_add (New_delivery (delivery_to_row d)) s"

definition get_delivery_by_id :: "uuid \<Rightarrow> session \<Rightarrow> delivery option res" where
  "get_delivery_by_id i s = get_row delivery_to_entity dr_id i (db_deliveries (view s))"

definition get_by_idempotency_key :: "uuid \<Rightarrow> string \<Rightarrow> session \<Rightarrow> delivery option res" where
  "get_by_idempotency_key account key s =
     load delivery_to_entity (scalar_one_or_none
       (filter (\<lambda>r. dr_provider_account_id r = account \<and> dr_idempotency_key r = key)
          (db_deliveries (view s))))"

definition list_by_document :: "uuid \<Rightarrow> session \<Rightarrow> delivery list res" where
  "list_by_document document s =
     load_all delivery_to_entity
       (sort_key (\<lambda>r. - dr_created_at r)
          (filter (\<lambda>r. dr_document_id r = document) (db_deliveries (view s))))"

text \<open>A comparison with a null \<open>next_retry_at\<close> is not true.\<close>

definition due :: "time \<Rightarrow> time option \<Rightarrow> bool" where
  "due now t = (case t of None \<Rightarrow> False | Some u \<Rightarrow> u \<le> now)"

definition list_pending_retries :: "time \<Rightarrow> session \<Rightarrow> delivery list res" where
  "list_pending_retries now s =
     load_all delivery_to_entity
       (take 500 (filter (\<lambda>r. due now (dr_next_retry_at r)
           \<and> dr_unified_status r = status_value PENDING) (db_deliveries (view s))))"

definition non_final_values :: "string list" where
  "non_final_values = [status_value st. st \<leftarrow> enum_class.enum, \<not> status_is_terminal st]"

definition list_non_final :: "uuid option \<Rightarrow> nat \<Rightarrow> session \<Rightarrow> delivery list res" where
  "list_non_final account limit s =
     load_all delivery_to_entity
       (take limit (filter (\<lambda>r. dr_unified_status r \<in> set non_final_values
           \<and> (case account of None \<Rightarrow> True | Some a \<Rightarrow> dr_provider_account_id r = a))
          (db_deliveries (view s))))"

text \<open>The columns the update statement of \<open>SQLDeliveryRepository.update\<close> writes.\<close>

definition delivery_merge :: "delivery \<Rightarrow> delivery_row \<Rightarrow> delivery_row" where
  "delivery_merge d r =
     r\<lparr>dr_unified_status := status_value (dl_status d),
       dr_provider_document_id := dl_provider_document_id d,
       dr_provider_raw_status := dl_provider_raw_status d,
       dr_retry_count := dl_retry_count d, dr_next_retry_at := dl_next_retry_at d,
       dr_last_error_code := dl_last_error_code d,
       dr_last_error_message := dl_last_error_message d,
       dr_sent_at := dl_sent_at d, dr_delivered_at := dl_delivered_at d,
       dr_signed_at := dl_signed_at d, dr_rejected_at := dl_rejected_at d,
       dr_final_at := dl_final_at d, dr_updated_at := dl_updated_at d\<rparr>"

definition update_delivery :: "delivery \<Rightarrow> session \<Rightarrow> session res" where
  "update_delivery d s =
     write_view ((view s)\<lparr>db_deliveries :=
       update_by dr_id (dl_id d) (delivery_merge d) (db_deliveries (view s))\<rparr>) s"

section \<open>Provider accounts\<close>

definition save_account :: "account \<Rightarrow> session \<Rightarrow> session" where
  "save_account a s = session_add (New_account (account_to_row a)) s"

definition get_account_by_id :: "uuid \<Rightarrow> session \<Rightarrow> account option res" where
  "get_account_by_id i s = get_row provider_to_entity ar_id i (db_accounts (view s))"

definition list_accounts_by_tenant :: "uuid \<Rightarrow> bool \<Rightarrow> session \<Rightarrow> account list res" where
  "list_accounts_by_tenant tenant active_only s =
     load_all provider_to_entity
       (sort_key ar_priority
          (filter (\<lambda>r. ar_tenant_id r = tenant \<and> (active_only \<longrightarrow> ar_is_active r))
             (db_accounts (view s))))"

definition account_merge :: "account \<Rightarrow> account_row \<Rightarrow> account_row" where
  "account_merge a r =
     r\<lparr>ar_is_active := acc_is_active a, ar_priority := acc_priority a,
       ar_credentials_json := acc_credentials_json a, ar_webhook_secret := acc_webhook_secret a,
       ar_rate_limit_per_minute := acc_rate_limit_per_minute a,
       ar_updated_at := acc_updated_at a\<rparr>"

definition update_account :: "account \<Rightarrow> session \<Rightarrow> session res" where
  "update_account a s =
     write_view ((view s)\<lparr>db_accounts :=
       update_by ar_id (acc_id a) (account_merge a) (db_accounts (view s))\<rparr>) s"

section \<open>Dead letters\<close>

definition save_dlq :: "dlq_entry \<Rightarrow> session \<Rightarrow> session" where
  "save_dlq e s = session_add (New_dlq e) s"

definition dlq_to_entity :: "dlq_entry \<Rightarrow> dlq_entry res" where
  "dlq_to_entity row =
     Inr \<lparr>dlq_id = dlq_id row, dlq_tenant_id = dlq_tenant_id row,
          dlq_delivery_id = dlq_delivery_id row,
          dlq_provider_account_id = dlq_provider_account_id row,
          dlq_task_name = dlq_task_name row, dlq_payload = dlq_payload row,
          dlq_reason_code = dlq_reason_code row, dlq_reason_message = dlq_reason_message row,
          dlq_retryable = dlq_retryable row, dlq_replayed_at = dlq_replayed_at row,
          dlq_created_at = dlq_created_at row\<rparr>"

definition get_dlq_by_id :: "uuid \<Rightarrow> session \<Rightarrow> dlq_entry option res" where
  "get_dlq_by_id i s = get_row dlq_to_entity dlq_id i (db_dlq (view s))"

definition list_retryable :: "uuid \<Rightarrow> session \<Rightarrow> dlq_entry list res" where
  "list_retryable tenant s =
     load_all dlq_to_entity
       (filter (\<lambda>r. dlq_tenant_id r = tenant \<and> dlq_retryable r \<and> dlq_replayed_at r = None)
          (db_dlq (view s)))"

definition list_dlq_by_tenant :: "uuid \<Rightarrow> nat \<Rightarrow> nat \<Rightarrow> session \<Rightarrow> dlq_entry list res" where
  "list_dlq_by_tenant tenant offset limit s =
     load_all dlq_to_entity
       (take limit (drop offset
         (sort_key (\<lambda>r. - dlq_created_at r)
            (filter (\<lambda>r. dlq_tenant_id r = tenant) (db_dlq (view s))))))"

definition dlq_merge :: "dlq_entry \<Rightarrow> dlq_entry \<Rightarrow> dlq_entry" where
  "dlq_merge e r = r\<lparr>dlq_replayed_at := dlq_replayed_at e\<rparr>"

definition update_dlq :: "dlq_entry \<Rightarrow> session \<Rightarrow> session res" where
  "update_dlq e s =
     write_view ((view s)\<lparr>db_dlq :=
       update_by dlq_id (dlq_id e) (dlq_merge e) (db_dlq (view s))\<rparr>) s"

section \<open>Audit events\<close>

definition save_audit :: "audit_event \<Rightarrow> session \<Rightarrow> session" where
  "save_audit e s = session_add (New_audit e) s"

definition list_by_resource :: "string \<Rightarrow> uuid \<Rightarrow> nat \<Rightarrow> session \<Rightarrow> audit_event list" where
  "list_by_resource rtype rid limit s =
     take limit (sort_key (\<lambda>r. - aud_created_at r)
       (filter (\<lambda>r. aud_resource_type r = rtype \<and> aud_resource_id r = rid) (db_audit (view s))))"

section \<open>The contracts\<close>

text \<open>What an update statement makes of the entity behind a row: the written attributes come from the
  argument, the identity from the row.\<close>

definition delivery_emerge :: "delivery \<Rightarrow> delivery \<Rightarrow> delivery" where
  "delivery_emerge d e =
     d\<lparr>dl_id := dl_id e, dl_tenant_id := dl_tenant_id e, dl_document_id := dl_document_id e,
       dl_provider_account_id := dl_provider_account_id e,
       dl_idempotency_key := dl_idempotency_key e, dl_created_at := dl_created_at e\<rparr>"

definition account_emerge :: "account \<Rightarrow> account \<Rightarrow> account" where
  "account_emerge a e =
     a\<lparr>acc_id := acc_id e, acc_tenant_id := acc_tenant_id e,
       acc_provider_type := acc_provider_type e, acc_account_name := acc_account_name e,
       acc_created_at := acc_created_at e\<rparr>"

lemmas row_defs =
  delivery_to_entity_def delivery_to_row_def delivery_merge_def delivery_emerge_def
  provider_to_entity_def account_to_row_def account_merge_def account_emerge_def
  dlq_to_entity_def dlq_merge_def document_to_entity_def

interpretation deliveries: entity_table delivery_to_row delivery_to_entity dl_id dr_id
  delivery_merge delivery_emerge
  by unfold_locales (auto simp: row_defs split: option.splits)

interpretation accounts: entity_table account_to_row provider_to_entity acc_id ar_id
  account_merge account_emerge
  by unfold_locales (auto simp: row_defs split: option.splits)

interpretation dead_letters: entity_table "\<lambda>e. e" dlq_to_entity dlq_id dlq_id dlq_merge dlq_merge
  by unfold_locales (auto simp: row_defs)

text \<open>Documents are frozen: there is no update, \<open>merge\<close> keeps the row.\<close>

interpretation documents: entity_table "\<lambda>d. d" document_to_entity doc_id doc_id "\<lambda>d r. r" "\<lambda>d e. e"
  by unfold_locales (auto simp: row_defs)

lemma delivery_emerge_same: "same_identity e d \<Longrightarrow> dl_id d = dl_id e \<Longrightarrow> delivery_emerge d e = d"
  by (simp add: delivery_emerge_def same_identity_def)

end
