(* ===== verification/RepoProps.thy ===== *)
theory RepoProps
  imports Repositories
begin

text \<open>
  What the repositories guarantee to their callers: a committed entity is read back as it was saved, an
  update writes its row and no other, the lists contain what their names say.
\<close>

section \<open>Save, commit, read\<close>

lemma open_session_view [simp]: "view (open_session d) = d" "pending (open_session d) = []"
  by (simp_all add: open_session_def)

lemma commit_Inr: "commit s = Inr d' \<longleftrightarrow> d' = fold insert_row (pending s) (view s) \<and> db_ok d'"
  by (auto simp: commit_def Let_def)

lemma db_ok_tables:
  assumes "db_ok d"
  shows "distinct (map dr_id (db_deliveries d))" "distinct (map ar_id (db_accounts d))"
    "distinct (map doc_id (db_documents d))" "distinct (map dlq_id (db_dlq d))"
  using assms by (simp_all add: db_ok_def deliveries_ok_def accounts_ok_def documents_ok_def)

text \<open>A saved delivery is read back unchanged once its transaction has committed: looking it up by
  id in a later session returns exactly the saved entity, and every other lookup is as before. Until
  the commit, the session itself does not see it.\<close>

theorem delivery_save_commit_get:
  assumes "commit (save_delivery x (open_session d)) = Inr d'"
  shows "get_delivery_by_id (dl_id x) (open_session d') = Inr (Some x)
    \<and> (\<forall>i. i \<noteq> dl_id x \<longrightarrow>
         get_delivery_by_id i (open_session d') = get_delivery_by_id i (open_session d))
    \<and> get_delivery_by_id (dl_id x) (save_delivery x (open_session d)) = Inr None"
proof -
  have d': "db_deliveries d' = db_deliveries d @ [delivery_to_row x]" and ok: "db_ok d'"
    using assms by (auto simp: commit_Inr save_delivery_def session_add_def)
  from db_ok_tables(1) [OF ok] d'
  have dist: "distinct (map dr_id (db_deliveries d @ [delivery_to_row x]))" by simp
  then have "dl_id x \<notin> dr_id ` set (db_deliveries d)"
    by (simp add: deliveries.key_to_row)
  then show ?thesis
    using d' deliveries.get_inserted [OF dist] deliveries.get_insert_other deliveries.get_None
    by (simp add: get_delivery_by_id_def save_delivery_def session_add_def)
qed

definition sample_delivery :: delivery where
  "sample_delivery = create_delivery 1 5 5 2 3 4 ''k''"

theorem delivery_save_commit_get_witness:
  "\<exists>d'. commit (save_delivery sample_delivery (open_session empty_db)) = Inr d'
    \<and> get_delivery_by_id 1 (open_session d') = Inr (Some sample_delivery)"
proof -
  have "\<exists>d'. commit (save_delivery sample_delivery (open_session empty_db)) = Inr d'"
    by (simp add: commit_def Let_def save_delivery_def session_add_def db_ok_def empty_db_def
        accounts_ok_def documents_ok_def deliveries_ok_def sample_delivery_def create_delivery_def
        delivery_to_row_def)
  then obtain d' where d': "commit (save_delivery sample_delivery (open_session empty_db)) = Inr d'"
    by blast
  from delivery_save_commit_get [OF this] d' show ?thesis
    by (auto simp: sample_delivery_def create_delivery_def)
qed

section \<open>Update\<close>

lemma write_view_Inr: "write_view d s = Inr s' \<longleftrightarrow> s' = s\<lparr>view := d\<rparr> \<and> db_ok d"
  by (auto simp: write_view_def)

text \<open>An update reaches exactly its row. After \<open>SQLDeliveryRepository.update\<close> the delivery reads
  back with every mutable attribute of the argument, with the id, tenant, document, account,
  idempotency key and creation time of the stored row, and the lookups of all other deliveries, the
  number of rows and all other tables are unchanged.\<close>

theorem delivery_update_get:
  assumes "get_delivery_by_id (dl_id x) s = Inr (Some e)" and "update_delivery x s = Inr s'"
  shows "get_delivery_by_id (dl_id x) s' = Inr (Some (delivery_emerge x e))
    \<and> same_identity e (delivery_emerge x e)
    \<and> (\<forall>i. i \<noteq> dl_id x \<longrightarrow> get_delivery_by_id i s' = get_delivery_by_id i s)
    \<and> map dr_id (db_deliveries (view s')) = map dr_id (db_deliveries (view s))
    \<and> (view s')\<lparr>db_deliveries := []\<rparr> = (view s)\<lparr>db_deliveries := []\<rparr>"
  using assms deliveries.get_update [of "dl_id x" "db_deliveries (view s)" e x]
  by (auto simp: update_delivery_def write_view_Inr get_delivery_by_id_def deliveries.keys_update
      deliveries.get_update_other delivery_emerge_def same_identity_def)

definition one_delivery_db :: db where
  "one_delivery_db = empty_db\<lparr>db_deliveries := [delivery_to_row sample_delivery]\<rparr>"

theorem delivery_update_get_witness:
  "\<exists>s'. update_delivery (mark_sending 9 sample_delivery) (open_session one_delivery_db) = Inr s'
    \<and> get_delivery_by_id 1 s' = Inr (Some (mark_sending 9 sample_delivery))"
proof -
  let ?x = "mark_sending 9 sample_delivery"
  have id1: "dl_id ?x = 1"
    by (simp add: mark_sending_def sample_delivery_def create_delivery_def)
  have g: "get_delivery_by_id (dl_id ?x) (open_session one_delivery_db) = Inr (Some sample_delivery)"
    using deliveries.get_inserted [of "[]" sample_delivery] id1
    by (simp add: get_delivery_by_id_def one_delivery_db_def mark_sending_def)
  have "\<exists>s'. update_delivery ?x (open_session one_delivery_db) = Inr s'"
    by (simp add: update_delivery_def write_view_def one_delivery_db_def empty_db_def db_ok_def
        update_by_def accounts_ok_def documents_ok_def deliveries_ok_def sample_delivery_def
        create_delivery_def delivery_to_row_def delivery_merge_def mark_sending_def)
  then obtain s' where s': "update_delivery ?x (open_session one_delivery_db) = Inr s'" by blast
  have "delivery_emerge ?x sample_delivery = ?x"
    by (simp add: delivery_emerge_def mark_sending_def)
  with delivery_update_get [OF g s'] s' id1 show ?thesis by auto
qed

section \<open>Lists\<close>

lemma delivery_to_entity_status:
  "delivery_to_entity r = Inr d \<Longrightarrow> dr_unified_status r = status_value (dl_status d)
     \<and> dl_id d = dr_id r \<and> dl_next_retry_at d = dr_next_retry_at r
     \<and> dl_created_at d = dr_created_at r \<and> dl_document_id d = dr_document_id r
     \<and> dl_provider_account_id d = dr_provider_account_id r"
  by (auto simp: delivery_to_entity_def parse_status_Some split: option.splits)

lemma delivery_to_entity_parses:
  "dr_unified_status r = status_value st \<Longrightarrow> \<exists>d. delivery_to_entity r = Inr d"
  by (simp add: delivery_to_entity_def)

lemma load_all_parses:
  "(\<And>r. r \<in> set rs \<Longrightarrow> \<exists>e. f r = Inr e) \<Longrightarrow> \<exists>es. load_all f rs = Inr es"
  by (induction rs) force+

lemma load_all_set: "load_all f rs = Inr es \<Longrightarrow> e \<in> set es \<Longrightarrow> \<exists>r \<in> set rs. f r = Inr e"
  by (induction rs arbitrary: es) (auto simp: and_then_Inr_iff)

lemma load_all_length: "load_all f rs = Inr es \<Longrightarrow> length es = length rs"
  by (metis length_map load_all_Inr)

text \<open>The retry query always succeeds and is exact: it returns at most 500 deliveries, each pending
  with a retry time that has come, and when fewer than 500 come back, every such row of the table is
  among them.\<close>

theorem list_pending_retries_exact:
  "\<exists>ds. list_pending_retries now s = Inr ds \<and> length ds \<le> 500
    \<and> (\<forall>d \<in> set ds. dl_status d = PENDING \<and> (\<exists>t. dl_next_retry_at d = Some t \<and> t \<le> now))
    \<and> (length ds < 500 \<longrightarrow>
        (\<forall>r \<in> set (db_deliveries (view s)).
           dr_unified_status r = ''PENDING'' \<and> due now (dr_next_retry_at r)
           \<longrightarrow> dr_id r \<in> dl_id ` set ds))"
proof -
  let ?P = "\<lambda>r. due now (dr_next_retry_at r) \<and> dr_unified_status r = status_value PENDING"
  let ?rs = "filter ?P (db_deliveries (view s))"
  have "\<exists>d. delivery_to_entity r = Inr d" if "r \<in> set (take 500 ?rs)" for r
    using in_set_takeD [OF that] delivery_to_entity_parses [of r PENDING] by simp
  then obtain ds where ds: "load_all delivery_to_entity (take 500 ?rs) = Inr ds"
    using load_all_parses by blast
  have sound: "dl_status d = PENDING \<and> (\<exists>t. dl_next_retry_at d = Some t \<and> t \<le> now)"
    if d: "d \<in> set ds" for d
  proof -
    obtain r where r: "r \<in> set (take 500 ?rs)" "delivery_to_entity r = Inr d"
      using load_all_set [OF ds d] by blast
    from in_set_takeD [OF r(1)] have "?P r" by simp
    with delivery_to_entity_status [OF r(2)] show ?thesis
      by (auto simp: due_def simp del: status_value.simps split: option.splits)
  qed
  have complete: "dr_id r \<in> dl_id ` set ds" if "length ds < 500" "r \<in> set ?rs" for r
  proof -
    from that(1) load_all_length [OF ds] have "take 500 ?rs = ?rs" by simp
    with ds have "map delivery_to_entity ?rs = map Inr ds" by (simp only: load_all_Inr)
    then have "delivery_to_entity ` set ?rs = Inr ` set ds"
      by (metis list.set_map)
    with that(2) obtain d where "d \<in> set ds" "delivery_to_entity r = Inr d" by blast
    then show ?thesis using delivery_to_entity_status [of r d] by (simp add: image_iff) metis
  qed
  from load_all_length [OF ds] have "length ds \<le> 500" by simp
  with ds sound complete show ?thesis
    by (intro exI [of _ ds]) (auto simp: list_pending_retries_def)
qed

definition due_delivery :: delivery where
  "due_delivery = schedule_retry 6 50 sample_delivery"

definition due_db :: db where
  "due_db = empty_db\<lparr>db_deliveries := [delivery_to_row due_delivery]\<rparr>"

lemma due_row:
  "dr_unified_status (delivery_to_row due_delivery) = ''PENDING''"
  "dr_next_retry_at (delivery_to_row due_delivery) = Some 50"
  by (simp_all add: delivery_to_row_def due_delivery_def schedule_retry_def)

theorem list_pending_retries_exact_witness:
  "list_pending_retries 100 (open_session due_db) = Inr [due_delivery]
   \<and> dl_status due_delivery = PENDING \<and> (\<exists>t. dl_next_retry_at due_delivery = Some t \<and> t \<le> 100)
   \<and> list_pending_retries 49 (open_session due_db) = Inr []"
proof -
  have "list_pending_retries 100 (open_session due_db) = Inr [due_delivery]"
    "list_pending_retries 49 (open_session due_db) = Inr []"
    by (simp_all add: list_pending_retries_def due_db_def due_row due_def deliveries.round_trip)
  with list_pending_retries_exact [of 100 "open_session due_db"] show ?thesis by auto
qed

lemma non_final_values_iff: "v \<in> set non_final_values \<longleftrightarrow> (\<exists>st. v = status_value st \<and> \<not> status_is_terminal st)"
proof -
  have v: "non_final_values = map status_value [PENDING, SENDING, SENT, DELIVERED, UNKNOWN]"
    by (simp add: non_final_values_def enum_unified_status_def)
  have "st \<in> set [PENDING, SENDING, SENT, DELIVERED, UNKNOWN] \<longleftrightarrow> \<not> status_is_terminal st" for st
    by (cases st) simp_all
  then show ?thesis unfolding v set_map image_iff by blast
qed

text \<open>The query for unfinished deliveries never fails and never returns a finished one: no delivery in
  its result is signed, rejected, cancelled or failed, all belong to the requested account if one is
  given, and at most \<open>limit\<close> come back.\<close>

theorem list_non_final_not_terminal:
  "\<exists>ds. list_non_final account limit s = Inr ds \<and> length ds \<le> limit
    \<and> (\<forall>d \<in> set ds. \<not> delivery_is_terminal d
         \<and> (case account of None \<Rightarrow> True | Some a \<Rightarrow> dl_provider_account_id d = a))"
proof -
  let ?P = "\<lambda>r. dr_unified_status r \<in> set non_final_values
      \<and> (case account of None \<Rightarrow> True | Some a \<Rightarrow> dr_provider_account_id r = a)"
  let ?rs = "take limit (filter ?P (db_deliveries (view s)))"
  have P: "?P r" if "r \<in> set ?rs" for r using in_set_takeD [OF that] by simp
  then have "\<exists>d. delivery_to_entity r = Inr d" if "r \<in> set ?rs" for r
    using that delivery_to_entity_parses unfolding non_final_values_iff by blast
  then obtain ds where ds: "load_all delivery_to_entity ?rs = Inr ds"
    using load_all_parses by blast
  have "\<not> delivery_is_terminal d \<and> (case account of None \<Rightarrow> True | Some a \<Rightarrow> dl_provider_account_id d = a)"
    if d: "d \<in> set ds" for d
  proof -
    obtain r where r: "r \<in> set ?rs" "delivery_to_entity r = Inr d"
      using load_all_set [OF ds d] by blast
    from P [OF r(1)] obtain st where "dr_unified_status r = status_value st" "\<not> status_is_terminal st"
      by (auto simp only: non_final_values_iff)
    with P [OF r(1)] delivery_to_entity_status [OF r(2)] show ?thesis
      by (cases account) (simp_all add: delivery_is_terminal_def del: status_value.simps)
  qed
  with ds load_all_length [OF ds] show ?thesis
    by (intro exI [of _ ds]) (simp add: list_non_final_def)
qed

theorem list_non_final_not_terminal_witness:
  "list_non_final (Some 4) 1 (open_session due_db) = Inr [due_delivery]
     \<and> \<not> delivery_is_terminal due_delivery \<and> dl_provider_account_id due_delivery = 4"
proof -
  have "''PENDING'' \<in> set non_final_values"
    using non_final_values_iff [of "''PENDING''"] by (auto intro: exI [of _ PENDING])
  then have "list_non_final (Some 4) 1 (open_session due_db) = Inr [due_delivery]"
    by (simp add: list_non_final_def due_db_def due_row deliveries.round_trip)
      (simp add: delivery_to_row_def due_delivery_def schedule_retry_def sample_delivery_def create_delivery_def)
  with list_non_final_not_terminal [of "Some 4" 1 "open_session due_db"] show ?thesis by auto
qed

text \<open>The deliveries of a document are listed newest first, each of them, and no other.\<close>

theorem list_by_document_newest_first:
  assumes "list_by_document document s = Inr ds"
  shows "sorted_wrt (\<lambda>a b. dl_created_at a \<ge> dl_created_at b) ds
    \<and> map dl_id ds = map dr_id (sort_key (\<lambda>r. - dr_created_at r)
         (filter (\<lambda>r. dr_document_id r = document) (db_deliveries (view s))))
    \<and> (\<forall>d \<in> set ds. dl_document_id d = document)"
proof -
  let ?rs = "sort_key (\<lambda>r. - dr_created_at r)
      (filter (\<lambda>r. dr_document_id r = document) (db_deliveries (view s)))"
  have eq: "map delivery_to_entity ?rs = map Inr ds"
    using assms by (simp add: list_by_document_def load_all_Inr)
  then have len: "length ds = length ?rs" by (metis length_map)
  have nth: "dl_id (ds ! i) = dr_id (?rs ! i) \<and> dl_created_at (ds ! i) = dr_created_at (?rs ! i)
      \<and> dl_document_id (ds ! i) = dr_document_id (?rs ! i)" if "i < length ds" for i
    using delivery_to_entity_status [of "?rs ! i" "ds ! i"] arg_cong [OF eq, of "\<lambda>l. l ! i"] that len
    by simp
  have "sorted (map (\<lambda>r. - dr_created_at r) ?rs)" by simp
  then have "sorted_wrt (\<lambda>a b. dl_created_at a \<ge> dl_created_at b) ds"
    using nth len by (force simp: sorted_wrt_iff_nth_less sorted_map)
  moreover have "map dl_id ds = map dr_id ?rs"
    using nth len by (simp add: list_eq_iff_nth_eq)
  moreover have "dl_document_id d = document" if "d \<in> set ds" for d
  proof -
    from that obtain i where i: "i < length ds" "d = ds ! i" by (metis in_set_conv_nth)
    with len have "?rs ! i \<in> set ?rs" by (simp only: nth_mem)
    then have "dr_document_id (?rs ! i) = document" by simp
    with nth [OF i(1)] i(2) show ?thesis by simp
  qed
  ultimately show ?thesis by blast
qed

theorem list_by_document_newest_first_witness:
  "list_by_document 3 (open_session one_delivery_db) = Inr [sample_delivery]
   \<and> dl_document_id sample_delivery = 3"
proof -
  have "dr_document_id (delivery_to_row sample_delivery) = 3"
    by (simp add: delivery_to_row_def sample_delivery_def create_delivery_def)
  then have h: "list_by_document 3 (open_session one_delivery_db) = Inr [sample_delivery]"
    by (simp add: list_by_document_def one_delivery_db_def deliveries.round_trip)
  from list_by_document_newest_first [OF h] h show ?thesis by simp
qed

end
