(* ===== verification/ProviderInterface.thy ===== *)
theory ProviderInterface
  imports RepoProps
begin

text \<open>
  \<open>src/application/interfaces/i_edo_provider.py\<close> (the result dataclasses), and what the provider
  adapters use of the HTTP client and of decoded JSON. The HTTP client (\<open>httpx\<close>) and the remote
  services are not part of the repository: an exchange is a parameter
  \<open>http :: http_request \<Rightarrow> response res\<close>, where an exception is a failure of the transport. A text of a
  JSON document is UTF-8 encoded; \<open>utf8\<close> spells the non-ASCII keys and values by their code points.
\<close>

section \<open>Interface results\<close>

text \<open>A field an adapter copies from a decoded response keeps its JSON value: the dataclasses do not check
  the types they declare.\<close>

record send_result =
  sr_provider_document_id :: json
  sr_raw_status :: string

record status_result =
  st_provider_document_id :: string
  st_unified_status :: string
  st_raw_status :: json
  st_extra :: dict

record incoming_data =
  in_provider_document_id :: json
  in_document_type :: json
  in_sender_inn :: json
  in_sender_name :: json
  in_file_name :: json
  in_mime_type :: json
  in_unified_status :: string
  in_metadata :: json
  in_received_at :: time

record webhook_parse_result =
  wp_external_event_id :: "json option"
  wp_provider_document_id :: "json option"
  wp_unified_status :: "json option"
  wp_raw_payload :: dict

text \<open>The keyword arguments of \<open>send_document\<close>.\<close>

record send_args =
  sa_sender_inn :: string
  sa_sender_kpp :: "string option"
  sa_recipient_inn :: string
  sa_recipient_kpp :: "string option"
  sa_document_type :: string
  sa_title :: string
  sa_file_name :: string
  sa_mime_type :: string
  sa_file_bytes :: bytes
  sa_metadata :: dict

section \<open>JSON access\<close>

fun utf8_char :: "nat \<Rightarrow> string" where
  "utf8_char n =
     (if n < 128 then [char_of n]
      else if n < 2048 then [char_of (192 + n div 64), char_of (128 + n mod 64)]
      else [char_of (224 + n div 4096), char_of (128 + n div 64 mod 64), char_of (128 + n mod 64)])"

definition utf8 :: "nat list \<Rightarrow> string" where
  "utf8 cps = concat (map utf8_char cps)"

text \<open>\<open>data.get(key, default)\<close>, \<open>data[key]\<close> and the use of a value as text.\<close>

fun json_get :: "json \<Rightarrow> string \<Rightarrow> json \<Rightarrow> json res" where
  "json_get (JObj kvs) key dflt = Inr (case map_of kvs key of None \<Rightarrow> dflt | Some v \<Rightarrow> v)"
| "json_get _ key dflt = Inl (AttributeError ''get'')"

definition dict_item :: "dict \<Rightarrow> string \<Rightarrow> json res" where
  "dict_item kvs key = (case map_of kvs key of None \<Rightarrow> Inl (KeyError key) | Some v \<Rightarrow> Inr v)"

fun json_item :: "json \<Rightarrow> string \<Rightarrow> json res" where
  "json_item (JObj kvs) key = dict_item kvs key"
| "json_item _ key = Inl (TypeError ''not subscriptable with a string'')"

fun json_text :: "json \<Rightarrow> string res" where
  "json_text (JStr s) = Inr s"
| "json_text _ = Inl (TypeError ''not a text'')"

text \<open>Truth of a decoded value (\<open>if data := response.json()\<close>).\<close>

fun json_truthy :: "json \<Rightarrow> bool" where
  "json_truthy JNull = False"
| "json_truthy (JBool b) = b"
| "json_truthy (JNum n) = (n \<noteq> 0)"
| "json_truthy (JStr s) = (s \<noteq> [])"
| "json_truthy (JArr xs) = (xs \<noteq> [])"
| "json_truthy (JObj kvs) = (kvs \<noteq> [])"

section \<open>HTTP exchanges\<close>

record http_request =
  rq_method :: string
  rq_path :: string
  rq_params :: "(string \<times> string) list"
  rq_headers :: "(string \<times> string) list"
  rq_body :: json

record response =
  rsp_status :: nat
  rsp_text :: string
  rsp_json :: "json res"

type_synonym http = "http_request \<Rightarrow> response res"

text \<open>
  The three remote adapters classify a response by its status code in the same order; the provider's
  name and the two message texts differ.
\<close>

definition status_error :: "string \<Rightarrow> string \<Rightarrow> string \<Rightarrow> response \<Rightarrow> unit res" where
  "status_error provider server_msg client_msg r =
     (if rsp_status r = 429 then Inl (Domain (ProviderRateLimitError provider))
      else if 500 \<le> rsp_status r then Inl (Domain (ProviderTransientError server_msg provider))
      else if 400 \<le> rsp_status r then Inl (Domain (ProviderPermanentError client_msg provider))
      else Inr ())"

lemma status_error_Inr: "status_error p s c r = Inr () \<longleftrightarrow> rsp_status r < 400"
  by (auto simp: status_error_def)

lemma status_error_transient:
  "(\<exists>e. status_error p s c r = Inl (Domain e) \<and> is_instance e C_ProviderTransient)
     \<longleftrightarrow> rsp_status r = 429 \<or> 500 \<le> rsp_status r"
  by (auto simp: status_error_def is_instance_def)

lemma status_error_permanent:
  "(\<exists>e. status_error p s c r = Inl (Domain e) \<and> is_instance e C_ProviderPermanent)
     \<longleftrightarrow> 400 \<le> rsp_status r \<and> rsp_status r < 500 \<and> rsp_status r \<noteq> 429"
  by (auto simp: status_error_def is_instance_def)

section \<open>Status normalisation\<close>

text \<open>The contract of a provider's status map: whatever raw text the provider reports, the unified status
  is a member of the enumeration.\<close>

locale status_normalizer =
  fixes normalize :: "string \<Rightarrow> string"
  assumes in_enum: "\<exists>u. normalize raw = status_value u"
begin

lemma parses: "\<exists>u. parse_status (normalize raw) = Some u"
  using in_enum [of raw] by (auto simp: parse_status_value)

end

definition status_lookup :: "(string \<times> string) list \<Rightarrow> string \<Rightarrow> string" where
  "status_lookup m raw = (case map_of m raw of None \<Rightarrow> ''UNKNOWN'' | Some u \<Rightarrow> u)"

lemma status_lookup_in_enum:
  assumes "\<forall>v \<in> snd ` set m. \<exists>u. v = status_value u"
  shows "\<exists>u. status_lookup m raw = status_value u"
proof (cases "map_of m raw")
  case None
  then show ?thesis by (intro exI [of _ UNKNOWN]) (simp add: status_lookup_def)
next
  case (Some v)
  then have "v \<in> snd ` set m" by (force dest: map_of_SomeD)
  with assms have "\<exists>u. v = status_value u" by blast
  with Some show ?thesis by (simp add: status_lookup_def)
qed

lemma values_in_enum: "list_all (\<lambda>p. parse_status (snd p) \<noteq> None) m \<Longrightarrow>
    \<forall>v \<in> snd ` set m. \<exists>u. v = status_value u"
  by (auto simp: list_all_iff parse_status_Some simp del: status_value.simps)

text \<open>The HTTP health probes: any answer below 500 counts as healthy, a failed exchange as unhealthy with
  zero milliseconds; \<open>t0\<close>, \<open>t1\<close> are the two reads of the monotonic clock.\<close>

definition http_health :: "http \<Rightarrow> http_request \<Rightarrow> time \<Rightarrow> time \<Rightarrow> bool \<times> int" where
  "http_health http rq t0 t1 =
     (case http rq of Inl e \<Rightarrow> (False, 0) | Inr r \<Rightarrow> (rsp_status r < 500, (t1 - t0) div 1000))"

end
