(* ===== verification/StubProvider.thy ===== *)
theory StubProvider
  imports ProviderInterface
begin

text \<open>
  \<open>src/infrastructure/providers/stub/stub_provider.py\<close>, the in-process provider. Its two module-level
  dictionaries are the state \<open>stub_store\<close>, shared by all instances. The texts of new uuids, the
  HMAC function of the standard library and the clock are inputs.
\<close>

section \<open>State and construction\<close>

record stub_doc =
  sd_sender_inn :: string
  sd_recipient_inn :: string
  sd_document_type :: string
  sd_title :: string
  sd_file_name :: string
  sd_mime_type :: string
  sd_status :: string

record stub_store =
  stub_documents :: "string \<rightharpoonup> stub_doc"
  stub_sent_at :: "string \<rightharpoonup> time"

record stub_provider =
  sp_webhook_secret :: json
  sp_auto_sign_secs :: json

definition stub_init :: "dict \<Rightarrow> stub_provider" where
  "stub_init credentials =
     \<lparr>sp_webhook_secret =
        (case map_of credentials ''webhook_secret'' of None \<Rightarrow> JStr ''stub-secret'' | Some v \<Rightarrow> v),
      sp_auto_sign_secs =
        (case map_of credentials ''auto_sign_delay_seconds'' of None \<Rightarrow> JNum 30 | Some v \<Rightarrow> v)\<rparr>"

section \<open>Operations\<close>

definition py_upper_hex :: "string \<Rightarrow> string" where
  "py_upper_hex s = map (\<lambda>c. if 97 \<le> code_point c \<and> code_point c \<le> 102 then char_of (code_point c - 32) else c) s"

text \<open>\<open>uuid.uuid4().hex\<close>: the 32 digits without dashes.\<close>

definition uuid_hex :: "uuid \<Rightarrow> string" where
  "uuid_hex u = hex_pad 32 (unat u)"

definition stub_send ::
  "uuid \<Rightarrow> time \<Rightarrow> send_args \<Rightarrow> stub_store \<Rightarrow> send_result \<times> stub_store"
where
  "stub_send new_id now a st =
     (let pid = ''STUB-'' @ py_upper_hex (take 16 (uuid_hex new_id)) in
      (\<lparr>sr_provider_document_id = JStr pid, sr_raw_status = ''SENT''\<rparr>,
       st\<lparr>stub_documents := (stub_documents st)(pid \<mapsto>
            \<lparr>sd_sender_inn = sa_sender_inn a, sd_recipient_inn = sa_recipient_inn a,
             sd_document_type = sa_document_type a, sd_title = sa_title a,
             sd_file_name = sa_file_name a, sd_mime_type = sa_mime_type a, sd_status = ''SENT''\<rparr>),
          stub_sent_at := (stub_sent_at st)(pid \<mapsto> now)\<rparr>))"

text \<open>\<open>age > secs\<close> and \<open>age > secs / 2\<close> on microseconds; a delay that is not a number raises.\<close>

definition stub_status_at :: "int \<Rightarrow> time \<Rightarrow> string" where
  "stub_status_at secs age =
     (if age > secs * 1000000 then ''SIGNED''
      else if 2 * age > secs * 1000000 then ''DELIVERED''
      else ''SENT'')"

definition stub_get_status ::
  "stub_provider \<Rightarrow> time \<Rightarrow> string \<Rightarrow> stub_store \<Rightarrow> status_result res \<times> stub_store"
where
  "stub_get_status p now pid st =
     (case stub_documents st pid of
        None \<Rightarrow> (Inr \<lparr>st_provider_document_id = pid, st_unified_status = ''UNKNOWN'',
                     st_raw_status = JStr ''not_found'', st_extra = []\<rparr>, st)
      | Some doc \<Rightarrow>
          (let sent_at = (case stub_sent_at st pid of None \<Rightarrow> now | Some t \<Rightarrow> t);
               age = now - sent_at
           in case sp_auto_sign_secs p of
                JNum secs \<Rightarrow>
                  (let raw = stub_status_at secs age in
                   (Inr \<lparr>st_provider_document_id = pid, st_unified_status = raw, st_raw_status = JStr raw,
                         st_extra = [(''age_seconds'', JNum (age div 1000000))]\<rparr>,
                    st\<lparr>stub_documents := (stub_documents st)(pid \<mapsto> doc\<lparr>sd_status := raw\<rparr>)\<rparr>))
              | _ \<Rightarrow> (Inl (TypeError ''not supported between instances''), st)))"

text \<open>The synthetic incoming documents; \<open>ids\<close> are the uuids drawn, in order.\<close>

definition stub_poll_incoming :: "(nat \<Rightarrow> uuid) \<Rightarrow> time \<Rightarrow> nat \<Rightarrow> incoming_data list" where
  "stub_poll_incoming ids now limit =
     map (\<lambda>i. \<lparr>in_provider_document_id = JStr (''STUB-IN-'' @ py_upper_hex (take 12 (uuid_hex (ids i)))),
               in_document_type = JStr ''INVOICE'', in_sender_inn = JStr ''7707083893'',
               in_sender_name = JStr (utf8 [1054, 1054, 1054, 32, 1056, 1086, 1084, 1072, 1096, 1082, 1072]),
               in_file_name = JStr (''invoice_'' @ show_nat (i + 1) @ ''.xml''),
               in_mime_type = JStr ''application/xml'', in_unified_status = ''DELIVERED'',
               in_metadata = JObj [(''stub'', JBool True), (''index'', JNum (int i))],
               in_received_at = now - int i * 5 * 60 * 1000000\<rparr>)
       [0..<min 3 limit]"

text \<open>\<open>hmac secret payload\<close> is the raw SHA-256 MAC; \<open>str.encode\<close> is the identity on the model's bytes.\<close>

definition text_bytes :: "string \<Rightarrow> bytes" where
  "text_bytes s = map (\<lambda>c. of_nat (code_point c)) s"

definition stub_validate_webhook ::
  "(bytes \<Rightarrow> bytes \<Rightarrow> bytes) \<Rightarrow> stub_provider \<Rightarrow> bytes \<Rightarrow> (string \<times> string) list \<Rightarrow> bool res"
where
  "stub_validate_webhook hmac p payload headers =
     (let sig_header = (case map_of headers ''x-stub-signature'' of None \<Rightarrow> '''' | Some v \<Rightarrow> v) in
      if sig_header = '''' then Inr True
      else (case sp_webhook_secret p of
              JStr secret \<Rightarrow> Inr (bytes_hex (hmac (text_bytes secret) payload) = sig_header)
            | _ \<Rightarrow> Inl (AttributeError ''encode'')))"

definition stub_parse_webhook :: "dict \<Rightarrow> webhook_parse_result" where
  "stub_parse_webhook payload =
     \<lparr>wp_external_event_id = map_of payload ''event_id'',
      wp_provider_document_id = map_of payload ''document_id'',
      wp_unified_status = map_of payload ''status'', wp_raw_payload = payload\<rparr>"

definition stub_health_check :: "time \<Rightarrow> time \<Rightarrow> bool \<times> int" where
  "stub_health_check start now = (True, (now - start) div 1000)"

section \<open>Properties\<close>

text \<open>The reported statuses in the order of a document's life.\<close>

fun stub_rank :: "string \<Rightarrow> nat" where
  "stub_rank s = (if s = ''SENT'' then 0 else if s = ''DELIVERED'' then 1 else 2)"

lemma stub_status_cases: "stub_status_at secs age \<in> {''SENT'', ''DELIVERED'', ''SIGNED''}"
  by (simp add: stub_status_at_def)

lemma stub_rank_mono:
  "0 \<le> secs \<Longrightarrow> a \<le> b \<Longrightarrow> stub_rank (stub_status_at secs a) \<le> stub_rank (stub_status_at secs b)"
  by (simp add: stub_status_at_def)

lemma stub_get_status_sent:
  assumes "stub_documents st pid = Some doc" and "stub_sent_at st pid = Some t0"
    and "sp_auto_sign_secs p = JNum secs"
  shows "\<exists>st'. stub_get_status p now pid st =
      (Inr \<lparr>st_provider_document_id = pid, st_unified_status = stub_status_at secs (now - t0),
            st_raw_status = JStr (stub_status_at secs (now - t0)),
            st_extra = [(''age_seconds'', JNum ((now - t0) div 1000000))]\<rparr>, st')
    \<and> stub_documents st' pid = Some (doc\<lparr>sd_status := stub_status_at secs (now - t0)\<rparr>)
    \<and> stub_sent_at st' = stub_sent_at st"
  using assms by (simp add: stub_get_status_def Let_def)

text \<open>A document sent through the stub moves forward only. Right after sending it is known under the
  returned id, and of two later status queries (with any numeric signing delay that is not negative)
  the second never reports an earlier stage of sent, delivered, signed than the first; what is
  reported is always one of these three, and an id never sent is reported as unknown.\<close>

theorem stub_status_monotone:
  assumes sent: "stub_send new_id t0 a st = (r, st1)" and pid: "sr_provider_document_id r = JStr pid"
    and secs: "sp_auto_sign_secs p = JNum secs" "0 \<le> secs" and le: "t1 \<le> t2"
    and q1: "stub_get_status p t1 pid st1 = (Inr r1, st2)"
    and q2: "stub_get_status p t2 pid st2 = (Inr r2, st3)"
  shows "stub_rank (st_unified_status r1) \<le> stub_rank (st_unified_status r2)
    \<and> st_unified_status r2 \<in> {''SENT'', ''DELIVERED'', ''SIGNED''}
    \<and> (stub_documents st1 other = None \<longrightarrow>
         (\<exists>r'. stub_get_status p t1 other st1 = (Inr r', st1) \<and> st_unified_status r' = ''UNKNOWN''))"
proof -
  from sent pid obtain doc where 1: "stub_documents st1 pid = Some doc" "stub_sent_at st1 pid = Some t0"
    by (auto simp: stub_send_def Let_def)
  from stub_get_status_sent [OF 1 secs(1), of t1] q1
  have r1: "st_unified_status r1 = stub_status_at secs (t1 - t0)"
    and 2: "stub_documents st2 pid = Some (doc\<lparr>sd_status := stub_status_at secs (t1 - t0)\<rparr>)"
      "stub_sent_at st2 pid = Some t0"
    using 1(2) by auto
  from stub_get_status_sent [OF 2 secs(1), of t2] q2
  have r2: "st_unified_status r2 = stub_status_at secs (t2 - t0)" by auto
  from secs(2) le have "stub_rank (stub_status_at secs (t1 - t0)) \<le> stub_rank (stub_status_at secs (t2 - t0))"
    by (intro stub_rank_mono) simp_all
  then show ?thesis using stub_status_cases by (simp add: r1 r2 stub_get_status_def)
qed

definition stub_empty :: stub_store where
  "stub_empty = \<lparr>stub_documents = Map.empty, stub_sent_at = Map.empty\<rparr>"

definition sample_args :: send_args where
  "sample_args = \<lparr>sa_sender_inn = ''7707083893'', sa_sender_kpp = None, sa_recipient_inn = ''7707083893'',
     sa_recipient_kpp = None, sa_document_type = ''INVOICE'', sa_title = ''T'', sa_file_name = ''f'',
     sa_mime_type = ''m'', sa_file_bytes = [], sa_metadata = []\<rparr>"

theorem stub_status_monotone_witness:
  "\<exists>r pid st1 r1 st2 r2 st3. stub_send 7 0 sample_args stub_empty = (r, st1) \<and> sr_provider_document_id r = JStr pid
    \<and> stub_get_status (stub_init []) 1000000 pid st1 = (Inr r1, st2)
    \<and> stub_get_status (stub_init []) 20000000 pid st2 = (Inr r2, st3)
    \<and> st_unified_status r1 = ''SENT'' \<and> st_unified_status r2 = ''DELIVERED''
    \<and> stub_rank (st_unified_status r1) \<le> stub_rank (st_unified_status r2)"
proof -
  obtain r st1 pid where s: "stub_send 7 0 sample_args stub_empty = (r, st1)"
    and pid: "sr_provider_document_id r = JStr pid" by (force simp: stub_send_def Let_def)
  have p: "sp_auto_sign_secs (stub_init []) = JNum 30" by (simp add: stub_init_def)
  from s pid obtain doc where 1: "stub_documents st1 pid = Some doc"
      "stub_sent_at st1 pid = Some 0"
    by (auto simp: stub_send_def Let_def)
  obtain r1 st2 where q1: "stub_get_status (stub_init []) 1000000 pid st1 = (Inr r1, st2)"
      "st_unified_status r1 = ''SENT''" "stub_sent_at st2 pid = Some 0"
      "stub_documents st2 pid \<noteq> None"
    using stub_get_status_sent [OF 1 p, of 1000000] 1(2) by (force simp: stub_status_at_def)
  then obtain r2 st3 where q2: "stub_get_status (stub_init []) 20000000 pid st2 = (Inr r2, st3)"
      "st_unified_status r2 = ''DELIVERED''"
    using stub_get_status_sent [OF _ q1(3) p, of _ 20000000] by (force simp: stub_status_at_def)
  from stub_status_monotone [OF s pid p _ _ q1(1) q2(1)] s pid q1 q2 show ?thesis by auto
qed

text \<open>The stub's webhook check accepts a signed payload exactly when the signature is the hexadecimal
  MAC under the account's secret, but it accepts every payload whose signature header is missing or
  empty.\<close>

theorem stub_webhook_check:
  assumes "sp_webhook_secret p = JStr secret"
  shows "stub_validate_webhook hmac p payload headers = Inr True \<longleftrightarrow>
    map_of headers ''x-stub-signature'' \<in> {None, Some ''''}
    \<or> map_of headers ''x-stub-signature'' = Some (bytes_hex (hmac (text_bytes secret) payload))"
  using assms by (auto simp: stub_validate_webhook_def Let_def split: option.splits)

theorem stub_webhook_check_witness:
  "stub_validate_webhook (\<lambda>k m. k) (stub_init []) [] [] = Inr True
   \<and> stub_validate_webhook (\<lambda>k m. k) (stub_init []) [] [(''x-stub-signature'', ''00'')] \<noteq> Inr True"
proof -
  have p: "sp_webhook_secret (stub_init []) = JStr ''stub-secret''" by (simp add: stub_init_def)
  have "bytes_hex (text_bytes ''stub-secret'') \<noteq> ''00''" by (simp add: text_bytes_def)
  with stub_webhook_check [OF p, of "\<lambda>k m. k" "[]" "[]"]
    stub_webhook_check [OF p, of "\<lambda>k m. k" "[]" "[(''x-stub-signature'', ''00'')]"]
  show ?thesis by auto
qed

end
