(* ===== verification/RemoteProviders.thy ===== *)
theory RemoteProviders
  imports StubProvider
begin

text \<open>
  The three remote adapters (\<open>src/infrastructure/providers/{diadoc,sbis,kontur_edo}\<close>) and the factory
  (\<open>provider_factory.py\<close>). An adapter is a record of what its constructor reads from the credentials
  plus the session token it caches. \<open>to_str\<close> is Python's \<open>str\<close> on a decoded JSON value.
\<close>

text \<open>\<open>raw.lower()\<close> on a decoded value, and \<open>_STATUS_MAP.get(raw, "UNKNOWN")\<close>, which hashes it.\<close>

fun json_lower :: "json \<Rightarrow> string res" where
  "json_lower (JStr s) = Inr (py_lower s)"
| "json_lower _ = Inl (AttributeError ''lower'')"

fun status_of_json :: "(string \<times> string) list \<Rightarrow> json \<Rightarrow> string res" where
  "status_of_json m (JStr s) = Inr (status_lookup m s)"
| "status_of_json m (JArr _) = Inl (TypeError ''unhashable type'')"
| "status_of_json m (JObj _) = Inl (TypeError ''unhashable type'')"
| "status_of_json m _ = Inr ''UNKNOWN''"

section \<open>Diadoc\<close>

record diadoc =
  dd_client_id :: json
  dd_login :: string
  dd_password :: string
  dd_box_id :: json
  dd_token :: string
  dd_token_expires :: time

definition diadoc_status_map :: "(string \<times> string) list" where
  "diadoc_status_map =
     [(''UnknownStatus'', ''UNKNOWN''), (''Sent'', ''SENT''), (''Delivered'', ''DELIVERED''),
      (''Received'', ''DELIVERED''), (''SignatureRequestSent'', ''DELIVERED''),
      (''WaitingForSenderSignature'', ''DELIVERING''),
      (''FinishedWithOneSignedDocument'', ''SIGNED''), (''Signed'', ''SIGNED''),
      (''SignedAndInvoiceConfirmationSent'', ''SIGNED''), (''InvalidSignature'', ''REJECTED''),
      (''Rejected'', ''REJECTED'')]"

definition diadoc_init :: "(json \<Rightarrow> string) \<Rightarrow> dict \<Rightarrow> diadoc res" where
  "diadoc_init to_str credentials =
     and_then (dict_item credentials ''client_id'') (\<lambda>client_id.
     and_then (dict_item credentials ''login'') (\<lambda>login.
     and_then (dict_item credentials ''password'') (\<lambda>password.
       Inr \<lparr>dd_client_id = client_id, dd_login = to_str login, dd_password = to_str password,
            dd_box_id = (case map_of credentials ''box_id'' of None \<Rightarrow> JStr '''' | Some v \<Rightarrow> v),
            dd_token = '''', dd_token_expires = 0\<rparr>)))"

definition diadoc_handle_errors :: "response \<Rightarrow> string \<Rightarrow> unit res" where
  "diadoc_handle_errors r context =
     status_error ''DIADOC''
       (''Diadoc server error ['' @ show_nat (rsp_status r) @ ''] on '' @ context)
       (''Diadoc client error ['' @ show_nat (rsp_status r) @ ''] on '' @ context @ '': '' @ rsp_text r) r"

definition diadoc_auth_request :: "diadoc \<Rightarrow> http_request" where
  "diadoc_auth_request p =
     \<lparr>rq_method = ''POST'', rq_path = ''/V2/Authenticate'', rq_params = [(''type'', ''password'')],
      rq_headers = [(''Content-Type'', ''application/octet-stream'')],
      rq_body = JStr (dd_login p @ '':'' @ dd_password p)\<rparr>"

text \<open>The cached token is used while it is non-empty and has not expired; \<open>now\<close>, \<open>now'\<close> are the reads of
  the clock before and after the authentication request.\<close>

definition diadoc_ensure_token :: "http \<Rightarrow> time \<Rightarrow> time \<Rightarrow> diadoc \<Rightarrow> (string \<times> diadoc) res" where
  "diadoc_ensure_token http now now' p =
     (if dd_token p \<noteq> '''' \<and> now < dd_token_expires p then Inr (dd_token p, p)
      else and_then (http (diadoc_auth_request p)) (\<lambda>r.
           and_then (diadoc_handle_errors r ''auth'') (\<lambda>_.
             Inr (rsp_text r, p\<lparr>dd_token := rsp_text r, dd_token_expires := now' + 3600 * 1000000\<rparr>))))"

definition diadoc_auth_header :: "(json \<Rightarrow> string) \<Rightarrow> diadoc \<Rightarrow> string \<Rightarrow> (string \<times> string) list" where
  "diadoc_auth_header to_str p token =
     [(''Authorization'', ''DiadocAuth ddauth_api_client_id='' @ to_str (dd_client_id p)
         @ '',ddauth_token='' @ token)]"

definition diadoc_send ::
  "(json \<Rightarrow> string) \<Rightarrow> http \<Rightarrow> time \<Rightarrow> time \<Rightarrow> send_args \<Rightarrow> diadoc \<Rightarrow> (send_result \<times> diadoc) res"
where
  "diadoc_send to_str http now now' a p =
     and_then (diadoc_ensure_token http now now' p) (\<lambda>(token, p').
     and_then (http
       \<lparr>rq_method = ''POST'', rq_path = ''/V3/PostMessage'', rq_params = [],
        rq_headers = diadoc_auth_header to_str p' token,
        rq_body = JObj
          [(''FromBoxId'', dd_box_id p'), (''ToBoxId'', JStr (sa_recipient_inn a)),
           (''DocumentAttachments'', JArr [JObj
             [(''TypeNamedId'', JStr (py_lower (sa_document_type a))),
              (''FileName'', JStr (sa_file_name a)),
              (''SignedContent'', JObj [(''Content'', JStr (bytes_hex (sa_file_bytes a)))])]])]\<rparr>) (\<lambda>r.
     and_then (diadoc_handle_errors r ''send'') (\<lambda>_.
     and_then (rsp_json r) (\<lambda>data.
     and_then (json_get data ''MessageId'' (JStr '''')) (\<lambda>doc_id.
       Inr (\<lparr>sr_provider_document_id = doc_id, sr_raw_status = ''Sent''\<rparr>, p'))))))"

definition diadoc_get_status ::
  "(json \<Rightarrow> string) \<Rightarrow> http \<Rightarrow> time \<Rightarrow> time \<Rightarrow> string \<Rightarrow> diadoc \<Rightarrow> (status_result \<times> diadoc) res"
where
  "diadoc_get_status to_str http now now' pid p =
     and_then (diadoc_ensure_token http now now' p) (\<lambda>(token, p').
     and_then (http
       \<lparr>rq_method = ''GET'', rq_path = ''/V3/GetMessage'',
        rq_params = [(''boxId'', to_str (dd_box_id p')), (''messageId'', pid)],
        rq_headers = diadoc_auth_header to_str p' token, rq_body = JNull\<rparr>) (\<lambda>r.
     and_then (diadoc_handle_errors r ''status'') (\<lambda>_.
     and_then (rsp_json r) (\<lambda>data.
     and_then (json_get data ''MessageType'' (JStr ''UnknownStatus'')) (\<lambda>raw.
     and_then (status_of_json diadoc_status_map raw) (\<lambda>unified.
       Inr (\<lparr>st_provider_document_id = pid, st_unified_status = unified, st_raw_status = raw,
             st_extra = (case data of JObj kvs \<Rightarrow> kvs | _ \<Rightarrow> [])\<rparr>, p')))))))"

definition diadoc_poll_incoming :: "time option \<Rightarrow> nat \<Rightarrow> incoming_data list" where
  "diadoc_poll_incoming since limit = []"

definition diadoc_validate_webhook :: "bytes \<Rightarrow> (string \<times> string) list \<Rightarrow> bool" where
  "diadoc_validate_webhook payload headers =
     (let sig = (case map_of headers ''x-kontur-signature'' of None \<Rightarrow> '''' | Some v \<Rightarrow> v) in
      if sig = '''' then True else True)"

definition diadoc_parse_webhook :: "(json \<Rightarrow> string) \<Rightarrow> dict \<Rightarrow> webhook_parse_result" where
  "diadoc_parse_webhook to_str payload =
     \<lparr>wp_external_event_id = map_of payload ''MessageId'',
      wp_provider_document_id = map_of payload ''MessageId'',
      wp_unified_status = Some (JStr (status_lookup diadoc_status_map
        (to_str (case map_of payload ''MessageType'' of None \<Rightarrow> JStr '''' | Some v \<Rightarrow> v)))),
      wp_raw_payload = payload\<rparr>"

definition diadoc_health_check :: "http \<Rightarrow> time \<Rightarrow> time \<Rightarrow> bool \<times> int" where
  "diadoc_health_check http t0 t1 =
     http_health http
       \<lparr>rq_method = ''GET'', rq_path = ''/V2/GetOrganizationsByInnKpp'',
        rq_params = [(''inn'', ''0000000000'')], rq_headers = [], rq_body = JNull\<rparr> t0 t1"

section \<open>SBIS\<close>

record sbis =
  sb_login :: json
  sb_password :: json
  sb_reg_id :: json
  sb_sid :: string

text \<open>The Cyrillic texts of the protocol.\<close>

definition k_auth :: string where \<comment> \<open>SBIS.Autentifitsirovat\<close>
  "k_auth = utf8 [1057, 1041, 1048, 1057, 46, 1040, 1091, 1090, 1077, 1085, 1090, 1080, 1092, 1080, 1094, 1080, 1088, 1086, 1074, 1072, 1090, 1100]"
definition k_write :: string where \<comment> \<open>SBIS.ZapisatDokument\<close>
  "k_write = utf8 [1057, 1041, 1048, 1057, 46, 1047, 1072, 1087, 1080, 1089, 1072, 1090, 1100, 1044, 1086, 1082, 1091, 1084, 1077, 1085, 1090]"
definition k_read :: string where \<comment> \<open>SBIS.ProchitatDokument\<close>
  "k_read = utf8 [1057, 1041, 1048, 1057, 46, 1055, 1088, 1086, 1095, 1080, 1090, 1072, 1090, 1100, 1044, 1086, 1082, 1091, 1084, 1077, 1085, 1090]"
definition k_params :: string where \<comment> \<open>Parametry\<close>
  "k_params = utf8 [1055, 1072, 1088, 1072, 1084, 1077, 1090, 1088, 1099]"
definition k_login :: string where \<comment> \<open>Login\<close>
  "k_login = utf8 [1051, 1086, 1075, 1080, 1085]"
definition k_password :: string where \<comment> \<open>Parol\<close>
  "k_password = utf8 [1055, 1072, 1088, 1086, 1083, 1100]"
definition k_document :: string where \<comment> \<open>Dokument\<close>
  "k_document = utf8 [1044, 1086, 1082, 1091, 1084, 1077, 1085, 1090]"
definition k_our_org :: string where \<comment> \<open>NashOrg\<close>
  "k_our_org = utf8 [1053, 1072, 1096, 1054, 1088, 1075]"
definition k_reg :: string where \<comment> \<open>RegNomer\<close>
  "k_reg = utf8 [1056, 1077, 1075, 1053, 1086, 1084, 1077, 1088]"
definition k_type :: string where \<comment> \<open>Tip\<close>
  "k_type = utf8 [1058, 1080, 1087]"
definition k_title :: string where \<comment> \<open>Nazvanie\<close>
  "k_title = utf8 [1053, 1072, 1079, 1074, 1072, 1085, 1080, 1077]"
definition k_file :: string where \<comment> \<open>IdFayla\<close>
  "k_file = utf8 [1048, 1076, 1060, 1072, 1081, 1083, 1072]"
definition k_id :: string where \<comment> \<open>Id\<close>
  "k_id = utf8 [1048, 1076]"
definition k_id_document :: string where \<comment> \<open>IdDokument\<close>
  "k_id_document = utf8 [1048, 1076, 1044, 1086, 1082, 1091, 1084, 1077, 1085, 1090]"
definition k_state :: string where \<comment> \<open>Sostoyanie\<close>
  "k_state = utf8 [1057, 1086, 1089, 1090, 1086, 1103, 1085, 1080, 1077]"
definition s_sent :: string where \<comment> \<open>Otpravlen\<close>
  "s_sent = utf8 [1054, 1090, 1087, 1088, 1072, 1074, 1083, 1077, 1085]"
definition s_read :: string where \<comment> \<open>Prochitan\<close>
  "s_read = utf8 [1055, 1088, 1086, 1095, 1080, 1090, 1072, 1085]"
definition s_signed :: string where \<comment> \<open>Podpisan\<close>
  "s_signed = utf8 [1055, 1086, 1076, 1087, 1080, 1089, 1072, 1085]"
definition s_declined :: string where \<comment> \<open>Otklonyon\<close>
  "s_declined = utf8 [1054, 1090, 1082, 1083, 1086, 1085, 1105, 1085]"
definition s_revoked :: string where \<comment> \<open>Otozvan\<close>
  "s_revoked = utf8 [1054, 1090, 1086, 1079, 1074, 1072, 1085]"

definition sbis_status_map :: "(string \<times> string) list" where
  "sbis_status_map =
     [(s_sent, ''SENT''), (s_read, ''DELIVERED''), (s_signed, ''SIGNED''),
      (s_declined, ''REJECTED''), (s_revoked, ''CANCELLED'')]"

definition sbis_init :: "dict \<Rightarrow> sbis res" where
  "sbis_init credentials =
     and_then (dict_item credentials ''login'') (\<lambda>login.
     and_then (dict_item credentials ''password'') (\<lambda>password.
       Inr \<lparr>sb_login = login, sb_password = password,
            sb_reg_id = (case map_of credentials ''reg_id'' of None \<Rightarrow> JStr '''' | Some v \<Rightarrow> v),
            sb_sid = ''''\<rparr>))"

text \<open>After the status codes, an answer whose JSON body carries an \<open>error\<close> key is a permanent error.
  Membership in a decoded text is a substring test, in a list an element test; a number or a true
  boolean cannot be searched.\<close>

fun has_error :: "json \<Rightarrow> bool res" where
  "has_error (JObj kvs) = Inr (map_of kvs ''error'' \<noteq> None)"
| "has_error (JArr xs) = Inr (JStr ''error'' \<in> set xs)"
| "has_error (JStr s) = Inr (list_ex (\<lambda>i. starts_with (drop i s) ''error'') [0..<Suc (length s)])"
| "has_error _ = Inl (TypeError ''argument is not iterable'')"

definition sbis_handle_errors :: "(json \<Rightarrow> string) \<Rightarrow> response \<Rightarrow> string \<Rightarrow> unit res" where
  "sbis_handle_errors to_str r context =
     and_then (status_error ''SBIS''
       (''SBIS error ['' @ show_nat (rsp_status r) @ ''] on '' @ context)
       (''SBIS client error ['' @ show_nat (rsp_status r) @ '']: '' @ rsp_text r) r) (\<lambda>_.
     and_then (rsp_json r) (\<lambda>data.
       if json_truthy data then
         and_then (has_error data) (\<lambda>b.
           if b then and_then (json_item data ''error'') (\<lambda>v.
             Inl (Domain (ProviderPermanentError (to_str v) ''SBIS'')))
           else Inr ())
       else Inr ()))"

definition sbis_call :: "nat \<Rightarrow> string \<Rightarrow> json \<Rightarrow> json" where
  "sbis_call n method params =
     JObj [(''jsonrpc'', JStr ''2.0''), (''method'', JStr method), (''params'', params),
           (''id'', JNum (int n))]"

definition sbis_auth_request :: "sbis \<Rightarrow> http_request" where
  "sbis_auth_request p =
     \<lparr>rq_method = ''POST'', rq_path = ''/auth/service/'', rq_params = [], rq_headers = [],
      rq_body = sbis_call 1 k_auth
        (JObj [(k_params, JObj [(k_login, sb_login p), (k_password, sb_password p)])])\<rparr>"

definition sbis_ensure_session :: "(json \<Rightarrow> string) \<Rightarrow> http \<Rightarrow> sbis \<Rightarrow> (string \<times> sbis) res" where
  "sbis_ensure_session to_str http p =
     (if sb_sid p \<noteq> '''' then Inr (sb_sid p, p)
      else and_then (http (sbis_auth_request p)) (\<lambda>r.
           and_then (sbis_handle_errors to_str r ''auth'') (\<lambda>_.
           and_then (rsp_json r) (\<lambda>data.
           and_then (json_item data ''result'') (\<lambda>v.
           and_then (json_text v) (\<lambda>sid. Inr (sid, p\<lparr>sb_sid := sid\<rparr>)))))))"

definition sbis_service :: "string \<Rightarrow> json \<Rightarrow> http_request" where
  "sbis_service sid body =
     \<lparr>rq_method = ''POST'', rq_path = ''/service/'', rq_params = [],
      rq_headers = [(''X-SBISSessionID'', sid)], rq_body = body\<rparr>"

text \<open>\<open>str(response.json().get("result", {}).get(key, ""))\<close>.\<close>

definition sbis_result_text :: "(json \<Rightarrow> string) \<Rightarrow> response \<Rightarrow> string \<Rightarrow> string res" where
  "sbis_result_text to_str r key =
     and_then (rsp_json r) (\<lambda>data.
     and_then (json_get data ''result'' (JObj [])) (\<lambda>result.
     and_then (json_get result key (JStr '''')) (\<lambda>v. Inr (to_str v))))"

definition sbis_send ::
  "(json \<Rightarrow> string) \<Rightarrow> http \<Rightarrow> send_args \<Rightarrow> sbis \<Rightarrow> (send_result \<times> sbis) res"
where
  "sbis_send to_str http a p =
     and_then (sbis_ensure_session to_str http p) (\<lambda>(sid, p').
     and_then (http (sbis_service sid (sbis_call 2 k_write
       (JObj [(k_document, JObj
          [(k_our_org, JObj [(k_reg, sb_reg_id p')]), (k_type, JStr (sa_document_type a)),
           (k_title, JStr (sa_title a)), (k_file, JStr (sa_file_name a))])])))) (\<lambda>r.
     and_then (sbis_handle_errors to_str r ''send'') (\<lambda>_.
     and_then (sbis_result_text to_str r k_id) (\<lambda>doc_id.
       Inr (\<lparr>sr_provider_document_id = JStr doc_id, sr_raw_status = s_sent\<rparr>, p')))))"

definition sbis_get_status ::
  "(json \<Rightarrow> string) \<Rightarrow> http \<Rightarrow> string \<Rightarrow> sbis \<Rightarrow> (status_result \<times> sbis) res"
where
  "sbis_get_status to_str http pid p =
     and_then (sbis_ensure_session to_str http p) (\<lambda>(sid, p').
     and_then (http (sbis_service sid (sbis_call 3 k_read
       (JObj [(k_document, JObj [(k_id, JStr pid)])])))) (\<lambda>r.
     and_then (sbis_handle_errors to_str r ''status'') (\<lambda>_.
     and_then (sbis_result_text to_str r k_state) (\<lambda>raw.
       Inr (\<lparr>st_provider_document_id = pid,
             st_unified_status = status_lookup sbis_status_map raw,
             st_raw_status = JStr raw, st_extra = []\<rparr>, p')))))"

definition sbis_poll_incoming :: "time option \<Rightarrow> nat \<Rightarrow> incoming_data list" where
  "sbis_poll_incoming since limit = []"

definition sbis_validate_webhook :: "bytes \<Rightarrow> (string \<times> string) list \<Rightarrow> bool" where
  "sbis_validate_webhook payload headers = True"

definition sbis_parse_webhook :: "(json \<Rightarrow> string) \<Rightarrow> dict \<Rightarrow> webhook_parse_result" where
  "sbis_parse_webhook to_str payload =
     \<lparr>wp_external_event_id = map_of payload k_id,
      wp_provider_document_id = map_of payload k_id_document,
      wp_unified_status = Some (JStr (status_lookup sbis_status_map
        (to_str (case map_of payload k_state of None \<Rightarrow> JStr '''' | Some v \<Rightarrow> v)))),
      wp_raw_payload = payload\<rparr>"

definition sbis_health_check :: "http \<Rightarrow> time \<Rightarrow> time \<Rightarrow> bool \<times> int" where
  "sbis_health_check http t0 t1 =
     http_health http
       \<lparr>rq_method = ''GET'', rq_path = ''/'', rq_params = [], rq_headers = [], rq_body = JNull\<rparr> t0 t1"

section \<open>Kontur EDO\<close>

record kontur =
  ko_api_key :: json
  ko_box_id :: json

definition kontur_status_map :: "(string \<times> string) list" where
  "kontur_status_map =
     [(''sent'', ''SENT''), (''delivered'', ''DELIVERED''), (''signed'', ''SIGNED''),
      (''rejected'', ''REJECTED''), (''cancelled'', ''CANCELLED'')]"

definition kontur_init :: "dict \<Rightarrow> kontur res" where
  "kontur_init credentials =
     and_then (dict_item credentials ''api_key'') (\<lambda>api_key.
     and_then (dict_item credentials ''box_id'') (\<lambda>box_id.
       Inr \<lparr>ko_api_key = api_key, ko_box_id = box_id\<rparr>))"

definition kontur_handle_errors :: "response \<Rightarrow> string \<Rightarrow> unit res" where
  "kontur_handle_errors r context =
     status_error ''KONTUR_EDO''
       (''Kontur EDO error ['' @ show_nat (rsp_status r) @ ''] on '' @ context)
       (''Kontur EDO client error ['' @ show_nat (rsp_status r) @ '']: '' @ rsp_text r) r"

definition opt_json :: "string option \<Rightarrow> json" where
  "opt_json s = (case s of None \<Rightarrow> JNull | Some t \<Rightarrow> JStr t)"

definition kontur_send :: "(json \<Rightarrow> string) \<Rightarrow> http \<Rightarrow> send_args \<Rightarrow> kontur \<Rightarrow> send_result res" where
  "kontur_send to_str http a p =
     and_then (http
       \<lparr>rq_method = ''POST'', rq_path = ''/v1/documents'', rq_params = [],
        rq_headers = [(''Authorization'', ''Bearer '' @ to_str (ko_api_key p))],
        rq_body = JObj
          [(''boxId'', ko_box_id p), (''recipientInn'', JStr (sa_recipient_inn a)),
           (''recipientKpp'', opt_json (sa_recipient_kpp a)),
           (''documentType'', JStr (sa_document_type a)), (''title'', JStr (sa_title a)),
           (''fileName'', JStr (sa_file_name a))]\<rparr>) (\<lambda>r.
     and_then (kontur_handle_errors r ''send'') (\<lambda>_.
     and_then (rsp_json r) (\<lambda>data.
     and_then (json_get data ''documentId'' (JStr '''')) (\<lambda>doc_id.
       Inr \<lparr>sr_provider_document_id = doc_id, sr_raw_status = ''sent''\<rparr>))))"

definition kontur_get_status :: "(json \<Rightarrow> string) \<Rightarrow> http \<Rightarrow> string \<Rightarrow> kontur \<Rightarrow> status_result res" where
  "kontur_get_status to_str http pid p =
     and_then (http
       \<lparr>rq_method = ''GET'', rq_path = ''/v1/documents/'' @ pid, rq_params = [],
        rq_headers = [(''Authorization'', ''Bearer '' @ to_str (ko_api_key p))], rq_body = JNull\<rparr>) (\<lambda>r.
     and_then (kontur_handle_errors r ''status'') (\<lambda>_.
     and_then (rsp_json r) (\<lambda>data.
     and_then (json_get data ''status'' (JStr '''')) (\<lambda>v.
     and_then (json_lower v) (\<lambda>raw.
       Inr \<lparr>st_provider_document_id = pid,
            st_unified_status = status_lookup kontur_status_map raw,
            st_raw_status = v, st_extra = []\<rparr>)))))"

text \<open>One incoming item; \<open>parse_time\<close> is \<open>datetime.fromisoformat\<close> on a text. Fields are evaluated in the
  order of the constructor call, so the first one to raise decides the exception.\<close>

definition kontur_item :: "(string \<Rightarrow> time res) \<Rightarrow> json \<Rightarrow> incoming_data res" where
  "kontur_item parse_time item =
     and_then (json_item item ''documentId'') (\<lambda>pid.
     and_then (json_get item ''documentType'' (JStr ''UNKNOWN'')) (\<lambda>dtype.
     and_then (json_get item ''senderInn'' (JStr '''')) (\<lambda>inn.
     and_then (json_get item ''senderName'' JNull) (\<lambda>name.
     and_then (json_get item ''fileName'' (JStr '''')) (\<lambda>fname.
     and_then (json_get item ''mimeType'' (JStr ''application/octet-stream'')) (\<lambda>mime.
     and_then (json_get item ''status'' (JStr '''')) (\<lambda>st.
     and_then (json_lower st) (\<lambda>raw.
     and_then (json_get item ''metadata'' (JObj [])) (\<lambda>meta.
     and_then (and_then (json_item item ''receivedAt'') json_text) (\<lambda>ts.
     and_then (parse_time ts) (\<lambda>received.
       Inr \<lparr>in_provider_document_id = pid, in_document_type = dtype, in_sender_inn = inn,
            in_sender_name = name, in_file_name = fname, in_mime_type = mime,
            in_unified_status = status_lookup kontur_status_map raw,
            in_metadata = meta, in_received_at = received\<rparr>)))))))))))"

definition kontur_poll_incoming ::
  "(json \<Rightarrow> string) \<Rightarrow> (time \<Rightarrow> string) \<Rightarrow> (string \<Rightarrow> time res) \<Rightarrow> http \<Rightarrow> time option \<Rightarrow> nat
   \<Rightarrow> kontur \<Rightarrow> incoming_data list res"
where
  "kontur_poll_incoming to_str isoformat parse_time http since limit p =
     and_then (http
       \<lparr>rq_method = ''GET'', rq_path = ''/v1/incoming'',
        rq_params = [(''boxId'', to_str (ko_box_id p)), (''limit'', show_nat limit)]
          @ (case since of None \<Rightarrow> [] | Some t \<Rightarrow> [(''since'', isoformat t)]),
        rq_headers = [(''Authorization'', ''Bearer '' @ to_str (ko_api_key p))], rq_body = JNull\<rparr>) (\<lambda>r.
     and_then (kontur_handle_errors r ''poll'') (\<lambda>_.
     and_then (rsp_json r) (\<lambda>data.
     and_then (json_get data ''items'' (JArr [])) (\<lambda>v.
     and_then (json_iter v) (\<lambda>items. load_all (kontur_item parse_time) items)))))"

definition kontur_validate_webhook :: "bytes \<Rightarrow> (string \<times> string) list \<Rightarrow> bool" where
  "kontur_validate_webhook payload headers = True"

definition kontur_parse_webhook :: "(json \<Rightarrow> string) \<Rightarrow> dict \<Rightarrow> webhook_parse_result" where
  "kontur_parse_webhook to_str payload =
     \<lparr>wp_external_event_id = map_of payload ''eventId'',
      wp_provider_document_id = map_of payload ''documentId'',
      wp_unified_status = Some (JStr (status_lookup kontur_status_map
        (py_lower (to_str (case map_of payload ''status'' of None \<Rightarrow> JStr '''' | Some v \<Rightarrow> v))))),
      wp_raw_payload = payload\<rparr>"

definition kontur_health_check :: "(json \<Rightarrow> string) \<Rightarrow> http \<Rightarrow> time \<Rightarrow> time \<Rightarrow> kontur \<Rightarrow> bool \<times> int" where
  "kontur_health_check to_str http t0 t1 p =
     http_health http
       \<lparr>rq_method = ''GET'', rq_path = ''/v1/ping'', rq_params = [],
        rq_headers = [(''Authorization'', ''Bearer '' @ to_str (ko_api_key p))], rq_body = JNull\<rparr> t0 t1"

section \<open>The factory\<close>

datatype provider =
    P_stub stub_provider | P_diadoc diadoc | P_sbis sbis | P_kontur kontur

fun create_provider :: "(json \<Rightarrow> string) \<Rightarrow> provider_type \<Rightarrow> dict \<Rightarrow> provider res" where
  "create_provider to_str STUB credentials = Inr (P_stub (stub_init credentials))"
| "create_provider to_str DIADOC credentials =
     and_then (diadoc_init to_str credentials) (\<lambda>p. Inr (P_diadoc p))"
| "create_provider to_str SBIS credentials = and_then (sbis_init credentials) (\<lambda>p. Inr (P_sbis p))"
| "create_provider to_str KONTUR_EDO credentials = and_then (kontur_init credentials) (\<lambda>p. Inr (P_kontur p))"

text \<open>What the caller sees of the outside world: the HTTP exchanges and the stub's drawn uuid.\<close>

record provider_env =
  pe_to_str :: "json \<Rightarrow> string"
  pe_http :: http
  pe_new_id :: uuid
  pe_now :: time
  pe_now' :: time

text \<open>The dispatch of \<open>provider.send_document(...)\<close>.\<close>

fun provider_send :: "provider_env \<Rightarrow> send_args \<Rightarrow> provider \<Rightarrow> stub_store \<Rightarrow> send_result res \<times> stub_store" where
  "provider_send env a (P_stub p) st =
     (let (r, st') = stub_send (pe_new_id env) (pe_now env) a st in (Inr r, st'))"
| "provider_send env a (P_diadoc p) st =
     (and_then (diadoc_send (pe_to_str env) (pe_http env) (pe_now env) (pe_now' env) a p) (\<lambda>(r, p'). Inr r), st)"
| "provider_send env a (P_sbis p) st =
     (and_then (sbis_send (pe_to_str env) (pe_http env) a p) (\<lambda>(r, p'). Inr r), st)"
| "provider_send env a (P_kontur p) st = (kontur_send (pe_to_str env) (pe_http env) a p, st)"

end
