(* ===== verification/ProviderProps.thy ===== *)
theory ProviderProps
  imports RemoteProviders
begin

text \<open>
  Properties of the remote adapters: their status maps keep the contract \<open>status_normalizer\<close> (Diadoc's
  misses it at one entry), their error classification, the construction from credentials, and the
  reuse of Diadoc's token.
\<close>

section \<open>Status maps\<close>

interpretation sbis_map: status_normalizer "status_lookup sbis_status_map"
proof
  fix raw
  show "\<exists>u. status_lookup sbis_status_map raw = status_value u"
    by (rule status_lookup_in_enum [OF values_in_enum])
      (simp add: sbis_status_map_def parse_status_def enum_unified_status_def)
qed

interpretation kontur_map: status_normalizer "\<lambda>raw. status_lookup kontur_status_map (py_lower raw)"
proof
  fix raw
  show "\<exists>u. status_lookup kontur_status_map (py_lower raw) = status_value u"
    by (rule status_lookup_in_enum [OF values_in_enum])
      (simp add: kontur_status_map_def parse_status_def enum_unified_status_def)
qed

lemma delivering_not_status: "parse_status ''DELIVERING'' = None"
  by (simp add: parse_status_def enum_unified_status_def)

lemma diadoc_map_parses:
  "parse_status (status_lookup diadoc_status_map raw) = None \<longleftrightarrow> raw = ''WaitingForSenderSignature''"
proof -
  let ?bad = "''WaitingForSenderSignature''"
  let ?good = "filter (\<lambda>p. fst p \<noteq> ?bad) diadoc_status_map"
  have "raw \<noteq> ?bad \<Longrightarrow> status_lookup diadoc_status_map raw = status_lookup ?good raw"
    by (simp add: status_lookup_def diadoc_status_map_def)
  moreover have "\<exists>u. status_lookup ?good raw = status_value u"
    by (rule status_lookup_in_enum [OF values_in_enum])
      (simp add: diadoc_status_map_def parse_status_def enum_unified_status_def)
  moreover have "status_lookup diadoc_status_map ?bad = ''DELIVERING''"
    by (simp add: status_lookup_def diadoc_status_map_def)
  ultimately show ?thesis
    by (metis delivering_not_status option.distinct(1) parse_status_value)
qed

text \<open>The adapters' status maps land in the unified enumeration for whatever text the service reports,
  so that a delivery's status can be parsed: SBIS and Kontur always do, Diadoc for every raw status but
  \<open>WaitingForSenderSignature\<close>, which it maps to a value that is not a member.\<close>

theorem status_maps_in_enum:
  "parse_status (status_lookup sbis_status_map raw) \<noteq> None
   \<and> parse_status (status_lookup kontur_status_map (py_lower raw)) \<noteq> None
   \<and> (parse_status (status_lookup diadoc_status_map raw) = None
        \<longleftrightarrow> raw = ''WaitingForSenderSignature'')"
  using sbis_map.parses [of raw] kontur_map.parses [of raw] diadoc_map_parses [of raw] by auto

section \<open>Error classification\<close>

definition raises_class :: "'a res \<Rightarrow> exc_class \<Rightarrow> bool" where
  "raises_class r c \<longleftrightarrow> (\<exists>e. r = Inl (Domain e) \<and> is_instance e c)"

lemma raises_simps [simp]:
  "raises_class (Inl (Domain e)) c \<longleftrightarrow> is_instance e c" "\<not> raises_class (Inr x) c"
  by (simp_all add: raises_class_def)

lemma status_error_raises:
  "raises_class (status_error p s c r) C_ProviderTransient \<longleftrightarrow> rsp_status r = 429 \<or> 500 \<le> rsp_status r"
  "raises_class (status_error p s c r) C_ProviderPermanent
     \<longleftrightarrow> 400 \<le> rsp_status r \<and> rsp_status r < 500 \<and> rsp_status r \<noteq> 429"
  by (simp_all add: raises_class_def status_error_transient status_error_permanent)

lemma sbis_handle_cases:
  "sbis_handle_errors to_str r ctx =
     (if rsp_status r < 400 then
        and_then (rsp_json r) (\<lambda>data.
          if json_truthy data then
            and_then (has_error data) (\<lambda>b.
              if b then and_then (json_item data ''error'') (\<lambda>v.
                Inl (Domain (ProviderPermanentError (to_str v) ''SBIS'')))
              else Inr ())
          else Inr ())
      else status_error ''SBIS''
       (''SBIS error ['' @ show_nat (rsp_status r) @ ''] on '' @ ctx)
       (''SBIS client error ['' @ show_nat (rsp_status r) @ '']: '' @ rsp_text r) r)"
  by (auto simp: sbis_handle_errors_def status_error_def)

text \<open>What classifying an answer means; \<open>failed\<close> is a failure reported inside a successful answer.\<close>

definition classifies :: "unit res \<Rightarrow> nat \<Rightarrow> bool \<Rightarrow> bool" where
  "classifies result status failed \<longleftrightarrow>
     (raises_class result C_ProviderTransient \<longleftrightarrow> status = 429 \<or> 500 \<le> status)
     \<and> (raises_class result C_ProviderPermanent \<longleftrightarrow>
          400 \<le> status \<and> status < 500 \<and> status \<noteq> 429 \<or> status < 400 \<and> failed)
     \<and> (result = Inr () \<longleftrightarrow> status < 400 \<and> \<not> failed)"

lemma status_error_classifies: "classifies (status_error p s c r) (rsp_status r) False"
  by (simp add: classifies_def status_error_raises status_error_Inr)

lemma classifies_client_side: "400 \<le> n \<Longrightarrow> classifies res n failed = classifies res n False"
  by (simp add: classifies_def)

lemma sbis_classifies:
  assumes "rsp_json r = Inr (JObj kvs)"
  shows "classifies (sbis_handle_errors to_str r ctx) (rsp_status r) (map_of kvs ''error'' \<noteq> None)"
proof (cases "rsp_status r < 400")
  case True
  with assms have "sbis_handle_errors to_str r ctx =
      (case map_of kvs ''error'' of None \<Rightarrow> Inr ()
       | Some v \<Rightarrow> Inl (Domain (ProviderPermanentError (to_str v) ''SBIS'')))"
    by (auto simp: sbis_handle_cases dict_item_def split: option.splits)
  moreover have "\<not> is_instance (ProviderPermanentError m q) C_ProviderTransient"
    "is_instance (ProviderPermanentError m q) C_ProviderPermanent" for m q
    by (simp_all add: is_instance_def)
  ultimately show ?thesis using True by (auto simp: classifies_def split: option.splits)
next
  case False
  then show ?thesis
    using status_error_classifies by (simp add: sbis_handle_cases classifies_client_side)
qed

text \<open>C38: All three adapters classify an answer alike. A rate limit (429) or a server error (500 and above)
  raises a transient error, any other client error a permanent one; below 400 Diadoc and Kontur raise
  nothing, and SBIS, whose protocol reports failures inside successful answers, raises a permanent error
  exactly when the decoded object has an \<open>error\<close> key.\<close>

theorem provider_error_classification:
  assumes "rsp_json r = Inr (JObj kvs)"
  shows "classifies (diadoc_handle_errors r ctx) (rsp_status r) False
    \<and> classifies (kontur_handle_errors r ctx) (rsp_status r) False
    \<and> classifies (sbis_handle_errors to_str r ctx) (rsp_status r) (map_of kvs ''error'' \<noteq> None)"
  using sbis_classifies [OF assms]
  by (simp add: diadoc_handle_errors_def kontur_handle_errors_def status_error_classifies)

definition sample_response :: "nat \<Rightarrow> dict \<Rightarrow> response" where
  "sample_response status kvs = \<lparr>rsp_status = status, rsp_text = '''', rsp_json = Inr (JObj kvs)\<rparr>"

theorem provider_error_classification_witness:
  "raises_class (sbis_handle_errors (\<lambda>_. ''E'') (sample_response 200 [(''error'', JNull)]) ''send'') C_ProviderPermanent
   \<and> raises_class (kontur_handle_errors (sample_response 429 []) ''send'') C_ProviderTransient"
  using provider_error_classification [of "sample_response 200 [(''error'', JNull)]" _ "''send''" "\<lambda>_. ''E''"]
    provider_error_classification [of "sample_response 429 []" _ "''send''" "\<lambda>_. ''E''"]
  by (simp add: sample_response_def classifies_def)

section \<open>Credentials\<close>

definition required_keys :: "provider_type \<Rightarrow> string list" where
  "required_keys t =
     (case t of STUB \<Rightarrow> [] | DIADOC \<Rightarrow> [''client_id'', ''login'', ''password'']
      | SBIS \<Rightarrow> [''login'', ''password''] | KONTUR_EDO \<Rightarrow> [''api_key'', ''box_id''])"

lemma find_missing_Cons:
  "find (\<lambda>k. map_of creds k = None) (k # ks) =
     (case map_of creds k of None \<Rightarrow> Some k | Some v \<Rightarrow> find (\<lambda>k. map_of creds k = None) ks)"
  by (simp split: option.split)

text \<open>The factory builds an adapter exactly when the credentials hold every key the provider's
  constructor reads; otherwise it raises \<open>KeyError\<close> on the first one missing, whatever else they hold.
  The stub needs none.\<close>

theorem factory_needs_credentials:
  "case find (\<lambda>k. map_of creds k = None) (required_keys t) of
     None \<Rightarrow> (\<exists>p. create_provider to_str t creds = Inr p)
   | Some k \<Rightarrow> create_provider to_str t creds = Inl (KeyError k)"
  by (cases t)
    (auto simp: required_keys_def find_missing_Cons diadoc_init_def sbis_init_def kontur_init_def
      dict_item_def simp del: find.simps(2) split: option.split)

section \<open>Tokens\<close>

text \<open>Diadoc's token is fetched once an hour. When an adapter has obtained a non-empty token, every
  request before its expiry uses that token without a second authentication and leaves the adapter as
  it is, whatever the service would answer; and the expiry of a newly fetched token is one hour after
  the clock was read.\<close>

theorem diadoc_token_reuse:
  assumes "diadoc_ensure_token http now now' p = Inr (token, p')" and "token \<noteq> ''''"
    and "later < dd_token_expires p'"
  shows "diadoc_ensure_token http2 later later' p' = Inr (token, p')
    \<and> (p' = p \<and> now < dd_token_expires p \<or> dd_token_expires p' = now' + 3600 * 1000000)"
  using assms
  by (auto simp: diadoc_ensure_token_def and_then_Inr_iff split: if_splits)

definition token_http :: http where
  "token_http rq = Inr \<lparr>rsp_status = 200, rsp_text = ''T'', rsp_json = Inr (JObj [])\<rparr>"

definition sample_diadoc :: diadoc where
  "sample_diadoc = \<lparr>dd_client_id = JStr ''c'', dd_login = ''l'', dd_password = ''p'', dd_box_id = JStr ''b'',
     dd_token = '''', dd_token_expires = 0\<rparr>"

theorem diadoc_token_reuse_witness:
  "diadoc_ensure_token (\<lambda>rq. Inl (OtherError ''down'')) 100 100
     (sample_diadoc\<lparr>dd_token := ''T'', dd_token_expires := 3600000007\<rparr>)
   = Inr (''T'', sample_diadoc\<lparr>dd_token := ''T'', dd_token_expires := 3600000007\<rparr>)"
proof -
  have "diadoc_ensure_token token_http 5 7 sample_diadoc =
      Inr (''T'', sample_diadoc\<lparr>dd_token := ''T'', dd_token_expires := 3600000007\<rparr>)"
    by (simp add: diadoc_ensure_token_def sample_diadoc_def token_http_def diadoc_handle_errors_def
        status_error_def)
  from diadoc_token_reuse [OF this, of 100 "\<lambda>rq. Inl (OtherError ''down'')" 100]
  show ?thesis by simp
qed

end
