(* ===== verification/SendTask.thy ===== *)
theory SendTask
  imports ProviderProps
begin

text \<open>
  \<open>src/infrastructure/queue/tasks/send_document_task.py\<close>: the worker that sends one delivery. A run acts
  on the \<open>world\<close> (the database, Redis, the stub provider's dictionaries); what it reads from outside
  is in \<open>worker_env\<close>: the settings, the clock (\<open>we_clock i\<close> is the reading at the program point \<open>i\<close>), the random
  number of the back-off, the provider's environment and the two uuids it draws. A run is one
  sequence of database transactions: each ends at a \<open>commit\<close>, and an exception leaves the database as
  the last commit left it. Log output is not modelled.
\<close>

section \<open>State and environment\<close>

record 's world =
  w_db :: db
  w_redis :: 's
  w_stub :: stub_store

record worker_env =
  we_cfg :: settings
  we_clock :: "nat \<Rightarrow> time"
  we_uniform :: rat
  we_provider :: provider_env
  we_audit_id :: uuid
  we_dlq_id :: uuid

text \<open>The local variables of a run while the provider is called: \<open>rn_bindable\<close> tells whether the provider
  document id can be bound to its text column.\<close>

record 's run =
  rn_delivery :: delivery
  rn_session :: session
  rn_redis :: 's
  rn_stub :: stub_store
  rn_bindable :: bool

section \<open>Steps\<close>

definition write_dlq :: "uuid \<Rightarrow> time \<Rightarrow> delivery \<Rightarrow> string \<Rightarrow> string \<Rightarrow> bool \<Rightarrow> session \<Rightarrow> session" where
  "write_dlq new_id now d code message retryable s =
     session_add (New_dlq
       \<lparr>dlq_id = new_id, dlq_tenant_id = dl_tenant_id d, dlq_delivery_id = Some (dl_id d),
        dlq_provider_account_id = Some (dl_provider_account_id d), dlq_task_name = ''send_document'',
        dlq_payload = [(''delivery_id'', JStr (uuid_str (dl_id d)))], dlq_reason_code = code,
        dlq_reason_message = message, dlq_retryable = retryable, dlq_replayed_at = None,
        dlq_created_at = now\<rparr>) s"

text \<open>\<open>delivery.update\<close> followed by \<open>session.commit\<close>; the session goes on with the committed state.\<close>

definition update_and_commit :: "delivery \<Rightarrow> session \<Rightarrow> session res" where
  "update_and_commit d s =
     and_then (update_delivery d s) (\<lambda>s1. and_then (commit s1) (\<lambda>d'. Inr (open_session d')))"

text \<open>The worker sends placeholders, not the fields of the document.\<close>

definition worker_args :: "delivery \<Rightarrow> bytes \<Rightarrow> send_args" where
  "worker_args d file_bytes =
     \<lparr>sa_sender_inn = uuid_str (dl_document_id d), sa_sender_kpp = None,
      sa_recipient_inn = ''0000000000'', sa_recipient_kpp = None, sa_document_type = ''INVOICE'',
      sa_title = ''Document'', sa_file_name = ''document.bin'',
      sa_mime_type = ''application/octet-stream'', sa_file_bytes = file_bytes, sa_metadata = []\<rparr>"

text \<open>\<open>mark_sent(result.provider_document_id)\<close>: a null id is stored as null, another value that is not text
  fails when it is bound.\<close>

fun mark_sent_result :: "time \<Rightarrow> json \<Rightarrow> delivery \<Rightarrow> delivery" where
  "mark_sent_result now (JStr pid) d = mark_sent now pid d"
| "mark_sent_result now _ d = (mark_sent now '''' d)\<lparr>dl_provider_document_id := None\<rparr>"

fun bindable_text :: "json \<Rightarrow> bool" where
  "bindable_text (JStr s) = True"
| "bindable_text JNull = True"
| "bindable_text _ = False"

text \<open>The body of the \<open>try\<close> block.\<close>

definition attempt ::
  "worker_env \<Rightarrow> 's redis_ops \<Rightarrow> account \<Rightarrow> provider \<Rightarrow> bytes \<Rightarrow> 's run \<Rightarrow> unit res \<times> 's run"
where
  "attempt env R a p file_bytes rn =
     (let (r, stub') = provider_send (we_provider env) (worker_args (rn_delivery rn) file_bytes) p (rn_stub rn);
          rn1 = rn\<lparr>rn_stub := stub'\<rparr>
      in case r of
           Inl e \<Rightarrow> (Inl e, rn1)
         | Inr res \<Rightarrow>
             (let pid = sr_provider_document_id res;
                  d' = mark_sent_result (we_clock env 4) pid (rn_delivery rn);
                  (r2, redis') = record_success R (we_cfg env) (we_clock env 5) (uuid_str (acc_id a)) (rn_redis rn)
              in (r2, rn1\<lparr>rn_delivery := d', rn_bindable := bindable_text pid, rn_redis := redis'\<rparr>)))"

text \<open>The three \<open>except\<close> clauses; the first component is an exception raised by the clause itself.\<close>

definition exc_is :: "exc \<Rightarrow> exc_class \<Rightarrow> bool" where
  "exc_is e c = (case e of Domain de \<Rightarrow> is_instance de c | _ \<Rightarrow> False)"

definition exc_code :: "exc \<Rightarrow> string" where
  "exc_code e = (case e of Domain de \<Rightarrow> err_code de | _ \<Rightarrow> '''')"

definition fail_delivery :: "worker_env \<Rightarrow> string \<Rightarrow> string \<Rightarrow> bool \<Rightarrow> 's run \<Rightarrow> 's run" where
  "fail_delivery env code message retryable rn =
     (let d = mark_failed (we_clock env 6) code message (rn_delivery rn) in
      rn\<lparr>rn_delivery := d,
         rn_session := write_dlq (we_dlq_id env) (we_clock env 7) d code message retryable (rn_session rn)\<rparr>)"

definition on_transient :: "worker_env \<Rightarrow> 's redis_ops \<Rightarrow> account \<Rightarrow> exc \<Rightarrow> 's run \<Rightarrow> unit res \<times> 's run" where
  "on_transient env R a e rn =
     (case record_failure R (we_cfg env) (we_clock env 8) (uuid_str (acc_id a)) (rn_redis rn) of
        (Inl e', redis') \<Rightarrow> (Inl e', rn\<lparr>rn_redis := redis'\<rparr>)
      | (Inr _, redis') \<Rightarrow>
          (let rn1 = rn\<lparr>rn_redis := redis'\<rparr>; d = rn_delivery rn1 in
           if should_retry (we_cfg env) (dl_retry_count d) then
             (case compute_next_retry (we_cfg env) (we_uniform env) (we_clock env 9) (dl_retry_count d) of
                Inl e' \<Rightarrow> (Inl e', rn1)
              | Inr t \<Rightarrow> (Inr (), rn1\<lparr>rn_delivery := schedule_retry (we_clock env 10) t d\<rparr>))
           else (Inr (), fail_delivery env (exc_code e) (exc_str e) True rn1)))"

definition on_exception :: "worker_env \<Rightarrow> 's redis_ops \<Rightarrow> account \<Rightarrow> exc \<Rightarrow> 's run \<Rightarrow> unit res \<times> 's run" where
  "on_exception env R a e rn =
     (if exc_is e C_ProviderTransient then on_transient env R a e rn
      else if exc_is e C_ProviderPermanent then
        (Inr (), fail_delivery env (exc_code e) (exc_str e) False rn)
      else (Inr (), fail_delivery env ''UNKNOWN_ERROR'' (exc_str e) False rn))"

text \<open>The \<open>finally\<close> block.\<close>

definition delivery_audit :: "uuid \<Rightarrow> time \<Rightarrow> delivery \<Rightarrow> audit_event" where
  "delivery_audit new_id now d =
     create_audit_event new_id now (dl_tenant_id d) ''delivery'' (dl_id d)
       (''delivery.status.'' @ py_lower (status_value (dl_status d)))
       (Some [(''unified_status'', JStr (status_value (dl_status d)))]) None None"

definition finish :: "worker_env \<Rightarrow> 's run \<Rightarrow> db res" where
  "finish env rn =
     (let s = save_audit (delivery_audit (we_audit_id env) (we_clock env 11) (rn_delivery rn)) (rn_session rn) in
      if rn_bindable rn
      then and_then (update_delivery (rn_delivery rn) s) commit
      else Inl (OtherError ''DBAPIError''))"

text \<open>The \<open>try\<close> statement without its \<open>finally\<close> block; the first component is an exception still in flight.\<close>

definition run_provider ::
  "worker_env \<Rightarrow> 's redis_ops \<Rightarrow> account \<Rightarrow> provider \<Rightarrow> bytes \<Rightarrow> 's run \<Rightarrow> unit res \<times> 's run"
where
  "run_provider env R a p file_bytes rn =
     (case attempt env R a p file_bytes rn of
        (Inl e, rn1) \<Rightarrow> on_exception env R a e rn1
      | (Inr _, rn1) \<Rightarrow> (Inr (), rn1))"

text \<open>The \<open>finally\<close> block and the return: an exception of the block replaces one in flight.\<close>

definition close_run :: "worker_env \<Rightarrow> unit res \<Rightarrow> 's run \<Rightarrow> 's world \<Rightarrow> string res \<times> 's world" where
  "close_run env r rn w =
     (let w1 = w\<lparr>w_redis := rn_redis rn, w_stub := rn_stub rn\<rparr> in
      case finish env rn of
        Inl e \<Rightarrow> (Inl e, w1)
      | Inr d' \<Rightarrow>
          (case r of
             Inl e \<Rightarrow> (Inl e, w1\<lparr>w_db := d'\<rparr>)
           | Inr _ \<Rightarrow> (Inr (status_value (dl_status (rn_delivery rn))), w1\<lparr>w_db := d'\<rparr>)))"

text \<open>From \<open>mark_sending\<close> to the end; the construction of the provider stands outside the \<open>try\<close>.\<close>

definition send_attempt ::
  "worker_env \<Rightarrow> 's redis_ops \<Rightarrow> account \<Rightarrow> bytes \<Rightarrow> delivery \<Rightarrow> session \<Rightarrow> 's world \<Rightarrow> string res \<times> 's world"
where
  "send_attempt env R a file_bytes d0 s0 w =
     (let d = mark_sending (we_clock env 3) d0 in
      case update_and_commit d s0 of
        Inl e \<Rightarrow> (Inl e, w)
      | Inr s \<Rightarrow>
          (let w1 = w\<lparr>w_db := view s\<rparr> in
           case create_provider (pe_to_str (we_provider env)) (acc_provider_type a) (acc_credentials_json a) of
             Inl e \<Rightarrow> (Inl e, w1)
           | Inr p \<Rightarrow>
               (case run_provider env R a p file_bytes
                  \<lparr>rn_delivery = d, rn_session = s, rn_redis = w_redis w1, rn_stub = w_stub w1,
                   rn_bindable = True\<rparr> of
                  (r, rn) \<Rightarrow> close_run env r rn w1)))"

text \<open>An early return: the delivery is stored and the given status returned.\<close>

definition return_early :: "delivery \<Rightarrow> string \<Rightarrow> session \<Rightarrow> 's world \<Rightarrow> string res \<times> 's world" where
  "return_early d status s w =
     (case update_and_commit d s of
        Inl e \<Rightarrow> (Inl e, w)
      | Inr s' \<Rightarrow> (Inr status, w\<lparr>w_db := view s'\<rparr>))"

definition circuit_open :: "worker_env \<Rightarrow> delivery \<Rightarrow> session \<Rightarrow> 's world \<Rightarrow> string res \<times> 's world" where
  "circuit_open env d s w =
     (let d1 = mark_failed (we_clock env 1) ''CIRCUIT_OPEN'' ''Circuit breaker is OPEN'' d in
      case compute_next_retry (we_cfg env) (we_uniform env) (we_clock env 2) (dl_retry_count d1) of
        Inl e \<Rightarrow> (Inl e, w)
      | Inr t \<Rightarrow> return_early (schedule_retry (we_clock env 3) t d1) ''circuit_open'' s w)"

definition run_delivery ::
  "worker_env \<Rightarrow> 's redis_ops \<Rightarrow> uuid \<Rightarrow> bytes \<Rightarrow> 's world \<Rightarrow> string res \<times> 's world"
where
  "run_delivery env R did file_bytes w =
     (let s = open_session (w_db w) in
      case get_delivery_by_id did s of
        Inl e \<Rightarrow> (Inl e, w)
      | Inr None \<Rightarrow> (Inr ''not_found'', w)
      | Inr (Some d) \<Rightarrow>
          (case get_account_by_id (dl_provider_account_id d) s of
             Inl e \<Rightarrow> (Inl e, w)
           | Inr acc \<Rightarrow>
               (case acc of
                  Some a \<Rightarrow>
                    if acc_is_active a then
                      (case guard R (we_cfg env) (we_clock env 0) (uuid_str (acc_id a)) (w_redis w) of
                         (Inl e, redis') \<Rightarrow>
                           (let w1 = w\<lparr>w_redis := redis'\<rparr> in
                            if exc_is e C_CircuitOpen then circuit_open env d s w1 else (Inl e, w1))
                       | (Inr _, redis') \<Rightarrow> send_attempt env R a file_bytes d s (w\<lparr>w_redis := redis'\<rparr>))
                    else return_early (mark_failed (we_clock env 1) ''PROVIDER_ACCOUNT_INACTIVE''
                                         ''Provider account not active'' d) ''failed'' s w
                | None \<Rightarrow> return_early (mark_failed (we_clock env 1) ''PROVIDER_ACCOUNT_INACTIVE''
                                         ''Provider account not active'' d) ''failed'' s w)))"

definition send_document ::
  "worker_env \<Rightarrow> 's redis_ops \<Rightarrow> string \<Rightarrow> string \<Rightarrow> 's world \<Rightarrow> string res \<times> 's world"
where
  "send_document env R delivery_id file_bytes_hex w =
     (case uuid_parse delivery_id of
        Inl e \<Rightarrow> (Inl e, w)
      | Inr did \<Rightarrow>
          (case bytes_fromhex file_bytes_hex of
             Inl e \<Rightarrow> (Inl e, w)
           | Inr file_bytes \<Rightarrow> run_delivery env R did file_bytes w))"

end
