(* ===== verification/SendProps.thy ===== *)
theory SendProps
  imports SendTask
begin

text \<open>
  Properties of the send worker: what a run may touch, and what it does on each outcome of the provider
  call.
\<close>

section \<open>Updating one delivery\<close>

text \<open>The unique pair of account and provider document id, stated on pairs of rows.\<close>

definition no_provider_clash :: "delivery_row list \<Rightarrow> bool" where
  "no_provider_clash rs \<longleftrightarrow>
     (\<forall>r \<in> set rs. \<forall>r' \<in> set rs. dr_provider_document_id r \<noteq> None \<longrightarrow>
        dr_provider_account_id r = dr_provider_account_id r' \<longrightarrow>
        dr_provider_document_id r = dr_provider_document_id r' \<longrightarrow> r = r')"

lemma concat_filter:
  "concat (map (\<lambda>r. if P r then [f r] else []) rs) = map f (filter P rs)"
  by (induction rs) simp_all

lemma deliveries_ok_iff:
  "deliveries_ok rs \<longleftrightarrow> distinct (map dr_id rs)
     \<and> distinct (map (\<lambda>r. (dr_provider_account_id r, dr_idempotency_key r)) rs) \<and> no_provider_clash rs"
proof -
  have "distinct (map (\<lambda>r. (dr_provider_account_id r, dr_provider_document_id r))
      (filter (\<lambda>r. dr_provider_document_id r \<noteq> None) rs)) \<longleftrightarrow> no_provider_clash rs"
    if "distinct (map dr_id rs)"
  proof -
    from that have "distinct rs" by (simp add: distinct_map)
    then show ?thesis
      by (auto simp: distinct_map inj_on_def no_provider_clash_def)
  qed
  then show ?thesis
    unfolding deliveries_ok_def concat_filter by blast
qed

lemma delivery_merge_simps [simp]:
  "dr_id (delivery_merge d r) = dr_id r"
  "dr_provider_account_id (delivery_merge d r) = dr_provider_account_id r"
  "dr_idempotency_key (delivery_merge d r) = dr_idempotency_key r"
  "dr_provider_document_id (delivery_merge d r) = dl_provider_document_id d"
  "delivery_merge d (delivery_merge d' r) = delivery_merge d r"
  by (simp_all add: delivery_merge_def)

lemma update_by_update_by:
  "update_by dr_id i (delivery_merge d) (update_by dr_id i (delivery_merge d') rs)
     = update_by dr_id i (delivery_merge d) rs"
  by (simp add: update_by_def)

definition provider_id_free :: "uuid \<Rightarrow> uuid \<Rightarrow> string option \<Rightarrow> delivery_row list \<Rightarrow> bool" where
  "provider_id_free did account pid rs \<longleftrightarrow>
     pid = None \<or> (\<forall>r \<in> set rs. dr_provider_account_id r = account \<longrightarrow> dr_id r \<noteq> did \<longrightarrow>
       dr_provider_document_id r \<noteq> pid)"

lemma deliveries_ok_update:
  assumes ok: "deliveries_ok rs" and row: "\<And>r. r \<in> set rs \<Longrightarrow> dr_id r = did \<Longrightarrow> dr_provider_account_id r = account"
    and free: "provider_id_free did account (dl_provider_document_id d) rs"
  shows "deliveries_ok (update_by dr_id did (delivery_merge d) rs)"
proof -
  let ?f = "\<lambda>r. if dr_id r = did then delivery_merge d r else r"
  have maps: "map dr_id (map ?f rs) = map dr_id rs"
    "map (\<lambda>r. (dr_provider_account_id r, dr_idempotency_key r)) (map ?f rs)
      = map (\<lambda>r. (dr_provider_account_id r, dr_idempotency_key r)) rs"
    by simp_all
  have inj: "r = r'" if "r \<in> set rs" "r' \<in> set rs" "dr_id r = dr_id r'" for r r'
    using ok that by (auto simp: deliveries_ok_iff distinct_map inj_on_def)
  have "no_provider_clash (map ?f rs)"
    unfolding no_provider_clash_def
  proof (intro ballI impI)
    fix q q'
    assume q: "q \<in> set (map ?f rs)" "q' \<in> set (map ?f rs)" and some: "dr_provider_document_id q \<noteq> None"
      and same: "dr_provider_account_id q = dr_provider_account_id q'"
        "dr_provider_document_id q = dr_provider_document_id q'"
    from q obtain r r' where r: "r \<in> set rs" "q = ?f r" and r': "r' \<in> set rs" "q' = ?f r'" by auto
    have old: "r = r'" if "dr_id r \<noteq> did" "dr_id r' \<noteq> did"
    proof -
      from that r r' have "q = r" "q' = r'" by simp_all
      with ok some same r(1) r'(1) show ?thesis
        unfolding deliveries_ok_iff no_provider_clash_def by metis
    qed
    have clash: False if "a \<in> set rs" "b \<in> set rs" "dr_id a = did" "dr_id b \<noteq> did"
      "dr_provider_document_id (?f a) \<noteq> None"
      "dr_provider_account_id (?f a) = dr_provider_account_id (?f b)"
      "dr_provider_document_id (?f a) = dr_provider_document_id (?f b)" for a b
      using free row [OF that(1,3)] that by (auto simp: provider_id_free_def)
    have new: "dr_id r = did \<longleftrightarrow> dr_id r' = did"
    proof (rule ccontr)
      assume "\<not> ?thesis"
      then consider "dr_id r = did" "dr_id r' \<noteq> did" | "dr_id r' = did" "dr_id r \<noteq> did" by blast
      then show False
      proof cases
        case 1
        from some same show False
          by (intro clash [OF r(1) r'(1) 1]) (simp_all only: r(2) r'(2) not_False_eq_True)
      next
        case 2
        from some same have "dr_provider_document_id q' \<noteq> None" by simp
        with same show False
          by (intro clash [OF r'(1) r(1) 2]) (simp_all only: r(2) r'(2) not_False_eq_True)
      qed
    qed
    show "q = q'"
    proof (cases "dr_id r = did")
      case True
      with new inj [OF r(1) r'(1)] r(2) r'(2) show ?thesis by simp
    next
      case False
      with new old have "r = r'" by blast
      with r(2) r'(2) show ?thesis by simp
    qed
  qed
  with ok show ?thesis
    unfolding update_by_def deliveries_ok_iff maps by blast
qed

definition set_delivery :: "uuid \<Rightarrow> delivery \<Rightarrow> db \<Rightarrow> db" where
  "set_delivery did d D = D\<lparr>db_deliveries := update_by dr_id did (delivery_merge d) (db_deliveries D)\<rparr>"

lemma set_delivery_twice: "set_delivery did d (set_delivery did d' D) = set_delivery did d D"
  by (simp add: set_delivery_def update_by_update_by)

lemma set_delivery_simps [simp]:
  "db_accounts (set_delivery did d D) = db_accounts D" "db_dlq (set_delivery did d D) = db_dlq D"
  "db_audit (set_delivery did d D) = db_audit D" "db_documents (set_delivery did d D) = db_documents D"
  "db_users (set_delivery did d D) = db_users D" "db_tenants (set_delivery did d D) = db_tenants D"
  "db_incoming (set_delivery did d D) = db_incoming D" "db_webhooks (set_delivery did d D) = db_webhooks D"
  by (simp_all add: set_delivery_def)

lemma get_delivery_row:
  assumes "get_delivery_by_id did (open_session D) = Inr (Some d)"
  shows "\<exists>r. filter (\<lambda>r. dr_id r = did) (db_deliveries D) = [r] \<and> delivery_to_entity r = Inr d"
  using assms by (simp add: get_delivery_by_id_def get_row_def select_by_def load_scalar_Some)

lemma get_delivery_facts:
  assumes "get_delivery_by_id did (open_session D) = Inr (Some d)"
  shows "dl_id d = did" and "\<And>r. r \<in> set (db_deliveries D) \<Longrightarrow> dr_id r = did \<Longrightarrow> delivery_to_entity r = Inr d"
proof -
  obtain r where r: "filter (\<lambda>r. dr_id r = did) (db_deliveries D) = [r]" "delivery_to_entity r = Inr d"
    using get_delivery_row [OF assms] by blast
  then have "dr_id r = did" by (auto dest: filter_eq_ConsD)
  with r(2) show "dl_id d = did" using delivery_to_entity_status by blast
  fix q
  assume "q \<in> set (db_deliveries D)" "dr_id q = did"
  then have "q \<in> set (filter (\<lambda>r. dr_id r = did) (db_deliveries D))" by simp
  with r show "delivery_to_entity q = Inr d" by simp
qed

lemma get_after_set:
  assumes "get_delivery_by_id did (open_session D) = Inr (Some d)"
    and "same_identity d d'" and "dl_id d' = did"
  shows "get_delivery_by_id did (open_session (set_delivery did d' D)) = Inr (Some d')"
proof -
  have "delivery_emerge d' d = d'"
    using assms get_delivery_facts(1) [OF assms(1)] by (intro delivery_emerge_same) simp_all
  with deliveries.get_update [of did "db_deliveries D" d d'] assms(1) show ?thesis
    by (simp add: get_delivery_by_id_def set_delivery_def)
qed

definition free_for :: "uuid \<Rightarrow> delivery \<Rightarrow> string option \<Rightarrow> db \<Rightarrow> bool" where
  "free_for did d pid D \<longleftrightarrow> provider_id_free did (dl_provider_account_id d) pid (db_deliveries D)"

lemma own_id_free:
  assumes get: "get_delivery_by_id did (open_session D) = Inr (Some d)" and ok: "db_ok D"
  shows "free_for did d (dl_provider_document_id d) D"
proof -
  obtain r where r: "filter (\<lambda>r. dr_id r = did) (db_deliveries D) = [r]" "delivery_to_entity r = Inr d"
    using get_delivery_row [OF get] by blast
  then have mem: "r \<in> set (db_deliveries D)" "dr_id r = did"
    by (auto dest: filter_eq_ConsD)
  from r(2) have eq: "dr_provider_document_id r = dl_provider_document_id d"
    "dr_provider_account_id r = dl_provider_account_id d"
    by (auto simp: delivery_to_entity_def split: option.splits)
  have "no_provider_clash (db_deliveries D)"
    using ok by (simp add: db_ok_def deliveries_ok_iff)
  with mem eq show ?thesis
    unfolding free_for_def provider_id_free_def no_provider_clash_def by metis
qed

lemma db_ok_set_delivery:
  assumes "get_delivery_by_id did (open_session D) = Inr (Some d)" and "db_ok D"
    and "free_for did d (dl_provider_document_id d') D"
  shows "db_ok (set_delivery did d' D)"
proof -
  have "dr_provider_account_id r = dl_provider_account_id d"
    if "r \<in> set (db_deliveries D)" "dr_id r = did" for r
    using delivery_to_entity_status [OF get_delivery_facts(2) [OF assms(1) that]] by simp
  with assms(2,3) have "deliveries_ok (update_by dr_id did (delivery_merge d') (db_deliveries D))"
    unfolding free_for_def by (intro deliveries_ok_update) (auto simp: db_ok_def)
  with assms(2) show ?thesis by (simp add: db_ok_def set_delivery_def)
qed

lemma update_and_commit_ok:
  assumes "get_delivery_by_id did (open_session D) = Inr (Some d)" and "db_ok D"
    and "dl_id d' = did" and "free_for did d (dl_provider_document_id d') D"
  shows "update_and_commit d' (open_session D) = Inr (open_session (set_delivery did d' D))"
  using db_ok_set_delivery [OF assms(1,2,4)] assms(3)
  by (simp add: update_and_commit_def update_delivery_def write_view_def commit_def set_delivery_def)

lemma finish_ok:
  assumes get: "get_delivery_by_id did (open_session D) = Inr (Some d)" and ok: "db_ok D"
    and view: "view (rn_session rn) = D" and pend: "pending (rn_session rn) = map New_dlq es"
    and dlq: "distinct (map dlq_id (db_dlq D @ es))"
    and aud: "we_audit_id env \<notin> aud_id ` set (db_audit D)"
    and id: "dl_id (rn_delivery rn) = did" and bind: "rn_bindable rn"
    and free: "free_for did d (dl_provider_document_id (rn_delivery rn)) D"
  shows "finish env rn = Inr ((set_delivery did (rn_delivery rn) D)
    \<lparr>db_dlq := db_dlq D @ es,
     db_audit := db_audit D @ [delivery_audit (we_audit_id env) (we_clock env 11) (rn_delivery rn)]\<rparr>)"
proof -
  let ?d' = "rn_delivery rn"
  let ?au = "delivery_audit (we_audit_id env) (we_clock env 11) ?d'"
  let ?D1 = "set_delivery did ?d' D"
  have ok1: "db_ok ?D1" by (rule db_ok_set_delivery [OF get ok free])
  have fold: "fold insert_row (map New_dlq es) X = X\<lparr>db_dlq := db_dlq X @ es\<rparr>" for X es
    by (induction es arbitrary: X) simp_all
  have "aud_id ?au = we_audit_id env"
    by (simp add: delivery_audit_def create_audit_event_def)
  with aud have "distinct (map aud_id (db_audit D @ [?au]))"
    using ok by (auto simp: db_ok_def)
  with ok1 dlq have "db_ok (?D1\<lparr>db_dlq := db_dlq D @ es, db_audit := db_audit D @ [?au]\<rparr>)"
    by (simp add: db_ok_def)
  with ok1 bind id view pend show ?thesis
    by (simp add: finish_def update_delivery_def write_view_def commit_def save_audit_def
        session_add_def Let_def fold set_delivery_def)
qed

section \<open>A run that reaches the provider\<close>

text \<open>The delivery exists, its account is active, the breaker lets the call through, the adapter can be
  built, and the two uuids are new.\<close>

definition ready ::
  "('s \<Rightarrow> hashes) \<Rightarrow> ('s \<Rightarrow> bool) \<Rightarrow> worker_env \<Rightarrow> 's world \<Rightarrow> uuid \<Rightarrow> delivery \<Rightarrow> account \<Rightarrow> provider
   \<Rightarrow> breaker \<Rightarrow> bool"
where
  "ready contents up env w did d a p b \<longleftrightarrow>
     db_ok (w_db w)
     \<and> get_delivery_by_id did (open_session (w_db w)) = Inr (Some d)
     \<and> get_account_by_id (dl_provider_account_id d) (open_session (w_db w)) = Inr (Some a)
     \<and> acc_is_active a
     \<and> br_holds contents up (w_redis w) (uuid_str (acc_id a)) b
     \<and> br_state (br_look (we_cfg env) (we_clock env 0) b) \<noteq> OPEN
     \<and> create_provider (pe_to_str (we_provider env)) (acc_provider_type a) (acc_credentials_json a) = Inr p
     \<and> we_audit_id env \<notin> aud_id ` set (db_audit (w_db w))
     \<and> we_dlq_id env \<notin> dlq_id ` set (db_dlq (w_db w))"

definition sending :: "worker_env \<Rightarrow> delivery \<Rightarrow> delivery" where
  "sending env d = mark_sending (we_clock env 3) d"

definition first_run :: "worker_env \<Rightarrow> uuid \<Rightarrow> delivery \<Rightarrow> 's world \<Rightarrow> 's run" where
  "first_run env did d w =
     \<lparr>rn_delivery = sending env d, rn_session = open_session (set_delivery did (sending env d) (w_db w)),
      rn_redis = w_redis w, rn_stub = w_stub w, rn_bindable = True\<rparr>"

text \<open>The database after a finished run: the delivery's row, the dead letters added and one audit event.\<close>

definition finished_db :: "worker_env \<Rightarrow> uuid \<Rightarrow> delivery \<Rightarrow> dlq_entry list \<Rightarrow> db \<Rightarrow> db" where
  "finished_db env did d' es D =
     (set_delivery did d' D)
       \<lparr>db_dlq := db_dlq D @ es,
        db_audit := db_audit D @ [delivery_audit (we_audit_id env) (we_clock env 11) d']\<rparr>"

lemma sending_simps [simp]:
  "dl_id (sending env d) = dl_id d" "dl_tenant_id (sending env d) = dl_tenant_id d"
  "dl_provider_document_id (sending env d) = dl_provider_document_id d"
  "dl_provider_account_id (sending env d) = dl_provider_account_id d"
  "dl_document_id (sending env d) = dl_document_id d"
  "dl_retry_count (sending env d) = dl_retry_count d" "same_identity d (sending env d)"
  by (simp_all add: sending_def mark_sending_def same_identity_def)

lemma worker_args_sending [simp]: "worker_args (sending env d) bs = worker_args d bs"
  by (simp add: worker_args_def)

lemma free_for_set:
  "free_for did (sending env d) pid (set_delivery did d' D) \<longleftrightarrow> free_for did d pid D"
  by (auto simp: free_for_def provider_id_free_def set_delivery_def update_by_def)

lemma ready_facts:
  assumes "ready contents up env w did d a p b"
  shows "dl_id d = did" and "free_for did d (dl_provider_document_id d) (w_db w)"
    and "update_and_commit (sending env d) (open_session (w_db w))
      = Inr (open_session (set_delivery did (sending env d) (w_db w)))"
    and "db_ok (set_delivery did (sending env d) (w_db w))"
    and "get_delivery_by_id did (open_session (set_delivery did (sending env d) (w_db w)))
      = Inr (Some (sending env d))"
proof -
  from assms have get: "get_delivery_by_id did (open_session (w_db w)) = Inr (Some d)"
    and ok: "db_ok (w_db w)"
    by (simp_all add: ready_def)
  show id: "dl_id d = did" by (rule get_delivery_facts(1) [OF get])
  show free: "free_for did d (dl_provider_document_id d) (w_db w)" by (rule own_id_free [OF get ok])
  show "update_and_commit (sending env d) (open_session (w_db w))
      = Inr (open_session (set_delivery did (sending env d) (w_db w)))"
    using free id by (intro update_and_commit_ok [OF get ok]) simp_all
  show "db_ok (set_delivery did (sending env d) (w_db w))"
    using free by (intro db_ok_set_delivery [OF get ok]) simp
  show "get_delivery_by_id did (open_session (set_delivery did (sending env d) (w_db w)))
      = Inr (Some (sending env d))"
    using id by (intro get_after_set [OF get]) simp_all
qed

lemma finish_run:
  assumes rdy: "ready contents up env w did d a p b"
    and view: "view (rn_session rn) = set_delivery did (sending env d) (w_db w)"
    and pend: "pending (rn_session rn) = map New_dlq es" and dlq: "es = [] \<or> (\<exists>e. es = [e] \<and> dlq_id e = we_dlq_id env)"
    and id: "dl_id (rn_delivery rn) = did" and bind: "rn_bindable rn"
    and free: "free_for did d (dl_provider_document_id (rn_delivery rn)) (w_db w)"
  shows "finish env rn = Inr (finished_db env did (rn_delivery rn) es (w_db w))"
proof -
  from rdy have "distinct (map dlq_id (db_dlq (w_db w)))" "we_dlq_id env \<notin> dlq_id ` set (db_dlq (w_db w))"
    and aud: "we_audit_id env \<notin> aud_id ` set (db_audit (set_delivery did (sending env d) (w_db w)))"
    by (simp_all add: ready_def db_ok_tables)
  with dlq have dist: "distinct (map dlq_id (db_dlq (set_delivery did (sending env d) (w_db w)) @ es))"
    by (elim disjE exE conjE) simp_all
  show ?thesis
    using finish_ok [OF ready_facts(5,4) [OF rdy] view pend dist aud id bind] free
    by (simp add: free_for_set finished_db_def set_delivery_twice)
qed

text \<open>Such a run is the provider call, the handling of its exception, and the final transaction.\<close>

lemma run_after_guard:
  assumes rdy: "ready contents up env w did d a p b"
    and g: "guard R (we_cfg env) (we_clock env 0) (uuid_str (acc_id a)) (w_redis w) = (Inr (), redis1)"
    and run: "run_provider env R a p bs (first_run env did d (w\<lparr>w_redis := redis1\<rparr>)) = (r, rn)"
  shows "send_document env R (uuid_str did) (bytes_hex bs) w =
    close_run env r rn (w\<lparr>w_redis := redis1, w_db := set_delivery did (sending env d) (w_db w)\<rparr>)"
proof -
  have "send_document env R (uuid_str did) (bytes_hex bs) w
      = send_attempt env R a bs d (open_session (w_db w)) (w\<lparr>w_redis := redis1\<rparr>)"
    using rdy g by (simp add: send_document_def run_delivery_def ready_def Let_def)
  then show ?thesis
    using rdy ready_facts(3) [OF rdy] run
    by (simp add: send_attempt_def sending_def [symmetric] first_run_def ready_def Let_def)
qed

context redis_store
begin

lemma ready_run:
  assumes rdy: "ready contents up env w did d a p b"
  shows "\<exists>redis1. br_holds contents up redis1 (uuid_str (acc_id a)) (br_look (we_cfg env) (we_clock env 0) b)
    \<and> (\<forall>r rn. run_provider env R a p bs (first_run env did d (w\<lparr>w_redis := redis1\<rparr>)) = (r, rn) \<longrightarrow>
         send_document env R (uuid_str did) (bytes_hex bs) w =
           close_run env r rn (w\<lparr>w_redis := redis1, w_db := set_delivery did (sending env d) (w_db w)\<rparr>))"
proof -
  obtain redis1 where "guard R (we_cfg env) (we_clock env 0) (uuid_str (acc_id a)) (w_redis w) = (Inr (), redis1)"
    and "br_holds contents up redis1 (uuid_str (acc_id a)) (br_look (we_cfg env) (we_clock env 0) b)"
    using rdy guard_impl [of "w_redis w" "uuid_str (acc_id a)" b "we_cfg env" "we_clock env 0"]
    by (auto simp: ready_def)
  with run_after_guard [OF rdy] show ?thesis by blast
qed

end

section \<open>Outcomes\<close>

lemma close_ok:
  assumes "ready contents up env w did d a p b"
    and "rn_session rn = fold (\<lambda>e. session_add (New_dlq e)) es
           (open_session (set_delivery did (sending env d) (w_db w)))"
    and "es = [] \<or> (\<exists>e. es = [e] \<and> dlq_id e = we_dlq_id env)"
    and "dl_id (rn_delivery rn) = did" and "rn_bindable rn"
    and "free_for did d (dl_provider_document_id (rn_delivery rn)) (w_db w)"
  shows "close_run env (Inr ()) rn w1 =
    (Inr (status_value (dl_status (rn_delivery rn))),
     w1\<lparr>w_redis := rn_redis rn, w_stub := rn_stub rn,
        w_db := finished_db env did (rn_delivery rn) es (w_db w)\<rparr>)"
proof -
  have "view (rn_session rn) = set_delivery did (sending env d) (w_db w)"
    and "pending (rn_session rn) = map New_dlq es"
    using assms(2,3) by (auto simp: session_add_def)
  from finish_run [OF assms(1) this assms(3-6)] show ?thesis
    by (simp add: close_run_def)
qed

lemma get_finished:
  assumes "ready contents up env w did d a p b" and "same_identity d d'" and "dl_id d' = did"
  shows "get_delivery_by_id did (open_session (finished_db env did d' es (w_db w))) = Inr (Some d')"
  using get_after_set [of did "w_db w" d d'] assms
  by (simp add: ready_def finished_db_def get_delivery_by_id_def)

definition outcome ::
  "worker_env \<Rightarrow> 's redis_ops \<Rightarrow> ('s \<Rightarrow> hashes) \<Rightarrow> ('s \<Rightarrow> bool) \<Rightarrow> uuid \<Rightarrow> bytes \<Rightarrow> 's world
   \<Rightarrow> account \<Rightarrow> delivery \<Rightarrow> dlq_entry list \<Rightarrow> breaker \<Rightarrow> stub_store \<Rightarrow> bool"
where
  "outcome env R contents up did bs w a d' es b' stub' \<longleftrightarrow>
     (\<exists>redis'. send_document env R (uuid_str did) (bytes_hex bs) w =
         (Inr (status_value (dl_status d')),
          \<lparr>w_db = finished_db env did d' es (w_db w), w_redis = redis', w_stub = stub'\<rparr>)
       \<and> br_holds contents up redis' (uuid_str (acc_id a)) b')
     \<and> get_delivery_by_id did (open_session (finished_db env did d' es (w_db w))) = Inr (Some d')"

definition dlq_for :: "worker_env \<Rightarrow> delivery \<Rightarrow> string \<Rightarrow> string \<Rightarrow> bool \<Rightarrow> dlq_entry" where
  "dlq_for env d code message retryable =
     \<lparr>dlq_id = we_dlq_id env, dlq_tenant_id = dl_tenant_id d, dlq_delivery_id = Some (dl_id d),
      dlq_provider_account_id = Some (dl_provider_account_id d), dlq_task_name = ''send_document'',
      dlq_payload = [(''delivery_id'', JStr (uuid_str (dl_id d)))], dlq_reason_code = code,
      dlq_reason_message = message, dlq_retryable = retryable, dlq_replayed_at = None,
      dlq_created_at = we_clock env 7\<rparr>"

lemma outcome_intro:
  assumes rs: "redis_store R contents up" and rdy: "ready contents up env w did d a p b"
    and run: "\<And>redis1. br_holds contents up redis1 (uuid_str (acc_id a)) (br_look (we_cfg env) (we_clock env 0) b) \<Longrightarrow>
      \<exists>rn. run_provider env R a p bs (first_run env did d (w\<lparr>w_redis := redis1\<rparr>)) = (Inr (), rn)
        \<and> rn_delivery rn = d' \<and> rn_stub rn = stub' \<and> rn_bindable rn
        \<and> rn_session rn = fold (\<lambda>e. session_add (New_dlq e)) es
             (open_session (set_delivery did (sending env d) (w_db w)))
        \<and> br_holds contents up (rn_redis rn) (uuid_str (acc_id a)) b'"
    and es: "es = [] \<or> (\<exists>e. es = [e] \<and> dlq_id e = we_dlq_id env)"
    and id: "same_identity d d'" "dl_id d' = did"
    and free: "free_for did d (dl_provider_document_id d') (w_db w)"
  shows "outcome env R contents up did bs w a d' es b' stub'"
proof -
  obtain redis1 where h: "br_holds contents up redis1 (uuid_str (acc_id a)) (br_look (we_cfg env) (we_clock env 0) b)"
    and eq: "\<And>r rn. run_provider env R a p bs (first_run env did d (w\<lparr>w_redis := redis1\<rparr>)) = (r, rn) \<Longrightarrow>
         send_document env R (uuid_str did) (bytes_hex bs) w =
           close_run env r rn (w\<lparr>w_redis := redis1, w_db := set_delivery did (sending env d) (w_db w)\<rparr>)"
    using redis_store.ready_run [OF rs rdy] by blast
  obtain rn where rn: "run_provider env R a p bs (first_run env did d (w\<lparr>w_redis := redis1\<rparr>)) = (Inr (), rn)"
      "rn_delivery rn = d'" "rn_stub rn = stub'" "rn_bindable rn"
      "rn_session rn = fold (\<lambda>e. session_add (New_dlq e)) es
             (open_session (set_delivery did (sending env d) (w_db w)))"
      "br_holds contents up (rn_redis rn) (uuid_str (acc_id a)) b'"
    using run [OF h] by blast
  from eq [OF rn(1)] close_ok [OF rdy rn(5) es _ rn(4)] rn(2,3) id(2) free
  have "send_document env R (uuid_str did) (bytes_hex bs) w =
         (Inr (status_value (dl_status d')),
          \<lparr>w_db = finished_db env did d' es (w_db w), w_redis = rn_redis rn, w_stub = stub'\<rparr>)"
    by simp
  with rn(6) get_finished [OF rdy id] show ?thesis by (auto simp: outcome_def)
qed

lemma accepted_outcome:
  assumes "redis_store R contents up" and rdy: "ready contents up env w did d a p b"
    and send: "provider_send (we_provider env) (worker_args d bs) p (w_stub w) = (Inr res, stub')"
    and pid: "sr_provider_document_id res = JStr pid" and free: "free_for did d (Some pid) (w_db w)"
  shows "outcome env R contents up did bs w a (mark_sent (we_clock env 4) pid (sending env d)) []
    (br_success (we_cfg env) (we_clock env 5) (br_look (we_cfg env) (we_clock env 0) b)) stub'"
proof (rule outcome_intro [OF assms(1) rdy])
  fix redis1
  assume h: "br_holds contents up redis1 (uuid_str (acc_id a)) (br_look (we_cfg env) (we_clock env 0) b)"
  obtain redis2 where "record_success R (we_cfg env) (we_clock env 5) (uuid_str (acc_id a)) redis1 = (Inr (), redis2)"
    "br_holds contents up redis2 (uuid_str (acc_id a))
       (br_success (we_cfg env) (we_clock env 5) (br_look (we_cfg env) (we_clock env 0) b))"
    using redis_store.record_success_impl [OF assms(1) h] by blast
  with send pid show "\<exists>rn. run_provider env R a p bs (first_run env did d (w\<lparr>w_redis := redis1\<rparr>)) = (Inr (), rn)
        \<and> rn_delivery rn = mark_sent (we_clock env 4) pid (sending env d) \<and> rn_stub rn = stub' \<and> rn_bindable rn
        \<and> rn_session rn = fold (\<lambda>e. session_add (New_dlq e)) []
             (open_session (set_delivery did (sending env d) (w_db w)))
        \<and> br_holds contents up (rn_redis rn) (uuid_str (acc_id a))
            (br_success (we_cfg env) (we_clock env 5) (br_look (we_cfg env) (we_clock env 0) b))"
    by (simp add: run_provider_def attempt_def first_run_def)
qed (use free ready_facts(1) [OF rdy] in \<open>simp_all add: mark_sent_def same_identity_def sending_def mark_sending_def\<close>)

text \<open>C12: A delivery the provider accepts is recorded as sent, whatever its status was before the run: the
  task returns \<open>SENT\<close>, the row holds the provider's document id and the time, one audit event is added,
  no dead letter, and the account's breaker has counted a success. In particular a delivery that was
  already sent, signed or failed goes to the provider again.\<close>

theorem send_accepted:
  assumes "redis_store R contents up" and rdy: "ready contents up env w did d a p b"
    and send: "provider_send (we_provider env) (worker_args d bs) p (w_stub w) = (Inr res, stub')"
    and pid: "sr_provider_document_id res = JStr pid" and free: "free_for did d (Some pid) (w_db w)"
  shows "outcome env R contents up did bs w a (mark_sent (we_clock env 4) pid (sending env d)) []
    (br_success (we_cfg env) (we_clock env 5) (br_look (we_cfg env) (we_clock env 0) b)) stub'"
  by (rule accepted_outcome [OF assms])

lemma transient_outcome:
  assumes "redis_store R contents up" and rdy: "ready contents up env w did d a p b"
    and send: "provider_send (we_provider env) (worker_args d bs) p (w_stub w) = (Inl (Domain e), stub')"
    and trans: "is_instance e C_ProviderTransient"
    and budget: "default_retry_max_attempts (we_cfg env) \<le> 1024"
  shows "if dl_retry_count d < default_retry_max_attempts (we_cfg env)
    then (\<exists>t. compute_next_retry (we_cfg env) (we_uniform env) (we_clock env 9) (dl_retry_count d) = Inr t
      \<and> outcome env R contents up did bs w a (schedule_retry (we_clock env 10) t (sending env d)) []
          (br_failure (we_cfg env) (we_clock env 8) (br_look (we_cfg env) (we_clock env 0) b)) stub')
    else outcome env R contents up did bs w a
      (mark_failed (we_clock env 6) (err_code e) (err_message e) (sending env d))
      [dlq_for env d (err_code e) (err_message e) True]
      (br_failure (we_cfg env) (we_clock env 8) (br_look (we_cfg env) (we_clock env 0) b)) stub'"
proof -
  let ?b' = "br_failure (we_cfg env) (we_clock env 8) (br_look (we_cfg env) (we_clock env 0) b)"
  have fail: "\<exists>redis2. record_failure R (we_cfg env) (we_clock env 8) (uuid_str (acc_id a)) redis1 = (Inr (), redis2)
      \<and> br_holds contents up redis2 (uuid_str (acc_id a)) ?b'"
    if "br_holds contents up redis1 (uuid_str (acc_id a)) (br_look (we_cfg env) (we_clock env 0) b)" for redis1
    using redis_store.record_failure_impl [OF assms(1) that] by blast
  have cls: "exc_is (Domain e) C_ProviderTransient" using trans by (simp add: exc_is_def)
  show ?thesis
  proof (cases "dl_retry_count d < default_retry_max_attempts (we_cfg env)")
    case True
    then obtain t where t: "compute_next_retry (we_cfg env) (we_uniform env) (we_clock env 9) (dl_retry_count d) = Inr t"
      using budget by (simp add: compute_next_retry_def retry_delay_def)
    have "outcome env R contents up did bs w a (schedule_retry (we_clock env 10) t (sending env d)) [] ?b' stub'"
    proof (rule outcome_intro [OF assms(1) rdy])
      fix redis1
      assume "br_holds contents up redis1 (uuid_str (acc_id a)) (br_look (we_cfg env) (we_clock env 0) b)"
      from fail [OF this] send cls t True
      show "\<exists>rn. run_provider env R a p bs (first_run env did d (w\<lparr>w_redis := redis1\<rparr>)) = (Inr (), rn)
        \<and> rn_delivery rn = schedule_retry (we_clock env 10) t (sending env d) \<and> rn_stub rn = stub' \<and> rn_bindable rn
        \<and> rn_session rn = fold (\<lambda>e. session_add (New_dlq e)) []
             (open_session (set_delivery did (sending env d) (w_db w)))
        \<and> br_holds contents up (rn_redis rn) (uuid_str (acc_id a)) ?b'"
        by (auto simp: run_provider_def attempt_def first_run_def on_exception_def on_transient_def
            should_retry_def Let_def)
    qed (use ready_facts(1,2) [OF rdy] in
        \<open>simp_all add: schedule_retry_def same_identity_def sending_def mark_sending_def\<close>)
    with True t show ?thesis by auto
  next
    case False
    have "outcome env R contents up did bs w a
      (mark_failed (we_clock env 6) (err_code e) (err_message e) (sending env d))
      [dlq_for env d (err_code e) (err_message e) True] ?b' stub'"
    proof (rule outcome_intro [OF assms(1) rdy])
      fix redis1
      assume "br_holds contents up redis1 (uuid_str (acc_id a)) (br_look (we_cfg env) (we_clock env 0) b)"
      from fail [OF this] send cls False
      show "\<exists>rn. run_provider env R a p bs (first_run env did d (w\<lparr>w_redis := redis1\<rparr>)) = (Inr (), rn)
        \<and> rn_delivery rn = mark_failed (we_clock env 6) (err_code e) (err_message e) (sending env d)
        \<and> rn_stub rn = stub' \<and> rn_bindable rn
        \<and> rn_session rn = fold (\<lambda>e. session_add (New_dlq e)) [dlq_for env d (err_code e) (err_message e) True]
             (open_session (set_delivery did (sending env d) (w_db w)))
        \<and> br_holds contents up (rn_redis rn) (uuid_str (acc_id a)) ?b'"
        by (auto simp: run_provider_def attempt_def first_run_def on_exception_def on_transient_def
            should_retry_def Let_def fail_delivery_def write_dlq_def dlq_for_def exc_code_def
            mark_failed_def)
    qed (use ready_facts(1,2) [OF rdy] in
        \<open>simp_all add: mark_failed_def same_identity_def sending_def mark_sending_def dlq_for_def\<close>)
    with False show ?thesis by simp
  qed
qed

text \<open>C13: After a transient error the breaker has counted a failure. While the retry budget lasts the
  delivery is pending again with one more attempt counted, its next attempt at the computed back-off
  time and no dead letter; when the budget is used up it is failed with the error's code, and one
  retryable dead letter records it.\<close>

theorem send_transient:
  assumes "redis_store R contents up" and rdy: "ready contents up env w did d a p b"
    and send: "provider_send (we_provider env) (worker_args d bs) p (w_stub w) = (Inl (Domain e), stub')"
    and trans: "is_instance e C_ProviderTransient"
    and budget: "default_retry_max_attempts (we_cfg env) \<le> 1024"
  shows "if dl_retry_count d < default_retry_max_attempts (we_cfg env)
    then (\<exists>t. compute_next_retry (we_cfg env) (we_uniform env) (we_clock env 9) (dl_retry_count d) = Inr t
      \<and> outcome env R contents up did bs w a (schedule_retry (we_clock env 10) t (sending env d)) []
          (br_failure (we_cfg env) (we_clock env 8) (br_look (we_cfg env) (we_clock env 0) b)) stub')
    else outcome env R contents up did bs w a
      (mark_failed (we_clock env 6) (err_code e) (err_message e) (sending env d))
      [dlq_for env d (err_code e) (err_message e) True]
      (br_failure (we_cfg env) (we_clock env 8) (br_look (we_cfg env) (we_clock env 0) b)) stub'"
  by (rule transient_outcome [OF assms])

text \<open>C14: An error that is not transient ends the delivery: it is failed, one dead letter that is not
  retryable records it, and the breaker is as the guard left it. The code is the error's own for a
  permanent provider error and \<open>UNKNOWN_ERROR\<close> for any other exception.\<close>

theorem send_other_error:
  assumes "redis_store R contents up" and rdy: "ready contents up env w did d a p b"
    and send: "provider_send (we_provider env) (worker_args d bs) p (w_stub w) = (Inl e, stub')"
    and other: "\<not> exc_is e C_ProviderTransient"
    and code: "code = (if exc_is e C_ProviderPermanent then exc_code e else ''UNKNOWN_ERROR'')"
  shows "outcome env R contents up did bs w a (mark_failed (we_clock env 6) code (exc_str e) (sending env d))
    [dlq_for env d code (exc_str e) False] (br_look (we_cfg env) (we_clock env 0) b) stub'"
proof (rule outcome_intro [OF assms(1) rdy])
  fix redis1
  assume "br_holds contents up redis1 (uuid_str (acc_id a)) (br_look (we_cfg env) (we_clock env 0) b)"
  with send other code
  show "\<exists>rn. run_provider env R a p bs (first_run env did d (w\<lparr>w_redis := redis1\<rparr>)) = (Inr (), rn)
        \<and> rn_delivery rn = mark_failed (we_clock env 6) code (exc_str e) (sending env d)
        \<and> rn_stub rn = stub' \<and> rn_bindable rn
        \<and> rn_session rn = fold (\<lambda>e. session_add (New_dlq e)) [dlq_for env d code (exc_str e) False]
             (open_session (set_delivery did (sending env d) (w_db w)))
        \<and> br_holds contents up (rn_redis rn) (uuid_str (acc_id a)) (br_look (we_cfg env) (we_clock env 0) b)"
    by (simp add: run_provider_def attempt_def first_run_def on_exception_def
        Let_def fail_delivery_def write_dlq_def dlq_for_def mark_failed_def)
qed (use ready_facts(1,2) [OF rdy] in
    \<open>simp_all add: mark_failed_def same_identity_def sending_def mark_sending_def dlq_for_def\<close>)

text \<open>C15: A document the provider has accepted is nevertheless recorded as failed when counting the success
  raises (say, because Redis refuses the write): the call stands inside the same \<open>try\<close>, so the delivery
  that was just marked as sent becomes failed with \<open>UNKNOWN_ERROR\<close>, keeping the provider's document id,
  and a dead letter that is not retryable is written.\<close>

theorem accepted_but_recorded_failed:
  assumes rdy: "ready contents up env w did d a p b"
    and g: "guard R (we_cfg env) (we_clock env 0) (uuid_str (acc_id a)) (w_redis w) = (Inr (), redis1)"
    and send: "provider_send (we_provider env) (worker_args d bs) p (w_stub w) = (Inr res, stub')"
    and pid: "sr_provider_document_id res = JStr pid" and free: "free_for did d (Some pid) (w_db w)"
    and rec: "record_success R (we_cfg env) (we_clock env 5) (uuid_str (acc_id a)) redis1 = (Inl e, redis2)"
    and plain: "\<not> exc_is e C_ProviderTransient" "\<not> exc_is e C_ProviderPermanent"
  shows "let d' = mark_failed (we_clock env 6) ''UNKNOWN_ERROR'' (exc_str e)
                    (mark_sent (we_clock env 4) pid (sending env d))
    in send_document env R (uuid_str did) (bytes_hex bs) w = (Inr ''FAILED'',
         \<lparr>w_db = finished_db env did d' [dlq_for env d ''UNKNOWN_ERROR'' (exc_str e) False] (w_db w),
          w_redis = redis2, w_stub = stub'\<rparr>)
       \<and> dl_status d' = FAILED \<and> dl_provider_document_id d' = Some pid \<and> dl_sent_at d' = Some (we_clock env 4)"
proof -
  let ?d' = "mark_failed (we_clock env 6) ''UNKNOWN_ERROR'' (exc_str e)
                    (mark_sent (we_clock env 4) pid (sending env d))"
  have "\<exists>rn. run_provider env R a p bs (first_run env did d (w\<lparr>w_redis := redis1\<rparr>)) = (Inr (), rn)
    \<and> rn_delivery rn = ?d' \<and> rn_stub rn = stub' \<and> rn_bindable rn \<and> rn_redis rn = redis2
    \<and> rn_session rn = fold (\<lambda>e. session_add (New_dlq e)) [dlq_for env d ''UNKNOWN_ERROR'' (exc_str e) False]
       (open_session (set_delivery did (sending env d) (w_db w)))"
    using send pid rec plain
    by (simp add: run_provider_def attempt_def first_run_def on_exception_def Let_def
        fail_delivery_def write_dlq_def dlq_for_def mark_failed_def mark_sent_def)
  then obtain rn where rn: "run_provider env R a p bs (first_run env did d (w\<lparr>w_redis := redis1\<rparr>)) = (Inr (), rn)"
    "rn_delivery rn = ?d'" "rn_stub rn = stub'" "rn_bindable rn" "rn_redis rn = redis2"
    "rn_session rn = fold (\<lambda>e. session_add (New_dlq e)) [dlq_for env d ''UNKNOWN_ERROR'' (exc_str e) False]
       (open_session (set_delivery did (sending env d) (w_db w)))"
    by blast
  have props: "dl_id ?d' = did" "dl_status ?d' = FAILED" "dl_provider_document_id ?d' = Some pid"
    "dl_sent_at ?d' = Some (we_clock env 4)"
    using ready_facts(1) [OF rdy] by (simp_all add: mark_failed_def mark_sent_def)
  from close_ok [OF rdy rn(6) _ _ rn(4)] run_after_guard [OF rdy g rn(1)] rn(2,3,5) props free
  have "send_document env R (uuid_str did) (bytes_hex bs) w = (Inr ''FAILED'',
         \<lparr>w_db = finished_db env did ?d' [dlq_for env d ''UNKNOWN_ERROR'' (exc_str e) False] (w_db w),
          w_redis = redis2, w_stub = stub'\<rparr>)"
    by (simp add: dlq_for_def)
  with props show ?thesis by (simp add: Let_def)
qed

section \<open>Concrete runs\<close>

definition sample_account :: account where
  "sample_account = create_account 4 0 2 KONTUR_EDO ''A''
     [(''api_key'', JStr ''K''), (''box_id'', JStr ''B'')] None None 100"

definition sample_provider :: provider where
  "sample_provider = P_kontur \<lparr>ko_api_key = JStr ''K'', ko_box_id = JStr ''B''\<rparr>"

definition sample_env :: "response res \<Rightarrow> worker_env" where
  "sample_env answer =
     \<lparr>we_cfg = default_settings, we_clock = int, we_uniform = 1,
      we_provider = \<lparr>pe_to_str = (\<lambda>_. ''t''), pe_http = (\<lambda>_. answer), pe_new_id = 7, pe_now = 0, pe_now' = 0\<rparr>,
      we_audit_id = 10, we_dlq_id = 11\<rparr>"

definition sample_world :: "delivery \<Rightarrow> mem_store world" where
  "sample_world d =
     \<lparr>w_db = empty_db\<lparr>db_accounts := [account_to_row sample_account], db_deliveries := [delivery_to_row d]\<rparr>,
      w_redis = mem_empty, w_stub = stub_empty\<rparr>"

definition sample_retried :: "nat \<Rightarrow> delivery" where
  "sample_retried n = (create_delivery 1 0 0 2 3 4 ''k'')\<lparr>dl_retry_count := n\<rparr>"

lemma sample_create_provider:
  "create_provider to_str (acc_provider_type sample_account) (acc_credentials_json sample_account) = Inr sample_provider"
  by (simp add: sample_account_def create_account_def kontur_init_def dict_item_def sample_provider_def)

lemma fresh_not_open: "br_state (br_look cfg now fresh_breaker) \<noteq> OPEN"
  by (simp add: br_look_def fresh_breaker_def)

lemma sample_ready:
  "ready mem_contents mem_up (sample_env answer) (sample_world (sample_retried n)) 1 (sample_retried n)
     sample_account sample_provider fresh_breaker"
proof -
  have "get_delivery_by_id 1 (open_session (w_db (sample_world (sample_retried n)))) = Inr (Some (sample_retried n))"
    using deliveries.get_inserted [of "[]" "sample_retried n"]
    by (simp add: get_delivery_by_id_def sample_world_def sample_retried_def create_delivery_def)
  moreover have "get_account_by_id 4 (open_session (w_db (sample_world (sample_retried n)))) = Inr (Some sample_account)"
    using accounts.get_inserted [of "[]" sample_account]
    by (simp add: get_account_by_id_def sample_world_def sample_account_def create_account_def)
  moreover have "db_ok (w_db (sample_world (sample_retried n)))"
    by (simp add: sample_world_def empty_db_def db_ok_def accounts_ok_def documents_ok_def
        deliveries_ok_def sample_retried_def create_delivery_def delivery_to_row_def)
  ultimately show ?thesis
    using mem_empty_holds [of "uuid_str (acc_id sample_account)"] sample_create_provider fresh_not_open
    by (simp add: ready_def sample_retried_def sample_account_def create_account_def create_delivery_def
        sample_world_def sample_env_def empty_db_def)
qed

lemma sample_send:
  "provider_send (we_provider (sample_env (Inr (sample_response 200 [(''documentId'', JStr ''D-1'')]))))
     args sample_provider st = (Inr \<lparr>sr_provider_document_id = JStr ''D-1'', sr_raw_status = ''sent''\<rparr>, st)"
  by (simp add: sample_env_def sample_provider_def kontur_send_def sample_response_def
      kontur_handle_errors_def status_error_def)

lemma sample_send_error:
  "400 \<le> status \<Longrightarrow>
   provider_send (we_provider (sample_env (Inr (sample_response status [])))) args sample_provider st =
     (Inl (projl (kontur_handle_errors (sample_response status []) ''send'')), st)"
  by (auto simp: sample_env_def sample_provider_def kontur_send_def sample_response_def
      kontur_handle_errors_def status_error_def)

lemma sample_free: "free_for 1 d pid (w_db (sample_world (sample_retried n)))"
  by (simp add: free_for_def provider_id_free_def sample_world_def sample_retried_def create_delivery_def
      delivery_to_row_def)

theorem send_accepted_witness:
  "outcome (sample_env (Inr (sample_response 200 [(''documentId'', JStr ''D-1'')]))) mem_redis mem_contents mem_up
     1 [1, 2] (sample_world (sample_retried 0)) sample_account
     (mark_sent 4 ''D-1'' (mark_sending 3 (sample_retried 0))) []
     (br_success default_settings 5 (br_look default_settings 0 fresh_breaker)) stub_empty"
proof -
  have "provider_send (we_provider (sample_env (Inr (sample_response 200 [(''documentId'', JStr ''D-1'')]))))
     (worker_args (sample_retried 0) [1, 2]) sample_provider (w_stub (sample_world (sample_retried 0)))
     = (Inr \<lparr>sr_provider_document_id = JStr ''D-1'', sr_raw_status = ''sent''\<rparr>, stub_empty)"
    by (simp add: sample_send) (simp add: sample_world_def)
  from send_accepted [OF mem.redis_store_axioms sample_ready this _ sample_free, of "''D-1''"]
  show ?thesis by (simp add: sample_env_def sending_def)
qed

theorem send_transient_witness:
  "(\<exists>t. outcome (sample_env (Inr (sample_response 503 []))) mem_redis mem_contents mem_up
     1 [] (sample_world (sample_retried 0)) sample_account
     (schedule_retry 10 t (mark_sending 3 (sample_retried 0))) []
     (br_failure default_settings 8 (br_look default_settings 0 fresh_breaker)) stub_empty)
   \<and> (\<exists>code message. outcome (sample_env (Inr (sample_response 429 []))) mem_redis mem_contents mem_up
     1 [] (sample_world (sample_retried 100)) sample_account
     (mark_failed 6 code message (mark_sending 3 (sample_retried 100)))
     [dlq_for (sample_env (Inr (sample_response 429 []))) (sample_retried 100) code message True]
     (br_failure default_settings 8 (br_look default_settings 0 fresh_breaker)) stub_empty)"
proof -
  have send: "provider_send (we_provider (sample_env (Inr (sample_response n []))))
     (worker_args (sample_retried k) []) sample_provider (w_stub (sample_world (sample_retried k)))
     = (Inl (projl (kontur_handle_errors (sample_response n []) ''send'')), stub_empty)"
    if "400 \<le> n" for n k
    using sample_send_error [OF that] by (simp add: sample_world_def)
  obtain e1 where e1: "projl (kontur_handle_errors (sample_response 503 []) ''send'') = Domain e1"
    "is_instance e1 C_ProviderTransient"
    by (simp add: kontur_handle_errors_def status_error_def sample_response_def is_instance_def)
  obtain e2 where e2: "projl (kontur_handle_errors (sample_response 429 []) ''send'') = Domain e2"
    "is_instance e2 C_ProviderTransient"
    by (simp add: kontur_handle_errors_def status_error_def sample_response_def is_instance_def)
  have s: "dl_retry_count (sample_retried k) = k"
    "we_cfg (sample_env r) = default_settings" "default_retry_max_attempts default_settings = 5" for k r
    by (simp_all add: sample_retried_def sample_env_def default_settings_def)
  from send_transient [OF mem.redis_store_axioms sample_ready send [of 503 0, unfolded e1(1)] e1(2)]
    send_transient [OF mem.redis_store_axioms sample_ready send [of 429 100, unfolded e2(1)] e2(2)]
  show ?thesis by (auto simp: s sample_env_def sending_def)
qed

lemma show_403: "show_nat 403 = ''403''"
  by code_simp

theorem send_other_error_witness:
  "outcome (sample_env (Inr (sample_response 403 []))) mem_redis mem_contents mem_up
     1 [] (sample_world (sample_retried 0)) sample_account
     (mark_failed 6 ''PROVIDER_PERMANENT_ERROR'' ''Kontur EDO client error [403]: '' (mark_sending 3 (sample_retried 0)))
     [dlq_for (sample_env (Inr (sample_response 403 []))) (sample_retried 0)
        ''PROVIDER_PERMANENT_ERROR'' ''Kontur EDO client error [403]: '' False]
     (br_look default_settings 0 fresh_breaker) stub_empty"
proof -
  let ?e = "Domain (ProviderPermanentError ''Kontur EDO client error [403]: '' ''KONTUR_EDO'')"
  have "provider_send (we_provider (sample_env (Inr (sample_response 403 []))))
     (worker_args (sample_retried 0) []) sample_provider (w_stub (sample_world (sample_retried 0)))
     = (Inl ?e, stub_empty)"
    using sample_send_error [of 403]
    by (simp add: sample_world_def kontur_handle_errors_def status_error_def sample_response_def show_403)
  from send_other_error [OF mem.redis_store_axioms sample_ready this] show ?thesis
    by (simp add: exc_is_def exc_code_def is_instance_def sample_env_def sending_def)
qed

definition full_redis :: "mem_store redis_ops" where
  "full_redis = mem_redis\<lparr>op_exec := (\<lambda>cs s. (Inl (OtherError ''OutOfMemoryError''), s))\<rparr>"

theorem accepted_but_recorded_failed_witness:
  "fst (send_document (sample_env (Inr (sample_response 200 [(''documentId'', JStr ''D-1'')]))) full_redis
     (uuid_str 1) (bytes_hex []) (sample_world (sample_retried 0))) = Inr ''FAILED''"
proof -
  have empty: "op_hgetall full_redis k mem_empty = (Inr [], mem_empty)" for k
    by (simp add: full_redis_def mem_redis_def mem_empty_def)
  have g: "guard full_redis cfg t k (w_redis (sample_world d)) = (Inr (), mem_empty)" for cfg t k d
    by (simp add: guard_def get_state_def rd_defs empty sample_world_def)
  have rec: "record_success full_redis cfg t k mem_empty = (Inl (OtherError ''OutOfMemoryError''), mem_empty)"
    for cfg t k
    by (simp add: record_success_def get_state_def rd_defs empty)
      (simp add: full_redis_def)
  have send: "provider_send (we_provider (sample_env (Inr (sample_response 200 [(''documentId'', JStr ''D-1'')]))))
     (worker_args (sample_retried 0) []) sample_provider (w_stub (sample_world (sample_retried 0)))
     = (Inr \<lparr>sr_provider_document_id = JStr ''D-1'', sr_raw_status = ''sent''\<rparr>, stub_empty)"
    by (simp add: sample_send) (simp add: sample_world_def)
  from accepted_but_recorded_failed [OF sample_ready g send _ sample_free rec, of "''D-1''"]
  show ?thesis by (simp add: Let_def exc_is_def)
qed

section \<open>What a run may touch\<close>

definition row_identity :: "delivery_row \<Rightarrow> uuid \<times> uuid \<times> uuid \<times> uuid \<times> string \<times> time" where
  "row_identity r = (dr_id r, dr_tenant_id r, dr_document_id r, dr_provider_account_id r,
     dr_idempotency_key r, dr_created_at r)"

text \<open>What a row says when a worker has written it: one of four statuses, and with \<open>SENT\<close> and \<open>FAILED\<close> their
  time, with \<open>FAILED\<close> the reason too.\<close>

definition recorded :: "delivery_row \<Rightarrow> bool" where
  "recorded r \<longleftrightarrow> dr_unified_status r \<in> {''PENDING'', ''SENDING''}
     \<or> dr_unified_status r = ''SENT'' \<and> dr_sent_at r = Some (dr_updated_at r)
     \<or> dr_unified_status r = ''FAILED'' \<and> dr_last_error_code r \<noteq> None \<and> dr_last_error_message r \<noteq> None
       \<and> dr_final_at r = Some (dr_updated_at r)"

abbreviation records :: "delivery \<Rightarrow> bool" where
  "records d \<equiv> recorded (delivery_to_row d)"

lemma recorded_merge [simp]: "recorded (delivery_merge d r) = records d"
  by (simp add: recorded_def delivery_merge_def delivery_to_row_def)

lemma records_ops [simp]:
  "records (mark_sending now d)" "records (mark_failed now code message d)" "records (schedule_retry now t d)"
  by (simp_all add: recorded_def delivery_to_row_def delivery_ops)

lemma marked_id [simp]:
  "dl_id (mark_failed now code message d) = dl_id d" "dl_id (schedule_retry now t d) = dl_id d"
  by (simp_all add: mark_failed_def schedule_retry_def)

lemma records_sent [simp]: "records (mark_sent_result now v d)"
  by (cases v) (simp_all add: recorded_def delivery_to_row_def delivery_ops)

lemma records_sending [simp]: "records (sending env d)"
  by (simp add: sending_def)

lemma row_identity_merge [simp]: "row_identity (delivery_merge d r) = row_identity r"
  by (simp add: row_identity_def delivery_merge_def)

definition worker_frame :: "uuid \<Rightarrow> db \<Rightarrow> db \<Rightarrow> bool" where
  "worker_frame did D D' \<longleftrightarrow>
     (\<exists>rows letters events.
        D' = D\<lparr>db_deliveries := rows, db_dlq := db_dlq D @ letters, db_audit := db_audit D @ events\<rparr>
        \<and> list_all2 (\<lambda>r r'. row_identity r' = row_identity r \<and> (dr_id r \<noteq> did \<longrightarrow> r' = r) \<and> (r' = r \<or> recorded r')) (db_deliveries D) rows
        \<and> length letters \<le> 1 \<and> (\<forall>e \<in> set letters. dlq_delivery_id e = Some did \<and> dlq_replayed_at e = None)
        \<and> length events \<le> 1 \<and> (\<forall>e \<in> set events. aud_resource_type e = ''delivery'' \<and> aud_resource_id e = did))"

lemma update_rows_frame:
  "records d \<Longrightarrow> list_all2 (\<lambda>r r'. row_identity r' = row_identity r \<and> (dr_id r \<noteq> did \<longrightarrow> r' = r) \<and> (r' = r \<or> recorded r')) rows
     (update_by dr_id did (delivery_merge d) rows)"
  by (simp add: update_by_def list_all2_map2 list_all2_same)

lemma worker_frame_refl: "worker_frame did D D"
  unfolding worker_frame_def
  by (intro exI [of _ "db_deliveries D"] exI [of _ "[]"]) (simp add: list_all2_same)

lemma worker_frame_set: "records d \<Longrightarrow> worker_frame did D (set_delivery did d D)"
  unfolding worker_frame_def set_delivery_def
  by (intro exI [of _ "update_by dr_id did (delivery_merge d) (db_deliveries D)"] exI [of _ "[]"])
    (simp add: update_rows_frame)

lemma update_and_commit_frame:
  assumes "update_and_commit d s = Inr s'" and "pending s = []"
  shows "view s' = set_delivery (dl_id d) d (view s) \<and> pending s' = [] \<and> db_ok (view s')"
  using assms
  by (auto simp: update_and_commit_def update_delivery_def and_then_Inr_iff write_view_Inr commit_Inr
      set_delivery_def)

text \<open>While the provider is called, the session holds the committed state and at most the dead letter of
  this delivery.\<close>

definition run_inv :: "uuid \<Rightarrow> db \<Rightarrow> 's run \<Rightarrow> bool" where
  "run_inv did D rn \<longleftrightarrow> view (rn_session rn) = D \<and> dl_id (rn_delivery rn) = did
     \<and> records (rn_delivery rn)
     \<and> (\<exists>es. pending (rn_session rn) = map New_dlq es \<and> length es \<le> 1
          \<and> (\<forall>e \<in> set es. dlq_delivery_id e = Some did \<and> dlq_replayed_at e = None))"

lemma mark_sent_result_id [simp]: "dl_id (mark_sent_result t v d) = dl_id d"
  by (cases v) (simp_all add: mark_sent_def)

lemma attempt_frame:
  "attempt env R a p bs rn = (r, rn1) \<Longrightarrow>
     rn_session rn1 = rn_session rn \<and> dl_id (rn_delivery rn1) = dl_id (rn_delivery rn)
     \<and> (records (rn_delivery rn) \<longrightarrow> records (rn_delivery rn1))"
  by (auto simp: attempt_def Let_def split: prod.splits sum.splits)

lemma fail_delivery_inv:
  assumes "run_inv did D rn" and "pending (rn_session rn) = []"
  shows "run_inv did D (fail_delivery env code message retryable rn)"
  using assms
  by (auto simp: run_inv_def fail_delivery_def write_dlq_def session_add_def Let_def
      intro!: exI [of _ "[_]"])

lemma on_exception_inv:
  assumes "run_inv did D rn" and "pending (rn_session rn) = []"
    and "on_exception env R a e rn = (r, rn1)"
  shows "run_inv did D rn1"
proof -
  have upd: "run_inv did D (rn\<lparr>rn_redis := s\<rparr>)" for s
    using assms(1) by (simp add: run_inv_def)
  have sched: "run_inv did D (rn\<lparr>rn_redis := s, rn_delivery := schedule_retry t1 t2 (rn_delivery rn)\<rparr>)" for s t1 t2
    using assms(1) by (auto simp: run_inv_def)
  have fail: "run_inv did D (fail_delivery env code message retryable rn)"
    "run_inv did D (fail_delivery env code message retryable (rn\<lparr>rn_redis := s\<rparr>))" for s code message retryable
    using fail_delivery_inv [OF assms(1,2)] fail_delivery_inv [OF upd] assms(2) by simp_all
  show ?thesis
    using assms(3) upd sched fail
    by (auto simp: on_exception_def on_transient_def Let_def split: prod.splits sum.splits if_splits)
qed

lemma run_provider_inv:
  assumes "run_inv did D rn" and "pending (rn_session rn) = []"
    and "run_provider env R a p bs rn = (r, rn1)"
  shows "run_inv did D rn1"
proof -
  obtain r0 rn0 where at: "attempt env R a p bs rn = (r0, rn0)" by fastforce
  from attempt_frame [OF this] assms(1,2) have inv: "run_inv did D rn0" "pending (rn_session rn0) = []"
    by (simp_all add: run_inv_def)
  with on_exception_inv [OF inv] assms(3) at show ?thesis
    by (auto simp: run_provider_def split: sum.splits)
qed

lemma finish_frame:
  assumes "run_inv did D rn" and "finish env rn = Inr D'"
  shows "worker_frame did D D' \<and> db_ok D'"
proof -
  let ?d = "rn_delivery rn"
  let ?au = "delivery_audit (we_audit_id env) (we_clock env 11) ?d"
  obtain es where es: "pending (rn_session rn) = map New_dlq es" "length es \<le> 1"
    "\<forall>e \<in> set es. dlq_delivery_id e = Some did \<and> dlq_replayed_at e = None"
    and inv: "view (rn_session rn) = D" "dl_id ?d = did" "records ?d"
    using assms(1) by (auto simp: run_inv_def)
  have fold: "fold insert_row (map New_dlq es) X = X\<lparr>db_dlq := db_dlq X @ es\<rparr>" for X es
    by (induction es arbitrary: X) simp_all
  have D': "D' = (set_delivery did ?d D)\<lparr>db_dlq := db_dlq D @ es, db_audit := db_audit D @ [?au]\<rparr>" "db_ok D'"
    using assms(2) es(1) inv
    by (auto simp: finish_def Let_def save_audit_def session_add_def update_delivery_def
        and_then_Inr_iff write_view_Inr commit_Inr fold set_delivery_def split: if_splits)
  have "aud_resource_type ?au = ''delivery''" "aud_resource_id ?au = did"
    using inv by (simp_all add: delivery_audit_def create_audit_event_def)
  then have "worker_frame did D D'"
    unfolding worker_frame_def D'(1) set_delivery_def
    by (intro exI [of _ "update_by dr_id did (delivery_merge ?d) (db_deliveries D)"] exI [of _ es] exI [of _ "[?au]"])
      (use es(2,3) inv(3) in \<open>simp add: update_rows_frame\<close>)
  with D'(2) show ?thesis by simp
qed

lemma worker_frame_set_trans:
  assumes "worker_frame did (set_delivery did d D) D'" and "records d"
  shows "worker_frame did D D'"
proof -
  let ?P = "\<lambda>r r'. row_identity r' = row_identity r \<and> (dr_id r \<noteq> did \<longrightarrow> r' = r) \<and> (r' = r \<or> recorded r')"
  obtain rows letters events where
    D': "D' = (set_delivery did d D)\<lparr>db_deliveries := rows, db_dlq := db_dlq D @ letters, db_audit := db_audit D @ events\<rparr>"
    and rows: "list_all2 ?P (db_deliveries (set_delivery did d D)) rows"
    and rest: "length letters \<le> 1" "\<forall>e \<in> set letters. dlq_delivery_id e = Some did \<and> dlq_replayed_at e = None"
      "length events \<le> 1" "\<forall>e \<in> set events. aud_resource_type e = ''delivery'' \<and> aud_resource_id e = did"
    using assms(1) by (auto simp: worker_frame_def)
  have "list_all2 ?P (db_deliveries D) (db_deliveries (set_delivery did d D))"
    using assms(2) by (simp add: set_delivery_def update_rows_frame)
  then have "list_all2 ?P (db_deliveries D) rows"
    using rows by (rule list_all2_trans [rotated 1]) (auto simp: row_identity_def)
  with D' rest show ?thesis
    unfolding worker_frame_def
    by (intro exI [of _ rows] exI [of _ letters] exI [of _ events]) (simp add: set_delivery_def)
qed

lemma return_early_frame:
  assumes "return_early d status (open_session (w_db w)) w1 = (r, w')" and "dl_id d = did"
    and "records d" and "w_db w1 = w_db w" and "db_ok (w_db w)"
  shows "worker_frame did (w_db w) (w_db w') \<and> db_ok (w_db w')"
proof (cases "update_and_commit d (open_session (w_db w))")
  case (Inl e)
  with assms show ?thesis by (auto simp: return_early_def worker_frame_refl)
next
  case (Inr s)
  with update_and_commit_frame [OF Inr] assms worker_frame_set [of d did "w_db w"] show ?thesis
    by (auto simp: return_early_def)
qed

lemma circuit_open_frame:
  assumes "circuit_open env d (open_session (w_db w)) (w\<lparr>w_redis := redis1\<rparr>) = (r, w')"
    and "dl_id d = did" and "db_ok (w_db w)"
  shows "worker_frame did (w_db w) (w_db w') \<and> db_ok (w_db w')"
proof -
  let ?d = "mark_failed (we_clock env 1) ''CIRCUIT_OPEN'' ''Circuit breaker is OPEN'' d"
  show ?thesis
  proof (cases "compute_next_retry (we_cfg env) (we_uniform env) (we_clock env 2) (dl_retry_count ?d)")
    case (Inl e)
    with assms show ?thesis by (auto simp: circuit_open_def Let_def worker_frame_refl)
  next
    case (Inr t)
    then have "return_early (schedule_retry (we_clock env 3) t ?d) ''circuit_open'' (open_session (w_db w))
        (w\<lparr>w_redis := redis1\<rparr>) = (r, w')"
      using assms(1) by (simp add: circuit_open_def Let_def)
    then show ?thesis
      by (rule return_early_frame) (simp_all add: assms)
  qed
qed

lemma send_attempt_frame:
  assumes "send_attempt env R a bs d (open_session (w_db w)) w1 = (r, w')" and "dl_id d = did"
    and "w_db w1 = w_db w" and "db_ok (w_db w)"
  shows "worker_frame did (w_db w) (w_db w') \<and> db_ok (w_db w')"
proof (cases "update_and_commit (sending env d) (open_session (w_db w))")
  case (Inl e)
  with assms show ?thesis
    by (auto simp: send_attempt_def Let_def sending_def [symmetric] worker_frame_refl)
next
  case (Inr s)
  have s: "view s = set_delivery did (sending env d) (w_db w)" "pending s = []" "db_ok (view s)"
    using update_and_commit_frame [OF Inr] assms(2) by auto
  show ?thesis
  proof (cases "create_provider (pe_to_str (we_provider env)) (acc_provider_type a) (acc_credentials_json a)")
    case (Inl e)
    with Inr assms(1) s worker_frame_set [of "sending env d" did "w_db w"] show ?thesis
      by (auto simp: send_attempt_def Let_def sending_def [symmetric])
  next
    case (Inr p)
    let ?rn0 = "\<lparr>rn_delivery = sending env d, rn_session = s, rn_redis = w_redis w1, rn_stub = w_stub w1,
      rn_bindable = True\<rparr>"
    obtain r1 rn where run: "run_provider env R a p bs ?rn0 = (r1, rn)" by fastforce
    have "run_inv did (view s) ?rn0" using s(2) assms(2) by (simp add: run_inv_def)
    then have inv: "run_inv did (view s) rn" using run s(2) by (auto intro: run_provider_inv)
    have close: "close_run env r1 rn (w1\<lparr>w_db := view s\<rparr>) = (r, w')"
      using assms(1) run Inr \<open>update_and_commit (sending env d) (open_session (w_db w)) = Inr s\<close>
      by (simp add: send_attempt_def Let_def sending_def [symmetric])
    have "worker_frame did (view s) (w_db w') \<and> db_ok (w_db w')"
      using close finish_frame [OF inv, of env] s(3)
      by (auto simp: close_run_def Let_def worker_frame_refl split: sum.splits)
    with s(1) show ?thesis by (auto intro: worker_frame_set_trans)
  qed
qed

lemma run_delivery_frame:
  assumes "run_delivery env R did bs w = (r, w')" and "db_ok (w_db w)"
  shows "worker_frame did (w_db w) (w_db w') \<and> db_ok (w_db w')"
proof (cases "get_delivery_by_id did (open_session (w_db w))")
  case (Inl e)
  with assms show ?thesis by (auto simp: run_delivery_def Let_def worker_frame_refl)
next
  case (Inr od)
  show ?thesis
  proof (cases od)
    case None
    with Inr assms show ?thesis by (auto simp: run_delivery_def Let_def worker_frame_refl)
  next
    case (Some d)
    with Inr have get: "get_delivery_by_id did (open_session (w_db w)) = Inr (Some d)" by simp
    have id: "dl_id d = did" by (rule get_delivery_facts(1) [OF get])
    have failed: "dl_id (mark_failed t c m d) = did" for t c m
      using id by (simp add: mark_failed_def)
    show ?thesis
    proof (cases "get_account_by_id (dl_provider_account_id d) (open_session (w_db w))")
      case (Inl e)
      with get assms show ?thesis by (auto simp: run_delivery_def Let_def worker_frame_refl)
    next
      case (Inr oa)
      show ?thesis
      proof (cases "\<exists>a. oa = Some a \<and> acc_is_active a")
        case False
        then have "run_delivery env R did bs w = return_early (mark_failed (we_clock env 1)
            ''PROVIDER_ACCOUNT_INACTIVE'' ''Provider account not active'' d) ''failed''
            (open_session (w_db w)) w"
          using get Inr by (auto simp: run_delivery_def Let_def split: option.splits)
        with assms return_early_frame [OF _ failed records_ops(2) refl] show ?thesis by simp
      next
        case True
        then obtain a where a: "oa = Some a" "acc_is_active a" by blast
        obtain g redis1 where g: "guard R (we_cfg env) (we_clock env 0) (uuid_str (acc_id a)) (w_redis w) = (g, redis1)"
          by fastforce
        show ?thesis
        proof (cases g)
          case Inr': (Inl e)
          show ?thesis
          proof (cases "exc_is e C_CircuitOpen")
            case True
            then have "run_delivery env R did bs w
                = circuit_open env d (open_session (w_db w)) (w\<lparr>w_redis := redis1\<rparr>)"
              using get Inr a g Inr' by (simp add: run_delivery_def Let_def)
            with assms circuit_open_frame [OF _ id] show ?thesis by simp
          next
            case False
            with get Inr a g Inr' assms show ?thesis
              by (auto simp: run_delivery_def Let_def worker_frame_refl)
          qed
        next
          case (Inr u)
          then have "run_delivery env R did bs w
              = send_attempt env R a bs d (open_session (w_db w)) (w\<lparr>w_redis := redis1\<rparr>)"
            using get \<open>get_account_by_id (dl_provider_account_id d) (open_session (w_db w)) = Inr oa\<close> a g
            by (simp add: run_delivery_def Let_def)
          with assms(1) have "send_attempt env R a bs d (open_session (w_db w)) (w\<lparr>w_redis := redis1\<rparr>) = (r, w')"
            by simp
          then show ?thesis by (rule send_attempt_frame) (simp_all add: id assms(2))
        qed
      qed
    qed
  qed
qed

lemma send_document_frame:
  assumes "send_document env R delivery_id file_bytes_hex w = (r, w')"
    and "uuid_parse delivery_id = Inr did" and "db_ok (w_db w)"
  shows "worker_frame did (w_db w) (w_db w') \<and> db_ok (w_db w')"
proof (cases "bytes_fromhex file_bytes_hex")
  case (Inl e)
  with assms show ?thesis by (auto simp: send_document_def worker_frame_refl)
next
  case (Inr bs)
  then have "run_delivery env R did bs w = (r, w')" using assms by (simp add: send_document_def)
  then show ?thesis using assms(3) by (rule run_delivery_frame)
qed

text \<open>C3: Whatever the provider, Redis and the clock do, and whether the task returns or raises, a run for one
  delivery changes nothing else: every other delivery row is untouched, the row itself keeps its
  identity (id, tenant, document, account, idempotency key, creation time) and, if it changed, has one of
  the statuses the task gives with the time and reason that belong to it, at most one dead letter and
  one audit event are appended, both about this delivery, the remaining tables are the same, and every
  constraint still holds.\<close>

theorem worker_touches_one_delivery:
  assumes "send_document env R delivery_id file_bytes_hex w = (r, w')"
    and "uuid_parse delivery_id = Inr did" and "db_ok (w_db w)"
  shows "worker_frame did (w_db w) (w_db w') \<and> db_ok (w_db w')"
  by (rule send_document_frame [OF assms])

theorem worker_touches_one_delivery_witness:
  "worker_frame 1 (w_db (sample_world (sample_retried 0)))
     (w_db (snd (send_document (sample_env (Inl (OtherError ''timeout''))) mem_redis (uuid_str 1) ''''
        (sample_world (sample_retried 0)))))"
proof -
  have "db_ok (w_db (sample_world (sample_retried 0)))"
    using sample_ready by (simp add: ready_def)
  from worker_touches_one_delivery [OF prod.collapse [symmetric] uuid_parse_str this] show ?thesis by blast
qed

section \<open>An open breaker\<close>

text \<open>C16: While the account's breaker is open the worker does not call the provider: it returns
  \<open>circuit_open\<close>, the delivery is pending again with one more attempt counted, its next attempt in the
  back-off window and the error \<open>CIRCUIT_OPEN\<close> recorded, and neither an audit event nor a dead letter is
  written. This holds however many attempts have been made: the retry budget is not consulted here.\<close>

theorem open_breaker_reschedules:
  assumes "redis_store R contents up" and ok: "db_ok (w_db w)"
    and get: "get_delivery_by_id did (open_session (w_db w)) = Inr (Some d)"
    and acc: "get_account_by_id (dl_provider_account_id d) (open_session (w_db w)) = Inr (Some a)" "acc_is_active a"
    and br: "br_holds contents up (w_redis w) (uuid_str (acc_id a)) b"
      "br_state (br_look (we_cfg env) (we_clock env 0) b) = OPEN"
    and n: "dl_retry_count d < 1024"
  shows "\<exists>t redis'.
    compute_next_retry (we_cfg env) (we_uniform env) (we_clock env 2) (dl_retry_count d) = Inr t
    \<and> send_document env R (uuid_str did) (bytes_hex bs) w =
        (Inr ''circuit_open'', w\<lparr>w_redis := redis', w_db := set_delivery did
           (schedule_retry (we_clock env 3) t
             (mark_failed (we_clock env 1) ''CIRCUIT_OPEN'' ''Circuit breaker is OPEN'' d)) (w_db w)\<rparr>)"
proof -
  let ?m = "mark_failed (we_clock env 1) ''CIRCUIT_OPEN'' ''Circuit breaker is OPEN'' d"
  obtain t where t: "compute_next_retry (we_cfg env) (we_uniform env) (we_clock env 2) (dl_retry_count d) = Inr t"
    using n by (simp add: compute_next_retry_def retry_delay_def)
  let ?d = "schedule_retry (we_clock env 3) t ?m"
  obtain redis1 where g: "guard R (we_cfg env) (we_clock env 0) (uuid_str (acc_id a)) (w_redis w)
      = (Inl (Domain (CircuitOpenError (uuid_str (acc_id a)))), redis1)"
    using redis_store.guard_impl [OF assms(1) br(1), of "we_cfg env" "we_clock env 0"] br(2) by auto
  have "free_for did d (dl_provider_document_id ?d) (w_db w)" "dl_id ?d = did"
    using own_id_free [OF get ok] get_delivery_facts(1) [OF get] by (simp_all add: schedule_retry_def mark_failed_def)
  from update_and_commit_ok [OF get ok this(2) this(1)]
  have "return_early ?d ''circuit_open'' (open_session (w_db w)) (w\<lparr>w_redis := redis1\<rparr>)
      = (Inr ''circuit_open'', w\<lparr>w_redis := redis1, w_db := set_delivery did ?d (w_db w)\<rparr>)"
    by (simp add: return_early_def)
  moreover have "dl_retry_count ?m = dl_retry_count d" by (simp add: mark_failed_def)
  ultimately have "send_document env R (uuid_str did) (bytes_hex bs) w =
      (Inr ''circuit_open'', w\<lparr>w_redis := redis1, w_db := set_delivery did ?d (w_db w)\<rparr>)"
    using get acc g t
    by (simp add: send_document_def run_delivery_def circuit_open_def Let_def exc_is_def is_instance_def)
  with t show ?thesis by blast
qed

definition open_store :: mem_store where
  "open_store = mem_empty\<lparr>mem_hashes := (\<lambda>k. [(''state'', HText ''OPEN''), (''opened_at'', HFloat 0)])\<rparr>"

theorem open_breaker_reschedules_witness:
  "fst (send_document (sample_env (Inl (OtherError ''unused''))) mem_redis (uuid_str 1) (bytes_hex [])
     ((sample_world (sample_retried 1000))\<lparr>w_redis := open_store\<rparr>)) = Inr ''circuit_open''"
proof -
  let ?b = "\<lparr>br_state = OPEN, br_failures = 0, br_half = 0, br_opened = 0\<rparr>"
  let ?w = "(sample_world (sample_retried 1000))\<lparr>w_redis := open_store\<rparr>"
  have h: "br_holds mem_contents mem_up (w_redis ?w) k ?b" for k
    by (simp add: br_holds_def open_store_def mem_empty_def hash_breaker_Some mem_contents_def
        parse_circuit_def)
  have r: "db_ok (w_db ?w)" "get_delivery_by_id 1 (open_session (w_db ?w)) = Inr (Some (sample_retried 1000))"
    "get_account_by_id (dl_provider_account_id (sample_retried 1000)) (open_session (w_db ?w)) = Inr (Some sample_account)"
    "acc_is_active sample_account"
    using sample_ready [of "Inl (OtherError ''unused'')" 1000] by (simp_all add: ready_def)
  have o: "br_state (br_look (we_cfg (sample_env e)) (we_clock (sample_env e) 0) ?b) = OPEN" for e
    by (simp add: br_look_def timed_out_def sample_env_def default_settings_def)
  from open_breaker_reschedules [OF mem.redis_store_axioms r h o [of "Inl (OtherError ''unused'')"], of "[]"]
  show ?thesis by (auto simp: sample_retried_def)
qed

end
