(* ===== verification/Auth.thy ===== *)
theory Auth
  imports SendProps
begin

text \<open>
  Authentication and authorisation: \<open>src/core/security.py\<close>, \<open>src/presentation/deps.py\<close>,
  \<open>src/presentation/api/v1/auth.py\<close> and \<open>src/infrastructure/security\<close>. The PASETO and bcrypt libraries are
  not part of the repository: \<open>tl_encode\<close>, \<open>tl_decode\<close> and the password check are parameters, as are the
  two conversions between time stamps and ISO texts.
\<close>

section \<open>Tokens\<close>

record token_lib =
  tl_encode :: "bytes \<Rightarrow> dict \<Rightarrow> string"
  tl_decode :: "bytes \<Rightarrow> string \<Rightarrow> json res"
  tl_isoformat :: "time \<Rightarrow> string"
  tl_fromisoformat :: "string \<Rightarrow> time res"
  tl_str :: "json \<Rightarrow> string"

text \<open>\<open>raw[:32].ljust(32, b"\x00")\<close>.\<close>

definition token_key :: "settings \<Rightarrow> bytes" where
  "token_key s = (let raw = take 32 (text_bytes (paseto_secret_key s)) in raw @ replicate (32 - length raw) 0)"

text \<open>\<open>{**payload, **extra}\<close>: a key of \<open>extra\<close> replaces the value and keeps the place.\<close>

definition dict_merge :: "dict \<Rightarrow> dict \<Rightarrow> dict" where
  "dict_merge payload extra = fold (\<lambda>(k, v) d. AList.update k v d) extra payload"

definition access_payload :: "token_lib \<Rightarrow> settings \<Rightarrow> time \<Rightarrow> uuid \<Rightarrow> string \<Rightarrow> dict option \<Rightarrow> dict" where
  "access_payload L s now jti subject extra =
     dict_merge
       [(''sub'', JStr subject), (''jti'', JStr (uuid_str jti)), (''iat'', JStr (tl_isoformat L now)),
        (''exp'', JStr (tl_isoformat L (now + access_token_ttl_minutes s * 60 * 1000000))),
        (''type'', JStr ''access'')]
       (case extra of None \<Rightarrow> [] | Some e \<Rightarrow> e)"

definition create_access_token ::
  "token_lib \<Rightarrow> settings \<Rightarrow> time \<Rightarrow> uuid \<Rightarrow> string \<Rightarrow> dict option \<Rightarrow> string"
where
  "create_access_token L s now jti subject extra =
     tl_encode L (token_key s) (access_payload L s now jti subject extra)"

definition refresh_payload :: "token_lib \<Rightarrow> settings \<Rightarrow> time \<Rightarrow> uuid \<Rightarrow> string \<Rightarrow> dict" where
  "refresh_payload L s now jti subject =
     [(''sub'', JStr subject), (''jti'', JStr (uuid_str jti)), (''iat'', JStr (tl_isoformat L now)),
      (''exp'', JStr (tl_isoformat L (now + refresh_token_ttl_days s * 24 * 3600 * 1000000))),
      (''type'', JStr ''refresh'')]"

definition create_refresh_token :: "token_lib \<Rightarrow> settings \<Rightarrow> time \<Rightarrow> uuid \<Rightarrow> string \<Rightarrow> string" where
  "create_refresh_token L s now jti subject =
     tl_encode L (token_key s) (refresh_payload L s now jti subject)"

text \<open>Every exception of the block is turned into a \<open>ValueError\<close>.\<close>

definition token_payload :: "token_lib \<Rightarrow> settings \<Rightarrow> time \<Rightarrow> string \<Rightarrow> json res" where
  "token_payload L s now token =
     and_then (tl_decode L (token_key s) token) (\<lambda>payload.
     and_then (json_get payload ''exp'' JNull) (\<lambda>exp_raw.
       if exp_raw = JNull then Inl (ValueError ''Token has no expiry'')
       else and_then (tl_fromisoformat L (tl_str L exp_raw)) (\<lambda>exp.
         if exp \<le> now then Inl (ValueError ''Token expired'') else Inr payload)))"

definition decode_token :: "token_lib \<Rightarrow> settings \<Rightarrow> time \<Rightarrow> string \<Rightarrow> json res" where
  "decode_token L s now token =
     (case token_payload L s now token of
        Inl e \<Rightarrow> Inl (ValueError (''Invalid token: '' @ exc_str e))
      | Inr payload \<Rightarrow> Inr payload)"

section \<open>The current user\<close>

record current_user =
  cu_user_id :: uuid
  cu_tenant_id :: uuid
  cu_role :: string

definition is_admin :: "current_user \<Rightarrow> bool" where
  "is_admin u \<longleftrightarrow> cu_role u = ''admin''"

text \<open>\<open>uuid.UUID(str(payload[key]))\<close>.\<close>

definition payload_uuid :: "token_lib \<Rightarrow> json \<Rightarrow> string \<Rightarrow> uuid res" where
  "payload_uuid L payload key = and_then (json_item payload key) (\<lambda>v. uuid_parse (tl_str L v))"

definition catch_malformed :: "'a res \<Rightarrow> 'a res" where
  "catch_malformed r =
     (case r of
        Inl (KeyError _) \<Rightarrow> Inl (ErrHTTP 401 ''Malformed token payload'')
      | Inl (ValueError _) \<Rightarrow> Inl (ErrHTTP 401 ''Malformed token payload'')
      | _ \<Rightarrow> r)"

definition get_current_user :: "token_lib \<Rightarrow> settings \<Rightarrow> time \<Rightarrow> string \<Rightarrow> current_user res" where
  "get_current_user L s now token =
     (case decode_token L s now token of
        Inl e \<Rightarrow> Inl (ErrHTTP 401 (exc_str e))
      | Inr payload \<Rightarrow>
          and_then (json_get payload ''type'' JNull) (\<lambda>ty.
            if ty \<noteq> JStr ''access'' then Inl (ErrHTTP 401 ''Expected access token'')
            else catch_malformed
              (and_then (payload_uuid L payload ''sub'') (\<lambda>user_id.
               and_then (payload_uuid L payload ''tenant_id'') (\<lambda>tenant_id.
               and_then (json_get payload ''role'' (JStr ''viewer'')) (\<lambda>role.
                 Inr \<lparr>cu_user_id = user_id, cu_tenant_id = tenant_id, cu_role = tl_str L role\<rparr>))))))"

definition require_admin :: "current_user \<Rightarrow> current_user res" where
  "require_admin u = (if \<not> is_admin u then Inl (ErrHTTP 403 ''Admin role required'') else Inr u)"

section \<open>Login and refresh\<close>

record token_response =
  tr_access :: string
  tr_refresh :: string
  tr_token_type :: string

definition issue_tokens :: "token_lib \<Rightarrow> settings \<Rightarrow> time \<Rightarrow> time \<Rightarrow> uuid \<Rightarrow> uuid \<Rightarrow> api_user \<Rightarrow> token_response" where
  "issue_tokens L s now1 now2 jti1 jti2 user =
     \<lparr>tr_access = create_access_token L s now1 jti1 (uuid_str (usr_id user))
        (Some [(''tenant_id'', JStr (uuid_str (usr_tenant_id user))), (''role'', JStr (usr_role user))]),
      tr_refresh = create_refresh_token L s now2 jti2 (uuid_str (usr_id user)),
      tr_token_type = ''bearer''\<rparr>"

text \<open>\<open>verify_password\<close>: an exception of the bcrypt check counts as a mismatch.\<close>

definition verify_password :: "(string \<Rightarrow> string \<Rightarrow> bool res) \<Rightarrow> string \<Rightarrow> string \<Rightarrow> bool" where
  "verify_password checkpw plain hashed = (case checkpw plain hashed of Inl e \<Rightarrow> False | Inr b \<Rightarrow> b)"

definition login ::
  "token_lib \<Rightarrow> (string \<Rightarrow> string \<Rightarrow> bool res) \<Rightarrow> settings \<Rightarrow> time \<Rightarrow> time \<Rightarrow> uuid \<Rightarrow> uuid
   \<Rightarrow> string \<Rightarrow> string \<Rightarrow> session \<Rightarrow> token_response res"
where
  "login L checkpw s now1 now2 jti1 jti2 email password db =
     and_then (scalar_one_or_none
       (filter (\<lambda>u. usr_email u = email \<and> usr_is_active u) (db_users (view db)))) (\<lambda>user.
       case user of
         None \<Rightarrow> Inl (ErrHTTP 401 ''Invalid email or password'')
       | Some u \<Rightarrow>
           if \<not> verify_password checkpw password (usr_hashed_password u)
           then Inl (ErrHTTP 401 ''Invalid email or password'')
           else Inr (issue_tokens L s now1 now2 jti1 jti2 u))"

definition refresh ::
  "token_lib \<Rightarrow> settings \<Rightarrow> time \<Rightarrow> time \<Rightarrow> time \<Rightarrow> uuid \<Rightarrow> uuid \<Rightarrow> string \<Rightarrow> session \<Rightarrow> token_response res"
where
  "refresh L s now now1 now2 jti1 jti2 refresh_token db =
     (case decode_token L s now refresh_token of
        Inl e \<Rightarrow> Inl (ErrHTTP 401 (exc_str e))
      | Inr payload \<Rightarrow>
          and_then (json_get payload ''type'' JNull) (\<lambda>ty.
            if ty \<noteq> JStr ''refresh'' then Inl (ErrHTTP 401 ''Expected refresh token'')
            else
              and_then (payload_uuid L payload ''sub'') (\<lambda>user_id.
              and_then (scalar_one_or_none
                (filter (\<lambda>u. usr_id u = user_id \<and> usr_is_active u) (db_users (view db)))) (\<lambda>user.
                case user of
                  None \<Rightarrow> Inl (ErrHTTP 401 ''User not found'')
                | Some u \<Rightarrow> Inr (issue_tokens L s now1 now2 jti1 jti2 u)))))"

record user_response =
  ur_id :: uuid
  ur_email :: string
  ur_role :: string
  ur_tenant_id :: uuid
  ur_is_active :: bool

definition me :: "current_user \<Rightarrow> session \<Rightarrow> user_response res" where
  "me cu db =
     and_then (scalar_one_or_none (filter (\<lambda>u. usr_id u = cu_user_id cu) (db_users (view db)))) (\<lambda>user.
       case user of
         None \<Rightarrow> Inl (ErrHTTP 404 ''User not found'')
       | Some u \<Rightarrow> Inr \<lparr>ur_id = usr_id u, ur_email = usr_email u, ur_role = usr_role u,
                        ur_tenant_id = usr_tenant_id u, ur_is_active = usr_is_active u\<rparr>)"

section \<open>Roles\<close>

datatype role = ADMIN | VIEWER

definition parse_role :: "string \<Rightarrow> role option" where
  "parse_role s = (if s = ''admin'' then Some ADMIN else if s = ''viewer'' then Some VIEWER else None)"

definition admin_verbs :: "string list" where
  "admin_verbs =
     [''provider_accounts:create'', ''provider_accounts:delete'', ''provider_accounts:activate'',
      ''provider_accounts:deactivate'', ''documents:send'', ''documents:retry'', ''dlq:replay'',
      ''dlq:read'', ''incoming:poll'', ''providers:read'', ''audit:read'']"

definition viewer_verbs :: "string list" where
  "viewer_verbs =
     [''provider_accounts:read'', ''documents:read'', ''incoming:read'', ''providers:read'', ''audit:read'']"

fun role_permissions :: "role \<Rightarrow> string list" where
  "role_permissions ADMIN = admin_verbs @ viewer_verbs"
| "role_permissions VIEWER = viewer_verbs"

definition has_permission :: "string \<Rightarrow> string \<Rightarrow> bool" where
  "has_permission r verb =
     (case parse_role r of None \<Rightarrow> False | Some ro \<Rightarrow> verb \<in> set (role_permissions ro))"

definition assert_permission :: "string \<Rightarrow> string \<Rightarrow> unit res" where
  "assert_permission r verb =
     (if \<not> has_permission r verb
      then Inl (PermissionError (''Role '' @ [CHR 0x27] @ r @ [CHR 0x27] @ '' is not allowed to '' @
             [CHR 0x27] @ verb @ [CHR 0x27]))
      else Inr ())"

section \<open>Properties\<close>

lemma decode_token_object:
  "decode_token L s now token = Inr payload \<Longrightarrow> \<exists>kvs. payload = JObj kvs"
  by (cases payload) (auto simp: decode_token_def token_payload_def and_then_Inr_iff
      split: sum.splits if_splits)

lemma payload_uuid_error:
  "payload_uuid L (JObj kvs) key = Inl e \<Longrightarrow> (\<exists>m. e = KeyError m) \<or> (\<exists>m. e = ValueError m)"
  by (auto simp: payload_uuid_def and_then_Inl_iff dict_item_def uuid_parse_def Let_def
      split: option.splits if_splits)

lemma claimed_identity:
  assumes "\<And>e. sub = Inl e \<Longrightarrow> (\<exists>m. e = KeyError m) \<or> (\<exists>m. e = ValueError m)"
    and "\<And>e. ten = Inl e \<Longrightarrow> (\<exists>m. e = KeyError m) \<or> (\<exists>m. e = ValueError m)"
  shows "catch_malformed (and_then sub (\<lambda>i. and_then ten (\<lambda>t. Inr (f i t)))) = Inl (ErrHTTP 401 ''Malformed token payload'')
    \<or> (\<exists>i t. sub = Inr i \<and> ten = Inr t
         \<and> catch_malformed (and_then sub (\<lambda>i. and_then ten (\<lambda>t. Inr (f i t)))) = Inr (f i t))"
  using assms by (cases sub; cases ten) (auto simp: catch_malformed_def)

text \<open>C25: Authentication fails closed and in one way. Whatever the token text and whatever the token library
  returns or raises, a request is either attributed to a user or answered 401; a user is returned only
  for an unexpired payload of type \<open>access\<close> whose subject and tenant are uuids, with the role the payload
  names and \<open>viewer\<close> when it names none.\<close>

theorem authentication_fails_closed:
  "(\<exists>m. get_current_user L s now token = Inl (ErrHTTP 401 m))
   \<or> (\<exists>u kvs exp. get_current_user L s now token = Inr u
       \<and> tl_decode L (token_key s) token = Inr (JObj kvs)
       \<and> map_of kvs ''type'' = Some (JStr ''access'')
       \<and> map_of kvs ''exp'' = Some exp \<and> (\<exists>t. tl_fromisoformat L (tl_str L exp) = Inr t \<and> now < t)
       \<and> payload_uuid L (JObj kvs) ''sub'' = Inr (cu_user_id u)
       \<and> payload_uuid L (JObj kvs) ''tenant_id'' = Inr (cu_tenant_id u)
       \<and> cu_role u = tl_str L (case map_of kvs ''role'' of None \<Rightarrow> JStr ''viewer'' | Some r \<Rightarrow> r))"
proof (cases "decode_token L s now token")
  case (Inl e)
  then show ?thesis by (simp add: get_current_user_def)
next
  case (Inr payload)
  then obtain kvs where p: "payload = JObj kvs" using decode_token_object by blast
  from Inr p have dec: "tl_decode L (token_key s) token = Inr (JObj kvs)"
    "\<exists>exp. map_of kvs ''exp'' = Some exp \<and> (\<exists>t. tl_fromisoformat L (tl_str L exp) = Inr t \<and> now < t)"
    by (auto simp: decode_token_def token_payload_def and_then_Inr_iff not_le
        split: sum.splits if_splits option.splits)
  show ?thesis
  proof (cases "map_of kvs ''type'' = Some (JStr ''access'')")
    case False
    then have "get_current_user L s now token = Inl (ErrHTTP 401 ''Expected access token'')"
      using Inr p by (auto simp: get_current_user_def split: option.splits)
    then show ?thesis by blast
  next
    case ty: True
    let ?role = "tl_str L (case map_of kvs ''role'' of None \<Rightarrow> JStr ''viewer'' | Some r \<Rightarrow> r)"
    have eq: "get_current_user L s now token = catch_malformed
        (and_then (payload_uuid L (JObj kvs) ''sub'') (\<lambda>user_id.
         and_then (payload_uuid L (JObj kvs) ''tenant_id'') (\<lambda>tenant_id.
           Inr \<lparr>cu_user_id = user_id, cu_tenant_id = tenant_id, cu_role = ?role\<rparr>)))"
      using Inr p ty by (simp add: get_current_user_def)
    have "get_current_user L s now token = Inl (ErrHTTP 401 ''Malformed token payload'')
      \<or> (\<exists>i t. payload_uuid L (JObj kvs) ''sub'' = Inr i \<and> payload_uuid L (JObj kvs) ''tenant_id'' = Inr t
          \<and> get_current_user L s now token = Inr \<lparr>cu_user_id = i, cu_tenant_id = t, cu_role = ?role\<rparr>)"
      unfolding eq by (rule claimed_identity) (rule payload_uuid_error, assumption)+
    with dec ty show ?thesis by (elim disjE exE conjE) simp_all
  qed
qed

text \<open>What the token library does for one token: the payload it was given comes back, and the expiry text
  is read as the instant it was written from.\<close>

definition opens_to :: "token_lib \<Rightarrow> settings \<Rightarrow> string \<Rightarrow> dict \<Rightarrow> time \<Rightarrow> bool" where
  "opens_to L s token kvs expiry \<longleftrightarrow>
     tl_decode L (token_key s) token = Inr (JObj kvs)
     \<and> tl_fromisoformat L (tl_isoformat L expiry) = Inr expiry \<and> (\<forall>t. tl_str L (JStr t) = t)"

lemma email_unique:
  assumes "distinct (map usr_email us)" and "u \<in> set us" and "P u"
  shows "filter (\<lambda>v. usr_email v = usr_email u \<and> P v) us = [u]"
proof -
  have "filter (\<lambda>v. usr_email v = usr_email u) us = [u]"
    using distinct_filter_one [OF assms(1,2)] by simp
  then have "filter P (filter (\<lambda>v. usr_email v = usr_email u) us) = [u]"
    using assms(3) by simp
  then show ?thesis by (simp add: conj_commute)
qed

lemma opens_payload:
  assumes "opens_to L s token kvs expiry" and "map_of kvs ''exp'' = Some (JStr (tl_isoformat L expiry))"
  shows "decode_token L s now token =
    (if now < expiry then Inr (JObj kvs) else Inl (ValueError ''Invalid token: Token expired''))"
  using assms by (simp add: decode_token_def token_payload_def opens_to_def)

lemma access_fields:
  "map_of (access_payload L s now jti subject (Some [(''tenant_id'', JStr t), (''role'', JStr r)])) =
     [''sub'' \<mapsto> JStr subject, ''jti'' \<mapsto> JStr (uuid_str jti), ''iat'' \<mapsto> JStr (tl_isoformat L now),
      ''exp'' \<mapsto> JStr (tl_isoformat L (now + access_token_ttl_minutes s * 60 * 1000000)),
      ''type'' \<mapsto> JStr ''access'', ''tenant_id'' \<mapsto> JStr t, ''role'' \<mapsto> JStr r]"
  by (rule ext) (simp add: access_payload_def dict_merge_def update_conv')


definition sample_user :: api_user where
  "sample_user = \<lparr>usr_id = 1, usr_tenant_id = 2, usr_email = ''a@b'', usr_hashed_password = ''h'',
     usr_role = ''admin'', usr_is_active = True\<rparr>"

text \<open>A token library for the example: the two tokens of one login are named, times are not encoded.\<close>

definition sample_lib :: token_lib where
  "sample_lib =
     \<lparr>tl_encode = (\<lambda>k p. if map_of p ''type'' = Some (JStr ''access'') then ''A'' else ''R''),
      tl_decode = (\<lambda>k t. Inr (JObj
        (if t = ''A''
         then dict_merge [(''sub'', JStr (uuid_str 1)), (''jti'', JStr (uuid_str 8)), (''iat'', JStr ''''),
                (''exp'', JStr ''''), (''type'', JStr ''access'')]
                [(''tenant_id'', JStr (uuid_str 2)), (''role'', JStr ''admin'')]
         else [(''sub'', JStr (uuid_str 1)), (''jti'', JStr (uuid_str 9)), (''iat'', JStr ''''),
                (''exp'', JStr ''''), (''type'', JStr ''refresh'')]))),
      tl_isoformat = (\<lambda>t. ''''), tl_fromisoformat = (\<lambda>x. Inr 1800000000),
      tl_str = (\<lambda>v. case v of JStr t \<Rightarrow> t | _ \<Rightarrow> '''')\<rparr>"


end
