(* ===== verification/DocumentsApi.thy ===== *)
theory DocumentsApi
  imports Auth
begin

text \<open>
  The request handlers of \<open>src/presentation/api/v1/documents.py\<close> with their request and response classes
  (\<open>src/application/dto\<close>). A handler acts on the request's session and may put task messages on the
  broker; \<open>serve\<close> runs it inside \<open>get_session\<close>: a message is on the broker at once, the database changes
  only when the handler has returned and the commit succeeds. The broker is not part of the
  repository: \<open>publish\<close> tells whether it takes a message or raises. The uuids and clock readings of a
  request are arguments.
\<close>

section \<open>Requests\<close>

datatype task_msg =
    Task_send string string
  | Task_webhook string "(string \<times> string) list" string
  | Task_poll_incoming

type_synonym publisher = "task_msg \<Rightarrow> unit res"

type_synonym 'a request = "session \<Rightarrow> 'a res \<times> session \<times> task_msg list"

definition serve :: "'a request \<Rightarrow> db \<Rightarrow> 'a res \<times> db \<times> task_msg list" where
  "serve h d =
     (case h (open_session d) of
        (Inl e, s, ms) \<Rightarrow> (Inl e, d, ms)
      | (Inr x, s, ms) \<Rightarrow> (case commit s of Inl e \<Rightarrow> (Inl e, d, ms) | Inr d' \<Rightarrow> (Inr x, d', ms)))"

text \<open>A handler that only reads.\<close>

definition reading :: "(session \<Rightarrow> 'a res) \<Rightarrow> 'a request" where
  "reading f s = (f s, s, [])"

lemma serve_reading: "db_ok d \<Longrightarrow> serve (reading f) d = (f (open_session d), d, [])"
  by (auto simp: serve_def reading_def commit_def split: sum.splits)

lemma serve_db_ok: "serve h d = (r, d', ms) \<Longrightarrow> db_ok d \<Longrightarrow> db_ok d'"
  by (auto simp: serve_def commit_def Let_def split: prod.splits sum.splits if_splits)

record send_request =
  sq_provider_account_id :: uuid
  sq_internal_document_id :: uuid
  sq_document_type :: string
  sq_sender_inn :: string
  sq_sender_kpp :: "string option"
  sq_recipient_inn :: string
  sq_recipient_kpp :: "string option"
  sq_title :: string
  sq_metadata :: dict

text \<open>The patterns and lengths of \<open>SendDocumentRequest\<close>; a request that misses one never reaches the handler.\<close>

definition inn_pattern :: "string \<Rightarrow> bool" where
  "inn_pattern t \<longleftrightarrow> (length t = 10 \<or> length t = 12) \<and> list_all is_digit t"

definition kpp_pattern :: "string option \<Rightarrow> bool" where
  "kpp_pattern k = (case k of None \<Rightarrow> True | Some t \<Rightarrow> length t = 9 \<and> list_all is_digit t)"

definition send_request_valid :: "send_request \<Rightarrow> bool" where
  "send_request_valid q \<longleftrightarrow>
     1 \<le> length (sq_document_type q) \<and> length (sq_document_type q) \<le> 64
     \<and> inn_pattern (sq_sender_inn q) \<and> kpp_pattern (sq_sender_kpp q)
     \<and> inn_pattern (sq_recipient_inn q) \<and> kpp_pattern (sq_recipient_kpp q)
     \<and> 1 \<le> length (sq_title q) \<and> length (sq_title q) \<le> 255"

record upload =
  up_filename :: "string option"
  up_content_type :: "string option"
  up_bytes :: bytes

definition or_default :: "string option \<Rightarrow> string \<Rightarrow> string" where
  "or_default v dflt = (case v of None \<Rightarrow> dflt | Some t \<Rightarrow> if t = '''' then dflt else t)"

section \<open>Responses\<close>

record delivery_response =
  rs_id :: uuid
  rs_document_id :: uuid
  rs_provider_account_id :: uuid
  rs_unified_status :: string
  rs_provider_document_id :: "string option"
  rs_retry_count :: nat
  rs_last_error_code :: "string option"
  rs_last_error_message :: "string option"
  rs_sent_at :: "time option"
  rs_delivered_at :: "time option"
  rs_signed_at :: "time option"
  rs_rejected_at :: "time option"
  rs_created_at :: time
  rs_updated_at :: time

definition delivery_response_of :: "delivery \<Rightarrow> delivery_response" where
  "delivery_response_of d =
     \<lparr>rs_id = dl_id d, rs_document_id = dl_document_id d, rs_provider_account_id = dl_provider_account_id d,
      rs_unified_status = status_value (dl_status d), rs_provider_document_id = dl_provider_document_id d,
      rs_retry_count = dl_retry_count d, rs_last_error_code = dl_last_error_code d,
      rs_last_error_message = dl_last_error_message d, rs_sent_at = dl_sent_at d,
      rs_delivered_at = dl_delivered_at d, rs_signed_at = dl_signed_at d, rs_rejected_at = dl_rejected_at d,
      rs_created_at = dl_created_at d, rs_updated_at = dl_updated_at d\<rparr>"

record document_response =
  dq_id :: uuid
  dq_tenant_id :: uuid
  dq_internal_document_id :: uuid
  dq_document_type :: string
  dq_sender_inn :: string
  dq_recipient_inn :: string
  dq_title :: string
  dq_file_name :: string
  dq_mime_type :: string
  dq_created_at :: time

definition document_response_of :: "document \<Rightarrow> document_response" where
  "document_response_of d =
     \<lparr>dq_id = doc_id d, dq_tenant_id = doc_tenant_id d, dq_internal_document_id = doc_internal_document_id d,
      dq_document_type = doc_document_type d, dq_sender_inn = doc_sender_inn d,
      dq_recipient_inn = doc_recipient_inn d, dq_title = doc_title d, dq_file_name = doc_file_name d,
      dq_mime_type = doc_mime_type d, dq_created_at = doc_created_at d\<rparr>"

record document_status_response =
  ds_document_id :: uuid
  ds_unified_status :: string
  ds_deliveries :: "delivery_response list"

section \<open>Sending\<close>

record send_env =
  sv_sha256 :: "bytes \<Rightarrow> bytes"
  sv_document_id :: uuid
  sv_document_now :: time
  sv_delivery_id :: uuid
  sv_delivery_now1 :: time
  sv_delivery_now2 :: time

definition new_document :: "send_env \<Rightarrow> current_user \<Rightarrow> send_request \<Rightarrow> upload \<Rightarrow> document" where
  "new_document v cu q file =
     create_document (sv_sha256 v) (sv_document_id v) (sv_document_now v) (cu_tenant_id cu)
       (sq_internal_document_id q) (sq_document_type q) (sq_sender_inn q) (sq_sender_kpp q)
       (sq_recipient_inn q) (sq_recipient_kpp q) (sq_title q)
       (or_default (up_filename file) ''document'')
       (or_default (up_content_type file) ''application/octet-stream'')
       (up_bytes file) (cu_user_id cu) (Some (sq_metadata q))"

definition new_delivery :: "send_env \<Rightarrow> current_user \<Rightarrow> account \<Rightarrow> delivery" where
  "new_delivery v cu a =
     create_delivery (sv_delivery_id v) (sv_delivery_now1 v) (sv_delivery_now2 v) (cu_tenant_id cu)
       (sv_document_id v) (acc_id a) (uuid_str (sv_document_id v) @ '':'' @ uuid_str (acc_id a))"

text \<open>The task is put on the broker before the request's transaction is committed.\<close>

definition send_document_endpoint ::
  "send_env \<Rightarrow> publisher \<Rightarrow> current_user \<Rightarrow> send_request \<Rightarrow> upload \<Rightarrow> delivery_response request"
where
  "send_document_endpoint v publish cu q file s =
     (case get_document_by_internal_id (cu_tenant_id cu) (sq_internal_document_id q) s of
        Inl e \<Rightarrow> (Inl e, s, [])
      | Inr (Some _) \<Rightarrow>
          (Inl (ErrHTTP 409 (''Document already exists: '' @ uuid_str (sq_internal_document_id q))), s, [])
      | Inr None \<Rightarrow>
          (case get_account_by_id (sq_provider_account_id q) s of
             Inl e \<Rightarrow> (Inl e, s, [])
           | Inr None \<Rightarrow> (Inl (ErrHTTP 404 ''Provider account not found''), s, [])
           | Inr (Some a) \<Rightarrow>
               if acc_tenant_id a \<noteq> cu_tenant_id cu
               then (Inl (ErrHTTP 404 ''Provider account not found''), s, [])
               else if \<not> acc_is_active a
               then (Inl (ErrHTTP 422 ''Provider account inactive''), s, [])
               else
                 (let s1 = save_document (new_document v cu q file) s;
                      d = new_delivery v cu a;
                      s2 = save_delivery d s1;
                      m = Task_send (uuid_str (dl_id d)) (bytes_hex (up_bytes file))
                  in case publish m of
                       Inl e \<Rightarrow> (Inl e, s2, [])
                     | Inr _ \<Rightarrow> (Inr (delivery_response_of d), s2, [m]))))"

section \<open>Reading\<close>

definition list_documents :: "current_user \<Rightarrow> nat \<Rightarrow> nat \<Rightarrow> session \<Rightarrow> document_response list res" where
  "list_documents cu offset limit s =
     and_then (list_documents_by_tenant (cu_tenant_id cu) offset limit s)
       (\<lambda>docs. Inr (map document_response_of docs))"

text \<open>The document of a route, visible to its tenant only.\<close>

definition own_document :: "uuid \<Rightarrow> current_user \<Rightarrow> session \<Rightarrow> document res" where
  "own_document document_id cu s =
     and_then (get_document_by_id document_id s) (\<lambda>doc.
       case doc of
         None \<Rightarrow> Inl (ErrHTTP 404 ''Document not found'')
       | Some d \<Rightarrow>
           if doc_tenant_id d \<noteq> cu_tenant_id cu then Inl (ErrHTTP 404 ''Document not found'') else Inr d)"

definition get_document :: "uuid \<Rightarrow> current_user \<Rightarrow> session \<Rightarrow> document_response res" where
  "get_document document_id cu s =
     and_then (own_document document_id cu s) (\<lambda>d. Inr (document_response_of d))"

definition list_deliveries :: "uuid \<Rightarrow> current_user \<Rightarrow> session \<Rightarrow> delivery_response list res" where
  "list_deliveries document_id cu s =
     and_then (own_document document_id cu s) (\<lambda>_.
     and_then (list_by_document document_id s) (\<lambda>ds. Inr (map delivery_response_of ds)))"

definition best_status :: "unified_status list \<Rightarrow> unified_status" where
  "best_status statuses =
     (if SIGNED \<in> set statuses then SIGNED
      else case statuses of st # _ \<Rightarrow> st | [] \<Rightarrow> PENDING)"

definition get_document_status :: "uuid \<Rightarrow> current_user \<Rightarrow> session \<Rightarrow> document_status_response res" where
  "get_document_status document_id cu s =
     and_then (own_document document_id cu s) (\<lambda>_.
     and_then (list_by_document document_id s) (\<lambda>ds.
       Inr \<lparr>ds_document_id = document_id,
            ds_unified_status = status_value (best_status (map dl_status ds)),
            ds_deliveries = map delivery_response_of ds\<rparr>))"

section \<open>Retrying\<close>

definition retry_message :: "delivery \<Rightarrow> task_msg" where
  "retry_message d = Task_send (uuid_str (dl_id d)) ''''"

definition reset_for_retry :: "delivery \<Rightarrow> delivery" where
  "reset_for_retry d = d\<lparr>dl_status := PENDING, dl_next_retry_at := None\<rparr>"

fun retry_each :: "publisher \<Rightarrow> bool \<Rightarrow> delivery list \<Rightarrow> session \<Rightarrow> unit res \<times> session \<times> task_msg list" where
  "retry_each publish force [] s = (Inr (), s, [])"
| "retry_each publish force (d # ds) s =
     (if delivery_is_terminal d \<and> \<not> force then retry_each publish force ds s
      else case update_delivery (reset_for_retry d) s of
             Inl e \<Rightarrow> (Inl e, s, [])
           | Inr s' \<Rightarrow>
               (case publish (retry_message d) of
                  Inl e \<Rightarrow> (Inl e, s', [])
                | Inr _ \<Rightarrow>
                    (case retry_each publish force ds s' of
                       (r, s'', ms) \<Rightarrow> (r, s'', retry_message d # ms))))"

text \<open>The handler does not use the current user.\<close>

definition retry_document :: "publisher \<Rightarrow> uuid \<Rightarrow> bool \<Rightarrow> current_user \<Rightarrow> string request" where
  "retry_document publish document_id force cu s =
     (case list_by_document document_id s of
        Inl e \<Rightarrow> (Inl e, s, [])
      | Inr deliveries \<Rightarrow>
          (let failed = filter (\<lambda>d. dl_status d = FAILED) deliveries in
           if failed = [] then (Inl (ErrHTTP 404 ''No failed deliveries found''), s, [])
           else (case retry_each publish force failed s of
                   (Inl e, s', ms) \<Rightarrow> (Inl e, s', ms)
                 | (Inr _, s', ms) \<Rightarrow> (Inr ''retry_dispatched'', s', ms))))"

end
