(* ===== verification/DocumentsProps.thy ===== *)
theory DocumentsProps
  imports DocumentsApi
begin

text \<open>Properties of the document routes: what a send request stores and puts on the broker, who sees a
  document, and what the retry route dispatches.\<close>

section \<open>Sending\<close>

definition send_key :: "send_env \<Rightarrow> account \<Rightarrow> string" where
  "send_key v a = uuid_str (sv_document_id v) @ '':'' @ uuid_str (acc_id a)"

text \<open>The request is for a new internal id and an active account of the user's tenant, the broker takes the
  message, and the two uuids are new.\<close>

definition sendable ::
  "send_env \<Rightarrow> publisher \<Rightarrow> current_user \<Rightarrow> send_request \<Rightarrow> upload \<Rightarrow> account \<Rightarrow> db \<Rightarrow> bool"
where
  "sendable v publish cu q file a D \<longleftrightarrow>
     db_ok D
     \<and> get_document_by_internal_id (cu_tenant_id cu) (sq_internal_document_id q) (open_session D) = Inr None
     \<and> get_account_by_id (sq_provider_account_id q) (open_session D) = Inr (Some a)
     \<and> acc_tenant_id a = cu_tenant_id cu \<and> acc_is_active a
     \<and> publish (Task_send (uuid_str (sv_delivery_id v)) (bytes_hex (up_bytes file))) = Inr ()
     \<and> sv_document_id v \<notin> doc_id ` set (db_documents D)
     \<and> sv_delivery_id v \<notin> dr_id ` set (db_deliveries D)
     \<and> (acc_id a, send_key v a) \<notin> (\<lambda>r. (dr_provider_account_id r, dr_idempotency_key r)) ` set (db_deliveries D)"

definition sent_db :: "send_env \<Rightarrow> current_user \<Rightarrow> send_request \<Rightarrow> upload \<Rightarrow> account \<Rightarrow> db \<Rightarrow> db" where
  "sent_db v cu q file a D =
     D\<lparr>db_documents := db_documents D @ [new_document v cu q file],
       db_deliveries := db_deliveries D @ [delivery_to_row (new_delivery v cu a)]\<rparr>"

lemma new_delivery_fields [simp]:
  "dl_id (new_delivery v cu a) = sv_delivery_id v" "dl_tenant_id (new_delivery v cu a) = cu_tenant_id cu"
  "dl_document_id (new_delivery v cu a) = sv_document_id v"
  "dl_provider_account_id (new_delivery v cu a) = acc_id a"
  "dl_idempotency_key (new_delivery v cu a) = send_key v a" "dl_status (new_delivery v cu a) = PENDING"
  "dl_provider_document_id (new_delivery v cu a) = None"
  by (simp_all add: new_delivery_def create_delivery_def send_key_def)

lemma new_document_fields [simp]:
  "doc_id (new_document v cu q file) = sv_document_id v"
  "doc_tenant_id (new_document v cu q file) = cu_tenant_id cu"
  "doc_internal_document_id (new_document v cu q file) = sq_internal_document_id q"
  "doc_file_checksum (new_document v cu q file) = bytes_hex (sv_sha256 v (up_bytes file))"
  by (simp_all add: new_document_def create_document_def)

lemma delivery_row_fields [simp]:
  "dr_id (delivery_to_row d) = dl_id d"
  "dr_provider_account_id (delivery_to_row d) = dl_provider_account_id d"
  "dr_idempotency_key (delivery_to_row d) = dl_idempotency_key d"
  "dr_provider_document_id (delivery_to_row d) = dl_provider_document_id d"
  "dr_document_id (delivery_to_row d) = dl_document_id d"
  by (simp_all add: delivery_to_row_def)

lemma deliveries_ok_append:
  assumes "deliveries_ok rs" and "dl_id d \<notin> dr_id ` set rs" and "dl_provider_document_id d = None"
    and "(dl_provider_account_id d, dl_idempotency_key d) \<notin> (\<lambda>r. (dr_provider_account_id r, dr_idempotency_key r)) ` set rs"
  shows "deliveries_ok (rs @ [delivery_to_row d])"
proof -
  have "no_provider_clash (rs @ [delivery_to_row d])"
    unfolding no_provider_clash_def
  proof (intro ballI impI)
    fix r r'
    assume r: "r \<in> set (rs @ [delivery_to_row d])" "r' \<in> set (rs @ [delivery_to_row d])"
      and eq: "dr_provider_document_id r \<noteq> None" "dr_provider_account_id r = dr_provider_account_id r'"
        "dr_provider_document_id r = dr_provider_document_id r'"
    have old: "q \<in> set rs" if "q \<in> set (rs @ [delivery_to_row d])" "dr_provider_document_id q \<noteq> None" for q
      using that assms(3) by auto
    have "r \<in> set rs" by (rule old [OF r(1) eq(1)])
    moreover have "r' \<in> set rs" using eq by (intro old [OF r(2)]) simp
    ultimately
    show "r = r'" using eq assms(1) unfolding deliveries_ok_iff no_provider_clash_def by metis
  qed
  with assms show ?thesis by (simp add: deliveries_ok_iff)
qed

lemma internal_id_absent:
  assumes "get_document_by_internal_id tenant internal (open_session D) = Inr None"
  shows "(tenant, internal) \<notin> (\<lambda>r. (doc_tenant_id r, doc_internal_document_id r)) ` set (db_documents D)"
  using assms
  by (auto simp: get_document_by_internal_id_def load_scalar_None filter_empty_conv)

lemma sent_db_ok:
  assumes "sendable v publish cu q file a D"
  shows "db_ok (sent_db v cu q file a D)"
proof -
  have "deliveries_ok (db_deliveries D @ [delivery_to_row (new_delivery v cu a)])"
    using assms by (intro deliveries_ok_append) (auto simp: sendable_def db_ok_def)
  moreover have "documents_ok (db_documents D @ [new_document v cu q file])"
    using assms internal_id_absent [of "cu_tenant_id cu" "sq_internal_document_id q" D]
    by (auto simp: sendable_def db_ok_def documents_ok_def)
  ultimately show ?thesis
    using assms by (simp add: sendable_def db_ok_def sent_db_def)
qed

lemma sent_db_get:
  assumes "sendable v publish cu q file a D"
  shows "get_delivery_by_id (sv_delivery_id v) (open_session (sent_db v cu q file a D)) = Inr (Some (new_delivery v cu a))"
proof -
  have "distinct (map dr_id (db_deliveries D @ [delivery_to_row (new_delivery v cu a)]))"
    using db_ok_tables(1) [OF sent_db_ok [OF assms]] by (simp add: sent_db_def)
  from deliveries.get_inserted [OF this] show ?thesis
    by (simp add: get_delivery_by_id_def sent_db_def)
qed

lemma sent_request:
  assumes "sendable v publish cu q file a D"
  shows "serve (send_document_endpoint v publish cu q file) D =
      (Inr (delivery_response_of (new_delivery v cu a)), sent_db v cu q file a D,
       [Task_send (uuid_str (sv_delivery_id v)) (bytes_hex (up_bytes file))])"
proof -
  have "commit (save_delivery (new_delivery v cu a) (save_document (new_document v cu q file) (open_session D)))
      = Inr (sent_db v cu q file a D)"
    using sent_db_ok [OF assms] by (simp add: commit_def save_delivery_def save_document_def session_add_def sent_db_def)
  with assms show ?thesis by (simp add: serve_def send_document_endpoint_def sendable_def Let_def)
qed


definition sample_send_env :: send_env where
  "sample_send_env = \<lparr>sv_sha256 = id, sv_document_id = 21, sv_document_now = 0, sv_delivery_id = 22,
     sv_delivery_now1 = 0, sv_delivery_now2 = 0\<rparr>"

definition sample_send_request :: send_request where
  "sample_send_request = \<lparr>sq_provider_account_id = 4, sq_internal_document_id = 31, sq_document_type = ''INVOICE'',
     sq_sender_inn = ''7707083893'', sq_sender_kpp = None, sq_recipient_inn = ''7707083893'',
     sq_recipient_kpp = None, sq_title = ''T'', sq_metadata = []\<rparr>"

definition sample_upload :: upload where
  "sample_upload = \<lparr>up_filename = None, up_content_type = None, up_bytes = [1, 2]\<rparr>"

definition sample_cu :: current_user where
  "sample_cu = \<lparr>cu_user_id = 1, cu_tenant_id = 2, cu_role = ''viewer''\<rparr>"

definition account_db :: db where
  "account_db = empty_db\<lparr>db_accounts := [account_to_row sample_account]\<rparr>"

lemma sample_sendable:
  "sendable sample_send_env (\<lambda>m. Inr ()) sample_cu sample_send_request sample_upload sample_account account_db"
proof -
  have "get_account_by_id 4 (open_session account_db) = Inr (Some sample_account)"
    using accounts.get_inserted [of "[]" sample_account]
    by (simp add: get_account_by_id_def account_db_def sample_account_def create_account_def)
  then show ?thesis
    by (simp add: sendable_def sample_send_env_def sample_send_request_def sample_cu_def account_db_def
        empty_db_def db_ok_def accounts_ok_def documents_ok_def deliveries_ok_def
        get_document_by_internal_id_def load_def)
      (simp add: sample_account_def create_account_def)
qed


section \<open>Who sees a document\<close>

lemma own_document_404:
  assumes "db_ok D"
    and "\<And>d. get_document_by_id i (open_session D) = Inr (Some d) \<Longrightarrow> doc_tenant_id d \<noteq> cu_tenant_id cu"
  shows "own_document i cu (open_session D) = Inl (ErrHTTP 404 ''Document not found'')"
proof (cases "get_document_by_id i (open_session D)")
  case (Inl e)
  have "\<exists>o'. get_document_by_id i (open_session D) = Inr o'"
  proof (cases "\<exists>d \<in> set (db_documents D). doc_id d = i")
    case True
    then obtain d where d: "d \<in> set (db_documents D)" "doc_id d = i" by blast
    with distinct_filter_one [OF db_ok_tables(3) [OF assms(1)] d(1)] show ?thesis
      by (simp add: get_document_by_id_def get_row_def select_by_def load_def document_to_entity_def)
  next
    case False
    then have "filter (\<lambda>r. doc_id r = i) (db_documents D) = []" by (simp add: filter_empty_conv)
    then show ?thesis by (simp add: get_document_by_id_def get_row_def select_by_def load_def)
  qed
  with Inl show ?thesis by simp
next
  case (Inr o')
  with assms(2) show ?thesis by (cases o') (auto simp: own_document_def)
qed

text \<open>C22: A document is private to its tenant. To a user of another tenant a document is as if it did not
  exist: the three routes that read it answer 404 alike, and the list of documents holds only those of
  the user's own tenant.\<close>

theorem documents_private_to_tenant:
  assumes "db_ok D"
    and "\<And>d. get_document_by_id i (open_session D) = Inr (Some d) \<Longrightarrow> doc_tenant_id d \<noteq> cu_tenant_id cu"
  shows "get_document i cu (open_session D) = Inl (ErrHTTP 404 ''Document not found'')
    \<and> list_deliveries i cu (open_session D) = Inl (ErrHTTP 404 ''Document not found'')
    \<and> get_document_status i cu (open_session D) = Inl (ErrHTTP 404 ''Document not found'')
    \<and> (\<exists>rs. list_documents cu offset limit (open_session D) = Inr rs \<and> length rs \<le> limit
         \<and> dq_tenant_id ` set rs \<subseteq> {cu_tenant_id cu})"
proof -
  let ?rows = "take limit (drop offset (sort_key (\<lambda>r. - doc_created_at r)
      (filter (\<lambda>r. doc_tenant_id r = cu_tenant_id cu) (db_documents D))))"
  have "load_all document_to_entity ?rows = Inr (map (\<lambda>d. d) ?rows)"
    by (rule load_all_total) (simp add: document_to_entity_def)
  then have "list_documents cu offset limit (open_session D) = Inr (map document_response_of ?rows)"
    by (simp add: list_documents_def list_documents_by_tenant_def)
  moreover have rows: "doc_tenant_id d = cu_tenant_id cu" if "d \<in> set ?rows" for d
    using in_set_dropD [OF in_set_takeD [OF that]] by simp
  have "dq_tenant_id ` set (map document_response_of ?rows) \<subseteq> {cu_tenant_id cu}"
  proof
    fix t
    assume "t \<in> dq_tenant_id ` set (map document_response_of ?rows)"
    then obtain d where "d \<in> set ?rows" "t = dq_tenant_id (document_response_of d)"
      unfolding set_map by blast
    with rows show "t \<in> {cu_tenant_id cu}" by (simp only: document_response_of_def document_response.simps singleton_iff)
  qed
  ultimately show ?thesis
    using own_document_404 [OF assms]
    by (simp add: get_document_def list_deliveries_def get_document_status_def)
qed

theorem documents_private_to_tenant_witness:
  "get_document 21 (sample_cu\<lparr>cu_tenant_id := 3\<rparr>)
     (open_session (sent_db sample_send_env sample_cu sample_send_request sample_upload sample_account account_db))
   = Inl (ErrHTTP 404 ''Document not found'')"
proof -
  let ?D = "sent_db sample_send_env sample_cu sample_send_request sample_upload sample_account account_db"
  have "get_document_by_id 21 (open_session ?D) = Inr (Some d) \<Longrightarrow> doc_tenant_id d \<noteq> 3" for d
    by (auto simp: get_document_by_id_def get_row_def select_by_def load_def document_to_entity_def sent_db_def
        account_db_def empty_db_def sample_send_env_def sample_cu_def new_document_def create_document_def
        split: if_splits)
  from documents_private_to_tenant [OF sent_db_ok [OF sample_sendable], of 21 "sample_cu\<lparr>cu_tenant_id := 3\<rparr>"] this
  show ?thesis by simp
qed

section \<open>Retrying\<close>

lemma get_listed:
  assumes "db_ok D" and "list_by_document i (open_session D) = Inr ds" and "d \<in> set ds"
  shows "get_delivery_by_id (dl_id d) (open_session D) = Inr (Some d)"
proof -
  obtain r where r: "r \<in> set (db_deliveries D)" "delivery_to_entity r = Inr d"
    using load_all_set [OF assms(2) [unfolded list_by_document_def] assms(3)] by auto
  have "dl_id d = dr_id r" using delivery_to_entity_status [OF r(2)] by simp
  with distinct_filter_one [OF db_ok_tables(1) [OF assms(1)] r(1)] r(2) show ?thesis
    by (simp add: get_delivery_by_id_def get_row_def select_by_def load_def)
qed

lemma get_set_other:
  "i \<noteq> j \<Longrightarrow> get_delivery_by_id i (open_session (set_delivery j d D)) = get_delivery_by_id i (open_session D)"
  using deliveries.get_update_other [of i j d "db_deliveries D"]
  by (simp add: get_delivery_by_id_def set_delivery_def)

lemma distinct_listed:
  assumes "db_ok D" and "list_by_document i (open_session D) = Inr ds"
  shows "distinct (map dl_id ds)"
proof -
  let ?rs = "sort_key (\<lambda>r. - dr_created_at r) (filter (\<lambda>r. dr_document_id r = i) (db_deliveries D))"
  have "map delivery_to_entity ?rs = map Inr ds"
    using assms(2) by (simp add: list_by_document_def load_all_Inr)
  then have nth: "length ds = length ?rs" "\<And>k. k < length ?rs \<Longrightarrow> delivery_to_entity (?rs ! k) = Inr (ds ! k)"
    by (metis length_map, metis length_map nth_map)
  then have "map dl_id ds = map dr_id ?rs"
    using delivery_to_entity_status by (simp add: list_eq_iff_nth_eq)
  moreover have "distinct (map dr_id ?rs)"
    using db_ok_tables(1) [OF assms(1)] by (auto simp: distinct_map inj_on_def)
  ultimately show ?thesis by simp
qed

text \<open>Without \<open>force\<close> the retry route dispatches nothing: failed is a terminal status, so every failed
  delivery is skipped, and yet the answer is \<open>retry_dispatched\<close>.\<close>

theorem retry_without_force_dispatches_nothing:
  assumes "db_ok D" and "list_by_document i (open_session D) = Inr ds" and "\<exists>d \<in> set ds. dl_status d = FAILED"
  shows "serve (retry_document publish i False cu) D = (Inr ''retry_dispatched'', D, [])"
proof -
  have skip: "retry_each publish False fs s = (Inr (), s, [])" if "\<forall>d \<in> set fs. dl_status d = FAILED" for fs s
    using that by (induction fs) (simp_all add: delivery_is_terminal_def)
  have "filter (\<lambda>d. dl_status d = FAILED) ds \<noteq> []"
    using assms(3) by (simp add: filter_empty_conv)
  then have "retry_document publish i False cu (open_session D) = (Inr ''retry_dispatched'', open_session D, [])"
    using assms(2) by (simp add: retry_document_def Let_def skip)
  with assms(1) show ?thesis by (simp add: serve_def commit_def)
qed

lemma reset_fields [simp]:
  "dl_id (reset_for_retry d) = dl_id d" "dl_provider_document_id (reset_for_retry d) = dl_provider_document_id d"
  "same_identity d (reset_for_retry d)" "dl_status (reset_for_retry d) = PENDING"
  by (simp_all add: reset_for_retry_def same_identity_def)

lemma retry_each_forced:
  assumes "db_ok D" and "\<And>d. d \<in> set ds \<Longrightarrow> get_delivery_by_id (dl_id d) (open_session D) = Inr (Some d)"
    and "distinct (map dl_id ds)" and "\<And>m. publish m = Inr ()"
  shows "\<exists>D'. retry_each publish True ds (open_session D) = (Inr (), open_session D', map retry_message ds)
    \<and> db_ok D' \<and> (\<forall>d \<in> set ds. get_delivery_by_id (dl_id d) (open_session D') = Inr (Some (reset_for_retry d)))
    \<and> (\<forall>i. i \<notin> dl_id ` set ds \<longrightarrow> get_delivery_by_id i (open_session D') = get_delivery_by_id i (open_session D))"
  using assms(1-3)
proof (induction ds arbitrary: D)
  case Nil
  then show ?case by auto
next
  case (Cons d ds)
  let ?D1 = "set_delivery (dl_id d) (reset_for_retry d) D"
  have get: "get_delivery_by_id (dl_id d) (open_session D) = Inr (Some d)" using Cons.prems(2) by simp
  have ok1: "db_ok ?D1"
    using own_id_free [OF get Cons.prems(1)] by (intro db_ok_set_delivery [OF get Cons.prems(1)]) simp
  have get1: "get_delivery_by_id (dl_id d) (open_session ?D1) = Inr (Some (reset_for_retry d))"
    by (rule get_after_set [OF get]) simp_all
  have up: "update_delivery (reset_for_retry d) (open_session D) = Inr (open_session ?D1)"
    using ok1 by (simp add: update_delivery_def write_view_def set_delivery_def open_session_def)
  have rest: "get_delivery_by_id (dl_id e) (open_session ?D1) = Inr (Some e)" if "e \<in> set ds" for e
  proof -
    have "dl_id e \<noteq> dl_id d" using Cons.prems(3) that by (auto simp: image_iff)
    then have "get_delivery_by_id (dl_id e) (open_session ?D1) = get_delivery_by_id (dl_id e) (open_session D)"
      by (rule get_set_other)
    with Cons.prems(2) that show ?thesis by simp
  qed
  obtain D' where D': "retry_each publish True ds (open_session ?D1) = (Inr (), open_session D', map retry_message ds)"
    "db_ok D'" "\<forall>e \<in> set ds. get_delivery_by_id (dl_id e) (open_session D') = Inr (Some (reset_for_retry e))"
    "\<forall>i. i \<notin> dl_id ` set ds \<longrightarrow> get_delivery_by_id i (open_session D') = get_delivery_by_id i (open_session ?D1)"
    using Cons.IH [OF ok1 rest] Cons.prems(3) by auto
  have "dl_id d \<notin> dl_id ` set ds" using Cons.prems(3) by simp
  with D'(4) get1 have "get_delivery_by_id (dl_id d) (open_session D') = Inr (Some (reset_for_retry d))" by simp
  moreover have "get_delivery_by_id i (open_session D') = get_delivery_by_id i (open_session D)"
    if "i \<notin> dl_id ` set (d # ds)" for i
    using that D'(4) get_set_other [of i "dl_id d"] by simp
  moreover have "publish (retry_message d) = Inr ()" by (rule assms(4))
  ultimately show ?case
    using D' up by (intro exI [of _ D']) simp
qed

text \<open>C24: With \<open>force\<close> the retry route resets every failed delivery of the document to pending and puts one
  task for each of them, in the order of the list and with an empty file, on the broker; no other
  delivery changes. Nothing is asked about the user: a user of any tenant can do this.\<close>

theorem forced_retry_redispatches_failed:
  assumes "db_ok D" and "list_by_document i (open_session D) = Inr ds" and "\<exists>d \<in> set ds. dl_status d = FAILED"
    and "\<And>m. publish m = Inr ()"
  shows "\<exists>D'. serve (retry_document publish i True cu) D =
      (Inr ''retry_dispatched'', D', map (\<lambda>d. Task_send (uuid_str (dl_id d)) '''') (filter (\<lambda>d. dl_status d = FAILED) ds))
    \<and> (\<forall>d \<in> set ds. get_delivery_by_id (dl_id d) (open_session D') =
         Inr (Some (if dl_status d = FAILED then d\<lparr>dl_status := PENDING, dl_next_retry_at := None\<rparr> else d)))"
proof -
  let ?fs = "filter (\<lambda>d. dl_status d = FAILED) ds"
  have dist: "distinct (map dl_id ds)" by (rule distinct_listed [OF assms(1,2)])
  then have dist_fs: "distinct (map dl_id ?fs)" by (rule distinct_map_filter)
  have get_fs: "get_delivery_by_id (dl_id d) (open_session D) = Inr (Some d)" if "d \<in> set ?fs" for d
    using get_listed [OF assms(1,2)] that by simp
  obtain D' where
    D': "retry_each publish True ?fs (open_session D) = (Inr (), open_session D', map retry_message ?fs)" "db_ok D'"
      "\<forall>d \<in> set ?fs. get_delivery_by_id (dl_id d) (open_session D') = Inr (Some (reset_for_retry d))"
      "\<forall>i. i \<notin> dl_id ` set ?fs \<longrightarrow> get_delivery_by_id i (open_session D') = get_delivery_by_id i (open_session D)"
    using retry_each_forced [where publish = publish, OF assms(1) get_fs dist_fs assms(4)] by blast
  have "?fs \<noteq> []" using assms(3) by (simp add: filter_empty_conv)
  with assms(2) D'(1,2) have "serve (retry_document publish i True cu) D =
      (Inr ''retry_dispatched'', D', map retry_message ?fs)"
    by (simp add: serve_def retry_document_def Let_def commit_def)
  moreover have "get_delivery_by_id (dl_id d) (open_session D') = Inr (Some d)"
    if "d \<in> set ds" "dl_status d \<noteq> FAILED" for d
  proof -
    have "dl_id d \<notin> dl_id ` set ?fs"
      using dist that by (auto simp: distinct_map inj_on_def)
    with D'(4) get_listed [OF assms(1,2) that(1)] show ?thesis by simp
  qed
  ultimately show ?thesis
    using D'(3) by (auto simp: retry_message_def [abs_def] reset_for_retry_def)
qed

definition failed_delivery :: delivery where
  "failed_delivery = mark_failed 6 ''X'' ''x'' sample_delivery"

definition failed_db :: db where
  "failed_db = empty_db\<lparr>db_deliveries := [delivery_to_row failed_delivery]\<rparr>"

lemma failed_facts:
  "db_ok failed_db" "list_by_document 3 (open_session failed_db) = Inr [failed_delivery]"
  "\<exists>d \<in> set [failed_delivery]. dl_status d = FAILED" "dl_id failed_delivery = 1" "dl_status failed_delivery = FAILED"
proof -
  have doc: "dl_document_id failed_delivery = 3"
    by (simp add: failed_delivery_def mark_failed_def sample_delivery_def create_delivery_def)
  show "db_ok failed_db"
    by (simp add: failed_db_def empty_db_def db_ok_def accounts_ok_def documents_ok_def deliveries_ok_def)
  show "list_by_document 3 (open_session failed_db) = Inr [failed_delivery]"
    using doc by (simp add: list_by_document_def failed_db_def deliveries.round_trip)
  show "\<exists>d \<in> set [failed_delivery]. dl_status d = FAILED" "dl_id failed_delivery = 1"
    "dl_status failed_delivery = FAILED"
    by (simp_all add: failed_delivery_def mark_failed_def sample_delivery_def create_delivery_def)
qed

theorem retry_without_force_dispatches_nothing_witness:
  "serve (retry_document (\<lambda>m. Inr ()) 3 False sample_cu) failed_db = (Inr ''retry_dispatched'', failed_db, [])"
  by (rule retry_without_force_dispatches_nothing [OF failed_facts(1-3)])

theorem forced_retry_redispatches_failed_witness:
  "\<exists>D'. serve (retry_document (\<lambda>m. Inr ()) 3 True (sample_cu\<lparr>cu_tenant_id := 99\<rparr>)) failed_db =
      (Inr ''retry_dispatched'', D', [Task_send (uuid_str 1) ''''])"
  using forced_retry_redispatches_failed [OF failed_facts(1-3), of "\<lambda>m. Inr ()" "sample_cu\<lparr>cu_tenant_id := 99\<rparr>"]
    failed_facts(4,5) by auto

end
