(* ===== verification/Schema.thy ===== *)
theory Schema
  imports DocumentsProps
begin

text \<open>
  The relational schema twice: as the ORM classes declare it (\<open>src/infrastructure/database/models\<close>, with the
  key and time stamp columns of \<open>base.py\<close>) and as the two migrations of
  \<open>src/infrastructure/database/migrations/versions\<close> build it. A table has its columns with type and
  nullability, its unique constraints and its foreign keys with the action on delete; a migration is the
  list of its statements. Server defaults and indexes that are not unique are left out: they do not
  decide which rows a table can hold.
\<close>

section \<open>Tables and statements\<close>

datatype coltype =
    UUID_T | String_T nat | Bool_T | Int_T | BigInt_T | Jsonb_T | Timestamptz_T | Date_T | Text_T
  | Numeric_T nat nat

record column =
  col_name :: string
  col_type :: coltype
  col_null :: bool

definition col :: "string \<Rightarrow> coltype \<Rightarrow> bool \<Rightarrow> column" where
  "col n t b = \<lparr>col_name = n, col_type = t, col_null = b\<rparr>"

record table =
  tab_name :: string
  tab_columns :: "column list"
  tab_unique :: "string list list"
  tab_fks :: "(string \<times> string \<times> string) list"

type_synonym schema = "table list"

datatype ddl =
    Create_table table
  | Drop_table string
  | Create_index string "string list" bool

text \<open>What PostgreSQL makes of a statement; \<^term>\<open>None\<close> is an error. A created table must be new, its foreign keys
  must lead to existing tables and its constraints to its own columns; a dropped table must exist and
  no other table may refer to it.\<close>

fun apply_ddl :: "ddl \<Rightarrow> schema \<Rightarrow> schema option" where
  "apply_ddl (Create_table t) s =
     (if tab_name t \<notin> set (map tab_name s)
         \<and> list_all (\<lambda>(c, target, act). c \<in> set (map col_name (tab_columns t)) \<and> target \<in> set (map tab_name s)) (tab_fks t)
         \<and> list_all (list_all (\<lambda>c. c \<in> set (map col_name (tab_columns t)))) (tab_unique t)
      then Some (s @ [t]) else None)"
| "apply_ddl (Drop_table n) s =
     (if n \<in> set (map tab_name s)
         \<and> list_all (\<lambda>t. tab_name t = n \<or> list_all (\<lambda>(c, target, act). target \<noteq> n) (tab_fks t)) s
      then Some (filter (\<lambda>t. tab_name t \<noteq> n) s) else None)"
| "apply_ddl (Create_index n cols unique) s =
     (case find (\<lambda>t. tab_name t = n) s of
        None \<Rightarrow> None
      | Some t \<Rightarrow>
          if list_all (\<lambda>c. c \<in> set (map col_name (tab_columns t))) cols
          then Some (if unique
                     then map (\<lambda>u. if tab_name u = n then u\<lparr>tab_unique := tab_unique u @ [cols]\<rparr> else u) s
                     else s)
          else None)"

fun run_ddl :: "ddl list \<Rightarrow> schema \<Rightarrow> schema option" where
  "run_ddl [] s = Some s"
| "run_ddl (x # xs) s = Option.bind (apply_ddl x s) (run_ddl xs)"

section \<open>The ORM classes\<close>

text \<open>The columns that the classes of \<open>base.py\<close> add.\<close>

definition uuid_pk_mixin :: "column list" where
  "uuid_pk_mixin = [col ''id'' UUID_T False]"

definition timestamp_mixin :: "column list" where
  "timestamp_mixin = [col ''created_at'' Timestamptz_T False, col ''updated_at'' Timestamptz_T False]"

definition orm_tenants :: table where
  "orm_tenants =
     \<lparr>tab_name = ''tenants'',
      tab_columns =
       uuid_pk_mixin @
       [col ''name'' (String_T 255) False,
        col ''slug'' (String_T 128) False,
        col ''is_active'' Bool_T False,
        col ''created_at'' Timestamptz_T False],
      tab_unique = [[''slug'']],
      tab_fks =
       []\<rparr>"

definition orm_api_users :: table where
  "orm_api_users =
     \<lparr>tab_name = ''api_users'',
      tab_columns =
       uuid_pk_mixin @
       [col ''tenant_id'' UUID_T False,
        col ''email'' (String_T 255) False,
        col ''hashed_password'' (String_T 255) False,
        col ''role'' (String_T 64) False,
        col ''is_active'' Bool_T False]
       @ timestamp_mixin,
      tab_unique = [[''email'']],
      tab_fks =
       [(''tenant_id'', ''tenants'', ''NO ACTION'')]\<rparr>"

definition orm_provider_accounts :: table where
  "orm_provider_accounts =
     \<lparr>tab_name = ''provider_accounts'',
      tab_columns =
       uuid_pk_mixin @
       [col ''tenant_id'' UUID_T False,
        col ''provider_type'' (String_T 32) False,
        col ''account_name'' (String_T 255) False,
        col ''credentials_json'' Jsonb_T False,
        col ''is_active'' Bool_T False,
        col ''priority'' Int_T False,
        col ''webhook_secret'' (String_T 255) True,
        col ''rate_limit_per_minute'' Int_T True]
       @ timestamp_mixin,
      tab_unique = [[''tenant_id'', ''provider_type'', ''account_name'']],
      tab_fks =
       [(''tenant_id'', ''tenants'', ''NO ACTION'')]\<rparr>"

definition orm_edo_documents :: table where
  "orm_edo_documents =
     \<lparr>tab_name = ''edo_documents'',
      tab_columns =
       uuid_pk_mixin @
       [col ''tenant_id'' UUID_T False,
        col ''internal_document_id'' UUID_T False,
        col ''document_type'' (String_T 64) False,
        col ''sender_inn'' (String_T 12) False,
        col ''sender_kpp'' (String_T 9) True,
        col ''recipient_inn'' (String_T 12) False,
        col ''recipient_kpp'' (String_T 9) True,
        col ''title'' (String_T 255) False,
        col ''file_name'' (String_T 255) False,
        col ''mime_type'' (String_T 128) False,
        col ''file_checksum'' (String_T 64) False,
        col ''metadata'' Jsonb_T False,
        col ''created_by'' UUID_T False,
        col ''created_at'' Timestamptz_T False],
      tab_unique = [[''tenant_id'', ''internal_document_id'']],
      tab_fks =
       [(''tenant_id'', ''tenants'', ''NO ACTION''),
        (''created_by'', ''api_users'', ''NO ACTION'')]\<rparr>"

definition orm_document_deliveries :: table where
  "orm_document_deliveries =
     \<lparr>tab_name = ''document_deliveries'',
      tab_columns =
       uuid_pk_mixin @
       [col ''tenant_id'' UUID_T False,
        col ''document_id'' UUID_T False,
        col ''provider_account_id'' UUID_T False,
        col ''provider_document_id'' (String_T 255) True,
        col ''unified_status'' (String_T 64) False,
        col ''provider_raw_status'' (String_T 255) True,
        col ''retry_count'' Int_T False,
        col ''next_retry_at'' Timestamptz_T True,
        col ''last_error_code'' (String_T 128) True,
        col ''last_error_message'' Text_T True,
        col ''idempotency_key'' (String_T 128) False,
        col ''sent_at'' Timestamptz_T True,
        col ''delivered_at'' Timestamptz_T True,
        col ''signed_at'' Timestamptz_T True,
        col ''rejected_at'' Timestamptz_T True,
        col ''final_at'' Timestamptz_T True]
       @ timestamp_mixin,
      tab_unique = [[''provider_account_id'', ''idempotency_key''], [''provider_account_id'', ''provider_document_id'']],
      tab_fks =
       [(''tenant_id'', ''tenants'', ''NO ACTION''),
        (''document_id'', ''edo_documents'', ''CASCADE''),
        (''provider_account_id'', ''provider_accounts'', ''NO ACTION'')]\<rparr>"

definition orm_incoming_documents :: table where
  "orm_incoming_documents =
     \<lparr>tab_name = ''incoming_documents'',
      tab_columns =
       uuid_pk_mixin @
       [col ''tenant_id'' UUID_T False,
        col ''provider_account_id'' UUID_T False,
        col ''provider_document_id'' (String_T 255) False,
        col ''document_type'' (String_T 64) False,
        col ''sender_inn'' (String_T 12) False,
        col ''sender_name'' (String_T 255) True,
        col ''file_name'' (String_T 255) False,
        col ''mime_type'' (String_T 128) False,
        col ''unified_status'' (String_T 64) False,
        col ''metadata'' Jsonb_T False,
        col ''received_at'' Timestamptz_T False,
        col ''created_at'' Timestamptz_T False],
      tab_unique = [[''provider_account_id'', ''provider_document_id'']],
      tab_fks =
       [(''tenant_id'', ''tenants'', ''NO ACTION''),
        (''provider_account_id'', ''provider_accounts'', ''NO ACTION'')]\<rparr>"

definition orm_webhook_events :: table where
  "orm_webhook_events =
     \<lparr>tab_name = ''webhook_events'',
      tab_columns =
       uuid_pk_mixin @
       [col ''tenant_id'' UUID_T False,
        col ''provider_account_id'' UUID_T False,
        col ''provider_type'' (String_T 32) False,
        col ''external_event_id'' (String_T 255) True,
        col ''signature_status'' (String_T 32) False,
        col ''payload'' Jsonb_T False,
        col ''headers'' Jsonb_T False,
        col ''processed'' Bool_T False,
        col ''processed_at'' Timestamptz_T True,
        col ''error_message'' Text_T True,
        col ''created_at'' Timestamptz_T False],
      tab_unique = [],
      tab_fks =
       [(''tenant_id'', ''tenants'', ''NO ACTION''),
        (''provider_account_id'', ''provider_accounts'', ''NO ACTION'')]\<rparr>"

definition orm_dlq_entries :: table where
  "orm_dlq_entries =
     \<lparr>tab_name = ''dlq_entries'',
      tab_columns =
       uuid_pk_mixin @
       [col ''tenant_id'' UUID_T False,
        col ''delivery_id'' UUID_T True,
        col ''provider_account_id'' UUID_T True,
        col ''task_name'' (String_T 128) False,
        col ''payload'' Jsonb_T False,
        col ''reason_code'' (String_T 128) False,
        col ''reason_message'' Text_T False,
        col ''retryable'' Bool_T False,
        col ''replayed_at'' Timestamptz_T True,
        col ''created_at'' Timestamptz_T False],
      tab_unique = [],
      tab_fks =
       [(''tenant_id'', ''tenants'', ''NO ACTION''),
        (''delivery_id'', ''document_deliveries'', ''NO ACTION''),
        (''provider_account_id'', ''provider_accounts'', ''NO ACTION'')]\<rparr>"

definition orm_provider_health_snapshots :: table where
  "orm_provider_health_snapshots =
     \<lparr>tab_name = ''provider_health_snapshots'',
      tab_columns =
       uuid_pk_mixin @
       [col ''provider_account_id'' UUID_T False,
        col ''health_status'' (String_T 32) False,
        col ''circuit_state'' (String_T 32) False,
        col ''response_time_ms'' Int_T True,
        col ''error_rate'' (Numeric_T 5 2) True,
        col ''checked_at'' Timestamptz_T False],
      tab_unique = [],
      tab_fks =
       [(''provider_account_id'', ''provider_accounts'', ''NO ACTION'')]\<rparr>"

definition orm_audit_events :: table where
  "orm_audit_events =
     \<lparr>tab_name = ''audit_events'',
      tab_columns =
       uuid_pk_mixin @
       [col ''tenant_id'' UUID_T False,
        col ''actor_user_id'' UUID_T True,
        col ''resource_type'' (String_T 64) False,
        col ''resource_id'' UUID_T False,
        col ''event_type'' (String_T 64) False,
        col ''trace_id'' (String_T 128) True,
        col ''payload'' Jsonb_T False,
        col ''created_at'' Timestamptz_T False],
      tab_unique = [],
      tab_fks =
       [(''tenant_id'', ''tenants'', ''NO ACTION''),
        (''actor_user_id'', ''api_users'', ''NO ACTION'')]\<rparr>"

definition orm_schema :: schema where
  "orm_schema =
     [orm_tenants,
      orm_api_users,
      orm_provider_accounts,
      orm_edo_documents,
      orm_document_deliveries,
      orm_incoming_documents,
      orm_webhook_events,
      orm_dlq_entries,
      orm_provider_health_snapshots,
      orm_audit_events]"

section \<open>Revision 0001\<close>

definition m1_tenants :: table where
  "m1_tenants =
     \<lparr>tab_name = ''tenants'',
      tab_columns =
       [col ''id'' UUID_T False,
        col ''inn'' (String_T 12) False,
        col ''name'' (String_T 512) False,
        col ''is_active'' Bool_T False,
        col ''created_at'' Timestamptz_T False,
        col ''updated_at'' Timestamptz_T False],
      tab_unique = [[''inn'']],
      tab_fks =
       []\<rparr>"

definition m1_api_users :: table where
  "m1_api_users =
     \<lparr>tab_name = ''api_users'',
      tab_columns =
       [col ''id'' UUID_T False,
        col ''tenant_id'' UUID_T False,
        col ''email'' (String_T 320) False,
        col ''password_hash'' (String_T 256) False,
        col ''role'' (String_T 32) False,
        col ''is_active'' Bool_T False,
        col ''created_at'' Timestamptz_T False,
        col ''updated_at'' Timestamptz_T False],
      tab_unique = [],
      tab_fks =
       [(''tenant_id'', ''tenants'', ''CASCADE'')]\<rparr>"

definition m1_provider_accounts :: table where
  "m1_provider_accounts =
     \<lparr>tab_name = ''provider_accounts'',
      tab_columns =
       [col ''id'' UUID_T False,
        col ''tenant_id'' UUID_T False,
        col ''provider_type'' (String_T 64) False,
        col ''display_name'' (String_T 256) False,
        col ''credentials'' Jsonb_T False,
        col ''is_active'' Bool_T False,
        col ''created_at'' Timestamptz_T False,
        col ''updated_at'' Timestamptz_T False],
      tab_unique = [],
      tab_fks =
       [(''tenant_id'', ''tenants'', ''CASCADE'')]\<rparr>"

definition m1_edo_documents :: table where
  "m1_edo_documents =
     \<lparr>tab_name = ''edo_documents'',
      tab_columns =
       [col ''id'' UUID_T False,
        col ''internal_id'' (String_T 256) False,
        col ''tenant_id'' UUID_T False,
        col ''document_type'' (String_T 128) False,
        col ''sender_inn'' (String_T 12) False,
        col ''receiver_inn'' (String_T 12) False,
        col ''filename'' (String_T 512) True,
        col ''content_type'' (String_T 128) True,
        col ''file_size_bytes'' BigInt_T True,
        col ''sha256_checksum'' (String_T 64) True,
        col ''extra_meta'' Jsonb_T True,
        col ''created_at'' Timestamptz_T False],
      tab_unique = [],
      tab_fks =
       [(''tenant_id'', ''tenants'', ''CASCADE'')]\<rparr>"

definition m1_document_deliveries :: table where
  "m1_document_deliveries =
     \<lparr>tab_name = ''document_deliveries'',
      tab_columns =
       [col ''id'' UUID_T False,
        col ''document_id'' UUID_T False,
        col ''provider_account_id'' UUID_T False,
        col ''tenant_id'' UUID_T False,
        col ''status'' (String_T 32) False,
        col ''provider_document_id'' (String_T 256) True,
        col ''provider_status'' (String_T 128) True,
        col ''retry_count'' Int_T False,
        col ''next_retry_at'' Timestamptz_T True,
        col ''last_error'' Text_T True,
        col ''raw_response'' Jsonb_T True,
        col ''created_at'' Timestamptz_T False,
        col ''updated_at'' Timestamptz_T False],
      tab_unique = [[''document_id'', ''provider_account_id'']],
      tab_fks =
       [(''document_id'', ''edo_documents'', ''CASCADE''),
        (''provider_account_id'', ''provider_accounts'', ''CASCADE''),
        (''tenant_id'', ''tenants'', ''CASCADE'')]\<rparr>"

definition m1_incoming_documents :: table where
  "m1_incoming_documents =
     \<lparr>tab_name = ''incoming_documents'',
      tab_columns =
       [col ''id'' UUID_T False,
        col ''tenant_id'' UUID_T False,
        col ''provider_account_id'' UUID_T False,
        col ''provider_document_id'' (String_T 256) False,
        col ''sender_inn'' (String_T 12) True,
        col ''sender_name'' (String_T 512) True,
        col ''document_type'' (String_T 128) True,
        col ''document_date'' Date_T True,
        col ''raw_payload'' Jsonb_T True,
        col ''received_at'' Timestamptz_T False],
      tab_unique = [[''provider_document_id'', ''provider_account_id'']],
      tab_fks =
       [(''tenant_id'', ''tenants'', ''CASCADE''),
        (''provider_account_id'', ''provider_accounts'', ''CASCADE'')]\<rparr>"

definition m1_webhook_events :: table where
  "m1_webhook_events =
     \<lparr>tab_name = ''webhook_events'',
      tab_columns =
       [col ''id'' UUID_T False,
        col ''tenant_id'' UUID_T False,
        col ''provider_account_id'' UUID_T False,
        col ''provider_event_id'' (String_T 256) True,
        col ''event_type'' (String_T 128) True,
        col ''raw_payload'' Jsonb_T True,
        col ''received_at'' Timestamptz_T False,
        col ''processed'' Bool_T False,
        col ''processed_at'' Timestamptz_T True],
      tab_unique = [],
      tab_fks =
       [(''tenant_id'', ''tenants'', ''CASCADE''),
        (''provider_account_id'', ''provider_accounts'', ''CASCADE'')]\<rparr>"

definition m1_dlq_entries :: table where
  "m1_dlq_entries =
     \<lparr>tab_name = ''dlq_entries'',
      tab_columns =
       [col ''id'' UUID_T False,
        col ''tenant_id'' UUID_T False,
        col ''delivery_id'' UUID_T False,
        col ''error_code'' (String_T 64) True,
        col ''error_detail'' Text_T True,
        col ''is_retryable'' Bool_T False,
        col ''retry_count'' Int_T False,
        col ''next_retry_at'' Timestamptz_T True,
        col ''payload_snapshot'' Jsonb_T True,
        col ''replayed_at'' Timestamptz_T True,
        col ''replayed_by'' (String_T 256) True,
        col ''created_at'' Timestamptz_T False],
      tab_unique = [],
      tab_fks =
       [(''tenant_id'', ''tenants'', ''CASCADE''),
        (''delivery_id'', ''document_deliveries'', ''CASCADE'')]\<rparr>"

definition m1_provider_health_snapshots :: table where
  "m1_provider_health_snapshots =
     \<lparr>tab_name = ''provider_health_snapshots'',
      tab_columns =
       [col ''id'' UUID_T False,
        col ''provider_account_id'' UUID_T False,
        col ''is_healthy'' Bool_T False,
        col ''response_time_ms'' Int_T True,
        col ''circuit_state'' (String_T 16) True,
        col ''error_detail'' Text_T True,
        col ''checked_at'' Timestamptz_T False],
      tab_unique = [],
      tab_fks =
       [(''provider_account_id'', ''provider_accounts'', ''CASCADE'')]\<rparr>"

definition m1_audit_events :: table where
  "m1_audit_events =
     \<lparr>tab_name = ''audit_events'',
      tab_columns =
       [col ''id'' UUID_T False,
        col ''tenant_id'' UUID_T False,
        col ''actor_user_id'' UUID_T True,
        col ''resource_type'' (String_T 64) False,
        col ''resource_id'' UUID_T False,
        col ''event_type'' (String_T 64) False,
        col ''trace_id'' (String_T 128) True,
        col ''payload'' Jsonb_T False,
        col ''created_at'' Timestamptz_T False],
      tab_unique = [],
      tab_fks =
       [(''tenant_id'', ''tenants'', ''CASCADE''),
        (''actor_user_id'', ''api_users'', ''SET NULL'')]\<rparr>"

definition upgrade_0001 :: "ddl list" where
  "upgrade_0001 =
     [Create_table m1_tenants,
      Create_table m1_api_users,
      Create_index ''api_users'' [''tenant_id''] False,
      Create_index ''api_users'' [''tenant_id'', ''email''] True,
      Create_table m1_provider_accounts,
      Create_index ''provider_accounts'' [''tenant_id''] False,
      Create_table m1_edo_documents,
      Create_index ''edo_documents'' [''tenant_id''] False,
      Create_index ''edo_documents'' [''tenant_id'', ''internal_id''] True,
      Create_table m1_document_deliveries,
      Create_index ''document_deliveries'' [''document_id''] False,
      Create_index ''document_deliveries'' [''status'', ''next_retry_at''] False,
      Create_table m1_incoming_documents,
      Create_table m1_webhook_events,
      Create_index ''webhook_events'' [''provider_account_id''] False,
      Create_table m1_dlq_entries,
      Create_index ''dlq_entries'' [''is_retryable'', ''next_retry_at''] False,
      Create_table m1_provider_health_snapshots,
      Create_table m1_audit_events,
      Create_index ''audit_events'' [''resource_type'', ''resource_id'', ''created_at''] False,
      Create_index ''audit_events'' [''tenant_id''] False]"

definition downgrade_0001 :: "ddl list" where
  "downgrade_0001 =
     [Drop_table ''audit_events'',
      Drop_table ''provider_health_snapshots'',
      Drop_table ''dlq_entries'',
      Drop_table ''webhook_events'',
      Drop_table ''incoming_documents'',
      Drop_table ''document_deliveries'',
      Drop_table ''edo_documents'',
      Drop_table ''provider_accounts'',
      Drop_table ''api_users'',
      Drop_table ''tenants'']"

section \<open>Revision 0002\<close>

definition m2_tenants :: table where
  "m2_tenants =
     \<lparr>tab_name = ''tenants'',
      tab_columns =
       [col ''id'' UUID_T False,
        col ''name'' (String_T 255) False,
        col ''slug'' (String_T 128) False,
        col ''is_active'' Bool_T False,
        col ''created_at'' Timestamptz_T False],
      tab_unique = [[''slug'']],
      tab_fks =
       []\<rparr>"

definition m2_api_users :: table where
  "m2_api_users =
     \<lparr>tab_name = ''api_users'',
      tab_columns =
       [col ''id'' UUID_T False,
        col ''tenant_id'' UUID_T False,
        col ''email'' (String_T 255) False,
        col ''hashed_password'' (String_T 255) False,
        col ''role'' (String_T 64) False,
        col ''is_active'' Bool_T False,
        col ''created_at'' Timestamptz_T False,
        col ''updated_at'' Timestamptz_T False],
      tab_unique = [],
      tab_fks =
       [(''tenant_id'', ''tenants'', ''NO ACTION'')]\<rparr>"

definition m2_provider_accounts :: table where
  "m2_provider_accounts =
     \<lparr>tab_name = ''provider_accounts'',
      tab_columns =
       [col ''id'' UUID_T False,
        col ''tenant_id'' UUID_T False,
        col ''provider_type'' (String_T 32) False,
        col ''account_name'' (String_T 255) False,
        col ''credentials_json'' Jsonb_T False,
        col ''is_active'' Bool_T False,
        col ''priority'' Int_T False,
        col ''webhook_secret'' (String_T 255) True,
        col ''rate_limit_per_minute'' Int_T True,
        col ''created_at'' Timestamptz_T False,
        col ''updated_at'' Timestamptz_T False],
      tab_unique = [[''tenant_id'', ''provider_type'', ''account_name'']],
      tab_fks =
       [(''tenant_id'', ''tenants'', ''NO ACTION'')]\<rparr>"

definition m2_edo_documents :: table where
  "m2_edo_documents =
     \<lparr>tab_name = ''edo_documents'',
      tab_columns =
       [col ''id'' UUID_T False,
        col ''tenant_id'' UUID_T False,
        col ''internal_document_id'' UUID_T False,
        col ''document_type'' (String_T 64) False,
        col ''sender_inn'' (String_T 12) False,
        col ''sender_kpp'' (String_T 9) True,
        col ''recipient_inn'' (String_T 12) False,
        col ''recipient_kpp'' (String_T 9) True,
        col ''title'' (String_T 255) False,
        col ''file_name'' (String_T 255) False,
        col ''mime_type'' (String_T 128) False,
        col ''file_checksum'' (String_T 64) False,
        col ''metadata'' Jsonb_T False,
        col ''created_by'' UUID_T False,
        col ''created_at'' Timestamptz_T False],
      tab_unique = [[''tenant_id'', ''internal_document_id'']],
      tab_fks =
       [(''tenant_id'', ''tenants'', ''NO ACTION''),
        (''created_by'', ''api_users'', ''NO ACTION'')]\<rparr>"

definition m2_document_deliveries :: table where
  "m2_document_deliveries =
     \<lparr>tab_name = ''document_deliveries'',
      tab_columns =
       [col ''id'' UUID_T False,
        col ''tenant_id'' UUID_T False,
        col ''document_id'' UUID_T False,
        col ''provider_account_id'' UUID_T False,
        col ''provider_document_id'' (String_T 255) True,
        col ''unified_status'' (String_T 64) False,
        col ''provider_raw_status'' (String_T 255) True,
        col ''retry_count'' Int_T False,
        col ''next_retry_at'' Timestamptz_T True,
        col ''last_error_code'' (String_T 128) True,
        col ''last_error_message'' Text_T True,
        col ''idempotency_key'' (String_T 128) False,
        col ''sent_at'' Timestamptz_T True,
        col ''delivered_at'' Timestamptz_T True,
        col ''signed_at'' Timestamptz_T True,
        col ''rejected_at'' Timestamptz_T True,
        col ''final_at'' Timestamptz_T True,
        col ''created_at'' Timestamptz_T False,
        col ''updated_at'' Timestamptz_T False],
      tab_unique = [[''provider_account_id'', ''idempotency_key''], [''provider_account_id'', ''provider_document_id'']],
      tab_fks =
       [(''tenant_id'', ''tenants'', ''NO ACTION''),
        (''document_id'', ''edo_documents'', ''CASCADE''),
        (''provider_account_id'', ''provider_accounts'', ''NO ACTION'')]\<rparr>"

definition m2_incoming_documents :: table where
  "m2_incoming_documents =
     \<lparr>tab_name = ''incoming_documents'',
      tab_columns =
       [col ''id'' UUID_T False,
        col ''tenant_id'' UUID_T False,
        col ''provider_account_id'' UUID_T False,
        col ''provider_document_id'' (String_T 255) False,
        col ''document_type'' (String_T 64) False,
        col ''sender_inn'' (String_T 12) False,
        col ''sender_name'' (String_T 255) True,
        col ''file_name'' (String_T 255) False,
        col ''mime_type'' (String_T 128) False,
        col ''unified_status'' (String_T 64) False,
        col ''metadata'' Jsonb_T False,
        col ''received_at'' Timestamptz_T False,
        col ''created_at'' Timestamptz_T False],
      tab_unique = [[''provider_account_id'', ''provider_document_id'']],
      tab_fks =
       [(''tenant_id'', ''tenants'', ''NO ACTION''),
        (''provider_account_id'', ''provider_accounts'', ''NO ACTION'')]\<rparr>"

definition m2_webhook_events :: table where
  "m2_webhook_events =
     \<lparr>tab_name = ''webhook_events'',
      tab_columns =
       [col ''id'' UUID_T False,
        col ''tenant_id'' UUID_T False,
        col ''provider_account_id'' UUID_T False,
        col ''provider_type'' (String_T 32) False,
        col ''external_event_id'' (String_T 255) True,
        col ''signature_status'' (String_T 32) False,
        col ''payload'' Jsonb_T False,
        col ''headers'' Jsonb_T False,
        col ''processed'' Bool_T False,
        col ''processed_at'' Timestamptz_T True,
        col ''error_message'' Text_T True,
        col ''created_at'' Timestamptz_T False],
      tab_unique = [],
      tab_fks =
       [(''tenant_id'', ''tenants'', ''NO ACTION''),
        (''provider_account_id'', ''provider_accounts'', ''NO ACTION'')]\<rparr>"

definition m2_dlq_entries :: table where
  "m2_dlq_entries =
     \<lparr>tab_name = ''dlq_entries'',
      tab_columns =
       [col ''id'' UUID_T False,
        col ''tenant_id'' UUID_T False,
        col ''delivery_id'' UUID_T True,
        col ''provider_account_id'' UUID_T True,
        col ''task_name'' (String_T 128) False,
        col ''payload'' Jsonb_T False,
        col ''reason_code'' (String_T 128) False,
        col ''reason_message'' Text_T False,
        col ''retryable'' Bool_T False,
        col ''replayed_at'' Timestamptz_T True,
        col ''created_at'' Timestamptz_T False],
      tab_unique = [],
      tab_fks =
       [(''tenant_id'', ''tenants'', ''NO ACTION''),
        (''delivery_id'', ''document_deliveries'', ''NO ACTION''),
        (''provider_account_id'', ''provider_accounts'', ''NO ACTION'')]\<rparr>"

definition m2_provider_health_snapshots :: table where
  "m2_provider_health_snapshots =
     \<lparr>tab_name = ''provider_health_snapshots'',
      tab_columns =
       [col ''id'' UUID_T False,
        col ''provider_account_id'' UUID_T False,
        col ''health_status'' (String_T 32) False,
        col ''circuit_state'' (String_T 32) False,
        col ''response_time_ms'' Int_T True,
        col ''error_rate'' (Numeric_T 5 2) True,
        col ''checked_at'' Timestamptz_T False],
      tab_unique = [],
      tab_fks =
       [(''provider_account_id'', ''provider_accounts'', ''NO ACTION'')]\<rparr>"

definition m2_audit_events :: table where
  "m2_audit_events =
     \<lparr>tab_name = ''audit_events'',
      tab_columns =
       [col ''id'' UUID_T False,
        col ''tenant_id'' UUID_T False,
        col ''actor_user_id'' UUID_T True,
        col ''resource_type'' (String_T 64) False,
        col ''resource_id'' UUID_T False,
        col ''event_type'' (String_T 64) False,
        col ''trace_id'' (String_T 128) True,
        col ''payload'' Jsonb_T False,
        col ''created_at'' Timestamptz_T False],
      tab_unique = [],
      tab_fks =
       [(''tenant_id'', ''tenants'', ''NO ACTION''),
        (''actor_user_id'', ''api_users'', ''NO ACTION'')]\<rparr>"

definition upgrade_0002 :: "ddl list" where
  "upgrade_0002 =
     [Drop_table ''audit_events'',
      Drop_table ''provider_health_snapshots'',
      Drop_table ''dlq_entries'',
      Drop_table ''webhook_events'',
      Drop_table ''incoming_documents'',
      Drop_table ''document_deliveries'',
      Drop_table ''edo_documents'',
      Drop_table ''provider_accounts'',
      Drop_table ''api_users'',
      Drop_table ''tenants'',
      Create_table m2_tenants,
      Create_table m2_api_users,
      Create_index ''api_users'' [''tenant_id''] False,
      Create_table m2_provider_accounts,
      Create_index ''provider_accounts'' [''tenant_id''] False,
      Create_table m2_edo_documents,
      Create_index ''edo_documents'' [''tenant_id''] False,
      Create_table m2_document_deliveries,
      Create_index ''document_deliveries'' [''unified_status'', ''updated_at''] False,
      Create_index ''document_deliveries'' [''next_retry_at''] False,
      Create_table m2_incoming_documents,
      Create_index ''incoming_documents'' [''received_at''] False,
      Create_table m2_webhook_events,
      Create_index ''webhook_events'' [''processed'', ''created_at''] False,
      Create_table m2_dlq_entries,
      Create_index ''dlq_entries'' [''created_at''] False,
      Create_table m2_provider_health_snapshots,
      Create_index ''provider_health_snapshots'' [''provider_account_id'', ''checked_at''] False,
      Create_table m2_audit_events,
      Create_index ''audit_events'' [''resource_type'', ''resource_id'', ''created_at''] False]"

definition downgrade_0002 :: "ddl list" where
  "downgrade_0002 =
     [Drop_table ''audit_events'',
      Drop_table ''provider_health_snapshots'',
      Drop_table ''dlq_entries'',
      Drop_table ''webhook_events'',
      Drop_table ''incoming_documents'',
      Drop_table ''document_deliveries'',
      Drop_table ''edo_documents'',
      Drop_table ''provider_accounts'',
      Drop_table ''api_users'',
      Drop_table ''tenants'']"

section \<open>Properties\<close>

text \<open>Two tables hold the same columns and foreign keys, in whatever order.\<close>

definition same_shape :: "table \<Rightarrow> table \<Rightarrow> bool" where
  "same_shape t u \<longleftrightarrow> tab_name t = tab_name u \<and> set (tab_columns t) = set (tab_columns u)
     \<and> set (tab_fks t) = set (tab_fks u)"

definition same_unique :: "table \<Rightarrow> table \<Rightarrow> bool" where
  "same_unique t u \<longleftrightarrow> set (tab_unique t) = set (tab_unique u)"

definition migrated_schema :: schema where
  "migrated_schema =
     [m2_tenants, m2_api_users, m2_provider_accounts, m2_edo_documents, m2_document_deliveries,
      m2_incoming_documents, m2_webhook_events, m2_dlq_entries, m2_provider_health_snapshots,
      m2_audit_events]"

lemma run_ddl_append: "run_ddl (xs @ ys) s = Option.bind (run_ddl xs s) (run_ddl ys)"
  by (induction xs arbitrary: s) (auto split: Option.bind_splits)

lemma run_0001:
  "map_option (map tab_name) (run_ddl upgrade_0001 []) =
     Some [''tenants'', ''api_users'', ''provider_accounts'', ''edo_documents'', ''document_deliveries'',
       ''incoming_documents'', ''webhook_events'', ''dlq_entries'', ''provider_health_snapshots'', ''audit_events'']"
  by code_simp

lemma run_0002: "run_ddl (upgrade_0001 @ upgrade_0002) [] = Some migrated_schema"
  by code_simp

lemma run_down_0002: "run_ddl downgrade_0002 migrated_schema = Some []"
  by code_simp

lemma same_shapes: "list_all2 same_shape migrated_schema orm_schema"
  by code_simp

lemma unique_differences:
  "map (\<lambda>(t, u). tab_name t) (filter (\<lambda>(t, u). \<not> same_unique t u) (zip migrated_schema orm_schema)) = [''api_users'']"
  by code_simp

lemma users_unique: "tab_unique m2_api_users = [] \<and> tab_unique orm_api_users = [[''email'']]"
  by code_simp


text \<open>Revision 0002 cannot be taken back. Its downgrade drops every table and restores none of revision
  0001's, so the database is empty although revision 0001 is then the current one, and the downgrade of
  0001 fails on the first table it wants to drop.\<close>

theorem downgrade_loses_revision_0001:
  "run_ddl (upgrade_0001 @ upgrade_0002 @ downgrade_0002) [] = Some []
   \<and> run_ddl (upgrade_0001 @ upgrade_0002 @ downgrade_0002 @ downgrade_0001) [] = None
   \<and> (\<exists>s. run_ddl upgrade_0001 [] = Some s \<and> length s = 10)"
proof -
  have a: "run_ddl (upgrade_0001 @ upgrade_0002 @ downgrade_0002) [] = Some []"
    using run_0002 run_down_0002 by (simp add: run_ddl_append [of "upgrade_0001 @ upgrade_0002", simplified append_assoc])
  have b: "run_ddl (upgrade_0001 @ upgrade_0002 @ downgrade_0002 @ downgrade_0001) []
      = Option.bind (run_ddl (upgrade_0001 @ upgrade_0002 @ downgrade_0002) []) (run_ddl downgrade_0001)"
    by (simp only: run_ddl_append [symmetric] append_assoc)
  have c: "run_ddl downgrade_0001 [] = None"
    by (simp add: downgrade_0001_def)
  obtain s where s: "run_ddl upgrade_0001 [] = Some s" "map tab_name s = [''tenants'', ''api_users'',
      ''provider_accounts'', ''edo_documents'', ''document_deliveries'', ''incoming_documents'', ''webhook_events'',
      ''dlq_entries'', ''provider_health_snapshots'', ''audit_events'']"
    using run_0001 by (cases "run_ddl upgrade_0001 []") simp_all
  from arg_cong [OF s(2), of length] have "length s = 10" by simp
  with a b c s(1) show ?thesis by simp
qed

end
