(* ===== verification/Base64.thy ===== *)
theory Base64
  imports Codec
begin

text \<open>
  The two functions of Python's \<open>base64\<close> module that carry a webhook body through the queue: the endpoint
  encodes the raw body (\<open>webhooks.py\<close>), the task decodes it (\<open>process_webhook_task.py\<close>), and
  \<open>webhook_signature_verifier.py\<close> compares encoded digests. Decoding undoes encoding for every byte sequence.
\<close>

section \<open>Encoding\<close>

definition b64_alphabet :: string where
  "b64_alphabet = ''ABCDEFGHIJKLMNOPQRSTUVWXYZabcdefghijklmnopqrstuvwxyz0123456789+/''"

definition b64_char :: "nat \<Rightarrow> char" where
  "b64_char n = b64_alphabet ! n"

text \<open>\<open>base64.b64encode\<close>.\<close>

fun b64_encode :: "bytes \<Rightarrow> string" where
  "b64_encode [] = ''''"
| "b64_encode [a] =
     (let n = unat a * 16 in [b64_char (n div 64), b64_char (n mod 64), CHR ''='', CHR ''=''])"
| "b64_encode [a, b] =
     (let n = (unat a * 256 + unat b) * 4 in
      [b64_char (n div 4096), b64_char (n div 64 mod 64), b64_char (n mod 64), CHR ''=''])"
| "b64_encode (a # b # c # rest) =
     (let n = unat a * 65536 + unat b * 256 + unat c in
      [b64_char (n div 262144), b64_char (n div 4096 mod 64), b64_char (n div 64 mod 64), b64_char (n mod 64)]
      @ b64_encode rest)"

section \<open>Decoding\<close>

text \<open>\<open>base64.b64decode\<close> on a text: other characters are skipped, a group of four gives three bytes, and a
  group closed by padding fewer.\<close>

definition b64_index :: "char \<Rightarrow> nat option" where
  "b64_index c = (let i = length (takeWhile (\<lambda>x. x \<noteq> c) b64_alphabet) in if i < 64 then Some i else None)"

fun b64_groups :: "string \<Rightarrow> bytes res" where
  "b64_groups [] = Inr []"
| "b64_groups [w, x, y, z] =
     (case (b64_index w, b64_index x, b64_index y, b64_index z) of
        (Some a, Some b, Some c, Some d) \<Rightarrow>
          (let n = a * 262144 + b * 4096 + c * 64 + d in
           Inr [of_nat (n div 65536), of_nat (n div 256), of_nat n])
      | (Some a, Some b, Some c, None) \<Rightarrow>
          if z = CHR ''=''
          then (let n = a * 4096 + b * 64 + c in Inr [of_nat (n div 1024), of_nat (n div 4)])
          else Inl (ValueError ''Incorrect padding'')
      | (Some a, Some b, None, None) \<Rightarrow>
          if y = CHR ''='' \<and> z = CHR ''='' then Inr [of_nat ((a * 64 + b) div 16)]
          else Inl (ValueError ''Incorrect padding'')
      | _ \<Rightarrow> Inl (ValueError ''Incorrect padding''))"
| "b64_groups (w # x # y # z # rest) =
     (case (b64_index w, b64_index x, b64_index y, b64_index z) of
        (Some a, Some b, Some c, Some d) \<Rightarrow>
          (let n = a * 262144 + b * 4096 + c * 64 + d in
           and_then (b64_groups rest) (\<lambda>bs. Inr (of_nat (n div 65536) # of_nat (n div 256) # of_nat n # bs)))
      | _ \<Rightarrow> Inl (ValueError ''Incorrect padding''))"
| "b64_groups _ = Inl (ValueError ''Incorrect padding'')"

definition b64_decode :: "string \<Rightarrow> bytes res" where
  "b64_decode t = b64_groups (filter (\<lambda>c. b64_index c \<noteq> None \<or> c = CHR ''='') t)"

section \<open>Round trip\<close>

lemma b64_index_table: "list_all (\<lambda>n. b64_index (b64_char n) = Some n) [0..<64]"
  by code_simp

lemma b64_index_char [simp]: "n < 64 \<Longrightarrow> b64_index (b64_char n) = Some n"
  using b64_index_table by (simp add: list_all_iff)

lemma b64_index_pad [simp]: "b64_index CHR ''='' = None"
  by code_simp

lemma unat_byte [simp]: "unat (a :: 8 word) < 256"
  using unsigned_less [of a] by simp

lemma of_nat_byte_high [simp]: "(of_nat (unat (a :: 8 word)) :: 8 word) = a"
  by simp

lemma byte_mod: "(of_nat (256 * k + unat (a :: 8 word)) :: 8 word) = a"
proof -
  have "(of_nat 256 :: 8 word) = 0" by simp
  then show ?thesis by (simp only: of_nat_add of_nat_mult) simp
qed

lemma sextets: "(n::nat) div 262144 * 262144 + n div 4096 mod 64 * 4096 + n div 64 mod 64 * 64 + n mod 64 = n"
proof -
  have d: "n div 4096 = n div 64 div 64" "n div 262144 = n div 64 div 64 div 64"
    by (simp_all flip: div_mult2_eq)
  have "n = n div 64 * 64 + n mod 64" "n div 64 = n div 64 div 64 * 64 + n div 64 mod 64"
    "n div 64 div 64 = n div 64 div 64 div 64 * 64 + n div 64 div 64 mod 64"
    by (simp_all only: div_mult_mod_eq)
  then show ?thesis unfolding d by linarith
qed

lemma div_eq_nat: "q * d \<le> (m::nat) \<Longrightarrow> m < (q + 1) * d \<Longrightarrow> m div d = q"
  by (intro div_nat_eqI) (simp_all add: algebra_simps)

lemma byte_divs:
  fixes a b c :: nat
  assumes "b < 256" "c < 256"
  shows "(a * 65536 + b * 256 + c) div 65536 = a" "(a * 65536 + b * 256 + c) div 256 = 256 * a + b"
    "(a * 256 + b) * 4 div 1024 = a" "a < 256 \<Longrightarrow> (a * 256 + b) * 4 div 4096 < 64"
    "a < 256 \<Longrightarrow> (a * 65536 + b * 256 + c) div 262144 < 64"
proof -
  have b: "b \<le> 255" "c \<le> 255" using assms by simp_all
  then have bc: "b * 256 + c < 65536" by linarith
  have "a * 65536 + b * 256 + c < (a + 1) * 65536" using bc by (simp add: add.assoc)
  then show "(a * 65536 + b * 256 + c) div 65536 = a" by (intro div_eq_nat) simp_all
  have "a * 65536 + b * 256 + c < (256 * a + b + 1) * 256" using assms(2) by (simp add: algebra_simps)
  then show "(a * 65536 + b * 256 + c) div 256 = 256 * a + b" by (intro div_eq_nat) (simp_all add: algebra_simps)
  have "(a * 256 + b) * 4 < (a + 1) * 1024" using assms(1) by (simp add: algebra_simps)
  then show "(a * 256 + b) * 4 div 1024 = a" by (intro div_eq_nat) (simp_all add: algebra_simps)
  show "(a * 256 + b) * 4 div 4096 < 64" if "a < 256"
  proof -
    have "a \<le> 255" using that by simp
    then have "(a * 256 + b) * 4 < 64 * 4096" using b by (simp add: algebra_simps)
    then show ?thesis by (simp add: less_mult_imp_div_less)
  qed
  show "(a * 65536 + b * 256 + c) div 262144 < 64" if "a < 256"
  proof -
    have "a \<le> 255" using that by simp
    then have "a * 65536 + b * 256 + c < 64 * 262144" using b by simp
    then show ?thesis by (simp add: less_mult_imp_div_less)
  qed
qed

lemma three_bytes:
  fixes a b c :: "8 word"
  defines "n \<equiv> unat a * 65536 + unat b * 256 + unat c"
  shows "(of_nat (n div 65536) :: 8 word) = a" "(of_nat (n div 256) :: 8 word) = b" "(of_nat n :: 8 word) = c"
    "n div 262144 < 64"
proof -
  have l: "unat b < 256" "unat c < 256" "unat a < 256" by simp_all
  have 1: "n div 65536 = unat a" unfolding n_def using l by (simp only: byte_divs)
  have 3: "n div 256 = 256 * unat a + unat b" unfolding n_def using l by (simp only: byte_divs)
  have 2: "n = 256 * (256 * unat a + unat b) + unat c" unfolding n_def by simp
  show "(of_nat (n div 65536) :: 8 word) = a" "(of_nat (n div 256) :: 8 word) = b"
    by (simp_all only: 1 3 byte_mod of_nat_byte_high)
  show "(of_nat n :: 8 word) = c" using byte_mod [of "256 * unat a + unat b" c] 2 by simp
  show "n div 262144 < 64" unfolding n_def using l byte_divs(5) by blast
qed


lemma two_bytes:
  fixes a b :: "8 word"
  defines "n \<equiv> (unat a * 256 + unat b) * 4"
  shows "(of_nat (n div 1024) :: 8 word) = a" "(of_nat (n div 4) :: 8 word) = b" "n div 4096 < 64"
    "n div 4096 * 4096 + n div 64 mod 64 * 64 + n mod 64 = n"
proof -
  have l: "unat b < 256" "unat a < 256" by simp_all
  have 1: "n div 1024 = unat a" unfolding n_def using l by (simp only: byte_divs)
  have 2: "n div 4 = 256 * unat a + unat b" unfolding n_def by simp
  show "(of_nat (n div 1024) :: 8 word) = a" "(of_nat (n div 4) :: 8 word) = b"
    by (simp_all only: 1 2 byte_mod of_nat_byte_high)
  show "n div 4096 < 64" unfolding n_def using l byte_divs(4) [of "unat b"] by blast
  then have "n div 262144 = 0" using div_mult2_eq [of n 4096 64] by simp
  with sextets [of n] \<open>n div 4096 < 64\<close>
  show "n div 4096 * 4096 + n div 64 mod 64 * 64 + n mod 64 = n" by simp
qed

lemma one_byte:
  fixes a :: "8 word"
  defines "n \<equiv> unat a * 16"
  shows "(of_nat ((n div 64 * 64 + n mod 64) div 16) :: 8 word) = a" "n div 64 < 64"
proof -
  have "unat a < 256" by simp
  then show "n div 64 < 64" unfolding n_def by linarith
  show "(of_nat ((n div 64 * 64 + n mod 64) div 16) :: 8 word) = a"
    unfolding div_mult_mod_eq by (simp add: n_def)
qed

lemma b64_encode_Cons: "\<exists>c cs. b64_encode (a # bs) = c # cs"
  by (cases "a # bs" rule: b64_encode.cases) (auto simp: Let_def)

lemma b64_groups_more:
  "r \<noteq> [] \<Longrightarrow> b64_groups ([w, x, y, z] @ r) =
     (case (b64_index w, b64_index x, b64_index y, b64_index z) of
        (Some a, Some b, Some c, Some d) \<Rightarrow>
          (let n = a * 262144 + b * 4096 + c * 64 + d in
           and_then (b64_groups r) (\<lambda>bs. Inr (of_nat (n div 65536) # of_nat (n div 256) # of_nat n # bs)))
      | _ \<Rightarrow> Inl (ValueError ''Incorrect padding''))"
  by (cases r) (simp, simp only: append.simps b64_groups.simps)

lemma b64_groups_encode: "b64_groups (b64_encode bs) = Inr bs"
proof (induction bs rule: b64_encode.induct)
  case (2 a)
  show ?case using one_byte [of a] by (simp add: Let_def)
next
  case (3 a b)
  show ?case using two_bytes [of a b] by (simp add: Let_def del: of_nat_add of_nat_mult)
next
  case (4 a b c rest)
  note facts = three_bytes [of a b c] sextets [of "unat a * 65536 + unat b * 256 + unat c"]
  show ?case
  proof (cases rest)
    case Nil
    then show ?thesis using facts by (simp add: Let_def del: of_nat_add of_nat_mult)
  next
    case (Cons r rs)
    then have "b64_encode rest \<noteq> []" using b64_encode_Cons [of r rs] by auto
    then show ?thesis
      using facts 4 by (simp add: Let_def b64_groups_more del: of_nat_add of_nat_mult append.simps b64_groups.simps)
  qed
qed simp

lemma b64_encode_alphabet: "c \<in> set (b64_encode bs) \<Longrightarrow> b64_index c \<noteq> None \<or> c = CHR ''=''"
proof (induction bs rule: b64_encode.induct)
  case (2 a)
  then show ?case using one_byte(2) [of a] by (auto simp: Let_def)
next
  case (3 a b)
  then show ?case using two_bytes(3) [of a b] by (auto simp: Let_def)
next
  case (4 a b c rest)
  then show ?case using three_bytes(4) [of a b c] by (auto simp: Let_def)
qed simp

lemma b64_decode_encode: "b64_decode (b64_encode bs) = Inr bs"
proof -
  have "filter (\<lambda>c. b64_index c \<noteq> None \<or> c = CHR ''='') (b64_encode bs) = b64_encode bs"
    using b64_encode_alphabet by (intro filter_True) blast
  then show ?thesis by (simp add: b64_decode_def b64_groups_encode)
qed

end
