(* ===== verification/AdminApi.thy ===== *)
theory AdminApi
  imports Schema Base64
begin

text \<open>
  The remaining routes of \<open>src/presentation/api/v1\<close>: dead letters, provider accounts, audit time lines,
  incoming documents, provider types, health and webhooks; the two middlewares and the log mask. A row
  attribute is read through \<open>row_attr\<close>, which raises for a name that is not an attribute of the ORM class.
\<close>

section \<open>Dead letters\<close>

record dlq_response =
  dlr_id :: uuid
  dlr_tenant_id :: uuid
  dlr_delivery_id :: "uuid option"
  dlr_task_name :: string
  dlr_reason_code :: string
  dlr_reason_message :: string
  dlr_retryable :: bool
  dlr_replayed_at :: "time option"
  dlr_created_at :: time

definition dlq_response_of :: "dlq_entry \<Rightarrow> dlq_response" where
  "dlq_response_of e =
     \<lparr>dlr_id = dlq_id e, dlr_tenant_id = dlq_tenant_id e, dlr_delivery_id = dlq_delivery_id e,
      dlr_task_name = dlq_task_name e, dlr_reason_code = dlq_reason_code e,
      dlr_reason_message = dlq_reason_message e, dlr_retryable = dlq_retryable e,
      dlr_replayed_at = dlq_replayed_at e, dlr_created_at = dlq_created_at e\<rparr>"

definition list_dlq :: "current_user \<Rightarrow> nat \<Rightarrow> nat \<Rightarrow> session \<Rightarrow> dlq_response list res" where
  "list_dlq cu offset limit s =
     and_then (list_dlq_by_tenant (cu_tenant_id cu) offset limit s) (\<lambda>es. Inr (map dlq_response_of es))"

definition own_entry :: "uuid \<Rightarrow> current_user \<Rightarrow> session \<Rightarrow> dlq_entry option res" where
  "own_entry entry_id cu s =
     and_then (get_dlq_by_id entry_id s) (\<lambda>o'.
       case o' of
         None \<Rightarrow> Inr None
       | Some e \<Rightarrow> if dlq_tenant_id e \<noteq> cu_tenant_id cu then Inr None else Inr (Some e))"

definition get_dlq_entry :: "uuid \<Rightarrow> current_user \<Rightarrow> session \<Rightarrow> dlq_response res" where
  "get_dlq_entry entry_id cu s =
     and_then (own_entry entry_id cu s) (\<lambda>o'.
       case o' of
         None \<Rightarrow> Inl (ErrHTTP 404 ''DLQ entry not found'')
       | Some e \<Rightarrow> Inr (dlq_response_of e))"

text \<open>The task of an entry, if it is one that can be replayed; the file is not kept in the entry.\<close>

definition replay_messages :: "dlq_entry \<Rightarrow> task_msg list" where
  "replay_messages e =
     (case dlq_delivery_id e of
        Some d \<Rightarrow> if dlq_task_name e = ''send_document'' then [Task_send (uuid_str d) ''''] else []
      | None \<Rightarrow> [])"

fun publish_all :: "publisher \<Rightarrow> task_msg list \<Rightarrow> unit res" where
  "publish_all publish [] = Inr ()"
| "publish_all publish (m # ms) = and_then (publish m) (\<lambda>_. publish_all publish ms)"

definition replay_entry :: "publisher \<Rightarrow> time \<Rightarrow> dlq_entry \<Rightarrow> unit request" where
  "replay_entry publish now e s =
     (case publish_all publish (replay_messages e) of
        Inl x \<Rightarrow> (Inl x, s, [])
      | Inr _ \<Rightarrow>
          (case update_dlq (mark_replayed now e) s of
             Inl x \<Rightarrow> (Inl x, s, replay_messages e)
           | Inr s' \<Rightarrow> (Inr (), s', replay_messages e)))"

definition replay_dlq_entry :: "publisher \<Rightarrow> time \<Rightarrow> uuid \<Rightarrow> bool \<Rightarrow> current_user \<Rightarrow> string request" where
  "replay_dlq_entry publish now entry_id force cu s =
     (case require_admin cu of
        Inl x \<Rightarrow> (Inl x, s, [])
      | Inr _ \<Rightarrow>
     (case own_entry entry_id cu s of
        Inl x \<Rightarrow> (Inl x, s, [])
      | Inr None \<Rightarrow> (Inl (ErrHTTP 404 ''DLQ entry not found''), s, [])
      | Inr (Some e) \<Rightarrow>
          if \<not> dlq_retryable e \<and> \<not> force
          then (Inl (ErrHTTP 422 ''Entry is not retryable. Use force=true to override.''), s, [])
          else (case replay_entry publish now e s of
                  (Inl x, s', ms) \<Rightarrow> (Inl x, s', ms)
                | (Inr _, s', ms) \<Rightarrow> (Inr ''replayed'', s', ms))))"

fun replay_each :: "publisher \<Rightarrow> (nat \<Rightarrow> time) \<Rightarrow> bool \<Rightarrow> current_user \<Rightarrow> uuid list \<Rightarrow> nat \<Rightarrow> nat request" where
  "replay_each publish clock force cu [] n s = (Inr n, s, [])"
| "replay_each publish clock force cu (i # is) n s =
     (case own_entry i cu s of
        Inl x \<Rightarrow> (Inl x, s, [])
      | Inr None \<Rightarrow> replay_each publish clock force cu is n s
      | Inr (Some e) \<Rightarrow>
          if \<not> dlq_retryable e \<and> \<not> force then replay_each publish clock force cu is n s
          else (case replay_entry publish (clock n) e s of
                  (Inl x, s', ms) \<Rightarrow> (Inl x, s', ms)
                | (Inr _, s', ms) \<Rightarrow>
                    (case replay_each publish clock force cu is (n + 1) s' of
                       (r, s'', ms') \<Rightarrow> (r, s'', ms @ ms'))))"

text \<open>\<open>ReplayBatchRequest\<close> admits 1 to 100 ids.\<close>

definition batch_valid :: "uuid list \<Rightarrow> bool" where
  "batch_valid ids \<longleftrightarrow> 1 \<le> length ids \<and> length ids \<le> 100"

definition replay_batch :: "publisher \<Rightarrow> (nat \<Rightarrow> time) \<Rightarrow> uuid list \<Rightarrow> bool \<Rightarrow> current_user \<Rightarrow> nat request" where
  "replay_batch publish clock ids force cu s =
     (case require_admin cu of
        Inl x \<Rightarrow> (Inl x, s, [])
      | Inr _ \<Rightarrow> replay_each publish clock force cu ids 0 s)"

section \<open>Provider accounts\<close>

record account_request =
  rq_provider_type :: string
  rq_account_name :: string
  rq_credentials :: dict
  rq_webhook_secret :: "string option"
  rq_rate_limit :: "int option"
  rq_priority :: int

definition account_request_valid :: "account_request \<Rightarrow> bool" where
  "account_request_valid q \<longleftrightarrow>
     rq_provider_type q \<in> {''DIADOC'', ''SBIS'', ''KONTUR_EDO'', ''STUB''}
     \<and> 1 \<le> length (rq_account_name q) \<and> length (rq_account_name q) \<le> 255
     \<and> (case rq_rate_limit q of None \<Rightarrow> True | Some n \<Rightarrow> 1 \<le> n \<and> n \<le> 10000)
     \<and> 1 \<le> rq_priority q \<and> rq_priority q \<le> 1000"

record account_response =
  ars_id :: uuid
  ars_tenant_id :: uuid
  ars_provider_type :: string
  ars_account_name :: string
  ars_is_active :: bool
  ars_priority :: int
  ars_created_at :: time
  ars_updated_at :: time

definition account_response_of :: "account \<Rightarrow> account_response" where
  "account_response_of a =
     \<lparr>ars_id = acc_id a, ars_tenant_id = acc_tenant_id a,
      ars_provider_type = provider_type_value (acc_provider_type a), ars_account_name = acc_account_name a,
      ars_is_active = acc_is_active a, ars_priority = acc_priority a, ars_created_at = acc_created_at a,
      ars_updated_at = acc_updated_at a\<rparr>"

definition register_provider_account ::
  "uuid \<Rightarrow> time \<Rightarrow> account_request \<Rightarrow> current_user \<Rightarrow> account_response request"
where
  "register_provider_account new_id now q cu s =
     (case require_admin cu of
        Inl x \<Rightarrow> (Inl x, s, [])
      | Inr _ \<Rightarrow>
          (case parse_provider_type (rq_provider_type q) of
             None \<Rightarrow> (Inl (ValueError ''not a valid ProviderType''), s, [])
           | Some p \<Rightarrow>
               (let a = create_account new_id now (cu_tenant_id cu) p (rq_account_name q) (rq_credentials q)
                          (rq_webhook_secret q) (rq_rate_limit q) (rq_priority q)
                in (Inr (account_response_of a), save_account a s, []))))"

definition list_provider_accounts :: "current_user \<Rightarrow> bool \<Rightarrow> session \<Rightarrow> account_response list res" where
  "list_provider_accounts cu active_only s =
     and_then (list_accounts_by_tenant (cu_tenant_id cu) active_only s)
       (\<lambda>as. Inr (map account_response_of as))"

definition own_account :: "uuid \<Rightarrow> current_user \<Rightarrow> session \<Rightarrow> account res" where
  "own_account account_id cu s =
     and_then (get_account_by_id account_id s) (\<lambda>o'.
       case o' of
         None \<Rightarrow> Inl (ErrHTTP 404 ''Account not found'')
       | Some a \<Rightarrow> if acc_tenant_id a \<noteq> cu_tenant_id cu then Inl (ErrHTTP 404 ''Account not found'') else Inr a)"

definition get_provider_account :: "uuid \<Rightarrow> current_user \<Rightarrow> session \<Rightarrow> account_response res" where
  "get_provider_account account_id cu s =
     and_then (own_account account_id cu s) (\<lambda>a. Inr (account_response_of a))"

definition change_account :: "(account \<Rightarrow> account) \<Rightarrow> uuid \<Rightarrow> current_user \<Rightarrow> account_response request" where
  "change_account f account_id cu s =
     (case and_then (require_admin cu) (\<lambda>_. own_account account_id cu s) of
        Inl x \<Rightarrow> (Inl x, s, [])
      | Inr a \<Rightarrow>
          (case update_account (f a) s of
             Inl x \<Rightarrow> (Inl x, s, [])
           | Inr s' \<Rightarrow> (Inr (account_response_of (f a)), s', [])))"

definition activate_account :: "time \<Rightarrow> uuid \<Rightarrow> current_user \<Rightarrow> account_response request" where
  "activate_account now = change_account (activate now)"

definition deactivate_account :: "time \<Rightarrow> uuid \<Rightarrow> current_user \<Rightarrow> account_response request" where
  "deactivate_account now = change_account (deactivate now)"

section \<open>Audit time lines\<close>

record audit_response =
  aq_id :: uuid
  aq_event_type :: string
  aq_resource_type :: string
  aq_resource_id :: uuid
  aq_actor_user_id :: "uuid option"
  aq_trace_id :: "string option"
  aq_payload :: dict
  aq_created_at :: time

definition audit_response_of :: "audit_event \<Rightarrow> audit_response" where
  "audit_response_of e =
     \<lparr>aq_id = aud_id e, aq_event_type = aud_event_type e, aq_resource_type = aud_resource_type e,
      aq_resource_id = aud_resource_id e, aq_actor_user_id = aud_actor_user_id e,
      aq_trace_id = aud_trace_id e, aq_payload = aud_payload e, aq_created_at = aud_created_at e\<rparr>"

record 'a page =
  pg_items :: "'a list"
  pg_total :: nat
  pg_offset :: nat
  pg_limit :: nat

text \<open>\<open>total\<close> is the number of items on the page.\<close>

definition page_of :: "'a list \<Rightarrow> nat \<Rightarrow> nat \<Rightarrow> 'a page" where
  "page_of items limit offset =
     \<lparr>pg_items = items, pg_total = length items, pg_offset = offset, pg_limit = limit\<rparr>"

definition audit_timeline :: "string \<Rightarrow> uuid \<Rightarrow> current_user \<Rightarrow> nat \<Rightarrow> nat \<Rightarrow> session \<Rightarrow> audit_response page" where
  "audit_timeline rtype rid cu limit offset s =
     page_of (map audit_response_of (take limit (drop offset (sort_key aud_created_at
       (filter (\<lambda>e. aud_resource_type e = rtype \<and> aud_resource_id e = rid
                    \<and> aud_tenant_id e = cu_tenant_id cu) (db_audit (view s))))))) limit offset"

definition document_audit_timeline :: "uuid \<Rightarrow> current_user \<Rightarrow> nat \<Rightarrow> nat \<Rightarrow> session \<Rightarrow> audit_response page" where
  "document_audit_timeline = audit_timeline ''document''"

definition delivery_audit_timeline :: "uuid \<Rightarrow> current_user \<Rightarrow> nat \<Rightarrow> nat \<Rightarrow> session \<Rightarrow> audit_response page" where
  "delivery_audit_timeline = audit_timeline ''delivery''"

section \<open>Incoming documents\<close>

text \<open>An attribute of an ORM row: the class has one attribute per column, \<open>metadata\<close> under the name
  \<open>metadata_\<close>; its relationships are not modelled and not asked for.\<close>

definition attributes :: "table \<Rightarrow> string list" where
  "attributes t = map (\<lambda>c. if col_name c = ''metadata'' then ''metadata_'' else col_name c) (tab_columns t)"

definition row_attr :: "table \<Rightarrow> string \<Rightarrow> unit res" where
  "row_attr t name = (if name \<in> set (attributes t) then Inr () else Inl (AttributeError name))"

record incoming_response =
  iq_id :: uuid
  iq_provider_account_id :: uuid
  iq_provider_document_id :: string
  iq_document_type :: string
  iq_sender_inn :: string
  iq_sender_name :: "string option"
  iq_file_name :: string
  iq_unified_status :: string
  iq_received_at :: time
  iq_created_at :: time

text \<open>The response is built from attributes in the order of the call, \<open>document_date\<close> among them; the
  constructor would then miss three required fields of the response class.\<close>

definition incoming_response_of :: "incoming_document \<Rightarrow> incoming_response res" where
  "incoming_response_of row =
     and_then (load_all (row_attr orm_incoming_documents)
       [''id'', ''tenant_id'', ''provider_account_id'', ''provider_document_id'', ''sender_inn'',
        ''sender_name'', ''document_type'', ''document_date'', ''received_at'']) (\<lambda>_.
       Inl (OtherError ''ValidationError: file_name, unified_status, created_at''))"

definition list_incoming :: "current_user \<Rightarrow> nat \<Rightarrow> nat \<Rightarrow> session \<Rightarrow> incoming_response page res" where
  "list_incoming cu limit offset s =
     and_then (load_all incoming_response_of (take limit (drop offset (sort_key (\<lambda>r. - inc_received_at r)
       (filter (\<lambda>r. inc_tenant_id r = cu_tenant_id cu) (db_incoming (view s)))))))
       (\<lambda>items. Inr (page_of items limit offset))"

definition get_incoming :: "uuid \<Rightarrow> current_user \<Rightarrow> session \<Rightarrow> incoming_response res" where
  "get_incoming i cu s =
     and_then (scalar_one_or_none
       (filter (\<lambda>r. inc_id r = i \<and> inc_tenant_id r = cu_tenant_id cu) (db_incoming (view s)))) (\<lambda>o'.
       case o' of None \<Rightarrow> Inl (ErrHTTP 404 ''Not found'') | Some r \<Rightarrow> incoming_response_of r)"

definition trigger_poll :: "publisher \<Rightarrow> current_user \<Rightarrow> string request" where
  "trigger_poll publish cu s =
     (case and_then (require_admin cu) (\<lambda>_. publish Task_poll_incoming) of
        Inl x \<Rightarrow> (Inl x, s, [])
      | Inr _ \<Rightarrow> (Inr ''queued'', s, [Task_poll_incoming]))"

section \<open>Provider types\<close>

fun display_name :: "provider_type \<Rightarrow> string" where
  "display_name DIADOC = utf8 [1044, 1080, 1072, 1076, 1086, 1082]
     @ '' (''
     @ utf8 [1057, 1050, 1041]
     @ '' ''
     @ utf8 [1050, 1086, 1085, 1090, 1091, 1088]
     @ '')''"
| "display_name SBIS = utf8 [1057, 1041, 1048, 1057]
     @ '' (''
     @ utf8 [1058, 1077, 1085, 1079, 1086, 1088]
     @ '')''"
| "display_name KONTUR_EDO = utf8 [1050, 1086, 1085, 1090, 1091, 1088]
     @ ''.''
     @ utf8 [1069, 1044, 1054]"
| "display_name STUB = ''Stub (''
     @ utf8 [1076, 1083, 1103]
     @ '' ''
     @ utf8 [1088, 1072, 1079, 1088, 1072, 1073, 1086, 1090, 1082, 1080]
     @ '')''"

fun description :: "provider_type \<Rightarrow> string" where
  "description DIADOC = utf8 [1048, 1085, 1090, 1077, 1075, 1088, 1072, 1094, 1080, 1103]
     @ '' ''
     @ utf8 [1089]
     @ '' ''
     @ utf8 [1044, 1080, 1072, 1076, 1086, 1082]
     @ '' ''
     @ utf8 [1095, 1077, 1088, 1077, 1079]
     @ '' REST API ''
     @ utf8 [1089]
     @ '' PASETO-''
     @ utf8 [1090, 1086, 1082, 1077, 1085, 1072, 1084, 1080]"
| "description SBIS = utf8 [1048, 1085, 1090, 1077, 1075, 1088, 1072, 1094, 1080, 1103]
     @ '' ''
     @ utf8 [1089]
     @ '' ''
     @ utf8 [1057, 1041, 1048, 1057]
     @ '' ''
     @ utf8 [1095, 1077, 1088, 1077, 1079]
     @ '' JSON-RPC API''"
| "description KONTUR_EDO = utf8 [1048, 1085, 1090, 1077, 1075, 1088, 1072, 1094, 1080, 1103]
     @ '' ''
     @ utf8 [1089]
     @ '' ''
     @ utf8 [1050, 1086, 1085, 1090, 1091, 1088]
     @ ''.''
     @ utf8 [1069, 1044, 1054]
     @ '' ''
     @ utf8 [1095, 1077, 1088, 1077, 1079]
     @ '' REST API''"
| "description STUB = ''In-process ''
     @ utf8 [1079, 1072, 1075, 1083, 1091, 1096, 1082, 1072]
     @ '' ''
     @ utf8 [1076, 1083, 1103]
     @ '' tests ''
     @ utf8 [1080]
     @ '' local dev''"

definition list_provider_types :: "(string \<times> string \<times> string) list" where
  "list_provider_types =
     map (\<lambda>pt. (provider_type_value pt, display_name pt, description pt)) [DIADOC, SBIS, KONTUR_EDO, STUB]"

section \<open>Health\<close>

record health_response =
  hr_status :: string
  hr_database :: string
  hr_redis :: string
  hr_version :: string

definition probe :: "unit res \<Rightarrow> string" where
  "probe r = (case r of Inl e \<Rightarrow> ''error'' | Inr _ \<Rightarrow> ''ok'')"

definition readiness :: "settings \<Rightarrow> unit res \<Rightarrow> unit res \<Rightarrow> health_response" where
  "readiness s db_ping redis_ping =
     (let db_ok' = probe db_ping; redis_ok = probe redis_ping in
      \<lparr>hr_status = (if db_ok' = ''ok'' \<and> redis_ok = ''ok'' then ''ok'' else ''degraded''),
       hr_database = db_ok', hr_redis = redis_ok, hr_version = app_version s\<rparr>)"

section \<open>Webhooks\<close>

definition dispatch_webhook ::
  "publisher \<Rightarrow> uuid \<Rightarrow> (string \<times> string) list \<Rightarrow> bytes \<Rightarrow> string res \<times> task_msg list"
where
  "dispatch_webhook publish account_id headers body =
     (let m = Task_webhook (uuid_str account_id) headers (b64_encode body) in
      case publish m of Inl e \<Rightarrow> (Inl e, []) | Inr _ \<Rightarrow> (Inr ''queued'', [m]))"

section \<open>Webhook signatures\<close>

datatype signature_style = HEX | BASE64

definition verify_hmac ::
  "(bytes \<Rightarrow> bytes \<Rightarrow> bytes) \<Rightarrow> bytes \<Rightarrow> string \<Rightarrow> string \<Rightarrow> signature_style \<Rightarrow> bool"
where
  "verify_hmac hmac body secret provided style =
     (let raw_mac = hmac (text_bytes secret) body;
          expected = (case style of BASE64 \<Rightarrow> b64_encode raw_mac | HEX \<Rightarrow> bytes_hex raw_mac)
      in expected = provided)"

section \<open>Middlewares and log mask\<close>

definition build_csp :: "string \<Rightarrow> string" where
  "build_csp path =
     (let q = [CHR 0x27]; self = q @ ''self'' @ q; inline = q @ ''unsafe-inline'' @ q in
      if starts_with path ''/api/docs'' \<or> starts_with path ''/api/redoc'' \<or> path = ''/openapi.json''
      then ''default-src '' @ self @ ''; script-src '' @ self @ '' '' @ inline @ '' https://cdn.jsdelivr.net; ''
        @ ''style-src '' @ self @ '' '' @ inline @ '' https://cdn.jsdelivr.net; ''
        @ ''img-src '' @ self @ '' data: https://fastapi.tiangolo.com; font-src '' @ self
        @ '' https://cdn.jsdelivr.net; connect-src '' @ self
      else ''default-src '' @ self)"

text \<open>The header objects belong to the web framework: \<open>put\<close> sets a header of a response and \<open>get\<close> looks one
  up in a request.\<close>

definition security_headers :: "(string \<Rightarrow> string \<Rightarrow> 'h \<Rightarrow> 'h) \<Rightarrow> string \<Rightarrow> 'h \<Rightarrow> 'h" where
  "security_headers put path headers =
     fold (\<lambda>(k, v) h. put k v h)
       [(''X-Content-Type-Options'', ''nosniff''), (''X-Frame-Options'', ''DENY''),
        (''X-XSS-Protection'', ''1; mode=block''), (''Referrer-Policy'', ''strict-origin-when-cross-origin''),
        (''Permissions-Policy'', ''geolocation=(), microphone=()''),
        (''Strict-Transport-Security'', ''max-age=63072000; includeSubDomains; preload''),
        (''Content-Security-Policy'', build_csp path)] headers"

definition request_id_of :: "uuid \<Rightarrow> (string \<Rightarrow> string option) \<Rightarrow> string" where
  "request_id_of fresh get =
     (case get ''X-Request-ID'' of None \<Rightarrow> uuid_str fresh | Some v \<Rightarrow> v)"

definition request_id_response ::
  "(string \<Rightarrow> string \<Rightarrow> 'h \<Rightarrow> 'h) \<Rightarrow> uuid \<Rightarrow> (string \<Rightarrow> string option) \<Rightarrow> 'h \<Rightarrow> 'h"
where
  "request_id_response put fresh get response = put ''X-Request-ID'' (request_id_of fresh get) response"

definition is_substring :: "string \<Rightarrow> string \<Rightarrow> bool" where
  "is_substring p t \<longleftrightarrow> list_ex (\<lambda>i. starts_with (drop i t) p) [0..<Suc (length t)]"

definition sensitive_words :: "string list" where
  "sensitive_words = [''password'', ''token'', ''secret'', ''credential'', ''authorization'', ''hashed_password'']"

definition mask_sensitive :: "(string \<times> json) list \<Rightarrow> (string \<times> json) list" where
  "mask_sensitive event =
     map (\<lambda>(k, v). (k, if list_ex (\<lambda>p. is_substring p (py_lower k)) sensitive_words
                       then JStr ''***MASKED***'' else v)) event"

end
