(* ===== verification/Tasks.thy ===== *)
theory Tasks
  imports AdminApi
begin

text \<open>
  The background tasks of \<open>src/infrastructure/queue/tasks\<close> beside the send task, and the routing table and
  beat schedule of \<open>celery_app.py\<close>. Python resolves names and arities at run time, so a task stops at the
  first attribute its class does not have or the first call with a wrong number of arguments: what
  follows such a point is never reached and has no model. Gauges belong to the metrics library, which
  is not part of the repository: setting one is a parameter that may raise.
\<close>

section \<open>Calls that raise\<close>

text \<open>\<open>CircuitBreaker.__init__\<close> takes one argument, the client.\<close>

definition breaker_new :: "nat \<Rightarrow> unit res" where
  "breaker_new given =
     (if given = 1 then Inr ()
      else Inl (TypeError (''CircuitBreaker.__init__() takes 2 positional arguments but ''
             @ show_nat (given + 1) @ '' were given'')))"

section \<open>Polling, status synchronisation, health\<close>

definition active_accounts :: "db \<Rightarrow> account_row list" where
  "active_accounts D = filter ar_is_active (db_accounts D)"

text \<open>The statistics are the three counters of the task's dictionary. The breaker of the first account is
  constructed with two arguments, in front of the \<open>try\<close>; \<open>rest\<close> stands for whatever would follow, so that
  the facts below hold for every continuation.\<close>

definition poll_incoming_task ::
  "(account_row list \<Rightarrow> (nat \<times> nat \<times> nat) res) \<Rightarrow> db \<Rightarrow> (nat \<times> nat \<times> nat) res"
where
  "poll_incoming_task rest D =
     (case active_accounts D of
        [] \<Rightarrow> Inr (0, 0, 0)
      | a # as \<Rightarrow> and_then (breaker_new 2) (\<lambda>_. rest (a # as)))"

definition provider_health_task ::
  "(account_row list \<Rightarrow> (nat \<times> nat \<times> nat) res) \<Rightarrow> db \<Rightarrow> (nat \<times> nat \<times> nat) res"
where
  "provider_health_task rest D =
     (case active_accounts D of
        [] \<Rightarrow> Inr (0, 0, 0)
      | a # as \<Rightarrow> and_then (breaker_new 2) (\<lambda>_. rest (a # as)))"

text \<open>The statement reads \<open>DocumentDeliveryModel.status\<close> while it is being built.\<close>

definition sync_statuses_task :: "(db \<Rightarrow> (nat \<times> nat \<times> nat) res) \<Rightarrow> db \<Rightarrow> (nat \<times> nat \<times> nat) res" where
  "sync_statuses_task rest D = and_then (row_attr orm_document_deliveries ''status'') (\<lambda>_. rest D)"

section \<open>Webhooks\<close>

text \<open>An exception inside the task's \<open>try\<close> asks for another attempt; \<open>Webhook_retry\<close> carries it.\<close>

datatype webhook_outcome = Webhook_done | Webhook_retry exc

definition process_webhook_body :: "(account_row \<Rightarrow> bytes \<Rightarrow> unit res) \<Rightarrow> string \<Rightarrow> bytes \<Rightarrow> db \<Rightarrow> unit res" where
  "process_webhook_body rest account_id body D =
     and_then (uuid_parse account_id) (\<lambda>i.
     and_then (scalar_one_or_none (filter (\<lambda>a. ar_id a = i) (db_accounts D))) (\<lambda>o'.
       case o' of
         None \<Rightarrow> Inr ()
       | Some a \<Rightarrow> and_then (row_attr orm_provider_accounts ''credentials'') (\<lambda>_. rest a body)))"

definition process_webhook_task ::
  "(account_row \<Rightarrow> bytes \<Rightarrow> unit res) \<Rightarrow> string \<Rightarrow> string \<Rightarrow> db \<Rightarrow> webhook_outcome res"
where
  "process_webhook_task rest account_id body_b64 D =
     and_then (b64_decode body_b64) (\<lambda>body.
       case process_webhook_body rest account_id body D of
         Inl e \<Rightarrow> Inr (Webhook_retry e)
       | Inr _ \<Rightarrow> Inr Webhook_done)"

section \<open>Dead letters\<close>

definition opt_text :: "uuid option \<Rightarrow> string" where
  "opt_text o' = (case o' of None \<Rightarrow> ''None'' | Some u \<Rightarrow> uuid_str u)"

definition open_entries :: "db \<Rightarrow> dlq_entry list" where
  "open_entries D = filter (\<lambda>e. dlq_replayed_at e = None \<and> dlq_retryable e) (db_dlq D)"

text \<open>\<open>str(entry.payload.get("file_bytes_hex", ""))\<close>.\<close>

definition auto_message :: "(json \<Rightarrow> string) \<Rightarrow> dlq_entry \<Rightarrow> task_msg" where
  "auto_message to_str e =
     Task_send (opt_text (dlq_delivery_id e))
       (case map_of (dlq_payload e) ''file_bytes_hex'' of None \<Rightarrow> '''' | Some v \<Rightarrow> to_str v)"

definition published :: "publisher \<Rightarrow> (json \<Rightarrow> string) \<Rightarrow> dlq_entry \<Rightarrow> bool" where
  "published publish to_str e = (case publish (auto_message to_str e) of Inl x \<Rightarrow> False | Inr _ \<Rightarrow> True)"

text \<open>The assignment to \<open>replayed_at\<close> marks the loaded row, which the commit writes; a message the broker
  refuses leaves its entry for the next run.\<close>

definition process_dlq_task ::
  "(nat \<Rightarrow> unit res) \<Rightarrow> publisher \<Rightarrow> (json \<Rightarrow> string) \<Rightarrow> time \<Rightarrow> db
   \<Rightarrow> (nat \<times> nat \<times> nat) res \<times> db \<times> task_msg list"
where
  "process_dlq_task set_gauge publish to_str now D =
     (let entries = open_entries D in
      case set_gauge (length entries) of
        Inl e \<Rightarrow> (Inl e, D, [])
      | Inr _ \<Rightarrow>
          (let done = filter (published publish to_str) entries;
               D' = D\<lparr>db_dlq := map (\<lambda>e. if dlq_replayed_at e = None \<and> dlq_retryable e \<and> published publish to_str e
                                       then mark_replayed now e else e) (db_dlq D)\<rparr>
           in (Inr (length entries, length done, length entries - length done), D',
               map (auto_message to_str) done)))"

section \<open>Cleanup\<close>

text \<open>The scan is repeated until the server returns cursor 0; \<open>scan k cursor\<close> is the server's answer to the \<open>k\<close>-th
  call, and the loop has no result when that never happens. Nothing is deleted.\<close>

partial_function (option) cleanup_loop ::
  "(nat \<Rightarrow> nat \<Rightarrow> nat \<times> string list) \<Rightarrow> nat \<Rightarrow> nat \<Rightarrow> nat \<Rightarrow> nat option"
where
  "cleanup_loop scan k cursor scanned =
     (case scan k cursor of
        (cursor', keys) \<Rightarrow>
          if cursor' = 0 then Some (scanned + length keys)
          else cleanup_loop scan (Suc k) cursor' (scanned + length keys))"

definition cleanup_idempotency :: "(nat \<Rightarrow> nat \<Rightarrow> nat \<times> string list) \<Rightarrow> (nat \<times> nat) option" where
  "cleanup_idempotency scan = map_option (\<lambda>n. (n, 0)) (cleanup_loop scan 0 0 0)"

section \<open>Celery\<close>

definition registered_tasks :: "(string \<times> string option) list" where
  "registered_tasks =
     [(''src.infrastructure.queue.tasks.send_document_task.send_document'', None),
      (''edo.poll_incoming'', Some ''edo.sync''), (''edo.sync_statuses'', Some ''edo.sync''),
      (''edo.process_webhook'', Some ''edo.webhooks''), (''edo.process_dlq'', Some ''edo.dlq''),
      (''edo.provider_health'', Some ''edo.health''), (''edo.cleanup_idempotency'', Some ''edo.health'')]"

definition task_route :: "string \<Rightarrow> string option" where
  "task_route name =
     (if starts_with name ''src.infrastructure.queue.tasks.send_document_task.'' then Some ''edo.send''
      else map_of
        [(''edo.poll_incoming'', ''edo.sync''), (''edo.sync_statuses'', ''edo.sync''),
         (''edo.process_webhook'', ''edo.webhooks''), (''edo.process_dlq'', ''edo.dlq''),
         (''edo.provider_health'', ''edo.health''), (''edo.cleanup_idempotency'', ''edo.health'')] name)"

text \<open>Entry, task and interval in seconds; the daily entry runs at 02:00.\<close>

datatype schedule = Every nat | Daily_at nat nat

definition beat_schedule :: "(string \<times> string \<times> schedule) list" where
  "beat_schedule =
     [(''sync-statuses-every-2min'', ''edo.sync_statuses'', Every 120),
      (''poll-incoming-every-5min'', ''edo.poll_incoming'', Every 300),
      (''provider-health-every-1min'', ''edo.provider_health'', Every 60),
      (''cleanup-idempotency-daily'', ''edo.cleanup_idempotency'', Daily_at 2 0),
      (''process-dlq-every-10min'', ''edo.process_dlq'', Every 600)]"

section \<open>Properties\<close>

lemma status_not_attribute: "row_attr orm_document_deliveries ''status'' = Inl (AttributeError ''status'')"
  by code_simp

lemma credentials_not_attribute: "row_attr orm_provider_accounts ''credentials'' = Inl (AttributeError ''credentials'')"
  by code_simp

lemma document_date_not_attribute: "row_attr orm_incoming_documents ''document_date'' = Inl (AttributeError ''document_date'')"
  by code_simp

definition breaker_arity_error :: string where
  "breaker_arity_error = ''CircuitBreaker.__init__() takes 2 positional arguments but 3 were given''"

lemma breaker_new_two: "breaker_new 2 = Inl (TypeError breaker_arity_error)"
  by code_simp

lemma poll_incoming_active: "active_accounts D \<noteq> [] \<Longrightarrow> poll_incoming_task rest D = Inl (TypeError breaker_arity_error)"
  unfolding poll_incoming_task_def breaker_new_two by (cases "active_accounts D") simp_all

lemma provider_health_active:
  "active_accounts D \<noteq> [] \<Longrightarrow> provider_health_task rest D = Inl (TypeError breaker_arity_error)"
  unfolding provider_health_task_def breaker_new_two by (cases "active_accounts D") simp_all

lemma sync_statuses_stops: "sync_statuses_task rest D = Inl (AttributeError ''status'')"
  unfolding sync_statuses_task_def status_not_attribute by simp

lemma process_webhook_existing:
  assumes "filter (\<lambda>a. ar_id a = i) (db_accounts D) = [r]"
  shows "process_webhook_body rest (uuid_str i) body D = Inl (AttributeError ''credentials'')"
  unfolding process_webhook_body_def credentials_not_attribute using assms by simp



subsection \<open>Webhooks\<close>

text \<open>A webhook reaches the task as it came. The message that the endpoint puts on the broker names the
  account of the route and carries the headers, and the task decodes its text back to exactly the bytes of
  the request's body, whatever they are.\<close>

theorem webhook_message_carries_body:
  assumes "dispatch_webhook publish i headers body = (Inr answer, ms)"
  shows "\<exists>t. ms = [Task_webhook (uuid_str i) headers t]
    \<and> process_webhook_task rest (uuid_str i) t D =
        Inr (case process_webhook_body rest (uuid_str i) body D of Inl e \<Rightarrow> Webhook_retry e | Inr _ \<Rightarrow> Webhook_done)"
  using assms
  by (auto simp: dispatch_webhook_def Let_def process_webhook_task_def b64_decode_encode split: sum.splits)

theorem webhook_message_carries_body_witness:
  "\<exists>t. process_webhook_task (\<lambda>_ _. Inr ()) (uuid_str 9) t account_db = Inr Webhook_done"
proof -
  have d: "dispatch_webhook (\<lambda>m. Inr ()) 9 [] [1, 2, 255] =
      (Inr ''queued'', [Task_webhook (uuid_str 9) [] (b64_encode [1, 2, 255])])"
    by (simp add: dispatch_webhook_def Let_def)
  have "filter (\<lambda>a. ar_id a = 9) (db_accounts account_db) = []"
    by (simp add: account_db_def account_to_row_def sample_account_def create_account_def)
  then have "process_webhook_body (\<lambda>_ _. Inr ()) (uuid_str 9) [1, 2, 255] account_db = Inr ()"
    by (simp add: process_webhook_body_def)
  with webhook_message_carries_body [OF d, of "\<lambda>_ _. Inr ()" account_db] show ?thesis by auto
qed

subsection \<open>Dead letters\<close>

lemma map_filter_open:
  assumes "\<And>e. P e \<Longrightarrow> \<not> P (f e)"
  shows "filter P (map (\<lambda>e. if P e then f e else e) es) = []"
  using assms by (auto simp: filter_empty_conv)


definition dead_letter_db :: db where
  "dead_letter_db = empty_db\<lparr>db_dlq :=
     [dlq_for (sample_env (Inr (sample_response 429 []))) (sample_retried 100) ''C'' ''m'' True]\<rparr>"


subsection \<open>Cleanup\<close>

primrec cursor_at :: "(nat \<Rightarrow> nat \<Rightarrow> nat \<times> string list) \<Rightarrow> nat \<Rightarrow> nat" where
  "cursor_at scan 0 = 0"
| "cursor_at scan (Suc k) = fst (scan k (cursor_at scan k))"

definition keys_at :: "(nat \<Rightarrow> nat \<Rightarrow> nat \<times> string list) \<Rightarrow> nat \<Rightarrow> string list" where
  "keys_at scan k = snd (scan k (cursor_at scan k))"

lemma cleanup_loop_step:
  "cleanup_loop scan k (cursor_at scan k) n =
     (if cursor_at scan (Suc k) = 0 then Some (n + length (keys_at scan k))
      else cleanup_loop scan (Suc k) (cursor_at scan (Suc k)) (n + length (keys_at scan k)))"
  by (subst cleanup_loop.simps) (simp add: keys_at_def split: prod.split)

lemma cleanup_loop_ends:
  assumes "cursor_at scan (Suc (k + d)) = 0" and "\<And>j. j < d \<Longrightarrow> cursor_at scan (Suc (k + j)) \<noteq> 0"
  shows "cleanup_loop scan k (cursor_at scan k) n = Some (n + (\<Sum>j\<le>d. length (keys_at scan (k + j))))"
  using assms
proof (induction d arbitrary: k n)
  case 0
  then show ?case by (subst cleanup_loop_step) simp
next
  case (Suc d)
  have "cursor_at scan (Suc k) \<noteq> 0" using Suc.prems(2) [of 0] by simp
  moreover have "cleanup_loop scan (Suc k) (cursor_at scan (Suc k)) (n + length (keys_at scan k)) =
      Some (n + length (keys_at scan k) + (\<Sum>j\<le>d. length (keys_at scan (Suc k + j))))"
    using Suc.prems(1) Suc.prems(2) [of "Suc j" for j] by (intro Suc.IH) (simp_all del: cursor_at.simps)
  ultimately show ?case
    by (subst cleanup_loop_step) (simp add: sum.atMost_Suc_shift del: cursor_at.simps sum.atMost_Suc)
qed

definition scan_ends_from :: "(nat \<Rightarrow> nat \<Rightarrow> nat \<times> string list) \<Rightarrow> nat \<Rightarrow> nat \<Rightarrow> bool" where
  "scan_ends_from scan k cursor \<longleftrightarrow>
     (cursor = cursor_at scan k \<longrightarrow> (\<exists>d. cursor_at scan (Suc (k + d)) = 0))"

lemma scan_ends_now: "fst (scan k cursor) = 0 \<Longrightarrow> scan_ends_from scan k cursor"
  unfolding scan_ends_from_def by (intro impI exI [of _ 0]) simp

lemma scan_ends_later: "scan_ends_from scan (Suc k) (fst (scan k cursor)) \<Longrightarrow> scan_ends_from scan k cursor"
  unfolding scan_ends_from_def by (auto intro: exI [of _ "Suc d" for d])

lemma cleanup_loop_Some: "cleanup_loop scan k cursor n = Some r \<Longrightarrow> scan_ends_from scan k cursor"
proof (rule cleanup_loop.raw_induct [where P = "\<lambda>scan k cursor n r. scan_ends_from scan k cursor"], goal_cases)
  case (1 loop scan k cursor n r)
  obtain c keys where sc: "scan k cursor = (c, keys)" by fastforce
  show ?case
  proof (cases "c = 0")
    case True
    with sc show ?thesis by (simp add: scan_ends_now)
  next
    case False
    with 1(3) sc have "loop scan (Suc k) c (n + length keys) = Some r" by simp
    from 1(2) [OF this] have "scan_ends_from scan (Suc k) (fst (scan k cursor))" by (simp add: sc)
    then show ?thesis by (rule scan_ends_later)
  qed
qed assumption

text \<open>C31: The cleanup task returns exactly when the server ends the scan. If some answer has cursor 0 the task
  returns after the first such answer, with the number of all keys reported until then and with nothing
  deleted; if no answer ever has cursor 0 it does not return.\<close>

theorem cleanup_returns_iff_scan_ends:
  "cleanup_idempotency scan =
     (if \<exists>k. cursor_at scan (Suc k) = 0
      then Some (\<Sum>j \<le> (LEAST k. cursor_at scan (Suc k) = 0). length (keys_at scan j), 0)
      else None)"
proof (cases "\<exists>k. cursor_at scan (Suc k) = 0")
  case True
  define d where "d = (LEAST k. cursor_at scan (Suc k) = 0)"
  have "cursor_at scan (Suc d) = 0" unfolding d_def using True by (rule LeastI_ex)
  moreover have "cursor_at scan (Suc j) \<noteq> 0" if "j < d" for j
    using not_less_Least [OF that [unfolded d_def]] .
  ultimately have "cleanup_loop scan 0 0 0 = Some (\<Sum>j\<le>d. length (keys_at scan j))"
    using cleanup_loop_ends [where k = 0 and n = 0, unfolded add_0 cursor_at.simps(1)] by blast
  with True show ?thesis by (simp only: cleanup_idempotency_def d_def option.map if_True)
next
  case False
  have "cleanup_loop scan 0 0 0 = None"
  proof (rule ccontr)
    assume "cleanup_loop scan 0 0 0 \<noteq> None"
    then obtain r where "cleanup_loop scan 0 0 0 = Some r" by blast
    from cleanup_loop_Some [OF this] obtain d where "cursor_at scan (Suc (0 + d)) = 0"
      unfolding scan_ends_from_def by auto
    with False show False by (simp only: add_0) blast
  qed
  with False show ?thesis by (simp only: cleanup_idempotency_def option.map if_False)
qed

end
