(* ===== verification/System.thy ===== *)
theory System
  imports Tasks
begin

text \<open>
  The program as a whole: the database with Redis and the stub's dictionaries (\<open>world\<close>) and the messages on
  the broker. The web application and the workers are separate processes that meet only there, so the
  system moves by a request of the API, by a worker taking a message, and by the timed dead-letter task.
  A message is delivered at least once: the tasks acknowledge late, so a message may stay after a run.
  Timed tasks that touch neither the database nor the broker make no step of their own.
\<close>

section \<open>States and steps\<close>

record 's system =
  sy_world :: "'s world"
  sy_queue :: "task_msg list"

definition after_request :: "db \<Rightarrow> task_msg list \<Rightarrow> 's system \<Rightarrow> 's system" where
  "after_request D ms S = S\<lparr>sy_world := (sy_world S)\<lparr>w_db := D\<rparr>, sy_queue := sy_queue S @ ms\<rparr>"

lemma after_request_simps [simp]:
  "w_db (sy_world (after_request D ms S)) = D" "sy_queue (after_request D ms S) = sy_queue S @ ms"
  by (simp_all add: after_request_def)

abbreviation database :: "'s system \<Rightarrow> db" where
  "database S \<equiv> w_db (sy_world S)"

text \<open>The requests that may change the database or the broker.\<close>

inductive request_step :: "'s system \<Rightarrow> 's system \<Rightarrow> bool" where
  send: "serve (send_document_endpoint v publish cu q file) (database S) = (r, D, ms)
    \<Longrightarrow> request_step S (after_request D ms S)"
| retry: "serve (retry_document publish i force cu) (database S) = (r', D, ms)
    \<Longrightarrow> request_step S (after_request D ms S)"
| replay: "serve (replay_dlq_entry publish now i force cu) (database S) = (r', D, ms)
    \<Longrightarrow> request_step S (after_request D ms S)"
| batch: "serve (replay_batch publish clock ids force cu) (database S) = (n, D, ms)
    \<Longrightarrow> request_step S (after_request D ms S)"
| register: "serve (register_provider_account new_id now rq cu) (database S) = (ar, D, ms)
    \<Longrightarrow> request_step S (after_request D ms S)"
| activate: "serve (activate_account now i cu) (database S) = (ar, D, ms)
    \<Longrightarrow> request_step S (after_request D ms S)"
| deactivate: "serve (deactivate_account now i cu) (database S) = (ar, D, ms)
    \<Longrightarrow> request_step S (after_request D ms S)"
| poll: "serve (trigger_poll publish cu) (database S) = (r', D, ms)
    \<Longrightarrow> request_step S (after_request D ms S)"
| webhook: "dispatch_webhook publish i headers body = (r', ms)
    \<Longrightarrow> request_step S (after_request (database S) ms S)"

text \<open>The steps that need no user: a worker run, whose message may be delivered again; a message of the other
  two tasks, which change nothing; the dead-letter task; and whatever other processes do to Redis and the
  stub's dictionaries.\<close>

inductive background_step :: "'s redis_ops \<Rightarrow> 's system \<Rightarrow> 's system \<Rightarrow> bool" for R where
  run: "sy_queue S = ms @ Task_send i f # ms' \<Longrightarrow> send_document env R i f (sy_world S) = (r, w')
    \<Longrightarrow> background_step R S \<lparr>sy_world = w', sy_queue = ms @ ms'\<rparr>"
| run_again: "Task_send i f \<in> set (sy_queue S) \<Longrightarrow> send_document env R i f (sy_world S) = (r, w')
    \<Longrightarrow> background_step R S (S\<lparr>sy_world := w'\<rparr>)"
| other: "sy_queue S = ms @ m # ms' \<Longrightarrow> (\<And>i f. m \<noteq> Task_send i f)
    \<Longrightarrow> background_step R S (S\<lparr>sy_queue := ms @ ms'\<rparr>)"
| dead_letters: "process_dlq_task set_gauge publish to_str now (database S) = (n, D, ms)
    \<Longrightarrow> background_step R S (after_request D ms S)"
| elsewhere: "background_step R S (S\<lparr>sy_world := (sy_world S)\<lparr>w_redis := x, w_stub := y\<rparr>\<rparr>)"

section \<open>Stranded deliveries\<close>

text \<open>No message on the broker and no open dead letter is about the delivery.\<close>

definition addressed :: "uuid \<Rightarrow> task_msg \<Rightarrow> bool" where
  "addressed did m = (case m of Task_send i f \<Rightarrow> uuid_parse i = Inr did | _ \<Rightarrow> False)"

definition stranded :: "uuid \<Rightarrow> delivery \<Rightarrow> 's system \<Rightarrow> bool" where
  "stranded did d S \<longleftrightarrow>
     db_ok (database S)
     \<and> get_delivery_by_id did (open_session (database S)) = Inr (Some d)
     \<and> filter (addressed did) (sy_queue S) = []
     \<and> filter (\<lambda>e. dlq_delivery_id e = Some did) (open_entries (database S)) = []"

lemma worker_frame_other_delivery:
  assumes "worker_frame other D D'" and "other \<noteq> did"
  shows "get_delivery_by_id did (open_session D') = get_delivery_by_id did (open_session D)"
    and "filter (\<lambda>e. dlq_delivery_id e = Some did) (open_entries D') =
      filter (\<lambda>e. dlq_delivery_id e = Some did) (open_entries D)"
proof -
  obtain rows letters events where
    D': "D' = D\<lparr>db_deliveries := rows, db_dlq := db_dlq D @ letters, db_audit := db_audit D @ events\<rparr>"
    and rows: "list_all2 (\<lambda>r r'. row_identity r' = row_identity r \<and> (dr_id r \<noteq> other \<longrightarrow> r' = r) \<and> (r' = r \<or> recorded r')) (db_deliveries D) rows"
    and letters: "\<forall>e \<in> set letters. dlq_delivery_id e = Some other"
    using assms(1) unfolding worker_frame_def by blast
  from rows have "filter (\<lambda>r. dr_id r = did) rows = filter (\<lambda>r. dr_id r = did) (db_deliveries D)"
    using assms(2) by (induction rule: list_all2_induct) (auto simp: row_identity_def)
  with D' show "get_delivery_by_id did (open_session D') = get_delivery_by_id did (open_session D)"
    by (simp add: get_delivery_by_id_def get_row_def select_by_def)
  have "filter (\<lambda>e. dlq_delivery_id e = Some did) letters = []"
    using letters assms(2) by (auto simp: filter_empty_conv)
  then show "filter (\<lambda>e. dlq_delivery_id e = Some did) (open_entries D') =
      filter (\<lambda>e. dlq_delivery_id e = Some did) (open_entries D)"
    using D' by (auto simp: open_entries_def filter_empty_conv conj_commute)
qed

lemma run_other_delivery:
  assumes "send_document env R i f w = (r, w')" and "uuid_parse i \<noteq> Inr did" and "db_ok (w_db w)"
  shows "db_ok (w_db w')
    \<and> get_delivery_by_id did (open_session (w_db w')) = get_delivery_by_id did (open_session (w_db w))
    \<and> filter (\<lambda>e. dlq_delivery_id e = Some did) (open_entries (w_db w')) =
        filter (\<lambda>e. dlq_delivery_id e = Some did) (open_entries (w_db w))"
proof (cases "uuid_parse i")
  case (Inl e)
  with assms show ?thesis by (auto simp: send_document_def)
next
  case (Inr other)
  from send_document_frame [OF assms(1) Inr assms(3)] assms(2) Inr show ?thesis
    using worker_frame_other_delivery [of other "w_db w" "w_db w'" did] by auto
qed

lemma addressed_auto: "addressed did (auto_message to_str e) \<longleftrightarrow> dlq_delivery_id e = Some did"
  by (cases "dlq_delivery_id e") (simp_all add: addressed_def auto_message_def opt_text_def uuid_parse_None)

lemma mark_replayed_keeps [simp]:
  "dlq_id (mark_replayed now e) = dlq_id e" "dlq_delivery_id (mark_replayed now e) = dlq_delivery_id e"
  "dlq_replayed_at (mark_replayed now e) = Some now" "dlq_retryable (mark_replayed now e) = dlq_retryable e"
  by (simp_all add: mark_replayed_def)

lemma db_ok_dead_letters: "db_ok D \<Longrightarrow> map dlq_id es = map dlq_id (db_dlq D) \<Longrightarrow> db_ok (D\<lparr>db_dlq := es\<rparr>)"
  by (simp add: db_ok_def)

text \<open>What the dead-letter task does to the database: it marks entries, and only entries.\<close>

lemma process_dlq_frame:
  assumes "process_dlq_task set_gauge publish to_str now D = (n, D', ms)"
  shows "\<exists>f. D' = D\<lparr>db_dlq := map (\<lambda>e. if f e then mark_replayed now e else e) (db_dlq D)\<rparr>
    \<and> set ms \<subseteq> auto_message to_str ` set (open_entries D)"
proof (cases "set_gauge (length (open_entries D))")
  case (Inl e)
  with assms show ?thesis by (intro exI [of _ "\<lambda>_. False"]) (auto simp: process_dlq_task_def Let_def)
next
  case (Inr u)
  with assms show ?thesis
    by (intro exI [of _ "\<lambda>e. dlq_replayed_at e = None \<and> dlq_retryable e \<and> published publish to_str e"])
      (auto simp: process_dlq_task_def Let_def)
qed

lemma marked_open_entries:
  "set (open_entries (D\<lparr>db_dlq := map (\<lambda>e. if f e then mark_replayed now e else e) (db_dlq D)\<rparr>))
     \<subseteq> set (open_entries D)"
  by (auto simp: open_entries_def split: if_splits)

lemma filter_none_subset: "set ys \<subseteq> set xs \<Longrightarrow> filter P xs = [] \<Longrightarrow> filter P ys = []"
  by (auto simp: filter_empty_conv)

lemma stranded_step:
  assumes "background_step R S S'" and "stranded did d S"
  shows "stranded did d S'"
  using assms
proof (cases rule: background_step.cases)
  case (run ms i f ms' env r w')
  have "\<not> addressed did (Task_send i f)"
    using assms(2) run(2) by (auto simp: stranded_def filter_empty_conv)
  then have "uuid_parse i \<noteq> Inr did" by (simp add: addressed_def)
  from run_other_delivery [OF run(3) this] assms(2) run(1,2) show ?thesis
    by (auto simp: stranded_def split: if_splits)
next
  case (run_again i f env r w')
  have "\<not> addressed did (Task_send i f)"
    using assms(2) run_again(2) by (auto simp: stranded_def filter_empty_conv)
  then have "uuid_parse i \<noteq> Inr did" by (simp add: addressed_def)
  from run_other_delivery [OF run_again(3) this] assms(2) run_again(1) show ?thesis
    by (auto simp: stranded_def)
next
  case (other ms m ms')
  then show ?thesis using assms(2) by (auto simp: stranded_def split: if_splits)
next
  case (dead_letters set_gauge publish to_str now n D ms)
  obtain f where f: "D = (database S)\<lparr>db_dlq := map (\<lambda>e. if f e then mark_replayed now e else e) (db_dlq (database S))\<rparr>"
    "set ms \<subseteq> auto_message to_str ` set (open_entries (database S))"
    using process_dlq_frame [OF dead_letters(2)] by blast
  have closed: "filter (\<lambda>e. dlq_delivery_id e = Some did) (open_entries (database S)) = []"
    using assms(2) by (simp add: stranded_def)
  have "filter (addressed did) ms = []"
    using f(2) closed by (auto simp: filter_empty_conv addressed_auto subset_iff image_iff)
  moreover have "filter (\<lambda>e. dlq_delivery_id e = Some did) (open_entries D) = []"
    unfolding f(1) by (rule filter_none_subset [OF marked_open_entries closed])
  moreover have "db_ok D"
    unfolding f(1) using assms(2) by (intro db_ok_dead_letters) (simp_all add: stranded_def)
  moreover have "get_delivery_by_id did (open_session D) = get_delivery_by_id did (open_session (database S))"
    by (simp add: f(1) get_delivery_by_id_def)
  ultimately show ?thesis using assms(2) dead_letters(1) by (simp add: stranded_def)
next
  case (elsewhere x y)
  then show ?thesis using assms(2) by (simp add: stranded_def)
qed

lemma stranded_forever: "(background_step R)\<^sup>*\<^sup>* S S' \<Longrightarrow> stranded did d S \<Longrightarrow> stranded did d S'"
  by (induction rule: rtranclp_induct) (auto intro: stranded_step)

section \<open>A retry that never comes\<close>

lemma stranded_after_retry:
  assumes "redis_store R contents up" and rdy: "ready contents up env (sy_world S) did d a p b"
    and send: "provider_send (we_provider env) (worker_args d bs) p (w_stub (sy_world S)) = (Inl (Domain e), stub')"
    and trans: "is_instance e C_ProviderTransient"
    and budget: "dl_retry_count d < default_retry_max_attempts (we_cfg env)"
      "default_retry_max_attempts (we_cfg env) \<le> 1024"
    and alone: "filter (addressed did) q = []"
      "filter (\<lambda>e. dlq_delivery_id e = Some did) (open_entries (database S)) = []"
    and run: "send_document env R (uuid_str did) (bytes_hex bs) (sy_world S) = (r, w')"
  shows "\<exists>t. compute_next_retry (we_cfg env) (we_uniform env) (we_clock env 9) (dl_retry_count d) = Inr t
    \<and> stranded did (schedule_retry (we_clock env 10) t (sending env d)) \<lparr>sy_world = w', sy_queue = q\<rparr>"
proof -
  obtain t where t: "compute_next_retry (we_cfg env) (we_uniform env) (we_clock env 9) (dl_retry_count d) = Inr t"
    and out: "outcome env R contents up did bs (sy_world S) a (schedule_retry (we_clock env 10) t (sending env d)) []
        (br_failure (we_cfg env) (we_clock env 8) (br_look (we_cfg env) (we_clock env 0) b)) stub'"
    using transient_outcome [OF assms(1) rdy send trans budget(2)] budget(1) by auto
  let ?d' = "schedule_retry (we_clock env 10) t (sending env d)"
  have db: "w_db w' = finished_db env did ?d' [] (database S)"
    and get: "get_delivery_by_id did (open_session (finished_db env did ?d' [] (database S))) = Inr (Some ?d')"
    using out run by (auto simp: outcome_def)
  have "db_ok (database S)" using rdy by (simp add: ready_def)
  with send_document_frame [OF run uuid_parse_str] have "db_ok (w_db w')" by blast
  moreover have "open_entries (w_db w') = open_entries (database S)"
    by (simp add: db finished_db_def open_entries_def)
  ultimately have "stranded did ?d' \<lparr>sy_world = w', sy_queue = q\<rparr>"
    using get alone by (simp add: stranded_def db)
  with t show ?thesis by blast
qed

section \<open>A worker that is too early\<close>

lemma stranded_after_commit:
  assumes "sendable v publish cu q file a (database S)"
    and "filter (addressed (sv_delivery_id v)) (sy_queue S) = []"
    and "filter (\<lambda>e. dlq_delivery_id e = Some (sv_delivery_id v)) (open_entries (database S)) = []"
  shows "stranded (sv_delivery_id v) (new_delivery v cu a)
    (after_request (sent_db v cu q file a (database S)) [] S)"
  using assms sent_db_ok [OF assms(1)] sent_db_get [OF assms(1)]
  by (simp add: stranded_def) (simp add: sent_db_def open_entries_def)

section \<open>Consistency of the stored data\<close>

definition doc_identity :: "document \<Rightarrow> uuid \<times> uuid" where
  "doc_identity r = (doc_id r, doc_tenant_id r)"

definition account_identity :: "account_row \<Rightarrow> uuid \<times> uuid" where
  "account_identity r = (ar_id r, ar_tenant_id r)"

fun linked :: "(uuid \<times> uuid) set \<Rightarrow> (uuid \<times> uuid) set \<Rightarrow> uuid \<times> uuid \<times> uuid \<times> uuid \<times> string \<times> time \<Rightarrow> bool" where
  "linked docs accounts (i, tenant, document, account, key, created) \<longleftrightarrow>
     (document, tenant) \<in> docs \<and> (account, tenant) \<in> accounts"

lemma linked_mono: "linked docs accounts x \<Longrightarrow> docs \<subseteq> docs' \<Longrightarrow> accounts \<subseteq> accounts' \<Longrightarrow> linked docs' accounts' x"
  by (cases x) auto

text \<open>Every delivery has its document and its account, both of its own tenant, and a status the send task gives,
  with its evidence; every audit event is about a delivery.\<close>

definition consistent :: "db \<Rightarrow> bool" where
  "consistent D \<longleftrightarrow> db_ok D
     \<and> (\<forall>x \<in> set (map row_identity (db_deliveries D)).
          linked (set (map doc_identity (db_documents D))) (set (map account_identity (db_accounts D))) x)
     \<and> (\<forall>e \<in> set (db_audit D). aud_resource_type e = ''delivery'')
     \<and> (\<forall>r \<in> set (db_deliveries D). recorded r)"

text \<open>What most requests keep.\<close>

definition keeps :: "db \<Rightarrow> db \<Rightarrow> bool" where
  "keeps D D' \<longleftrightarrow> db_documents D' = db_documents D \<and> db_audit D' = db_audit D
     \<and> map row_identity (db_deliveries D') = map row_identity (db_deliveries D)
     \<and> map account_identity (db_accounts D') = map account_identity (db_accounts D)
     \<and> ((\<forall>r \<in> set (db_deliveries D). recorded r) \<longrightarrow> (\<forall>r \<in> set (db_deliveries D'). recorded r))"

lemma keeps_refl [simp]: "keeps D D"
  by (simp add: keeps_def)

lemma keeps_trans [trans]: "keeps D D' \<Longrightarrow> keeps D' D'' \<Longrightarrow> keeps D D''"
  unfolding keeps_def by metis

lemma consistent_keeps: "consistent D \<Longrightarrow> keeps D D' \<Longrightarrow> db_ok D' \<Longrightarrow> consistent D'"
  unfolding consistent_def keeps_def by simp

lemma updated_row_identities:
  "map row_identity (update_by dr_id i (delivery_merge d) rows) = map row_identity rows"
  by (simp add: update_by_def)

lemma updated_rows_recorded:
  assumes "records d" and "\<forall>r \<in> set rows. recorded r"
  shows "\<forall>r \<in> set (update_by dr_id i (delivery_merge d) rows). recorded r"
proof
  fix x
  assume "x \<in> set (update_by dr_id i (delivery_merge d) rows)"
  then obtain r where "r \<in> set rows" "x = r \<or> x = delivery_merge d r"
    by (auto simp: update_by_def)
  with assms show "recorded x" by auto
qed

lemma update_delivery_keeps:
  assumes "update_delivery d s = Inr s'" and "records d"
  shows "keeps (view s) (view s') \<and> pending s' = pending s"
  using assms updated_rows_recorded [OF assms(2)]
  by (simp add: update_delivery_def write_view_Inr keeps_def updated_row_identities)

lemma update_account_keeps: "update_account a s = Inr s' \<Longrightarrow> keeps (view s) (view s') \<and> pending s' = pending s"
  by (auto simp: update_account_def write_view_def keeps_def update_by_def account_identity_def account_merge_def
      split: if_splits)

lemma update_dlq_keeps: "update_dlq e s = Inr s' \<Longrightarrow> keeps (view s) (view s') \<and> pending s' = pending s"
  by (auto simp: update_dlq_def write_view_def keeps_def split: if_splits)

lemma reset_records [simp]: "records (reset_for_retry d)"
  by (simp add: recorded_def delivery_to_row_def reset_for_retry_def)

lemma retry_each_keeps:
  "retry_each publish force ds s = (r, s', ms) \<Longrightarrow> keeps (view s) (view s') \<and> pending s' = pending s"
proof (induction ds arbitrary: s r s' ms)
  case (Cons d ds)
  then show ?case
    by (auto split: if_splits sum.splits prod.splits dest!: update_delivery_keeps [OF _ reset_records] intro: keeps_trans)
qed simp

lemma replay_entry_keeps:
  "replay_entry publish now e s = (r, s', ms) \<Longrightarrow> keeps (view s) (view s') \<and> pending s' = pending s"
  by (auto simp: replay_entry_def split: sum.splits dest!: update_dlq_keeps)

lemma replay_each_keeps:
  "replay_each publish clock force cu ids n s = (r, s', ms) \<Longrightarrow> keeps (view s) (view s') \<and> pending s' = pending s"
proof (induction ids arbitrary: n s r s' ms)
  case (Cons i ids)
  then show ?case
    by (auto split: if_splits sum.splits prod.splits option.splits dest!: replay_entry_keeps intro: keeps_trans)
qed simp

lemma change_account_keeps:
  "change_account f i cu s = (r, s', ms) \<Longrightarrow> keeps (view s) (view s') \<and> pending s' = pending s"
  by (auto simp: change_account_def split: sum.splits dest!: update_account_keeps)

text \<open>A request whose handler keeps the data and adds no row keeps it through its commit.\<close>

lemma serve_keeps:
  assumes "serve h D = (r, D', ms)"
    and "\<And>r s' ms. h (open_session D) = (r, s', ms) \<Longrightarrow> keeps D (view s') \<and> pending s' = []"
  shows "keeps D D'"
  using assms(1) assms(2) [of "fst (h (open_session D))" "fst (snd (h (open_session D)))" "snd (snd (h (open_session D)))"]
  by (auto simp: serve_def commit_def Let_def split: prod.splits sum.splits if_splits)

lemma send_endpoint_effect:
  assumes "serve (send_document_endpoint v publish cu q file) D = (r, D', ms)"
  shows "D' = D \<or> (\<exists>a. get_account_by_id (sq_provider_account_id q) (open_session D) = Inr (Some a)
    \<and> acc_tenant_id a = cu_tenant_id cu \<and> D' = sent_db v cu q file a D \<and> db_ok D')"
  using assms
  by (auto simp: serve_def send_document_endpoint_def Let_def commit_def sent_db_def save_document_def
      save_delivery_def session_add_def split: sum.splits option.splits if_splits)

lemma get_account_row:
  assumes "get_account_by_id i (open_session D) = Inr (Some a)"
  shows "(acc_id a, acc_tenant_id a) \<in> set (map account_identity (db_accounts D))"
proof -
  obtain r where r: "filter (\<lambda>r. ar_id r = i) (db_accounts D) = [r]" "provider_to_entity r = Inr a"
    using assms by (auto simp: get_account_by_id_def get_row_def select_by_def load_scalar_Some)
  then have "r \<in> set (db_accounts D)" by (auto dest: filter_eq_ConsD)
  moreover have "acc_id a = ar_id r \<and> acc_tenant_id a = ar_tenant_id r"
    using r(2) by (auto simp: provider_to_entity_def split: option.splits)
  ultimately show ?thesis by (auto simp: account_identity_def)
qed

lemma get_account_id: "get_account_by_id i (open_session D) = Inr (Some a) \<Longrightarrow> acc_id a = i"
  by (auto simp: get_account_by_id_def get_row_def select_by_def load_scalar_Some provider_to_entity_def
      dest!: filter_eq_ConsD split: option.splits)

lemma new_row_identity:
  "row_identity (delivery_to_row (new_delivery v cu a)) =
     (sv_delivery_id v, cu_tenant_id cu, sv_document_id v, acc_id a, send_key v a, dl_created_at (new_delivery v cu a))"
  by (simp add: row_identity_def delivery_to_row_def)

lemma sent_db_consistent:
  assumes "consistent D" and "get_account_by_id (sq_provider_account_id q) (open_session D) = Inr (Some a)"
    and "acc_tenant_id a = cu_tenant_id cu" and "db_ok (sent_db v cu q file a D)"
  shows "consistent (sent_db v cu q file a D)"
proof -
  let ?E = "sent_db v cu q file a D"
  have new: "linked (set (map doc_identity (db_documents ?E))) (set (map account_identity (db_accounts ?E)))
      (row_identity (delivery_to_row (new_delivery v cu a)))"
    using get_account_row [OF assms(2)] assms(3)
    by (simp add: sent_db_def new_row_identity doc_identity_def)
  have old: "linked (set (map doc_identity (db_documents ?E))) (set (map account_identity (db_accounts ?E))) x"
    if "x \<in> set (map row_identity (db_deliveries D))" for x
    using assms(1) that linked_mono unfolding consistent_def by (fastforce simp: sent_db_def)
  have "recorded (delivery_to_row (new_delivery v cu a))"
    by (simp add: recorded_def delivery_to_row_def)
  with new old assms(1,4) show ?thesis by (auto simp: consistent_def sent_db_def)
qed

lemma register_effect:
  assumes "serve (register_provider_account new_id now rq cu) D = (r, D', ms)"
  shows "D' = D \<or> (\<exists>row. D' = D\<lparr>db_accounts := db_accounts D @ [row]\<rparr> \<and> db_ok D')"
  using assms
  by (auto simp: serve_def register_provider_account_def Let_def commit_def save_account_def session_add_def
      split: sum.splits option.splits if_splits)

lemma account_added_consistent:
  "consistent D \<Longrightarrow> db_ok (D\<lparr>db_accounts := db_accounts D @ [row]\<rparr>)
     \<Longrightarrow> consistent (D\<lparr>db_accounts := db_accounts D @ [row]\<rparr>)"
  unfolding consistent_def by (auto intro: linked_mono)

text \<open>The handlers that keep the data.\<close>

lemma retry_document_keeps:
  "retry_document publish i force cu s = (r, s', ms) \<Longrightarrow> keeps (view s) (view s') \<and> pending s' = pending s"
  by (auto simp: retry_document_def Let_def dest!: retry_each_keeps split: sum.splits if_splits prod.splits)

lemma replay_dlq_entry_keeps:
  "replay_dlq_entry publish now i force cu s = (r, s', ms) \<Longrightarrow> keeps (view s) (view s') \<and> pending s' = pending s"
  by (auto simp: replay_dlq_entry_def dest!: replay_entry_keeps split: sum.splits if_splits prod.splits option.splits)

lemma replay_batch_keeps:
  "replay_batch publish clock ids force cu s = (r, s', ms) \<Longrightarrow> keeps (view s) (view s') \<and> pending s' = pending s"
  by (auto simp: replay_batch_def dest!: replay_each_keeps split: sum.splits)

lemma trigger_poll_keeps:
  "trigger_poll publish cu s = (r, s', ms) \<Longrightarrow> keeps (view s) (view s') \<and> pending s' = pending s"
  by (auto simp: trigger_poll_def split: sum.splits)

lemmas handler_keeps = retry_document_keeps replay_dlq_entry_keeps replay_batch_keeps trigger_poll_keeps
  change_account_keeps

lemma consistent_serve_keeps:
  assumes "consistent D" and "serve h D = (r, D', ms)"
    and "\<And>r s' ms. h (open_session D) = (r, s', ms)
      \<Longrightarrow> keeps (view (open_session D)) (view s') \<and> pending s' = pending (open_session D)"
  shows "consistent D'"
proof -
  have "db_ok D" using assms(1) by (simp add: consistent_def)
  then have "db_ok D'" by (rule serve_db_ok [OF assms(2)])
  moreover have "keeps D D'"
    by (rule serve_keeps [OF assms(2)]) (drule assms(3), simp add: open_session_def)
  ultimately show ?thesis by (intro consistent_keeps [OF assms(1)])
qed

lemma request_step_consistent:
  assumes "request_step S S'" and "consistent (database S)"
  shows "consistent (database S')"
  using assms
proof (cases rule: request_step.cases)
  case (send v publish cu q up r D ms)
  from send_endpoint_effect [OF send(2)] sent_db_consistent [of "database S"] assms(2) send(1)
  show ?thesis by auto
next
  case (retry publish i force cu r' D ms)
  from consistent_serve_keeps [OF assms(2) retry(2) handler_keeps(1)] retry(1) show ?thesis by simp
next
  case (replay publish now i force cu r' D ms)
  from consistent_serve_keeps [OF assms(2) replay(2) handler_keeps(2)] replay(1) show ?thesis by simp
next
  case (batch publish clock ids force cu n D ms)
  from consistent_serve_keeps [OF assms(2) batch(2) handler_keeps(3)] batch(1) show ?thesis by simp
next
  case (register new_id now rq cu ar D ms)
  from register_effect [OF register(2)] account_added_consistent assms(2) register(1)
  show ?thesis by auto
next
  case (activate now i cu ar D ms)
  from consistent_serve_keeps [OF assms(2) activate(2) [unfolded activate_account_def] handler_keeps(5)] activate(1)
  show ?thesis by simp
next
  case (deactivate now i cu ar D ms)
  from consistent_serve_keeps [OF assms(2) deactivate(2) [unfolded deactivate_account_def] handler_keeps(5)]
    deactivate(1) show ?thesis by simp
next
  case (poll publish cu r' D ms)
  from consistent_serve_keeps [OF assms(2) poll(2) handler_keeps(4)] poll(1) show ?thesis by simp
next
  case (webhook publish i headers body r' ms)
  with assms(2) show ?thesis by simp
qed

lemma frame_consistent:
  assumes "worker_frame did D D' \<and> db_ok D'" and "consistent D"
  shows "consistent D'"
proof -
  from assms(1) obtain rows letters events where
    D': "D' = D\<lparr>db_deliveries := rows, db_dlq := db_dlq D @ letters, db_audit := db_audit D @ events\<rparr>"
    and rows: "list_all2 (\<lambda>r r'. row_identity r' = row_identity r \<and> (dr_id r \<noteq> did \<longrightarrow> r' = r) \<and> (r' = r \<or> recorded r'))
      (db_deliveries D) rows"
    and events: "\<forall>e \<in> set events. aud_resource_type e = ''delivery'' \<and> aud_resource_id e = did"
    and ok: "db_ok D'"
    unfolding worker_frame_def by blast
  from rows have "map row_identity rows = map row_identity (db_deliveries D)
      \<and> ((\<forall>r \<in> set (db_deliveries D). recorded r) \<longrightarrow> (\<forall>r \<in> set rows. recorded r))"
    by (induction rule: list_all2_induct) auto
  with D' events ok assms(2) show ?thesis by (auto simp: consistent_def)
qed

lemma run_consistent:
  assumes "send_document env R i f w = (r, w')" and "consistent (w_db w)"
  shows "consistent (w_db w')"
proof (cases "uuid_parse i")
  case (Inl e)
  with assms show ?thesis by (auto simp: send_document_def)
next
  case (Inr did)
  have "db_ok (w_db w)" using assms(2) by (simp add: consistent_def)
  from frame_consistent [OF send_document_frame [OF assms(1) Inr this] assms(2)] show ?thesis .
qed

lemma background_step_consistent:
  assumes "background_step R S S'" and "consistent (database S)"
  shows "consistent (database S')"
  using assms
proof (cases rule: background_step.cases)
  case (dead_letters set_gauge publish to_str now n D ms)
  obtain f where f: "D = (database S)\<lparr>db_dlq := map (\<lambda>e. if f e then mark_replayed now e else e) (db_dlq (database S))\<rparr>"
    using process_dlq_frame [OF dead_letters(2)] by blast
  have "db_ok D" unfolding f using assms(2) by (intro db_ok_dead_letters) (simp_all add: consistent_def)
  then have "consistent D" by (intro consistent_keeps [OF assms(2)]) (simp_all add: f keeps_def)
  then show ?thesis using dead_letters(1) by simp
qed (use assms(2) in \<open>auto intro: run_consistent\<close>)

section \<open>From the request to the provider\<close>

lemma consistent_document_of:
  assumes "consistent D" and "r \<in> set (db_deliveries D)"
  shows "\<exists>doc \<in> set (db_documents D). doc_id doc = dr_document_id r \<and> doc_tenant_id doc = dr_tenant_id r"
  using assms by (fastforce simp: consistent_def row_identity_def doc_identity_def)

lemma sent_db_rows_of_document:
  assumes "consistent D" and "sendable v publish cu q file a D" and "r \<in> set (db_deliveries (sent_db v cu q file a D))"
  shows "dr_document_id r = sv_document_id v \<longleftrightarrow> dr_id r = sv_delivery_id v"
proof (cases "r \<in> set (db_deliveries D)")
  case True
  obtain doc where "doc \<in> set (db_documents D)" "doc_id doc = dr_document_id r"
    using consistent_document_of [OF assms(1) True] by blast
  with True assms(2) show ?thesis unfolding sendable_def by (metis image_eqI)
next
  case False
  with assms(3) have "r = delivery_to_row (new_delivery v cu a)" by (simp add: sent_db_def)
  then show ?thesis by simp
qed

lemma list_by_document_one:
  assumes get: "get_delivery_by_id did (open_session D) = Inr (Some d)"
    and rows: "\<And>r. r \<in> set (db_deliveries D) \<Longrightarrow> dr_document_id r = i \<longleftrightarrow> dr_id r = did"
  shows "list_by_document i (open_session D) = Inr [d]"
proof -
  obtain r where r: "filter (\<lambda>r. dr_id r = did) (db_deliveries D) = [r]" "delivery_to_entity r = Inr d"
    using get_delivery_row [OF get] by blast
  have "filter (\<lambda>r. dr_document_id r = i) (db_deliveries D) = filter (\<lambda>r. dr_id r = did) (db_deliveries D)"
    using rows by (intro filter_cong) simp_all
  with r show ?thesis by (simp add: list_by_document_def)
qed

lemma finished_rows:
  "r \<in> set (db_deliveries (finished_db env did d es D)) \<Longrightarrow>
     \<exists>r0 \<in> set (db_deliveries D). dr_id r = dr_id r0 \<and> dr_document_id r = dr_document_id r0"
  by (auto simp: finished_db_def set_delivery_def update_by_def delivery_merge_def split: if_splits)

lemma own_new_document:
  assumes "sendable v publish cu q file a D"
    and "db_documents D' = db_documents (sent_db v cu q file a D)"
  shows "own_document (sv_document_id v) cu (open_session D') = Inr (new_document v cu q file)"
proof -
  have "filter (\<lambda>r. doc_id r = sv_document_id v) (db_documents D) = []"
    using assms(1) by (auto simp: sendable_def filter_empty_conv image_iff)
  then show ?thesis
    using assms(2)
    by (simp add: own_document_def get_document_by_id_def get_row_def select_by_def load_def document_to_entity_def
        sent_db_def)
qed

lemma sent_db_account:
  "get_account_by_id i (open_session (sent_db v cu q file a D)) = get_account_by_id i (open_session D)"
  by (simp add: get_account_by_id_def sent_db_def)

lemma tenant_of_listed:
  assumes "consistent D" and "own_document i cu (open_session D) = Inr doc"
    and "list_by_document i (open_session D) = Inr ds" and "d \<in> set ds"
  shows "dl_tenant_id d = cu_tenant_id cu"
proof -
  obtain r where r: "r \<in> set (db_deliveries D)" "dr_document_id r = i" "delivery_to_entity r = Inr d"
    using load_all_set [OF assms(3) [unfolded list_by_document_def] assms(4)] by auto
  obtain x where x: "x \<in> set (db_documents D)" "doc_id x = i" "doc_tenant_id x = dr_tenant_id r"
    using consistent_document_of [OF assms(1) r(1)] r(2) by blast
  have "db_ok D" using assms(1) by (simp add: consistent_def)
  from distinct_filter_one [OF db_ok_tables(3) [OF this] x(1)] x(2)
  have "get_document_by_id i (open_session D) = Inr (Some x)"
    by (simp add: get_document_by_id_def get_row_def select_by_def load_def document_to_entity_def)
  with assms(2) have "doc_tenant_id x = cu_tenant_id cu"
    by (auto simp: own_document_def split: if_splits)
  moreover have "dl_tenant_id d = dr_tenant_id r"
    using r(3) by (auto simp: delivery_to_entity_def split: option.splits)
  ultimately show ?thesis using x(3) by simp
qed

text \<open>What the routes show of a stored delivery.\<close>

lemma entity_row: "delivery_to_entity r = Inr d \<Longrightarrow> delivery_to_row d = r"
  by (auto simp: delivery_to_entity_def delivery_to_row_def parse_status_Some split: option.splits)

lemma recorded_listed:
  assumes "consistent D" and "list_by_document i (open_session D) = Inr ds" and "d \<in> set ds"
  shows "records d"
proof -
  obtain r where "r \<in> set (db_deliveries D)" "delivery_to_entity r = Inr d"
    using load_all_set [OF assms(2) [unfolded list_by_document_def] assms(3)] by auto
  with assms(1) entity_row show ?thesis by (fastforce simp: consistent_def)
qed

lemma shown_recorded:
  assumes "records d"
  shows "rs_unified_status (delivery_response_of d) \<in> {''PENDING'', ''SENDING'', ''SENT'', ''FAILED''}"
    and "rs_unified_status (delivery_response_of d) = ''SENT'' \<Longrightarrow>
      rs_sent_at (delivery_response_of d) = Some (rs_updated_at (delivery_response_of d))"
    and "rs_unified_status (delivery_response_of d) = ''FAILED'' \<Longrightarrow>
      rs_last_error_code (delivery_response_of d) \<noteq> None \<and> rs_last_error_message (delivery_response_of d) \<noteq> None"
  using assms by (auto simp: recorded_def delivery_to_row_def delivery_response_of_def)

lemma best_status_shown:
  assumes "\<forall>d \<in> set ds. records d"
  shows "status_value (best_status (map dl_status ds)) \<in> {''PENDING'', ''SENDING'', ''SENT'', ''FAILED''}"
proof -
  have one: "status_value (dl_status d) \<in> {''PENDING'', ''SENDING'', ''SENT'', ''FAILED''}" if "d \<in> set ds" for d
    using shown_recorded(1) [of d] assms that by (simp add: delivery_response_of_def)
  then have "SIGNED \<notin> dl_status ` set ds" by fastforce
  then show ?thesis using one by (cases ds) (auto simp: best_status_def)
qed

end
