(* ===== verification/Workers.thy ===== *)
theory Workers
  imports SendProps
begin

text \<open>
  The send task in pieces. Celery runs several workers, so between two accesses of one run to the database or
  to Redis other runs may act. A run of
  \<open>src/infrastructure/queue/tasks/send_document_task.py\<close> is cut here where another process can see or
  change what it uses: after reading the delivery and its account, after the breaker's guard, after the
  commit of the \<open>SENDING\<close> status, after the provider's answer, and at the final commit. A statement of a
  later piece works on the tables as they are then, with the delivery as it was read at the start:
  \<open>update\<close> writes all mutable columns of that object. Run without interruption the pieces are the task of
  \<open>SendTask\<close>.
\<close>

section \<open>Pieces\<close>

text \<open>\<open>Called\<close> holds the exception in flight, the delivery, the rows added to the session, and whether the
  provider's id can be bound; \<open>Refused\<close> a delivery to be stored by an early return with its status.\<close>

datatype stage =
    Fetched
  | Loaded delivery account bytes
  | Guarded delivery account bytes
  | Refused delivery string
  | Marked delivery account provider bytes
  | Called "unit res" delivery "new_row list" bool
  | Ended "string res"

definition load_piece :: "worker_env \<Rightarrow> string \<Rightarrow> string \<Rightarrow> db \<Rightarrow> stage" where
  "load_piece env delivery_id file_bytes_hex D =
     (case uuid_parse delivery_id of
        Inl e \<Rightarrow> Ended (Inl e)
      | Inr did \<Rightarrow>
     (case bytes_fromhex file_bytes_hex of
        Inl e \<Rightarrow> Ended (Inl e)
      | Inr file_bytes \<Rightarrow>
     (case get_delivery_by_id did (open_session D) of
        Inl e \<Rightarrow> Ended (Inl e)
      | Inr None \<Rightarrow> Ended (Inr ''not_found'')
      | Inr (Some d) \<Rightarrow>
     (case get_account_by_id (dl_provider_account_id d) (open_session D) of
        Inl e \<Rightarrow> Ended (Inl e)
      | Inr acc \<Rightarrow>
          (case acc of
             Some a \<Rightarrow>
               if acc_is_active a then Loaded d a file_bytes
               else Refused (mark_failed (we_clock env 1) ''PROVIDER_ACCOUNT_INACTIVE''
                               ''Provider account not active'' d) ''failed''
           | None \<Rightarrow> Refused (mark_failed (we_clock env 1) ''PROVIDER_ACCOUNT_INACTIVE''
                               ''Provider account not active'' d) ''failed'')))))"

definition guard_piece :: "worker_env \<Rightarrow> 's redis_ops \<Rightarrow> delivery \<Rightarrow> account \<Rightarrow> bytes \<Rightarrow> 's \<Rightarrow> stage \<times> 's" where
  "guard_piece env R d a file_bytes redis =
     (case guard R (we_cfg env) (we_clock env 0) (uuid_str (acc_id a)) redis of
        (Inl e, redis') \<Rightarrow>
          (if exc_is e C_CircuitOpen then
             (let d1 = mark_failed (we_clock env 1) ''CIRCUIT_OPEN'' ''Circuit breaker is OPEN'' d in
              case compute_next_retry (we_cfg env) (we_uniform env) (we_clock env 2) (dl_retry_count d1) of
                Inl e' \<Rightarrow> Ended (Inl e')
              | Inr t \<Rightarrow> Refused (schedule_retry (we_clock env 3) t d1) ''circuit_open'')
           else Ended (Inl e), redis')
      | (Inr _, redis') \<Rightarrow> (Guarded d a file_bytes, redis'))"

definition mark_piece :: "worker_env \<Rightarrow> delivery \<Rightarrow> account \<Rightarrow> bytes \<Rightarrow> db \<Rightarrow> stage \<times> db" where
  "mark_piece env d a file_bytes D =
     (let d' = mark_sending (we_clock env 3) d in
      case update_and_commit d' (open_session D) of
        Inl e \<Rightarrow> (Ended (Inl e), D)
      | Inr s \<Rightarrow>
          (case create_provider (pe_to_str (we_provider env)) (acc_provider_type a) (acc_credentials_json a) of
             Inl e \<Rightarrow> Ended (Inl e)
           | Inr p \<Rightarrow> Marked d' a p file_bytes, view s))"

definition call_piece ::
  "worker_env \<Rightarrow> 's redis_ops \<Rightarrow> delivery \<Rightarrow> account \<Rightarrow> provider \<Rightarrow> bytes \<Rightarrow> 's world \<Rightarrow> stage \<times> 's world"
where
  "call_piece env R d a p file_bytes w =
     (case run_provider env R a p file_bytes
        \<lparr>rn_delivery = d, rn_session = open_session (w_db w), rn_redis = w_redis w, rn_stub = w_stub w,
         rn_bindable = True\<rparr> of
        (r, rn) \<Rightarrow> (Called r (rn_delivery rn) (pending (rn_session rn)) (rn_bindable rn),
                    w\<lparr>w_redis := rn_redis rn, w_stub := rn_stub rn\<rparr>))"

definition finish_piece :: "worker_env \<Rightarrow> unit res \<Rightarrow> delivery \<Rightarrow> new_row list \<Rightarrow> bool \<Rightarrow> db \<Rightarrow> stage \<times> db" where
  "finish_piece env r d added bindable D =
     (case finish env \<lparr>rn_delivery = d, rn_session = \<lparr>view = D, pending = added\<rparr>, rn_redis = (),
                       rn_stub = stub_empty, rn_bindable = bindable\<rparr> of
        Inl e \<Rightarrow> (Ended (Inl e), D)
      | Inr D' \<Rightarrow> (Ended (and_then r (\<lambda>_. Inr (status_value (dl_status d)))), D'))"

definition refuse_piece :: "delivery \<Rightarrow> string \<Rightarrow> db \<Rightarrow> stage \<times> db" where
  "refuse_piece d status D =
     (case update_and_commit d (open_session D) of
        Inl e \<Rightarrow> (Ended (Inl e), D)
      | Inr s' \<Rightarrow> (Ended (Inr status), view s'))"

section \<open>Workers\<close>

text \<open>A run in progress: its environment, the two arguments of its message and how far it has come.\<close>

record worker =
  wk_env :: worker_env
  wk_delivery_id :: string
  wk_file_hex :: string
  wk_stage :: stage

definition on_db :: "stage \<times> db \<Rightarrow> 's world \<Rightarrow> stage \<times> 's world" where
  "on_db r w = (fst r, w\<lparr>w_db := snd r\<rparr>)"

fun stage_step :: "'s redis_ops \<Rightarrow> worker \<Rightarrow> stage \<Rightarrow> 's world \<Rightarrow> stage \<times> 's world" where
  "stage_step R k Fetched w = (load_piece (wk_env k) (wk_delivery_id k) (wk_file_hex k) (w_db w), w)"
| "stage_step R k (Loaded d a bs) w =
     (let (st, redis') = guard_piece (wk_env k) R d a bs (w_redis w) in (st, w\<lparr>w_redis := redis'\<rparr>))"
| "stage_step R k (Guarded d a bs) w = on_db (mark_piece (wk_env k) d a bs (w_db w)) w"
| "stage_step R k (Refused d status) w = on_db (refuse_piece d status (w_db w)) w"
| "stage_step R k (Marked d a p bs) w = call_piece (wk_env k) R d a p bs w"
| "stage_step R k (Called r d added bindable) w = on_db (finish_piece (wk_env k) r d added bindable (w_db w)) w"
| "stage_step R k (Ended r) w = (Ended r, w)"

definition worker_step :: "'s redis_ops \<Rightarrow> worker \<Rightarrow> 's world \<Rightarrow> worker \<times> 's world" where
  "worker_step R k w = (let (st, w') = stage_step R k (wk_stage k) w in (k\<lparr>wk_stage := st\<rparr>, w'))"

definition start_worker :: "worker_env \<Rightarrow> string \<Rightarrow> string \<Rightarrow> worker" where
  "start_worker env i f = \<lparr>wk_env = env, wk_delivery_id = i, wk_file_hex = f, wk_stage = Fetched\<rparr>"

primrec worker_steps :: "'s redis_ops \<Rightarrow> nat \<Rightarrow> worker \<times> 's world \<Rightarrow> worker \<times> 's world" where
  "worker_steps R 0 kw = kw"
| "worker_steps R (Suc n) kw = worker_steps R n (worker_step R (fst kw) (snd kw))"

text \<open>Several workers and the order in which they move.\<close>

definition turn :: "'s redis_ops \<Rightarrow> nat \<Rightarrow> worker list \<times> 's world \<Rightarrow> worker list \<times> 's world" where
  "turn R i kw =
     (if i < length (fst kw)
      then (let (k', w') = worker_step R (fst kw ! i) (snd kw) in ((fst kw)[i := k'], w'))
      else kw)"

definition turns :: "'s redis_ops \<Rightarrow> nat list \<Rightarrow> worker list \<times> 's world \<Rightarrow> worker list \<times> 's world" where
  "turns R order kw = fold (turn R) order kw"

section \<open>A run without interruption\<close>

lemma finish_other_state:
  "finish env \<lparr>rn_delivery = d, rn_session = s, rn_redis = x, rn_stub = y, rn_bindable = b\<rparr> =
   finish env \<lparr>rn_delivery = d, rn_session = s, rn_redis = (), rn_stub = stub_empty, rn_bindable = b\<rparr>"
  by (simp add: finish_def)

lemma worker_Ended [simp]: "wk_stage k = Ended r \<Longrightarrow> k\<lparr>wk_stage := Ended r\<rparr> = k"
  by (cases k) simp

lemma worker_steps_Ended [simp]: "wk_stage k = Ended r \<Longrightarrow> worker_steps R n (k, w) = (k, w)"
  by (induction n) (simp_all add: worker_step_def)

lemma run_provider_view:
  "run_provider env R a p bs rn = (r, rn1) \<Longrightarrow> view (rn_session rn1) = view (rn_session rn)"
  by (auto simp: run_provider_def attempt_def on_exception_def on_transient_def fail_delivery_def write_dlq_def
      session_add_def Let_def split: sum.splits prod.splits if_splits)

text \<open>The value of the run that is at a stage: what the worker returns and leaves when nobody interrupts.\<close>

definition ends :: "'s redis_ops \<Rightarrow> worker \<Rightarrow> 's world \<Rightarrow> nat \<Rightarrow> string res \<times> 's world \<Rightarrow> bool" where
  "ends R k w n out \<longleftrightarrow> worker_steps R n (k, w) = (k\<lparr>wk_stage := Ended (fst out)\<rparr>, snd out)"

lemma ends_now: "wk_stage k = Ended r \<Longrightarrow> ends R k w n (r, w)"
  by (simp add: ends_def)

lemma ends_step:
  assumes "stage_step R k (wk_stage k) w = (st, w')" and "ends R (k\<lparr>wk_stage := st\<rparr>) w' n out"
  shows "ends R k w (Suc n) out"
  using assms by (simp add: ends_def worker_step_def)

lemma ends_last: "stage_step R k (wk_stage k) w = (Ended (fst out), snd out) \<Longrightarrow> ends R k w (Suc n) out"
  by (simp add: ends_def worker_step_def)

lemma refuse_ends:
  assumes "wk_stage k = Refused d status"
  shows "ends R k w (Suc n) (return_early d status (open_session (w_db w)) w)"
  using assms by (intro ends_last) (simp add: on_db_def refuse_piece_def return_early_def split: sum.split)

lemma session_parts [simp]: "\<lparr>view = view s, pending = pending s\<rparr> = s"
  by (cases s) simp

lemma called_ends:
  assumes "wk_stage k = Called r (rn_delivery rn) (pending (rn_session rn)) (rn_bindable rn)"
    and "view (rn_session rn) = w_db w" and "w_redis w = rn_redis rn" and "w_stub w = rn_stub rn"
  shows "ends R k w (Suc n) (close_run (wk_env k) r rn w)"
proof -
  have "finish (wk_env k) \<lparr>rn_delivery = rn_delivery rn,
      rn_session = \<lparr>view = w_db w, pending = pending (rn_session rn)\<rparr>, rn_redis = (), rn_stub = stub_empty,
      rn_bindable = rn_bindable rn\<rparr> = finish (wk_env k) rn"
    using assms(2) by (simp add: finish_def flip: assms(2))
  moreover have "w\<lparr>w_redis := rn_redis rn, w_stub := rn_stub rn\<rparr> = w" using assms(3,4) by (cases w) simp
  ultimately show ?thesis
    using assms(1) by (intro ends_last) (auto simp: on_db_def finish_piece_def close_run_def Let_def split: sum.split)
qed

lemma marked_ends:
  assumes "wk_stage k = Marked d a p bs"
    and "run_provider (wk_env k) R a p bs \<lparr>rn_delivery = d, rn_session = open_session (w_db w), rn_redis = w_redis w,
      rn_stub = w_stub w, rn_bindable = True\<rparr> = (r, rn)"
  shows "ends R k w (Suc (Suc n)) (close_run (wk_env k) r rn w)"
proof -
  let ?w = "w\<lparr>w_redis := rn_redis rn, w_stub := rn_stub rn\<rparr>"
  let ?k = "k\<lparr>wk_stage := Called r (rn_delivery rn) (pending (rn_session rn)) (rn_bindable rn)\<rparr>"
  have "ends R ?k ?w (Suc n) (close_run (wk_env ?k) r rn ?w)"
    using run_provider_view [OF assms(2)] by (intro called_ends) (simp_all add: open_session_def)
  moreover have "close_run (wk_env k) r rn ?w = close_run (wk_env k) r rn w"
    by (simp add: close_run_def Let_def)
  ultimately show ?thesis
    by - (rule ends_step [where st = "wk_stage ?k" and w' = ?w], simp_all add: assms call_piece_def)
qed

lemma guarded_ends:
  assumes "wk_stage k = Guarded d a bs"
  shows "ends R k w (Suc (Suc (Suc n))) (send_attempt (wk_env k) R a bs d (open_session (w_db w)) w)"
proof (cases "update_and_commit (mark_sending (we_clock (wk_env k) 3) d) (open_session (w_db w))")
  case (Inl e)
  with assms show ?thesis by (intro ends_last) (simp add: on_db_def mark_piece_def send_attempt_def Let_def)
next
  case (Inr s)
  have s: "open_session (view s) = s"
    using Inr by (auto simp: update_and_commit_def and_then_Inr_iff)
  let ?d = "mark_sending (we_clock (wk_env k) 3) d" and ?w = "w\<lparr>w_db := view s\<rparr>"
  show ?thesis
  proof (cases "create_provider (pe_to_str (we_provider (wk_env k))) (acc_provider_type a) (acc_credentials_json a)")
    case (Inl e)
    with assms Inr show ?thesis by (intro ends_last) (simp add: on_db_def mark_piece_def send_attempt_def Let_def)
  next
    case p: (Inr p)
    let ?k = "k\<lparr>wk_stage := Marked ?d a p bs\<rparr>"
    obtain r rn where run: "run_provider (wk_env ?k) R a p bs \<lparr>rn_delivery = ?d, rn_session = open_session (w_db ?w),
      rn_redis = w_redis ?w, rn_stub = w_stub ?w, rn_bindable = True\<rparr> = (r, rn)" by fastforce
    have "ends R ?k ?w (Suc (Suc n)) (close_run (wk_env ?k) r rn ?w)"
      by (rule marked_ends [OF _ run]) simp
    then show ?thesis
      using run Inr p s
      by - (rule ends_step [where st = "wk_stage ?k" and w' = ?w],
        simp_all add: assms on_db_def mark_piece_def send_attempt_def Let_def)
  qed
qed

definition after_load ::
  "worker_env \<Rightarrow> 's redis_ops \<Rightarrow> delivery \<Rightarrow> account \<Rightarrow> bytes \<Rightarrow> 's world \<Rightarrow> string res \<times> 's world"
where
  "after_load env R d a bs w =
     (case guard R (we_cfg env) (we_clock env 0) (uuid_str (acc_id a)) (w_redis w) of
        (Inl e, redis') \<Rightarrow>
          (let w1 = w\<lparr>w_redis := redis'\<rparr> in
           if exc_is e C_CircuitOpen then circuit_open env d (open_session (w_db w)) w1 else (Inl e, w1))
      | (Inr _, redis') \<Rightarrow> send_attempt env R a bs d (open_session (w_db w)) (w\<lparr>w_redis := redis'\<rparr>))"

lemma loaded_ends:
  assumes "wk_stage k = Loaded d a bs"
  shows "ends R k w (Suc (Suc (Suc (Suc n))))
    (after_load (wk_env k) R d a bs w)"
proof -
  note after_load_def [simp]
  obtain g redis' where g: "guard R (we_cfg (wk_env k)) (we_clock (wk_env k) 0) (uuid_str (acc_id a)) (w_redis w) = (g, redis')"
    by fastforce
  let ?w = "w\<lparr>w_redis := redis'\<rparr>"
  show ?thesis
  proof (cases g)
    case (Inr u)
    have "ends R (k\<lparr>wk_stage := Guarded d a bs\<rparr>) ?w (Suc (Suc (Suc n)))
        (send_attempt (wk_env k) R a bs d (open_session (w_db ?w)) ?w)"
      using guarded_ends [of "k\<lparr>wk_stage := Guarded d a bs\<rparr>" d a bs R ?w n] by simp
    moreover have "stage_step R k (wk_stage k) w = (Guarded d a bs, ?w)"
      using g Inr by (simp add: assms guard_piece_def)
    ultimately show ?thesis using g Inr by (simp add: ends_step)
  next
    case (Inl e)
    let ?d = "mark_failed (we_clock (wk_env k) 1) ''CIRCUIT_OPEN'' ''Circuit breaker is OPEN'' d"
    show ?thesis
    proof (cases "\<exists>t. exc_is e C_CircuitOpen \<and> compute_next_retry (we_cfg (wk_env k)) (we_uniform (wk_env k))
        (we_clock (wk_env k) 2) (dl_retry_count ?d) = Inr t")
      case False
      with g Inl assms show ?thesis
        by (auto intro!: ends_last simp: guard_piece_def circuit_open_def Let_def split: sum.split)
    next
      case True
      then obtain t where t: "exc_is e C_CircuitOpen" "compute_next_retry (we_cfg (wk_env k)) (we_uniform (wk_env k))
        (we_clock (wk_env k) 2) (dl_retry_count ?d) = Inr t" by blast
      let ?st = "Refused (schedule_retry (we_clock (wk_env k) 3) t ?d) ''circuit_open''"
      have "ends R (k\<lparr>wk_stage := ?st\<rparr>) ?w (Suc (Suc (Suc n)))
          (circuit_open (wk_env k) d (open_session (w_db w)) ?w)"
        using refuse_ends [of "k\<lparr>wk_stage := ?st\<rparr>" _ _ R ?w "Suc (Suc n)"] t(2) by (simp add: circuit_open_def Let_def)
      moreover have "stage_step R k (wk_stage k) w = (?st, ?w)"
        using g Inl t by (simp add: assms guard_piece_def Let_def)
      ultimately show ?thesis
        using g Inl t(1) by (simp add: ends_step)
    qed
  qed
qed

lemma fetched_ends:
  assumes "wk_stage k = Fetched"
  shows "ends R k w 5 (send_document (wk_env k) R (wk_delivery_id k) (wk_file_hex k) w)"
proof -
  let ?st = "load_piece (wk_env k) (wk_delivery_id k) (wk_file_hex k) (w_db w)"
  let ?out = "send_document (wk_env k) R (wk_delivery_id k) (wk_file_hex k) w"
  have step: "stage_step R k (wk_stage k) w = (?st, w)" using assms by simp
  have load: "(\<exists>r. ?st = Ended r \<and> ?out = (r, w))
    \<or> (\<exists>d status. ?st = Refused d status \<and> ?out = return_early d status (open_session (w_db w)) w)
    \<or> (\<exists>d a bs. ?st = Loaded d a bs \<and> ?out = after_load (wk_env k) R d a bs w)"
    by (simp add: load_piece_def send_document_def run_delivery_def after_load_def Let_def split: sum.split option.split)
  have "ends R (k\<lparr>wk_stage := ?st\<rparr>) w (Suc (Suc (Suc (Suc 0)))) ?out"
    using load
  proof (elim disjE exE conjE)
    fix r
    assume "?st = Ended r" "?out = (r, w)"
    then show ?thesis by (simp add: ends_now)
  next
    fix d status
    assume "?st = Refused d status" "?out = return_early d status (open_session (w_db w)) w"
    then show ?thesis by (metis refuse_ends worker.select_convs(4) worker.surjective worker.update_convs(4))
  next
    fix d a bs
    assume st: "?st = Loaded d a bs" and out: "?out = after_load (wk_env k) R d a bs w"
    show ?thesis
      unfolding st out using loaded_ends [of "k\<lparr>wk_stage := Loaded d a bs\<rparr>" d a bs R w 0] by simp
  qed
  from ends_step [OF step this] show ?thesis by (simp add: eval_nat_numeral)
qed


section \<open>Overlapping runs\<close>

lemma load_ok:
  assumes "get_delivery_by_id did (open_session D) = Inr (Some d)"
    and "get_account_by_id (dl_provider_account_id d) (open_session D) = Inr (Some a)" and "acc_is_active a"
  shows "load_piece env (uuid_str did) (bytes_hex bs) D = Loaded d a bs"
  using assms by (simp add: load_piece_def)

lemma mark_ok:
  assumes "get_delivery_by_id did (open_session D) = Inr (Some d0)" and "db_ok D" and "dl_id d = did"
    and "free_for did d0 (dl_provider_document_id d) D"
    and "create_provider (pe_to_str (we_provider env)) (acc_provider_type a) (acc_credentials_json a) = Inr p"
  shows "mark_piece env d a bs D = (Marked (sending env d) a p bs, set_delivery did (sending env d) D)"
  using update_and_commit_ok [OF assms(1,2), of "sending env d"] assms(3-5)
  by (simp add: mark_piece_def sending_def [symmetric] Let_def)

lemma finish_piece_ok:
  assumes "get_delivery_by_id did (open_session D) = Inr (Some d0)" and "db_ok D" and "dl_id d = did"
    and "free_for did d0 (dl_provider_document_id d) D" and "we_audit_id env \<notin> aud_id ` set (db_audit D)"
  shows "finish_piece env (Inr ()) d [] True D =
    (Ended (Inr (status_value (dl_status d))), finished_db env did d [] D)"
proof -
  let ?rn = "\<lparr>rn_delivery = d, rn_session = \<lparr>view = D, pending = []\<rparr>, rn_redis = (), rn_stub = stub_empty,
    rn_bindable = True\<rparr>"
  have "distinct (map dlq_id (db_dlq D @ []))" using assms(2) by (simp add: db_ok_tables)
  from finish_ok [OF assms(1,2), of ?rn "[]" env, simplified] assms(3-5) this
  have "finish env ?rn = Inr (finished_db env did d [] D)" by (simp add: finished_db_def)
  then show ?thesis by (simp add: finish_piece_def)
qed

context redis_store
begin

lemma guard_piece_ok:
  assumes "holds s (uuid_str (acc_id a)) b" and "br_state (br_look (we_cfg env) (we_clock env 0) b) \<noteq> OPEN"
  shows "\<exists>s'. guard_piece env R d a bs s = (Guarded d a bs, s')
    \<and> holds s' (uuid_str (acc_id a)) (br_look (we_cfg env) (we_clock env 0) b)"
  using guard_impl [OF assms(1), of "we_cfg env" "we_clock env 0"] assms(2) by (auto simp: guard_piece_def)

lemma call_accepted:
  assumes "holds (w_redis w) (uuid_str (acc_id a)) b"
    and "provider_send (we_provider env) (worker_args d bs) p (w_stub w) = (Inr res, stub')"
    and "sr_provider_document_id res = JStr pid"
  shows "\<exists>s' b'. call_piece env R d a p bs w =
      (Called (Inr ()) (mark_sent (we_clock env 4) pid d) [] True, w\<lparr>w_redis := s', w_stub := stub'\<rparr>)
    \<and> holds s' (uuid_str (acc_id a)) b'"
  using record_success_impl [OF assms(1), of "we_cfg env" "we_clock env 5"] assms(2,3)
  by (fastforce simp: call_piece_def run_provider_def attempt_def Let_def open_session_def)

lemma call_transient:
  assumes "holds (w_redis w) (uuid_str (acc_id a)) b"
    and "provider_send (we_provider env) (worker_args d bs) p (w_stub w) = (Inl (Domain e), stub')"
    and "is_instance e C_ProviderTransient"
    and "dl_retry_count d < default_retry_max_attempts (we_cfg env)"
    and "compute_next_retry (we_cfg env) (we_uniform env) (we_clock env 9) (dl_retry_count d) = Inr t"
  shows "\<exists>s'. call_piece env R d a p bs w =
      (Called (Inr ()) (schedule_retry (we_clock env 10) t d) [] True, w\<lparr>w_redis := s', w_stub := stub'\<rparr>)"
proof -
  have "exc_is (Domain e) C_ProviderTransient" using assms(3) by (simp add: exc_is_def)
  with record_failure_impl [OF assms(1), of "we_cfg env" "we_clock env 8"] assms(2,4,5) show ?thesis
    by (fastforce simp: call_piece_def run_provider_def attempt_def on_exception_def on_transient_def should_retry_def
        Let_def open_session_def)
qed

end

lemma turn_first:
  "stage_step R k (wk_stage k) w = (st, w') \<Longrightarrow> turn R 0 ([k, l], w) = ([k\<lparr>wk_stage := st\<rparr>, l], w')"
  by (simp add: turn_def worker_step_def)

lemma turn_second:
  "stage_step R l (wk_stage l) w = (st, w') \<Longrightarrow> turn R 1 ([k, l], w) = ([k, l\<lparr>wk_stage := st\<rparr>], w')"
  by (simp add: turn_def worker_step_def)

lemma next_retry_exists:
  "n < default_retry_max_attempts cfg \<Longrightarrow> default_retry_max_attempts cfg \<le> 1024 \<Longrightarrow>
    \<exists>t. compute_next_retry cfg u now n = Inr t"
  by (simp add: compute_next_retry_def retry_delay_def)

lemma br_look_again: "br_state (br_look cfg now b) \<noteq> OPEN \<Longrightarrow> br_state (br_look cfg' now' (br_look cfg now b)) \<noteq> OPEN"
  by (auto simp: br_look_def split: if_splits)

definition run_of :: "worker_env \<Rightarrow> uuid \<Rightarrow> bytes \<Rightarrow> stage \<Rightarrow> worker" where
  "run_of env did bs st =
     \<lparr>wk_env = env, wk_delivery_id = uuid_str did, wk_file_hex = bytes_hex bs, wk_stage = st\<rparr>"

lemma run_of_simps [simp]:
  "wk_env (run_of env did bs st) = env" "wk_delivery_id (run_of env did bs st) = uuid_str did"
  "wk_file_hex (run_of env did bs st) = bytes_hex bs" "wk_stage (run_of env did bs st) = st"
  "(run_of env did bs st)\<lparr>wk_stage := st'\<rparr> = run_of env did bs st'"
  by (simp_all add: run_of_def)

lemma turns_simps [simp]: "turns R [] kw = kw" "turns R (i # is') kw = turns R is' (turn R i kw)"
  by (simp_all add: turns_def)

text \<open>Two runs for the same delivery move in turn until both have their answer.\<close>

context redis_store
begin

lemma both_called:
  assumes rdy: "ready contents up env1 w did d a p b" "ready contents up env2 w did d a p b"
    and send1: "provider_send (we_provider env1) (worker_args d bs) p (w_stub w) = (Inr res, st1)"
      "sr_provider_document_id res = JStr pid"
    and send2: "provider_send (we_provider env2) (worker_args d bs) p st1 = (Inl (Domain e), st2)"
      "is_instance e C_ProviderTransient"
    and budget: "dl_retry_count d < default_retry_max_attempts (we_cfg env2)"
      "compute_next_retry (we_cfg env2) (we_uniform env2) (we_clock env2 9) (dl_retry_count d) = Inr t"
  shows "\<exists>s. turns R [0, 1, 0, 1, 0, 1, 0, 1] ([run_of env1 did bs Fetched, run_of env2 did bs Fetched], w) =
    ([run_of env1 did bs (Called (Inr ()) (mark_sent (we_clock env1 4) pid (sending env1 d)) [] True),
      run_of env2 did bs (Called (Inr ()) (schedule_retry (we_clock env2 10) t (sending env2 d)) [] True)],
     \<lparr>w_db = set_delivery did (sending env2 d) (w_db w), w_redis = s, w_stub = st2\<rparr>)"
proof -
  let ?acc = "uuid_str (acc_id a)" and ?b = "br_look (we_cfg env1) (we_clock env1 0) b"
  note r1 = rdy(1) [unfolded ready_def] and f1 = ready_facts [OF rdy(1)]
  note r2 = rdy(2) [unfolded ready_def]
  have load: "load_piece env (uuid_str did) (bytes_hex bs) (w_db w) = Loaded d a bs" for env
    using r1 by (intro load_ok) simp_all
  obtain s1 where s1: "guard_piece env1 R d a bs (w_redis w) = (Guarded d a bs, s1)" "holds s1 ?acc ?b"
    using guard_piece_ok r1 by blast
  obtain s2 where s2: "guard_piece env2 R d a bs s1 = (Guarded d a bs, s2)"
    "holds s2 ?acc (br_look (we_cfg env2) (we_clock env2 0) ?b)"
    using guard_piece_ok [OF s1(2)] br_look_again r1 by blast
  let ?D = "set_delivery did (sending env1 d) (w_db w)"
  have m1: "mark_piece env1 d a bs (w_db w) = (Marked (sending env1 d) a p bs, ?D)"
    using r1 f1 by (intro mark_ok) simp_all
  have m2: "mark_piece env2 d a bs ?D = (Marked (sending env2 d) a p bs, set_delivery did (sending env2 d) (w_db w))"
    using mark_ok [OF f1(5,4)] f1(1,2) r2 by (simp add: free_for_set set_delivery_twice)
  let ?w = "\<lambda>s st. \<lparr>w_db = set_delivery did (sending env2 d) (w_db w), w_redis = s, w_stub = st\<rparr>"
  obtain s3 b3 where s3: "call_piece env1 R (sending env1 d) a p bs (?w s2 (w_stub w)) =
      (Called (Inr ()) (mark_sent (we_clock env1 4) pid (sending env1 d)) [] True, ?w s3 st1)" "holds s3 ?acc b3"
    using call_accepted [of "?w s2 (w_stub w)" a "br_look (we_cfg env2) (we_clock env2 0) ?b" env1 "sending env1 d" bs
        p res st1 pid] s2(2) send1 by auto
  obtain s4 where s4: "call_piece env2 R (sending env2 d) a p bs (?w s3 st1) =
      (Called (Inr ()) (schedule_retry (we_clock env2 10) t (sending env2 d)) [] True, ?w s4 st2)"
    using call_transient [of "?w s3 st1" a b3 env2 "sending env2 d" bs p e st2 t] s3(2) send2 budget by auto
  have w: "w\<lparr>w_redis := s2, w_db := D\<rparr> = \<lparr>w_db = D, w_redis = s2, w_stub = w_stub w\<rparr>" for D
    by (cases w) simp
  show ?thesis
    by (intro exI [of _ s4])
      (simp add: turn_first turn_second load s1 s2 m1 m2 s3 s4 on_db_def w del: One_nat_def)
qed

end

lemma finish_piece_db_ok:
  "finish_piece env r d added bindable D = (st, D') \<Longrightarrow> db_ok D \<Longrightarrow> db_ok D'"
  by (auto simp: finish_piece_def finish_def commit_def Let_def and_then_Inr_iff split: sum.splits if_splits)

lemma free_for_finished: "free_for did x pid (finished_db env did d es (set_delivery did y D)) = free_for did x pid D"
  by (auto simp: free_for_def provider_id_free_def finished_db_def set_delivery_def update_by_def)

lemma last_turn:
  assumes get: "get_delivery_by_id did (open_session D) = Inr (Some d0)" and "db_ok D"
    and "same_identity d0 d" and "dl_id d = did" and "free_for did d0 (dl_provider_document_id d) D"
    and "we_audit_id env \<notin> aud_id ` set (db_audit D)"
  shows "w_db w = D \<Longrightarrow> stage_step R (run_of env did bs st) (Called (Inr ()) d [] True) w =
      (Ended (Inr (status_value (dl_status d))), w\<lparr>w_db := finished_db env did d [] D\<rparr>)"
    and "get_delivery_by_id did (open_session (finished_db env did d [] D)) = Inr (Some d)"
    and "db_ok (finished_db env did d [] D)"
proof -
  note fin = finish_piece_ok [OF get assms(2,4-6)]
  show "stage_step R (run_of env did bs st) (Called (Inr ()) d [] True) w =
      (Ended (Inr (status_value (dl_status d))), w\<lparr>w_db := finished_db env did d [] D\<rparr>)" if "w_db w = D"
    using fin that by (simp add: on_db_def)
  show "get_delivery_by_id did (open_session (finished_db env did d [] D)) = Inr (Some d)"
    using get_after_set [OF get assms(3,4)] by (simp add: finished_db_def get_delivery_by_id_def)
  show "db_ok (finished_db env did d [] D)" by (rule finish_piece_db_ok [OF fin assms(2)])
qed

text \<open>C8: Two runs for the same delivery that overlap can lose an accepted document. Both have read the delivery
  and passed the guard; the provider accepts the first and answers the second with a transient error while
  the budget lasts. The first run commits \<open>SENT\<close> with the provider's id; then the second writes all
  columns of the delivery as it had read it: the row is \<open>PENDING\<close> with a next attempt, it has the provider
  id it had before, and it counts one attempt.\<close>

theorem overlapping_runs_lose_acceptance:
  assumes "redis_store R contents up"
    and "ready contents up env1 w did d a p b" and "ready contents up env2 w did d a p b"
    and "provider_send (we_provider env1) (worker_args d bs) p (w_stub w) = (Inr res, st1)"
    and "sr_provider_document_id res = JStr pid" and "free_for did d (Some pid) (w_db w)"
    and "provider_send (we_provider env2) (worker_args d bs) p st1 = (Inl (Domain e), st2)"
    and "is_instance e C_ProviderTransient"
    and "dl_retry_count d < default_retry_max_attempts (we_cfg env2)"
    and "default_retry_max_attempts (we_cfg env2) \<le> 1024"
    and "we_audit_id env1 \<noteq> we_audit_id env2"
  shows "\<exists>ks w1 w2 d2. turns R [0, 1, 0, 1, 0, 1, 0, 1, 0]
        ([run_of env1 did bs Fetched, run_of env2 did bs Fetched], w) = (ks, w1)
      \<and> get_delivery_by_id did (open_session (w_db w1)) =
          Inr (Some (mark_sent (we_clock env1 4) pid (sending env1 d)))
      \<and> turns R [1] (ks, w1) =
          ([run_of env1 did bs (Ended (Inr ''SENT'')), run_of env2 did bs (Ended (Inr ''PENDING''))], w2)
      \<and> get_delivery_by_id did (open_session (w_db w2)) = Inr (Some d2)
      \<and> dl_status d2 = PENDING \<and> dl_provider_document_id d2 = dl_provider_document_id d
      \<and> dl_sent_at d2 = dl_sent_at d \<and> dl_retry_count d2 = dl_retry_count d + 1"
proof -
  obtain t where t: "compute_next_retry (we_cfg env2) (we_uniform env2) (we_clock env2 9) (dl_retry_count d) = Inr t"
    using next_retry_exists assms(9,10) by blast
  let ?d1 = "mark_sent (we_clock env1 4) pid (sending env1 d)"
  let ?d2 = "schedule_retry (we_clock env2 10) t (sending env2 d)"
  let ?k1 = "run_of env1 did bs" and ?k2 = "run_of env2 did bs"
  let ?D = "set_delivery did (sending env2 d) (w_db w)"
  let ?D1 = "finished_db env1 did ?d1 [] ?D" and ?D2 = "\<lambda>D. finished_db env2 did ?d2 [] D"
  obtain s where called: "turns R [0, 1, 0, 1, 0, 1, 0, 1] ([?k1 Fetched, ?k2 Fetched], w) =
      ([?k1 (Called (Inr ()) ?d1 [] True), ?k2 (Called (Inr ()) ?d2 [] True)], \<lparr>w_db = ?D, w_redis = s, w_stub = st2\<rparr>)"
    using redis_store.both_called [OF assms(1-5,7-9) t] by blast
  let ?w = "\<lambda>D. \<lparr>w_db = D, w_redis = s, w_stub = st2\<rparr>"
  note f2 = ready_facts [OF assms(3)] and r = assms(2,3) [unfolded ready_def]
  have "same_identity (sending env2 d) ?d1" "dl_id ?d1 = did" "free_for did (sending env2 d) (dl_provider_document_id ?d1) ?D"
    "we_audit_id env1 \<notin> aud_id ` set (db_audit ?D)"
    using f2(1) assms(6) r(1)
    by (simp_all add: free_for_set mark_sent_def) (simp_all add: same_identity_def sending_def mark_sending_def)
  note one = last_turn [OF f2(5,4) this]
  have "same_identity ?d1 ?d2" "dl_id ?d2 = did" "free_for did ?d1 (dl_provider_document_id ?d2) ?D1"
    "we_audit_id env2 \<notin> aud_id ` set (db_audit ?D1)"
    using f2(1,2) r(2) assms(11) unfolding free_for_finished
    by (simp_all add: free_for_def same_identity_def sending_def mark_sending_def mark_sent_def schedule_retry_def
        finished_db_def delivery_audit_def create_audit_event_def)
  note two = last_turn [OF one(2,3) this]
  have t1: "turns R [0, 1, 0, 1, 0, 1, 0, 1, 0] ([?k1 Fetched, ?k2 Fetched], w) =
      ([?k1 (Ended (Inr ''SENT'')), ?k2 (Called (Inr ()) ?d2 [] True)], ?w ?D1)"
    using called one(1) [of "?w ?D"] by (simp add: turn_first mark_sent_def del: stage_step.simps)
  have t2: "turns R [1] ([?k1 (Ended (Inr ''SENT'')), ?k2 (Called (Inr ()) ?d2 [] True)], ?w ?D1) =
      ([?k1 (Ended (Inr ''SENT'')), ?k2 (Ended (Inr ''PENDING''))], ?w (?D2 ?D1))"
    using two(1) [of "?w ?D1"] by (simp add: turn_second schedule_retry_def del: One_nat_def stage_step.simps)
  have d2: "dl_status ?d2 = PENDING" "dl_provider_document_id ?d2 = dl_provider_document_id d"
    "dl_sent_at ?d2 = dl_sent_at d" "dl_retry_count ?d2 = dl_retry_count d + 1"
    by (simp_all add: schedule_retry_def sending_def mark_sending_def)
  show ?thesis
    using t1 t2 one(2) two(2) d2
    by (intro exI [of _ "[?k1 (Ended (Inr ''SENT'')), ?k2 (Called (Inr ()) ?d2 [] True)]"] exI [of _ "?w ?D1"]
        exI [of _ "?w (?D2 ?D1)"] exI [of _ ?d2] conjI) (simp_all only: world.simps)
qed

definition accepting_env :: worker_env where
  "accepting_env = sample_env (Inr (sample_response 200 [(''documentId'', JStr ''D-1'')]))"

definition limited_env :: worker_env where
  "limited_env = (sample_env (Inr (sample_response 429 [])))\<lparr>we_audit_id := 12\<rparr>"

theorem overlapping_runs_lose_acceptance_witness:
  "\<exists>w2 d2. turns mem_redis ([0, 1, 0, 1, 0, 1, 0, 1, 0] @ [1])
        ([run_of accepting_env 1 [1] Fetched, run_of limited_env 1 [1] Fetched], sample_world (sample_retried 0)) =
      ([run_of accepting_env 1 [1] (Ended (Inr ''SENT'')), run_of limited_env 1 [1] (Ended (Inr ''PENDING''))], w2)
    \<and> get_delivery_by_id 1 (open_session (w_db w2)) = Inr (Some d2)
    \<and> dl_status d2 = PENDING \<and> dl_provider_document_id d2 = None"
proof -
  let ?w = "sample_world (sample_retried 0)"
  have rdy1: "ready mem_contents mem_up accepting_env ?w 1 (sample_retried 0) sample_account sample_provider fresh_breaker"
    unfolding accepting_env_def by (rule sample_ready)
  have rdy2: "ready mem_contents mem_up limited_env ?w 1 (sample_retried 0) sample_account sample_provider fresh_breaker"
    using sample_ready [of "Inr (sample_response 429 [])" 0]
    by (simp add: limited_env_def ready_def sample_world_def empty_db_def)
  have send2: "provider_send (we_provider limited_env) (worker_args (sample_retried 0) [1]) sample_provider (w_stub ?w) =
      (Inl (Domain (ProviderRateLimitError ''KONTUR_EDO'')), w_stub ?w)"
    using sample_send_error [of 429]
    by (simp add: limited_env_def kontur_handle_errors_def status_error_def sample_response_def)
  have send1: "provider_send (we_provider accepting_env) (worker_args (sample_retried 0) [1]) sample_provider (w_stub ?w) =
      (Inr \<lparr>sr_provider_document_id = JStr ''D-1'', sr_raw_status = ''sent''\<rparr>, w_stub ?w)"
    unfolding accepting_env_def by (rule sample_send)
  have cfg: "we_cfg limited_env = default_settings" "we_audit_id accepting_env \<noteq> we_audit_id limited_env"
    by (simp_all add: limited_env_def accepting_env_def sample_env_def)
  from overlapping_runs_lose_acceptance [OF mem.redis_store_axioms rdy1 rdy2 send1 _ sample_free send2 _ _ _ cfg(2)]
  show ?thesis
    by (auto simp: cfg(1) is_instance_def default_settings_def sample_retried_def create_delivery_def)
qed

end
