(* ===== verification/Cluster.thy ===== *)
theory Cluster
  imports System Workers
begin

text \<open>
  The deployed program: the system together with the runs of the send task that are in progress, in any number
  and at any stage, and the send requests that have published their message and not yet committed. A message
  stays on the broker while a worker runs it (the task acknowledges late), so it may be taken more than once,
  and a worker or a request may disappear at any moment. The other requests and tasks are steps of their own.
\<close>

section \<open>Steps\<close>

record 's cluster =
  cl_system :: "'s system"
  cl_workers :: "worker list"
  cl_requests :: "new_row list list"

abbreviation cluster_db :: "'s cluster \<Rightarrow> db" where
  "cluster_db C \<equiv> database (cl_system C)"

text \<open>The commit of a request on the tables as they are then.\<close>

definition commit_rows :: "new_row list \<Rightarrow> db \<Rightarrow> db res" where
  "commit_rows rows D = commit \<lparr>view = D, pending = rows\<rparr>"

inductive cluster_step :: "'s redis_ops \<Rightarrow> 's cluster \<Rightarrow> 's cluster \<Rightarrow> bool" for R where
  request: "request_step (cl_system C) S \<Longrightarrow> cluster_step R C (C\<lparr>cl_system := S\<rparr>)"
| background: "background_step R (cl_system C) S \<Longrightarrow> cluster_step R C (C\<lparr>cl_system := S\<rparr>)"
| take: "Task_send i f \<in> set (sy_queue (cl_system C))
    \<Longrightarrow> cluster_step R C (C\<lparr>cl_workers := cl_workers C @ [start_worker env i f]\<rparr>)"
| work: "cl_workers C = ks @ k # ks' \<Longrightarrow> worker_step R k (sy_world (cl_system C)) = (k', w')
    \<Longrightarrow> cluster_step R C (C\<lparr>cl_system := (cl_system C)\<lparr>sy_world := w'\<rparr>, cl_workers := ks @ k' # ks'\<rparr>)"
| acknowledge: "cl_workers C = ks @ k # ks' \<Longrightarrow> wk_stage k = Ended r
    \<Longrightarrow> sy_queue (cl_system C) = ms @ Task_send (wk_delivery_id k) (wk_file_hex k) # ms'
    \<Longrightarrow> cluster_step R C (C\<lparr>cl_system := (cl_system C)\<lparr>sy_queue := ms @ ms'\<rparr>, cl_workers := ks @ ks'\<rparr>)"
| crash: "cl_workers C = ks @ k # ks' \<Longrightarrow> cluster_step R C (C\<lparr>cl_workers := ks @ ks'\<rparr>)"
| publish: "send_document_endpoint v pub cu q file (open_session (cluster_db C)) = (Inr a, s, ms)
    \<Longrightarrow> cluster_step R C (C\<lparr>cl_system := (cl_system C)\<lparr>sy_queue := sy_queue (cl_system C) @ ms\<rparr>,
          cl_requests := cl_requests C @ [pending s]\<rparr>)"
| commit: "cl_requests C = ps @ rows # qs \<Longrightarrow> commit_rows rows (cluster_db C) = Inr D
    \<Longrightarrow> cluster_step R C (C\<lparr>cl_system := after_request D [] (cl_system C), cl_requests := ps @ qs\<rparr>)"
| roll_back: "cl_requests C = ps @ rows # qs \<Longrightarrow> cluster_step R C (C\<lparr>cl_requests := ps @ qs\<rparr>)"

definition fresh_cluster :: "db \<Rightarrow> 's \<Rightarrow> stub_store \<Rightarrow> 's cluster" where
  "fresh_cluster D x y = \<lparr>cl_system = \<lparr>sy_world = \<lparr>w_db = D, w_redis = x, w_stub = y\<rparr>, sy_queue = []\<rparr>, cl_workers = [], cl_requests = []\<rparr>"

inductive reachable :: "'s redis_ops \<Rightarrow> db \<Rightarrow> 's cluster \<Rightarrow> bool" for R D0 where
  start: "reachable R D0 (fresh_cluster D0 x y)"
| further: "reachable R D0 C \<Longrightarrow> cluster_step R C C' \<Longrightarrow> reachable R D0 C'"

section \<open>Invariant\<close>

text \<open>What a run in progress may still write.\<close>

fun stage_ok :: "stage \<Rightarrow> bool" where
  "stage_ok (Refused d status) = records d"
| "stage_ok (Marked d a p bs) = records d"
| "stage_ok (Called r d added bindable) =
     (records d \<and> (\<exists>es. added = map New_dlq es \<and> length es \<le> 1
        \<and> (\<forall>e \<in> set es. dlq_delivery_id e = Some (dl_id d) \<and> dlq_replayed_at e = None)))"
| "stage_ok st = True"

text \<open>A step of a run keeps the data consistent, and the accounts and incoming documents as they are.\<close>

definition moved :: "db \<Rightarrow> db \<Rightarrow> bool" where
  "moved D D' \<longleftrightarrow> consistent D' \<and> db_accounts D' = db_accounts D \<and> db_incoming D' = db_incoming D"

lemma frame_accounts: "worker_frame did D D' \<Longrightarrow> db_accounts D' = db_accounts D \<and> db_incoming D' = db_incoming D"
  by (auto simp: worker_frame_def)

lemma frame_moved: "worker_frame did D D' \<and> db_ok D' \<Longrightarrow> consistent D \<Longrightarrow> moved D D'"
  using frame_consistent frame_accounts unfolding moved_def by blast

lemma moved_refl: "consistent D \<Longrightarrow> moved D D"
  by (simp add: moved_def)

lemma update_and_commit_moved:
  assumes "update_and_commit d (open_session D) = Inr s" and "records d" and "consistent D"
  shows "moved D (view s)"
proof -
  have "view s = set_delivery (dl_id d) d D" "db_ok (view s)"
    using update_and_commit_frame [OF assms(1)] by auto
  then show ?thesis using worker_frame_set [OF assms(2)] frame_moved assms(3) by metis
qed

lemma load_piece_ok: "stage_ok (load_piece env i f D)"
  by (simp add: load_piece_def split: sum.split option.split)

lemma guard_piece_stage: "stage_ok (fst (guard_piece env R d a bs s))"
  by (simp add: guard_piece_def Let_def split: sum.split prod.split)

lemma mark_piece_ok:
  assumes "consistent D"
  shows "stage_ok (fst (mark_piece env d a bs D)) \<and> moved D (snd (mark_piece env d a bs D))"
  using assms update_and_commit_moved [of "mark_sending (we_clock env 3) d" D] moved_refl
  by (auto simp: mark_piece_def Let_def split: sum.split)

lemma refuse_piece_ok:
  assumes "records d" and "consistent D"
  shows "stage_ok (fst (refuse_piece d status D)) \<and> moved D (snd (refuse_piece d status D))"
  using assms update_and_commit_moved [of d D] moved_refl by (auto simp: refuse_piece_def split: sum.split)

lemma call_piece_ok:
  assumes "records d"
  shows "stage_ok (fst (call_piece env R d a p bs w)) \<and> w_db (snd (call_piece env R d a p bs w)) = w_db w"
proof -
  let ?rn = "\<lparr>rn_delivery = d, rn_session = open_session (w_db w), rn_redis = w_redis w, rn_stub = w_stub w,
    rn_bindable = True\<rparr>"
  obtain r rn where run: "run_provider env R a p bs ?rn = (r, rn)" by fastforce
  have "run_inv (dl_id d) (w_db w) ?rn" using assms by (simp add: run_inv_def open_session_def)
  then have "run_inv (dl_id d) (w_db w) rn" by (rule run_provider_inv [OF _ _ run]) (simp add: open_session_def)
  with run show ?thesis by (auto simp: call_piece_def run_inv_def)
qed

lemma finish_piece_moved:
  assumes "stage_ok (Called r d added bindable)" and "consistent D"
  shows "stage_ok (fst (finish_piece env r d added bindable D)) \<and> moved D (snd (finish_piece env r d added bindable D))"
proof -
  let ?rn = "\<lparr>rn_delivery = d, rn_session = \<lparr>view = D, pending = added\<rparr>, rn_redis = (), rn_stub = stub_empty,
    rn_bindable = bindable\<rparr>"
  have "run_inv (dl_id d) D ?rn" using assms(1) by (simp add: run_inv_def)
  note frame_moved [OF finish_frame [OF this, of env] assms(2)]
  then show ?thesis using moved_refl [OF assms(2)] by (auto simp: finish_piece_def split: sum.split)
qed

lemma stage_step_ok:
  assumes "stage_step R k st w = (st', w')" and "stage_ok st" and "consistent (w_db w)"
  shows "stage_ok st' \<and> moved (w_db w) (w_db w')"
proof (cases st)
  case Fetched
  with assms load_piece_ok moved_refl show ?thesis by auto
next
  case (Loaded d a bs)
  with assms guard_piece_stage [of "wk_env k" R d a bs "w_redis w"] moved_refl show ?thesis
    by (auto split: prod.splits)
next
  case (Guarded d a bs)
  with assms mark_piece_ok show ?thesis by (auto simp: on_db_def)
next
  case (Refused d status)
  with assms refuse_piece_ok show ?thesis by (auto simp: on_db_def)
next
  case (Marked d a p bs)
  with assms call_piece_ok [of d "wk_env k" R a p bs w] moved_refl show ?thesis by auto
next
  case (Called r d added bindable)
  with assms finish_piece_moved [of r d added bindable "w_db w" "wk_env k"] show ?thesis by (auto simp: on_db_def)
qed (use assms moved_refl in auto)

section \<open>Requests in progress\<close>

abbreviation accounts_of :: "db \<Rightarrow> (uuid \<times> uuid) set" where
  "accounts_of D \<equiv> set (map account_identity (db_accounts D))"

text \<open>What a send request is about to commit: a document and its delivery, for an account of the same tenant.\<close>

definition request_ok :: "(uuid \<times> uuid) set \<Rightarrow> new_row list \<Rightarrow> bool" where
  "request_ok accounts rows \<longleftrightarrow> (\<exists>doc d. rows = [New_document doc, New_delivery (delivery_to_row d)]
     \<and> dl_document_id d = doc_id doc \<and> dl_tenant_id d = doc_tenant_id doc
     \<and> (dl_provider_account_id d, dl_tenant_id d) \<in> accounts \<and> records d)"

lemma request_ok_mono: "request_ok accounts rows \<Longrightarrow> accounts \<subseteq> accounts' \<Longrightarrow> request_ok accounts' rows"
  unfolding request_ok_def by blast

lemma published_request:
  assumes "send_document_endpoint v pub cu q file (open_session D) = (Inr x, s, ms)"
  shows "request_ok (accounts_of D) (pending s)"
proof -
  obtain a where a: "get_account_by_id (sq_provider_account_id q) (open_session D) = Inr (Some a)"
    "acc_tenant_id a = cu_tenant_id cu"
    and s: "pending s = [New_document (new_document v cu q file), New_delivery (delivery_to_row (new_delivery v cu a))]"
    using assms by (auto simp: send_document_endpoint_def Let_def save_document_def save_delivery_def session_add_def
        split: sum.splits option.splits if_splits)
  have "records (new_delivery v cu a)" by (simp add: recorded_def delivery_to_row_def)
  with get_account_row [OF a(1)] a(2) s show ?thesis by (auto simp: request_ok_def)
qed

lemma commit_rows_consistent:
  assumes "commit_rows rows D = Inr D'" and "request_ok (accounts_of D) rows" and "consistent D"
  shows "moved D D'"
proof -
  from assms(2) obtain doc d where rows: "rows = [New_document doc, New_delivery (delivery_to_row d)]"
    and d: "dl_document_id d = doc_id doc" "dl_tenant_id d = doc_tenant_id doc"
      "(dl_provider_account_id d, dl_tenant_id d) \<in> accounts_of D" "records d"
    unfolding request_ok_def by blast
  from assms(1) rows have D': "D' = D\<lparr>db_documents := db_documents D @ [doc],
      db_deliveries := db_deliveries D @ [delivery_to_row d]\<rparr>" and ok: "db_ok D'"
    by (auto simp: commit_rows_def commit_def Let_def split: if_splits)
  have "linked (set (map doc_identity (db_documents D'))) (accounts_of D') (row_identity (delivery_to_row d))"
    using d by (simp add: D' row_identity_def doc_identity_def delivery_to_row_def)
  moreover have "linked (set (map doc_identity (db_documents D'))) (accounts_of D') x"
    if "x \<in> set (map row_identity (db_deliveries D))" for x
    using assms(3) that linked_mono unfolding consistent_def by (fastforce simp: D')
  ultimately show ?thesis using d(4) assms(3) ok by (auto simp: moved_def consistent_def D')
qed

text \<open>Accounts are never deleted and never change hands.\<close>

lemma keeps_accounts: "keeps D D' \<Longrightarrow> accounts_of D \<subseteq> accounts_of D'"
  by (simp add: keeps_def flip: set_map)

lemma handler_accounts:
  assumes "serve h D = (r, D', ms)"
    and "\<And>r s' ms. h (open_session D) = (r, s', ms)
      \<Longrightarrow> keeps (view (open_session D)) (view s') \<and> pending s' = pending (open_session D)"
  shows "accounts_of D \<subseteq> accounts_of D'"
  by (rule keeps_accounts, rule serve_keeps [OF assms(1)]) (drule assms(2), simp add: open_session_def)

lemma request_step_accounts:
  assumes "request_step S S'"
  shows "accounts_of (database S) \<subseteq> accounts_of (database S')"
  using assms
proof (cases rule: request_step.cases)
  case (send v publish cu q up r D ms)
  from send_endpoint_effect [OF send(2)] send(1) show ?thesis by (auto simp: sent_db_def)
next
  case (retry publish i force cu r' D ms)
  from handler_accounts [OF retry(2) handler_keeps(1)] retry(1) show ?thesis by simp
next
  case (replay publish now i force cu r' D ms)
  from handler_accounts [OF replay(2) handler_keeps(2)] replay(1) show ?thesis by simp
next
  case (batch publish clock ids force cu n D ms)
  from handler_accounts [OF batch(2) handler_keeps(3)] batch(1) show ?thesis by simp
next
  case (register new_id now rq cu ar D ms)
  from register_effect [OF register(2)] register(1) show ?thesis by auto
next
  case (activate now i cu ar D ms)
  from handler_accounts [OF activate(2) [unfolded activate_account_def] handler_keeps(5)] activate(1)
  show ?thesis by simp
next
  case (deactivate now i cu ar D ms)
  from handler_accounts [OF deactivate(2) [unfolded deactivate_account_def] handler_keeps(5)] deactivate(1)
  show ?thesis by simp
next
  case (poll publish cu r' D ms)
  from handler_accounts [OF poll(2) handler_keeps(4)] poll(1) show ?thesis by simp
qed simp

lemma run_accounts:
  assumes "send_document env R i f w = (r, w')" and "consistent (w_db w)"
  shows "db_accounts (w_db w') = db_accounts (w_db w)"
proof (cases "uuid_parse i")
  case (Inl e)
  with assms show ?thesis by (auto simp: send_document_def)
next
  case (Inr did)
  have "db_ok (w_db w)" using assms(2) by (simp add: consistent_def)
  from frame_moved [OF send_document_frame [OF assms(1) Inr this] assms(2)] show ?thesis by (simp add: moved_def)
qed

lemma background_step_accounts:
  assumes "background_step R S S'" and "consistent (database S)"
  shows "db_accounts (database S') = db_accounts (database S)"
  using assms
proof (cases rule: background_step.cases)
  case (dead_letters set_gauge publish to_str now n D ms)
  with process_dlq_frame [OF dead_letters(2)] show ?thesis by auto
qed (use assms(2) in \<open>auto dest: run_accounts\<close>)

definition cluster_ok :: "'s cluster \<Rightarrow> bool" where
  "cluster_ok C \<longleftrightarrow> consistent (cluster_db C) \<and> (\<forall>k \<in> set (cl_workers C). stage_ok (wk_stage k))
     \<and> (\<forall>rows \<in> set (cl_requests C). request_ok (accounts_of (cluster_db C)) rows)"

lemma cluster_ok_grows:
  assumes "cluster_ok C" and "consistent (database S)" and "accounts_of (cluster_db C) \<subseteq> accounts_of (database S)"
  shows "cluster_ok (C\<lparr>cl_system := S\<rparr>)"
  using assms request_ok_mono by (auto simp: cluster_ok_def)

lemma cluster_step_ok:
  assumes "cluster_step R C C'" and "cluster_ok C"
  shows "cluster_ok C'"
  using assms
proof (cases rule: cluster_step.cases)
  case (request S)
  have c: "consistent (cluster_db C)" using assms(2) by (simp add: cluster_ok_def)
  from cluster_ok_grows [OF assms(2) request_step_consistent [OF request(2) c] request_step_accounts [OF request(2)]]
  show ?thesis by (simp only: request(1))
next
  case (background S)
  have c: "consistent (cluster_db C)" using assms(2) by (simp add: cluster_ok_def)
  from cluster_ok_grows [OF assms(2) background_step_consistent [OF background(2) c]]
    background_step_accounts [OF background(2) c] show ?thesis by (simp add: background(1))
next
  case (work ks k ks' k' w')
  then show ?thesis
    using stage_step_ok [of R k "wk_stage k" "sy_world (cl_system C)"] assms(2)
    by (auto simp: cluster_ok_def worker_step_def moved_def split: prod.splits)
next
  case (publish v pub cu q up a s ms)
  with published_request [OF publish(2)] assms(2) show ?thesis by (auto simp: cluster_ok_def)
next
  case (commit ps rows qs D)
  have "moved (cluster_db C) D"
    using commit_rows_consistent [OF commit(3)] assms(2) commit(2) by (simp add: cluster_ok_def)
  with commit assms(2) show ?thesis by (auto simp: cluster_ok_def moved_def)
qed (auto simp: cluster_ok_def start_worker_def)

lemma reachable_ok: "reachable R D0 C \<Longrightarrow> consistent D0 \<Longrightarrow> cluster_ok C"
proof (induction rule: reachable.induct)
  case (start x y)
  then show ?case by (simp add: cluster_ok_def fresh_cluster_def)
next
  case (further C C')
  then show ?case by (blast intro: cluster_step_ok)
qed

lemma reachable_consistent: "reachable R D0 C \<Longrightarrow> consistent D0 \<Longrightarrow> consistent (cluster_db C)"
  using reachable_ok [of R D0 C] by (simp add: cluster_ok_def)

end
