(* ===== verification/Races.thy ===== *)
theory Races
  imports Cluster
begin

text \<open>
  Two send requests at the same time. The route looks for a document with the same internal id and answers 409
  when there is one; two requests that look before either has committed both pass, and only the unique
  constraint of the table stops the second, after its message was published.
\<close>

lemma send_endpoint_runs:
  assumes "sendable v publish cu q file a D"
  shows "send_document_endpoint v publish cu q file (open_session D) =
    (Inr (delivery_response_of (new_delivery v cu a)),
     \<lparr>view = D, pending = [New_document (new_document v cu q file), New_delivery (delivery_to_row (new_delivery v cu a))]\<rparr>,
     [Task_send (uuid_str (sv_delivery_id v)) (bytes_hex (up_bytes file))])"
  using assms
  by (simp add: sendable_def send_document_endpoint_def Let_def save_document_def save_delivery_def session_add_def
      open_session_def)

lemma commit_sent: "commit_rows [New_document (new_document v cu q file), New_delivery (delivery_to_row (new_delivery v cu a))] D =
    (if db_ok (sent_db v cu q file a D) then Inr (sent_db v cu q file a D) else Inl unique_violation)"
  by (simp add: commit_rows_def commit_def sent_db_def)

lemma internal_id_taken:
  assumes "cu_tenant_id cu' = cu_tenant_id cu" and "sq_internal_document_id q' = sq_internal_document_id q"
  shows "\<not> db_ok (sent_db v' cu' q' file' a' (sent_db v cu q file a D))"
  using assms by (simp add: db_ok_def documents_ok_def sent_db_def new_document_def create_document_def)

text \<open>C9: Two overlapping requests for the same internal document both pass the duplicate check and both publish.
  The first commit stores its document; the second raises the unique violation, for which no handler is
  registered, instead of the 409 of the check. Its message is on the broker all the same, and a worker that
  takes it finds no delivery and changes nothing.\<close>

theorem racing_duplicate_published:
  assumes "sendable v publish cu q file a D" and "sendable v' publish cu' q' file' a' D"
    and "cu_tenant_id cu' = cu_tenant_id cu" and "sq_internal_document_id q' = sq_internal_document_id q"
    and "sv_delivery_id v' \<noteq> sv_delivery_id v"
  shows "\<exists>x rows x' rows' m.
      send_document_endpoint v publish cu q file (open_session D) = (Inr x, \<lparr>view = D, pending = rows\<rparr>, [m])
    \<and> send_document_endpoint v' publish cu' q' file' (open_session D) = (Inr x', \<lparr>view = D, pending = rows'\<rparr>,
        [Task_send (uuid_str (sv_delivery_id v')) (bytes_hex (up_bytes file'))])
    \<and> commit_rows rows D = Inr (sent_db v cu q file a D)
    \<and> commit_rows rows' (sent_db v cu q file a D) = Inl unique_violation
    \<and> send_document env R (uuid_str (sv_delivery_id v')) (bytes_hex (up_bytes file')) (w\<lparr>w_db := sent_db v cu q file a D\<rparr>)
        = (Inr ''not_found'', w\<lparr>w_db := sent_db v cu q file a D\<rparr>)"
proof -
  have "filter (\<lambda>r. dr_id r = sv_delivery_id v') (db_deliveries D) = []"
    using assms(2) by (auto simp: sendable_def filter_empty_conv image_iff)
  then have "get_delivery_by_id (sv_delivery_id v') (open_session (sent_db v cu q file a D)) = Inr None"
    using assms(5) by (simp add: get_delivery_by_id_def get_row_def select_by_def load_def sent_db_def)
  then show ?thesis
    using send_endpoint_runs [OF assms(1)] send_endpoint_runs [OF assms(2)] sent_db_ok [OF assms(1)]
      internal_id_taken [OF assms(3,4)]
    by (simp add: commit_sent send_document_def run_delivery_def)
qed

abbreviation second_send :: send_env where
  "second_send \<equiv> sample_send_env\<lparr>sv_document_id := 23, sv_delivery_id := 24\<rparr>"

lemma second_sendable:
  "sendable second_send (\<lambda>m. Inr ()) sample_cu sample_send_request sample_upload sample_account account_db"
  using sample_sendable by (simp add: sendable_def account_db_def empty_db_def)

theorem racing_duplicate_published_witness:
  "\<exists>rows'. send_document_endpoint second_send (\<lambda>m. Inr ()) sample_cu sample_send_request sample_upload
        (open_session account_db)
      = (Inr (delivery_response_of (new_delivery second_send sample_cu sample_account)), \<lparr>view = account_db, pending = rows'\<rparr>,
         [Task_send (uuid_str 24) (bytes_hex [1, 2])])
    \<and> commit_rows rows' (sent_db sample_send_env sample_cu sample_send_request sample_upload sample_account account_db)
      = Inl unique_violation"
proof -
  have ids: "sv_delivery_id second_send \<noteq> sv_delivery_id sample_send_env" "up_bytes sample_upload = [1, 2]"
    by (simp_all add: sample_send_env_def sample_upload_def)
  from racing_duplicate_published [OF sample_sendable second_sendable refl refl ids(1)] ids(2)
  show ?thesis by (auto simp: send_endpoint_runs [OF second_sendable])
qed

end
