(* ===== verification/Gateway.thy ===== *)
theory Gateway
  imports System
begin

text \<open>
  The web application as one function: every route of \<open>src/presentation/api/v1\<close> that \<open>main.create_app\<close> mounts, behind
  the dependency its signature names (\<open>AuthUser\<close>, \<open>AdminUser\<close>, or none). The framework validates a call and
  extracts the bearer token before any of this code runs: a call is given with its validated arguments, and the
  token, or the error the framework answers when there is none, is part of it. The lemmas show what a call
  may do to the data of a tenant it was not made for.
\<close>

section \<open>Calls\<close>

datatype public_call =
    Login string string
  | Refresh string
  | Live
  | Ready
  | Diadoc_webhook uuid "(string \<times> string) list" bytes
  | Sbis_webhook uuid "(string \<times> string) list" bytes
  | Kontur_webhook uuid "(string \<times> string) list" bytes

datatype user_call =
    Me
  | Register_account account_request
  | List_accounts bool
  | Get_account uuid
  | Activate_account uuid
  | Deactivate_account uuid
  | Send_document send_request upload
  | List_documents nat nat
  | Get_document uuid
  | List_deliveries uuid
  | Document_status uuid
  | Retry_document uuid bool
  | List_dlq nat nat
  | Get_dlq uuid
  | Replay uuid bool
  | Replay_batch "uuid list" bool
  | List_incoming nat nat
  | Get_incoming uuid
  | Trigger_poll
  | Document_timeline uuid nat nat
  | Delivery_timeline uuid nat nat
  | Provider_types

datatype api_call = Public public_call | With_token "string res" user_call

datatype api_reply =
    Tokens token_response | A_user user_response
  | An_account account_response | Accounts "account_response list"
  | A_document document_response | Documents "document_response list"
  | A_delivery delivery_response | Deliveries "delivery_response list"
  | A_status document_status_response
  | A_dead_letter dlq_response | Dead_letters "dlq_response list"
  | Time_line "audit_response page"
  | Incoming incoming_response | Incoming_page "incoming_response page"
  | Types "(string \<times> string \<times> string) list"
  | Health health_response | Status_text string | Replayed nat

text \<open>What a request takes from outside: libraries, settings, clock readings, fresh uuids, the broker, and the
  answers of the two health probes.\<close>

record api_env =
  ae_lib :: token_lib
  ae_checkpw :: "string \<Rightarrow> string \<Rightarrow> bool res"
  ae_settings :: settings
  ae_clock :: "nat \<Rightarrow> time"
  ae_uuid :: "nat \<Rightarrow> uuid"
  ae_publish :: publisher
  ae_send :: send_env
  ae_db_ping :: "unit res"
  ae_redis_ping :: "unit res"

section \<open>Routes\<close>

definition replying :: "('a \<Rightarrow> api_reply) \<Rightarrow> 'a request \<Rightarrow> api_reply request" where
  "replying f h s = (case h s of (r, s', ms) \<Rightarrow> (map_sum id f r, s', ms))"

abbreviation showing :: "('a \<Rightarrow> api_reply) \<Rightarrow> (session \<Rightarrow> 'a res) \<Rightarrow> api_reply request" where
  "showing f g \<equiv> replying f (reading g)"

definition webhook_route :: "publisher \<Rightarrow> uuid \<Rightarrow> (string \<times> string) list \<Rightarrow> bytes \<Rightarrow> string request" where
  "webhook_route publish i headers body s =
     (case dispatch_webhook publish i headers body of (r, ms) \<Rightarrow> (r, s, ms))"

fun open_route :: "api_env \<Rightarrow> public_call \<Rightarrow> api_reply request" where
  "open_route E (Login email password) =
     showing Tokens (login (ae_lib E) (ae_checkpw E) (ae_settings E) (ae_clock E 1) (ae_clock E 2)
       (ae_uuid E 1) (ae_uuid E 2) email password)"
| "open_route E (Refresh token) =
     showing Tokens (refresh (ae_lib E) (ae_settings E) (ae_clock E 0) (ae_clock E 1) (ae_clock E 2)
       (ae_uuid E 1) (ae_uuid E 2) token)"
| "open_route E Live = showing Status_text (\<lambda>s. Inr ''ok'')"
| "open_route E Ready = showing Health (\<lambda>s. Inr (readiness (ae_settings E) (ae_db_ping E) (ae_redis_ping E)))"
| "open_route E (Diadoc_webhook i headers body) = replying Status_text (webhook_route (ae_publish E) i headers body)"
| "open_route E (Sbis_webhook i headers body) = replying Status_text (webhook_route (ae_publish E) i headers body)"
| "open_route E (Kontur_webhook i headers body) = replying Status_text (webhook_route (ae_publish E) i headers body)"

fun user_route :: "api_env \<Rightarrow> current_user \<Rightarrow> user_call \<Rightarrow> api_reply request" where
  "user_route E cu Me = showing A_user (me cu)"
| "user_route E cu (Register_account q) =
     replying An_account (register_provider_account (ae_uuid E 1) (ae_clock E 1) q cu)"
| "user_route E cu (List_accounts active_only) = showing Accounts (list_provider_accounts cu active_only)"
| "user_route E cu (Get_account i) = showing An_account (get_provider_account i cu)"
| "user_route E cu (Activate_account i) = replying An_account (activate_account (ae_clock E 1) i cu)"
| "user_route E cu (Deactivate_account i) = replying An_account (deactivate_account (ae_clock E 1) i cu)"
| "user_route E cu (Send_document q file) =
     replying A_delivery (send_document_endpoint (ae_send E) (ae_publish E) cu q file)"
| "user_route E cu (List_documents offset limit) = showing Documents (list_documents cu offset limit)"
| "user_route E cu (Get_document i) = showing A_document (get_document i cu)"
| "user_route E cu (List_deliveries i) = showing Deliveries (list_deliveries i cu)"
| "user_route E cu (Document_status i) = showing A_status (get_document_status i cu)"
| "user_route E cu (Retry_document i force) = replying Status_text (retry_document (ae_publish E) i force cu)"
| "user_route E cu (List_dlq offset limit) = showing Dead_letters (list_dlq cu offset limit)"
| "user_route E cu (Get_dlq i) = showing A_dead_letter (get_dlq_entry i cu)"
| "user_route E cu (Replay i force) =
     replying Status_text (replay_dlq_entry (ae_publish E) (ae_clock E 1) i force cu)"
| "user_route E cu (Replay_batch ids force) =
     replying Replayed (replay_batch (ae_publish E) (\<lambda>n. ae_clock E (n + 1)) ids force cu)"
| "user_route E cu (List_incoming limit offset) = showing Incoming_page (list_incoming cu limit offset)"
| "user_route E cu (Get_incoming i) = showing Incoming (get_incoming i cu)"
| "user_route E cu Trigger_poll = replying Status_text (trigger_poll (ae_publish E) cu)"
| "user_route E cu (Document_timeline i limit offset) =
     showing Time_line (\<lambda>s. Inr (document_audit_timeline i cu limit offset s))"
| "user_route E cu (Delivery_timeline i limit offset) =
     showing Time_line (\<lambda>s. Inr (delivery_audit_timeline i cu limit offset s))"
| "user_route E cu Provider_types = showing Types (\<lambda>s. Inr list_provider_types)"

definition identify :: "api_env \<Rightarrow> string res \<Rightarrow> current_user res" where
  "identify E token = and_then token (get_current_user (ae_lib E) (ae_settings E) (ae_clock E 0))"

fun route :: "api_env \<Rightarrow> api_call \<Rightarrow> api_reply request" where
  "route E (Public p) = open_route E p"
| "route E (With_token token c) =
     (\<lambda>s. case identify E token of Inl e \<Rightarrow> (Inl e, s, []) | Inr cu \<Rightarrow> user_route E cu c s)"

text \<open>A request, in its own session.\<close>

definition respond :: "api_env \<Rightarrow> api_call \<Rightarrow> db \<Rightarrow> api_reply res \<times> db \<times> task_msg list" where
  "respond E c = serve (route E c)"

text \<open>The routes that ask for \<open>AdminUser\<close>, and the ones that write: the other routes only read.\<close>

fun admin_only :: "user_call \<Rightarrow> bool" where
  "admin_only (Register_account q) = True"
| "admin_only (Activate_account i) = True"
| "admin_only (Deactivate_account i) = True"
| "admin_only (Replay i force) = True"
| "admin_only (Replay_batch ids force) = True"
| "admin_only Trigger_poll = True"
| "admin_only c = False"

fun writes :: "user_call \<Rightarrow> bool" where
  "writes (Send_document q file) = True"
| "writes (Retry_document i force) = True"
| "writes c = admin_only c"

section \<open>Who may do what\<close>

lemma serve_replying: "serve (replying f h) D = (case serve h D of (r, D', ms) \<Rightarrow> (map_sum id f r, D', ms))"
  by (auto simp: serve_def replying_def split: prod.splits sum.splits)

lemma serve_refused: "h (open_session D) = (Inl e, s, []) \<Longrightarrow> serve h D = (Inl e, D, [])"
  by (simp add: serve_def)

lemma serve_reading_keeps: "snd (serve (reading g) D) = (D, [])"
  by (auto simp: serve_def reading_def commit_def open_session_def Let_def split: sum.splits)

lemma serve_route_user:
  "serve (route E (With_token token c)) D =
     (case identify E token of Inl e \<Rightarrow> (Inl e, D, []) | Inr cu \<Rightarrow> serve (user_route E cu c) D)"
  by (simp add: serve_def split: sum.splits)

lemma admin_route_refused:
  "admin_only c \<Longrightarrow> \<not> is_admin cu \<Longrightarrow> user_route E cu c s = (Inl (ErrHTTP 403 ''Admin role required''), s, [])"
  by (cases c) (simp_all add: replying_def require_admin_def register_provider_account_def activate_account_def
      deactivate_account_def change_account_def replay_dlq_entry_def replay_batch_def trigger_poll_def)

lemma reading_route: "\<not> writes c \<Longrightarrow> \<exists>g. \<forall>s. user_route E cu c s = (g s, s, [])"
  by (cases c) (auto simp: replying_def reading_def)

lemma reading_route_keeps:
  assumes "\<not> writes c"
  shows "snd (serve (user_route E cu c) D) = (D, [])"
proof -
  obtain g where "user_route E cu c s = (g s, s, [])" for s using reading_route [OF assms] by blast
  then have "user_route E cu c = reading g" by (simp add: fun_eq_iff reading_def)
  then show ?thesis by (simp add: serve_reading_keeps)
qed

text \<open>C26: Access is refused before anything happens. A call whose token the framework or the token check rejects is
  answered with that error; a call to one of the six administrator's routes by a user of another role is
  answered 403; neither changes the database nor puts a message on the broker, and neither does any call
  to a route that is not among the eight that write.\<close>

theorem access_refused_without_effect:
  "case identify E token of
     Inl e \<Rightarrow> respond E (With_token token c) D = (Inl e, D, [])
   | Inr cu \<Rightarrow>
       (admin_only c \<and> cu_role cu \<noteq> ''admin''
          \<longrightarrow> respond E (With_token token c) D = (Inl (ErrHTTP 403 ''Admin role required''), D, []))
       \<and> (\<not> writes c \<longrightarrow> snd (respond E (With_token token c) D) = (D, []))"
proof (cases "identify E token")
  case (Inl e)
  then show ?thesis by (simp add: respond_def serve_route_user del: route.simps)
next
  case (Inr cu)
  have "admin_only c \<Longrightarrow> cu_role cu \<noteq> ''admin''
      \<Longrightarrow> serve (user_route E cu c) D = (Inl (ErrHTTP 403 ''Admin role required''), D, [])"
    by (rule serve_refused [OF admin_route_refused]) (simp_all add: is_admin_def)
  with Inr show ?thesis
    using reading_route_keeps [of c E cu D] by (simp add: respond_def serve_route_user del: route.simps)
qed

definition viewer_api :: api_env where
  "viewer_api =
     \<lparr>ae_lib = sample_lib\<lparr>tl_decode := (\<lambda>k t. Inr (JObj
        [(''sub'', JStr (uuid_str 1)), (''exp'', JStr ''never''), (''type'', JStr ''access''),
         (''tenant_id'', JStr (uuid_str 2)), (''role'', JStr ''viewer'')]))\<rparr>,
      ae_checkpw = (\<lambda>p h. Inr True), ae_settings = default_settings, ae_clock = (\<lambda>n. 0),
      ae_uuid = (\<lambda>n. 40), ae_publish = (\<lambda>m. Inr ()), ae_send = sample_send_env, ae_db_ping = Inr (),
      ae_redis_ping = Inr ()\<rparr>"

lemma viewer_identified: "identify viewer_api (Inr token) = Inr sample_cu"
  by (simp add: identify_def viewer_api_def get_current_user_def decode_token_def token_payload_def sample_lib_def
      payload_uuid_def dict_item_def catch_malformed_def sample_cu_def)

theorem access_refused_without_effect_witness:
  "respond viewer_api (With_token (Inr ''T'') Trigger_poll) account_db =
     (Inl (ErrHTTP 403 ''Admin role required''), account_db, [])
   \<and> respond viewer_api (With_token (Inl (ErrHTTP 403 ''Not authenticated'')) Trigger_poll) account_db =
     (Inl (ErrHTTP 403 ''Not authenticated''), account_db, [])"
proof -
  have "identify viewer_api (Inl e) = Inl e" for e by (simp add: identify_def)
  moreover have "cu_role sample_cu \<noteq> ''admin''" by (simp add: sample_cu_def)
  ultimately show ?thesis
    using access_refused_without_effect [of viewer_api "Inr ''T''" Trigger_poll account_db]
      access_refused_without_effect [of viewer_api "Inl (ErrHTTP 403 ''Not authenticated'')" Trigger_poll account_db]
    by (simp add: viewer_identified)
qed

section \<open>Calls are steps of the system\<close>

lemma user_route_step:
  assumes "serve (user_route E cu c) (database S) = (r, D, ms)"
  shows "request_step S (after_request D ms S) \<or> D = database S \<and> ms = []"
proof (cases "writes c")
  case False
  with reading_route_keeps [OF False, of E cu "database S"] assms show ?thesis by simp
next
  case True
  then show ?thesis
    using assms by (cases c) (auto simp: serve_replying split: prod.splits intro: request_step.intros)
qed

lemma respond_step:
  assumes "respond E c (database S) = (r, D, ms)"
  shows "request_step S (after_request D ms S) \<or> D = database S \<and> ms = []"
proof (cases c)
  case (With_token token u)
  with assms user_route_step [of E _ u S r D ms] show ?thesis
    by (auto simp: respond_def serve_route_user simp del: route.simps split: sum.splits)
next
  case (Public p)
  have hook: "request_step S (after_request D' ms' S)"
    if "serve (webhook_route (ae_publish E) i headers body) (database S) = (r', D', ms')" for i headers body r' D' ms'
  proof -
    obtain x where x: "dispatch_webhook (ae_publish E) i headers body = (x, snd (dispatch_webhook (ae_publish E) i headers body))"
      by (metis prod.collapse)
    from that have "D' = database S \<and> ms' = snd (dispatch_webhook (ae_publish E) i headers body)"
      by (cases "dispatch_webhook (ae_publish E) i headers body")
        (auto simp: serve_def webhook_route_def commit_def open_session_def Let_def split: sum.splits if_splits)
    then show ?thesis using request_step.webhook [OF x] by simp
  qed
  have read: "D' = database S \<and> ms' = []" if "serve (reading g) (database S) = (r', D', ms')" for g r' D' ms'
    using serve_reading_keeps [of g "database S"] that by simp
  from Public assms show ?thesis
    by (cases p) (auto simp: respond_def serve_replying split: prod.splits dest: hook read)
qed

lemma respond_consistent: "respond E c D = (r, D', ms) \<Longrightarrow> consistent D \<Longrightarrow> consistent D'"
  using respond_step [of E c "\<lparr>sy_world = \<lparr>w_db = D, w_redis = (), w_stub = stub_empty\<rparr>, sy_queue = []\<rparr>" r D' ms]
    request_step_consistent by fastforce

end
