(* ===== verification/Isolation.thy ===== *)
theory Isolation
  imports Gateway
begin

text \<open>
  Tenants do not interfere through the API. What a tenant can read is a part of the database (\<open>same_for\<close> compares
  two databases on it); each writing route spares it for every tenant but the caller's (the retry route
  excepted, which does not look at the tenant), and each reading route depends on nothing else.
\<close>

section \<open>The part of the database a tenant reads\<close>

definition same_for :: "uuid \<Rightarrow> db \<Rightarrow> db \<Rightarrow> bool" where
  "same_for t D D' \<longleftrightarrow> db_users D' = db_users D \<and> db_incoming D' = db_incoming D \<and> db_audit D' = db_audit D
     \<and> filter (\<lambda>r. ar_tenant_id r = t) (db_accounts D') = filter (\<lambda>r. ar_tenant_id r = t) (db_accounts D)
     \<and> filter (\<lambda>r. doc_tenant_id r = t) (db_documents D') = filter (\<lambda>r. doc_tenant_id r = t) (db_documents D)
     \<and> filter (\<lambda>r. dr_tenant_id r = t) (db_deliveries D') = filter (\<lambda>r. dr_tenant_id r = t) (db_deliveries D)
     \<and> filter (\<lambda>e. dlq_tenant_id e = t) (db_dlq D') = filter (\<lambda>e. dlq_tenant_id e = t) (db_dlq D)"

lemma same_for_refl [simp]: "same_for t D D"
  by (simp add: same_for_def)

lemma same_for_trans [trans]: "same_for t D D' \<Longrightarrow> same_for t D' D'' \<Longrightarrow> same_for t D D''"
  by (simp add: same_for_def)

text \<open>Every stored provider type is one of the enumeration, as \<open>register_provider_account\<close> writes it.\<close>

definition types_known :: "db \<Rightarrow> bool" where
  "types_known D \<longleftrightarrow> (\<forall>r \<in> set (db_accounts D). parse_provider_type (ar_provider_type r) \<noteq> None)"

definition spares :: "uuid \<Rightarrow> db \<Rightarrow> db \<Rightarrow> bool" where
  "spares t D D' \<longleftrightarrow> same_for t D D' \<and> (types_known D \<longrightarrow> types_known D')"

lemma spares_refl [simp]: "spares t D D"
  by (simp add: spares_def)

lemma spares_trans [trans]: "spares t D D' \<Longrightarrow> spares t D' D'' \<Longrightarrow> spares t D D''"
  by (auto simp: spares_def intro: same_for_trans)

section \<open>Writing routes\<close>

lemma filter_update_other:
  assumes "\<And>r. r \<in> set rows \<Longrightarrow> key r = i \<Longrightarrow> ten r \<noteq> t" and "\<And>r. ten (f r) = ten r"
  shows "filter (\<lambda>r. ten r = t) (update_by key i f rows) = filter (\<lambda>r. ten r = t) rows"
  using assms(1) by (induction rows) (auto simp: update_by_def assms(2))

lemma provider_to_entity_fields:
  "provider_to_entity r = Inr a \<Longrightarrow> acc_id a = ar_id r \<and> acc_tenant_id a = ar_tenant_id r"
  by (auto simp: provider_to_entity_def split: option.splits)

lemma own_account_rows:
  assumes "own_account i cu s = Inr a" and "r \<in> set (db_accounts (view s))" and "ar_id r = acc_id a"
  shows "ar_tenant_id r = cu_tenant_id cu"
proof -
  from assms(1) obtain x where x: "filter (\<lambda>r. ar_id r = i) (db_accounts (view s)) = [x]"
    "provider_to_entity x = Inr a" "acc_tenant_id a = cu_tenant_id cu"
    by (auto simp: own_account_def get_account_by_id_def get_row_def select_by_def load_scalar_Some and_then_Inr_iff
        split: option.splits if_splits)
  then have "ar_id x = i" by (auto dest: filter_eq_ConsD)
  then have "r \<in> set (filter (\<lambda>r. ar_id r = i) (db_accounts (view s)))"
    using assms(2,3) provider_to_entity_fields [OF x(2)] by simp
  with x provider_to_entity_fields [OF x(2)] show ?thesis by simp
qed

lemma own_entry_rows:
  assumes "own_entry i cu s = Inr (Some e)" and "r \<in> set (db_dlq (view s))" and "dlq_id r = dlq_id e"
  shows "dlq_tenant_id r = cu_tenant_id cu"
proof -
  from assms(1) obtain x where x: "filter (\<lambda>r. dlq_id r = i) (db_dlq (view s)) = [x]" "e = x"
    "dlq_tenant_id e = cu_tenant_id cu"
    by (auto simp: own_entry_def get_dlq_by_id_def get_row_def select_by_def load_scalar_Some and_then_Inr_iff
        dlq_to_entity_def split: option.splits if_splits)
  then have "dlq_id x = i" by (auto dest: filter_eq_ConsD)
  then have "r \<in> set (filter (\<lambda>r. dlq_id r = i) (db_dlq (view s)))" using assms(2,3) x(2) by simp
  with x show ?thesis by simp
qed

lemma change_account_spares:
  assumes "change_account f i cu s = (r, s', ms)" and "cu_tenant_id cu \<noteq> t" and "\<And>a. acc_id (f a) = acc_id a"
  shows "spares t (view s) (view s') \<and> pending s' = pending s"
proof (cases "and_then (require_admin cu) (\<lambda>_. own_account i cu s)")
  case (Inl e)
  with assms(1) show ?thesis by (simp add: change_account_def)
next
  case (Inr a)
  then have own: "own_account i cu s = Inr a" by (auto simp: and_then_Inr_iff)
  have "filter (\<lambda>r. ar_tenant_id r = t) (update_by ar_id (acc_id a) (account_merge (f a)) (db_accounts (view s)))
      = filter (\<lambda>r. ar_tenant_id r = t) (db_accounts (view s))"
    using own_account_rows [OF own] assms(2) by (intro filter_update_other) (auto simp: account_merge_def)
  with assms(1,3) Inr show ?thesis
    by (auto simp: change_account_def update_account_def write_view_Inr spares_def same_for_def types_known_def
        update_by_def account_merge_def split: sum.splits)
qed

lemma replay_entry_spares:
  assumes "replay_entry publish now e s = (r, s', ms)" and "own_entry i cu s = Inr (Some e)"
    and "cu_tenant_id cu \<noteq> t"
  shows "spares t (view s) (view s') \<and> pending s' = pending s"
proof -
  have "filter (\<lambda>r. dlq_tenant_id r = t) (update_by dlq_id (dlq_id e) (dlq_merge (mark_replayed now e)) (db_dlq (view s)))
      = filter (\<lambda>r. dlq_tenant_id r = t) (db_dlq (view s))"
    using own_entry_rows [OF assms(2)] assms(3) by (intro filter_update_other) (auto simp: dlq_merge_def)
  with assms(1) show ?thesis
    by (auto simp: replay_entry_def update_dlq_def write_view_Inr spares_def same_for_def types_known_def
        split: sum.splits)
qed

lemma replay_each_spares:
  assumes "cu_tenant_id cu \<noteq> t"
  shows "replay_each publish clock force cu ids n s = (r, s', ms)
    \<Longrightarrow> spares t (view s) (view s') \<and> pending s' = pending s"
proof (induction ids arbitrary: n s r s' ms)
  case (Cons i ids)
  then show ?case
    by (auto split: if_splits sum.splits prod.splits option.splits dest!: replay_entry_spares [OF _ _ assms]
        intro: spares_trans)
qed simp

text \<open>A handler that spares the tenant and adds no row does so through its commit.\<close>

lemma serve_spares:
  assumes "serve h D = (r, D', ms)"
    and "\<And>r s' ms. h (open_session D) = (r, s', ms) \<Longrightarrow> spares t (view (open_session D)) (view s') \<and> pending s' = []"
  shows "spares t D D'"
  using assms(1) assms(2) [of "fst (h (open_session D))" "fst (snd (h (open_session D)))" "snd (snd (h (open_session D)))"]
  by (auto simp: serve_def commit_def Let_def split: prod.splits sum.splits if_splits)

lemma change_account_serve:
  assumes "serve (change_account f i cu) D = (r, D', ms)" and "cu_tenant_id cu \<noteq> t" and "\<And>a. acc_id (f a) = acc_id a"
  shows "spares t D D'"
  by (rule serve_spares [OF assms(1)]) (drule change_account_spares [OF _ assms(2,3)], simp)

lemma replay_serve:
  assumes "serve (replay_dlq_entry publish now i force cu) D = (r, D', ms)" and "cu_tenant_id cu \<noteq> t"
  shows "spares t D D'"
  by (rule serve_spares [OF assms(1)])
    (auto simp: replay_dlq_entry_def split: sum.splits option.splits if_splits prod.splits
      dest!: replay_entry_spares [OF _ _ assms(2)])

lemma replay_batch_serve:
  assumes "serve (replay_batch publish clock ids force cu) D = (r, D', ms)" and "cu_tenant_id cu \<noteq> t"
  shows "spares t D D'"
  by (rule serve_spares [OF assms(1)])
    (auto simp: replay_batch_def split: sum.splits dest!: replay_each_spares [OF assms(2)])

lemma register_serve:
  assumes "serve (register_provider_account new_id now q cu) D = (r, D', ms)" and "cu_tenant_id cu \<noteq> t"
  shows "spares t D D'"
  using assms
  by (auto simp: serve_def register_provider_account_def Let_def commit_def save_account_def session_add_def
      spares_def same_for_def types_known_def account_to_row_def create_account_def
      split: sum.splits option.splits if_splits)

lemma send_serve:
  assumes "serve (send_document_endpoint v publish cu q file) D = (r, D', ms)" and "cu_tenant_id cu \<noteq> t"
  shows "spares t D D'"
  using send_endpoint_effect [OF assms(1)] assms(2)
  by (auto simp: sent_db_def spares_def same_for_def types_known_def delivery_to_row_def)

lemma trigger_poll_serve: "serve (trigger_poll publish cu) D = (r, D', ms) \<Longrightarrow> spares t D D'"
  by (erule serve_spares) (auto simp: trigger_poll_def split: sum.splits)

fun retries :: "user_call \<Rightarrow> bool" where
  "retries (Retry_document i force) = True"
| "retries c = False"

lemma user_route_spares:
  assumes "serve (user_route E cu c) D = (r, D', ms)" and "cu_tenant_id cu \<noteq> t" and "\<not> retries c"
  shows "spares t D D'"
proof (cases "writes c")
  case False
  with reading_route_keeps [OF False, of E cu D] assms(1) show ?thesis by simp
next
  case True
  have "acc_id (activate now a) = acc_id a" "acc_id (deactivate now a) = acc_id a" for now a
    by (simp_all add: activate_def deactivate_def)
  then show ?thesis
    using True assms by (cases c)
      (auto simp: serve_replying activate_account_def deactivate_account_def split: prod.splits
        dest: register_serve change_account_serve send_serve replay_serve replay_batch_serve trigger_poll_serve)
qed

section \<open>Reading routes\<close>

lemma own_lookup:
  assumes "distinct (map key rows)" and "\<And>r. r \<in> set rows \<Longrightarrow> \<exists>e. of_row r = Inr e \<and> tenant e = ten r"
  shows "and_then (get_row of_row key i rows)
      (\<lambda>o'. case o' of None \<Rightarrow> A | Some e \<Rightarrow> if tenant e \<noteq> t then A else F e) =
    (case filter (\<lambda>r. key r = i) (filter (\<lambda>r. ten r = t) rows) of [] \<Rightarrow> A | r # rs \<Rightarrow> and_then (of_row r) F)"
proof (cases "\<exists>r \<in> set rows. key r = i")
  case True
  then obtain r where r: "r \<in> set rows" "key r = i" by blast
  with distinct_filter_one [OF assms(1) r(1)] have one: "filter (\<lambda>r. key r = i) rows = [r]" by simp
  have "filter (\<lambda>r. key r = i) (filter (\<lambda>r. ten r = t) rows) = filter (\<lambda>r. ten r = t) (filter (\<lambda>r. key r = i) rows)"
    by (simp add: conj_commute)
  with one assms(2) [OF r(1)] show ?thesis by (auto simp: get_row_def select_by_def load_def)
next
  case False
  then have "filter (\<lambda>r. key r = i) rows = []" by (auto simp: filter_empty_conv)
  moreover from False have "filter (\<lambda>r. key r = i) (filter (\<lambda>r. ten r = t) rows) = []"
    by (auto simp: filter_empty_conv)
  ultimately show ?thesis by (simp only: get_row_def select_by_def scalar_simps load_def and_then_simps option.case list.case)
qed

lemma same_document:
  assumes "same_for (cu_tenant_id cu) D D'" and "db_ok D" and "db_ok D'"
  shows "own_document i cu (open_session D') = own_document i cu (open_session D)"
proof -
  have "own_document i cu (open_session E) =
      (case filter (\<lambda>r. doc_id r = i) (filter (\<lambda>r. doc_tenant_id r = cu_tenant_id cu) (db_documents E)) of
         [] \<Rightarrow> Inl (ErrHTTP 404 ''Document not found'') | r # rs \<Rightarrow> and_then (document_to_entity r) Inr)"
    if "db_ok E" for E
    unfolding own_document_def get_document_by_id_def open_session_view
    using that by (intro own_lookup) (simp_all add: db_ok_def documents_ok_def document_to_entity_def)
  with assms show ?thesis by (simp add: same_for_def del: filter_filter)
qed

lemma same_account:
  assumes "same_for (cu_tenant_id cu) D D'" and "db_ok D" and "db_ok D'" and "types_known D" and "types_known D'"
  shows "own_account i cu (open_session D') = own_account i cu (open_session D)"
proof -
  have "own_account i cu (open_session E) =
      (case filter (\<lambda>r. ar_id r = i) (filter (\<lambda>r. ar_tenant_id r = cu_tenant_id cu) (db_accounts E)) of
         [] \<Rightarrow> Inl (ErrHTTP 404 ''Account not found'') | r # rs \<Rightarrow> and_then (provider_to_entity r) Inr)"
    if "db_ok E" "types_known E" for E
    unfolding own_account_def get_account_by_id_def open_session_view
    using that by (intro own_lookup) (auto simp: db_ok_def accounts_ok_def types_known_def provider_to_entity_def)
  with assms show ?thesis by (simp add: same_for_def del: filter_filter)
qed

lemma same_entry:
  assumes "same_for (cu_tenant_id cu) D D'" and "db_ok D" and "db_ok D'"
  shows "own_entry i cu (open_session D') = own_entry i cu (open_session D)"
proof -
  have "own_entry i cu (open_session E) =
      (case filter (\<lambda>r. dlq_id r = i) (filter (\<lambda>r. dlq_tenant_id r = cu_tenant_id cu) (db_dlq E)) of
         [] \<Rightarrow> Inr None | r # rs \<Rightarrow> and_then (dlq_to_entity r) (\<lambda>e. Inr (Some e)))"
    if "db_ok E" for E
    unfolding own_entry_def get_dlq_by_id_def open_session_view
    using that by (intro own_lookup) (simp_all add: db_ok_def dlq_to_entity_def)
  with assms show ?thesis by (simp add: same_for_def del: filter_filter)
qed

lemma deliveries_of_own:
  assumes "consistent D" and "own_document i cu (open_session D) = Inr d"
  shows "filter (\<lambda>r. dr_document_id r = i) (db_deliveries D) =
    filter (\<lambda>r. dr_document_id r = i) (filter (\<lambda>r. dr_tenant_id r = cu_tenant_id cu) (db_deliveries D))"
proof -
  have ok: "distinct (map doc_id (db_documents D))" using assms(1) by (simp add: consistent_def db_ok_def documents_ok_def)
  obtain "d \<in> set (db_documents D)" "doc_id d = i" "doc_tenant_id d = cu_tenant_id cu"
    using assms(2) by (auto simp: own_document_def get_document_by_id_def get_row_def select_by_def load_scalar_Some
        and_then_Inr_iff document_to_entity_def split: option.splits if_splits dest!: filter_eq_ConsD)
  then have "dr_tenant_id r = cu_tenant_id cu" if "r \<in> set (db_deliveries D)" "dr_document_id r = i" for r
    using assms(1) that inj_onD [OF ok [THEN distinct_map [THEN iffD1, THEN conjunct2]]]
    by (fastforce simp: consistent_def row_identity_def doc_identity_def)
  then show ?thesis by (simp cong: filter_cong) (rule filter_cong, auto)
qed

lemma same_deliveries:
  assumes "same_for (cu_tenant_id cu) D D'" and "consistent D" and "consistent D'"
    and "own_document i cu (open_session D) = Inr d"
  shows "list_by_document i (open_session D') = list_by_document i (open_session D)"
proof -
  have "db_ok D" "db_ok D'" using assms(2,3) by (simp_all add: consistent_def)
  then have own: "own_document i cu (open_session D') = Inr d" using same_document [OF assms(1)] assms(4) by simp
  show ?thesis
    unfolding list_by_document_def open_session_view deliveries_of_own [OF assms(2,4)] deliveries_of_own [OF assms(3) own]
    using assms(1) by (simp add: same_for_def del: filter_filter)
qed

lemma same_listing:
  assumes "same_for (cu_tenant_id cu) D D'"
  shows "list_documents cu offset limit (open_session D') = list_documents cu offset limit (open_session D)"
    and "list_dlq cu offset limit (open_session D') = list_dlq cu offset limit (open_session D)"
    and "list_incoming cu limit offset (open_session D') = list_incoming cu limit offset (open_session D)"
    and "get_incoming i cu (open_session D') = get_incoming i cu (open_session D)"
    and "me cu (open_session D') = me cu (open_session D)"
    and "audit_timeline rt i cu limit offset (open_session D') = audit_timeline rt i cu limit offset (open_session D)"
  using assms by (simp_all add: same_for_def list_documents_def list_documents_by_tenant_def list_dlq_def
      list_dlq_by_tenant_def list_incoming_def get_incoming_def me_def audit_timeline_def)

lemma same_accounts:
  assumes "same_for (cu_tenant_id cu) D D'"
  shows "list_provider_accounts cu act (open_session D') = list_provider_accounts cu act (open_session D)"
proof -
  have "filter (\<lambda>r. act \<longrightarrow> ar_is_active r) (filter (\<lambda>r. ar_tenant_id r = cu_tenant_id cu) (db_accounts D')) =
      filter (\<lambda>r. act \<longrightarrow> ar_is_active r) (filter (\<lambda>r. ar_tenant_id r = cu_tenant_id cu) (db_accounts D))"
    using assms by (simp add: same_for_def del: filter_filter)
  then show ?thesis by (simp add: list_provider_accounts_def list_accounts_by_tenant_def)
qed

lemma same_reading:
  assumes "same_for (cu_tenant_id cu) D D'" and "consistent D" and "consistent D'"
    and "types_known D" and "types_known D'" and "\<not> writes c"
  shows "fst (serve (user_route E cu c) D') = fst (serve (user_route E cu c) D)"
proof -
  have ok: "db_ok D" "db_ok D'" using assms(2,3) by (simp_all add: consistent_def)
  note one = same_document [OF assms(1) ok] same_account [OF assms(1) ok assms(4,5)] same_entry [OF assms(1) ok]
  have "list_deliveries i cu (open_session D') = list_deliveries i cu (open_session D)"
    "get_document_status i cu (open_session D') = get_document_status i cu (open_session D)" for i
    using same_deliveries [OF assms(1-3)]
    by (cases "own_document i cu (open_session D)"; simp add: list_deliveries_def get_document_status_def one)+
  then show ?thesis
    using assms(6) ok by (cases c)
      (simp_all add: serve_replying serve_reading one same_listing [OF assms(1)] same_accounts [OF assms(1)]
        get_provider_account_def get_document_def get_dlq_entry_def document_audit_timeline_def
        delivery_audit_timeline_def)
qed

section \<open>No interference\<close>

text \<open>A call that is not made for the tenant: public, or with a rejected token, or by a user of another tenant;
  and not a retry.\<close>

fun foreign :: "uuid \<Rightarrow> api_env \<times> api_call \<Rightarrow> bool" where
  "foreign t (E, Public p) = True"
| "foreign t (E, With_token token c) =
     ((case identify E token of Inl e \<Rightarrow> True | Inr cu \<Rightarrow> cu_tenant_id cu \<noteq> t) \<and> \<not> retries c)"

fun after_calls :: "(api_env \<times> api_call) list \<Rightarrow> db \<Rightarrow> db" where
  "after_calls [] D = D"
| "after_calls ((E, c) # cs) D = after_calls cs (fst (snd (respond E c D)))"

lemma serve_replying_db: "fst (snd (serve (replying f h) D)) = fst (snd (serve h D))"
  by (simp add: serve_replying split: prod.split)

lemma webhook_route_keeps: "fst (snd (serve (webhook_route publish i headers body) D)) = D"
  by (auto simp: serve_def webhook_route_def commit_def open_session_def Let_def split: prod.splits sum.splits)

lemma open_route_keeps: "fst (snd (serve (open_route E p) D)) = D"
  by (cases p) (simp_all add: serve_replying_db webhook_route_keeps serve_reading_keeps)

lemma foreign_call_spares:
  assumes "foreign t (E, c)"
  shows "spares t D (fst (snd (respond E c D)))"
proof (cases c)
  case (Public p)
  then show ?thesis by (simp add: respond_def open_route_keeps)
next
  case (With_token token u)
  show ?thesis
  proof (cases "identify E token")
    case (Inl e)
    with With_token show ?thesis by (simp add: respond_def serve_route_user del: route.simps)
  next
    case (Inr cu)
    obtain r D' ms where "serve (user_route E cu u) D = (r, D', ms)" by (metis prod.collapse)
    with Inr With_token assms user_route_spares [OF this] show ?thesis
      by (simp add: respond_def serve_route_user del: route.simps)
  qed
qed

lemma foreign_calls:
  "\<forall>x \<in> set cs. foreign t x \<Longrightarrow> consistent D \<Longrightarrow> spares t D (after_calls cs D) \<and> consistent (after_calls cs D)"
proof (induction cs arbitrary: D)
  case (Cons x cs)
  obtain E c where x: "x = (E, c)" by fastforce
  let ?D = "fst (snd (respond E c D))"
  have "consistent ?D" using respond_consistent [of E c D] Cons.prems(2) by (metis prod.collapse)
  with Cons x foreign_call_spares [of t E c D] show ?case by (auto intro: spares_trans)
qed simp

text \<open>C23: Tenants do not interfere. However many calls others make - users of other tenants with any role, callers
  with rejected tokens, logins and webhooks - every reading route answers a user of the tenant exactly as
  before. Retries are the exception: that route does not look at the document's tenant.\<close>

theorem tenants_do_not_interfere:
  assumes "consistent D" and "types_known D" and "\<forall>x \<in> set cs. foreign (cu_tenant_id cu) x" and "\<not> writes c"
  shows "fst (serve (user_route E cu c) (after_calls cs D)) = fst (serve (user_route E cu c) D)"
proof -
  from foreign_calls [OF assms(3,1)] assms(2)
  have "same_for (cu_tenant_id cu) D (after_calls cs D)" "consistent (after_calls cs D)" "types_known (after_calls cs D)"
    by (auto simp: spares_def)
  from same_reading [OF this(1) assms(1) this(2) assms(2) this(3) assms(4)] show ?thesis .
qed

lemma account_db_consistent: "consistent account_db"
  by (simp add: consistent_def account_db_def empty_db_def db_ok_def accounts_ok_def documents_ok_def deliveries_ok_def)

lemma account_db_empty [simp]:
  "db_audit account_db = []" "db_dlq account_db = []" "db_deliveries account_db = []"
  by (simp_all add: account_db_def empty_db_def)

lemma account_db_types: "types_known account_db"
  by (simp add: types_known_def account_db_def empty_db_def account_to_row_def)

theorem tenants_do_not_interfere_witness:
  "fst (serve (user_route viewer_api (sample_cu\<lparr>cu_tenant_id := 3\<rparr>) (Get_document 21))
     (after_calls [(viewer_api, With_token (Inr ''T'') (Send_document sample_send_request sample_upload))] account_db))
   = Inl (ErrHTTP 404 ''Document not found'')"
proof -
  let ?cs = "[(viewer_api, With_token (Inr ''T'') (Send_document sample_send_request sample_upload))]"
  have "\<forall>x \<in> set ?cs. foreign (cu_tenant_id (sample_cu\<lparr>cu_tenant_id := 3\<rparr>)) x"
    by (simp add: viewer_identified) (simp add: sample_cu_def)
  from tenants_do_not_interfere [OF account_db_consistent account_db_types this, of "Get_document 21" viewer_api]
  have "fst (serve (user_route viewer_api (sample_cu\<lparr>cu_tenant_id := 3\<rparr>) (Get_document 21)) (after_calls ?cs account_db))
      = fst (serve (user_route viewer_api (sample_cu\<lparr>cu_tenant_id := 3\<rparr>) (Get_document 21)) account_db)"
    by simp
  also have "\<dots> = Inl (ErrHTTP 404 ''Document not found'')"
    using account_db_consistent
    by (simp add: serve_replying serve_reading consistent_def get_document_def own_document_def
        get_document_by_id_def get_row_def select_by_def load_def account_db_def empty_db_def)
  finally show ?thesis .
qed

end
