(* ===== verification/RepoMaps.thy ===== *)
theory RepoMaps
  imports RepoProps
begin

text \<open>
  Tables as finite maps. A table whose rows all load and carry the keys of their entities (\<open>keyed_table\<close>)
  behaves as a map from ids to entities, whichever of the five repositories it belongs to: an added row adds
  a key, an update changes the entity behind a key, a query over row columns is a query over entities. A
  table of the database (\<open>stored_table\<close>) has besides a unique constraint, checked when a session writes.
\<close>

section \<open>Tables as maps\<close>

definition map_rows :: "('r \<Rightarrow> 'e res) \<Rightarrow> ('r \<Rightarrow> uuid) \<Rightarrow> 'r list \<Rightarrow> uuid \<rightharpoonup> 'e" where
  "map_rows of_row key rows i = (case get_row of_row key i rows of Inr (Some e) \<Rightarrow> Some e | _ \<Rightarrow> None)"

definition good_rows :: "('r \<Rightarrow> 'e res) \<Rightarrow> ('r \<Rightarrow> uuid) \<Rightarrow> 'r list \<Rightarrow> bool" where
  "good_rows of_row key rows \<longleftrightarrow> distinct (map key rows) \<and> (\<forall>r \<in> set rows. \<exists>e. of_row r = Inr e)"

text \<open>A list of a set, each element once; in the order of a key; a page of that; any part of it up to a
  limit, as a query with no order returns.\<close>

definition listing :: "'e set \<Rightarrow> 'e list \<Rightarrow> bool" where
  "listing S es \<longleftrightarrow> distinct es \<and> set es = S"

definition listing_by :: "('e \<Rightarrow> int) \<Rightarrow> 'e set \<Rightarrow> 'e list \<Rightarrow> bool" where
  "listing_by g S es \<longleftrightarrow> listing S es \<and> sorted (map g es)"

definition page_by :: "('e \<Rightarrow> int) \<Rightarrow> 'e set \<Rightarrow> nat \<Rightarrow> nat \<Rightarrow> 'e list \<Rightarrow> bool" where
  "page_by g S offset limit es \<longleftrightarrow> (\<exists>all. listing_by g S all \<and> es = take limit (drop offset all))"

definition up_to :: "nat \<Rightarrow> 'e set \<Rightarrow> 'e list \<Rightarrow> bool" where
  "up_to limit S es \<longleftrightarrow> (\<exists>all. listing S all \<and> es = take limit all)"

lemma load_all_slice: "load_all f rs = Inr es \<Longrightarrow> load_all f (take n (drop k rs)) = Inr (take n (drop k es))"
  by (simp add: load_all_Inr take_map drop_map flip: take_map drop_map)

lemma good_filter_one:
  assumes "good_rows f key rows" and "r \<in> set rows"
  shows "filter (\<lambda>x. key x = key r) rows = [r]"
  using assms distinct_filter_one [of key rows r] by (simp add: good_rows_def)

locale keyed_table = entity_table +
  assumes key_of_row: "of_row r = Inr e \<Longrightarrow> rkey r = ekey e"
begin

abbreviation rows_map where
  "rows_map \<equiv> map_rows of_row rkey"

abbreviation good where
  "good \<equiv> good_rows of_row rkey"

lemma map_row: "good rows \<Longrightarrow> r \<in> set rows \<Longrightarrow> of_row r = Inr e \<Longrightarrow> rows_map rows (rkey r) = Some e"
  by (simp add: map_rows_def get_def select_by_def load_def good_filter_one)

lemma map_rows_Some: "good rows \<Longrightarrow> rows_map rows i = Some e \<Longrightarrow> \<exists>r \<in> set rows. rkey r = i \<and> of_row r = Inr e"
  using get_Some_key [of i rows e] by (auto simp: map_rows_def split: sum.splits option.splits)

lemma lookup:
  assumes "good rows"
  shows "get i rows = Inr (rows_map rows i)"
proof (cases "i \<in> rkey ` set rows")
  case True
  then obtain r where r: "r \<in> set rows" "i = rkey r" by blast
  then obtain e where "of_row r = Inr e" using assms by (auto simp: good_rows_def)
  then show ?thesis using map_row [OF assms r(1)] r good_filter_one [OF assms r(1)]
    by (simp add: get_def select_by_def load_def)
next
  case False
  then have "get i rows = Inr None" by (simp add: get_None)
  then show ?thesis by (simp add: map_rows_def)
qed

lemma ran_rows: "good rows \<Longrightarrow> ran (rows_map rows) = {e. \<exists>r \<in> set rows. of_row r = Inr e}"
  using map_row map_rows_Some by (fastforce simp: ran_def)

lemma good_insert: "good rows \<Longrightarrow> distinct (map rkey (rows @ [to_row e])) \<Longrightarrow> good (rows @ [to_row e])"
  by (auto simp: good_rows_def round_trip)

lemma map_insert:
  assumes "good rows" and "distinct (map rkey (rows @ [to_row e]))"
  shows "rows_map rows (ekey e) = None" and "rows_map (rows @ [to_row e]) = (rows_map rows)(ekey e \<mapsto> e)"
proof -
  have "ekey e \<notin> rkey ` set rows" using assms(2) by (simp add: key_to_row)
  then show "rows_map rows (ekey e) = None" using get_None [of "ekey e" rows] by (simp add: map_rows_def)
  show "rows_map (rows @ [to_row e]) = (rows_map rows)(ekey e \<mapsto> e)"
    using get_inserted [OF assms(2)] get_insert_other [of _ e rows] by (auto simp: fun_eq_iff map_rows_def)
qed

lemma good_update: "good rows \<Longrightarrow> good (update_by rkey i (merge e) rows)"
  unfolding good_rows_def keys_update by (auto simp: update_by_def dest: of_row_merge)

lemma map_update:
  assumes "good rows"
  shows "rows_map (update_by rkey i (merge e) rows) =
    (case rows_map rows i of None \<Rightarrow> rows_map rows | Some e0 \<Rightarrow> (rows_map rows)(i \<mapsto> emerge e e0))"
proof (cases "rows_map rows i")
  case None
  then have "i \<notin> rkey ` set rows" using get_None [of i rows] lookup [OF assms, of i] by simp
  then have "update_by rkey i (merge e) rows = rows" unfolding update_by_def by (intro map_idI) force
  with None show ?thesis by simp
next
  case (Some e0)
  then have "get i rows = Inr (Some e0)" using lookup [OF assms, of i] by simp
  from get_update [OF this, of e] get_update_other [of _ i e rows] Some show ?thesis
    by (auto simp: fun_eq_iff map_rows_def)
qed

text \<open>The entity of a row of the table.\<close>

lemma row_entity: "good rows \<Longrightarrow> r \<in> set rows \<Longrightarrow> of_row r = Inr (projr (of_row r))"
  by (auto simp: good_rows_def)

lemma entity_inj:
  assumes "good rows"
  shows "inj_on (\<lambda>r. projr (of_row r)) (set rows)"
proof (rule inj_onI)
  fix r r'
  assume r: "r \<in> set rows" "r' \<in> set rows" "projr (of_row r) = projr (of_row r')"
  have "rkey r = ekey (projr (of_row r))" "rkey r' = ekey (projr (of_row r'))"
    by (rule key_of_row row_entity assms r)+
  then have "rkey r = rkey r'" by (simp only: r(3))
  with assms r(1,2) show "r = r'" by (simp add: good_rows_def distinct_map inj_on_def)
qed

lemma entities:
  assumes "good rows" and "\<And>r e. of_row r = Inr e \<Longrightarrow> P r \<longleftrightarrow> Q e"
  shows "load_all of_row (filter P rows) = Inr (map (\<lambda>r. projr (of_row r)) (filter P rows))"
    and "listing {e \<in> ran (rows_map rows). Q e} (map (\<lambda>r. projr (of_row r)) (filter P rows))"
proof -
  let ?ent = "\<lambda>r. projr (of_row r)"
  have ent: "of_row r = Inr (?ent r)" if "r \<in> set rows" for r by (rule row_entity [OF assms(1) that])
  then show "load_all of_row (filter P rows) = Inr (map ?ent (filter P rows))" by (intro load_all_total) simp
  have "distinct (map ?ent (filter P rows))"
    using inj_on_subset [OF entity_inj [OF assms(1)], of "set (filter P rows)"] assms(1)
    by (simp add: good_rows_def distinct_map)
  moreover have "P r \<longleftrightarrow> Q (?ent r)" if "r \<in> set rows" for r by (rule assms(2) [OF ent [OF that]])
  then have "set (map ?ent (filter P rows)) = {e \<in> ran (rows_map rows). Q e}"
    using ent by (force simp: ran_rows [OF assms(1)])
  ultimately show "listing {e \<in> ran (rows_map rows). Q e} (map ?ent (filter P rows))" by (simp add: listing_def)
qed

lemma query:
  assumes "good rows" and "\<And>r e. of_row r = Inr e \<Longrightarrow> P r \<longleftrightarrow> Q e"
  shows "\<exists>es. load_all of_row (filter P rows) = Inr es \<and> listing {e \<in> ran (rows_map rows). Q e} es"
  using entities [where P = P and Q = Q, OF assms] by blast

lemma query_up_to:
  assumes "good rows" and "\<And>r e. of_row r = Inr e \<Longrightarrow> P r \<longleftrightarrow> Q e"
  shows "\<exists>es. load_all of_row (take n (filter P rows)) = Inr es \<and> up_to n {e \<in> ran (rows_map rows). Q e} es"
  using query [where P = P and Q = Q, OF assms] load_all_slice [of of_row "filter P rows" _ n 0]
  unfolding up_to_def by fastforce

lemma query_by:
  assumes "good rows" and "\<And>r e. of_row r = Inr e \<Longrightarrow> P r \<longleftrightarrow> Q e" and "\<And>r e. of_row r = Inr e \<Longrightarrow> f r = g e"
  shows "\<exists>es. load_all of_row (sort_key f (filter P rows)) = Inr es \<and> listing_by g {e \<in> ran (rows_map rows). Q e} es"
proof -
  let ?rs = "sort_key f (filter P rows)"
  let ?ent = "\<lambda>r. projr (of_row r)"
  have ent: "of_row r = Inr (?ent r)" if "r \<in> set rows" for r by (rule row_entity [OF assms(1) that])
  then have "load_all of_row ?rs = Inr (map ?ent ?rs)" by (intro load_all_total) simp
  moreover have "listing {e \<in> ran (rows_map rows). Q e} (map ?ent ?rs)"
    using entities(2) [where P = P and Q = Q, OF assms(1,2)] by (simp add: listing_def distinct_map)
  moreover have "map g (map ?ent ?rs) = map f ?rs" using assms(3) ent by force
  then have "sorted (map g (map ?ent ?rs))" by (simp only: sorted_sort_key)
  ultimately show ?thesis unfolding listing_by_def by blast
qed

lemma query_page:
  assumes "good rows" and "\<And>r e. of_row r = Inr e \<Longrightarrow> P r \<longleftrightarrow> Q e" and "\<And>r e. of_row r = Inr e \<Longrightarrow> f r = g e"
  shows "\<exists>es. load_all of_row (take n (drop k (sort_key f (filter P rows)))) = Inr es
    \<and> page_by g {e \<in> ran (rows_map rows). Q e} k n es"
  using query_by [where P = P and Q = Q and f = f and g = g, OF assms] load_all_slice
  unfolding page_by_def by blast

text \<open>A unique constraint on columns is injectivity on the entities.\<close>

lemma unique_columns:
  assumes "good rows" and "\<And>r e. of_row r = Inr e \<Longrightarrow> P r \<longleftrightarrow> Q e" and "\<And>r e. of_row r = Inr e \<Longrightarrow> f r = g e"
  shows "distinct (map f (filter P rows)) \<longleftrightarrow> inj_on g {e \<in> ran (rows_map rows). Q e}"
proof -
  let ?es = "map (\<lambda>r. projr (of_row r)) (filter P rows)"
  have es: "distinct ?es" "set ?es = {e \<in> ran (rows_map rows). Q e}"
    using entities(2) [where P = P and Q = Q, OF assms(1,2)] by (simp_all add: listing_def)
  have "map f (filter P rows) = map g ?es" using assms(3) [OF row_entity [OF assms(1)]] by simp
  then show ?thesis using es(1) by (simp only: distinct_map es(2) [symmetric]) simp
qed

lemma query_one:
  assumes "good rows" and "\<And>r e. of_row r = Inr e \<Longrightarrow> P r \<longleftrightarrow> Q e"
    and "\<And>e e'. e \<in> ran (rows_map rows) \<Longrightarrow> e' \<in> ran (rows_map rows) \<Longrightarrow> Q e \<Longrightarrow> Q e' \<Longrightarrow> e = e'"
  shows "\<exists>x. load of_row (scalar_one_or_none (filter P rows)) = Inr x \<and> set_option x = {e \<in> ran (rows_map rows). Q e}"
proof -
  obtain es where es: "load_all of_row (filter P rows) = Inr es" "listing {e \<in> ran (rows_map rows). Q e} es"
    using query [where P = P and Q = Q, OF assms(1,2)] by blast
  show ?thesis
  proof (cases "filter P rows" rule: remdups_adj.cases)
    case 1
    with es show ?thesis by (simp add: load_def listing_def)
  next
    case (2 r)
    with es show ?thesis by (auto simp: load_def listing_def and_then_Inr_iff)
  next
    case (3 r r' rs)
    then obtain e e' es' where "es = e # e' # es'" using es(1) by (auto simp: and_then_Inr_iff)
    then have "e \<noteq> e'" "{e, e'} \<subseteq> {e \<in> ran (rows_map rows). Q e}" using es(2) by (auto simp: listing_def)
    with assms(3) [of e e'] show ?thesis by blast
  qed
qed

end

lemma map_filter_concat: "concat (map (\<lambda>r. if P r then [f r] else []) rs) = map f (filter P rs)"
  by (induction rs) auto

section \<open>The five tables\<close>

interpretation delivery_rows: keyed_table delivery_to_row delivery_to_entity dl_id dr_id delivery_merge delivery_emerge
  by unfold_locales (auto simp: delivery_to_entity_def split: option.splits)

interpretation account_rows: keyed_table account_to_row provider_to_entity acc_id ar_id account_merge account_emerge
  by unfold_locales (auto simp: provider_to_entity_def split: option.splits)

interpretation document_rows: keyed_table "\<lambda>d. d" document_to_entity doc_id doc_id "\<lambda>d r. r" "\<lambda>d e. e"
  by unfold_locales (auto simp: row_defs)

interpretation letter_rows: keyed_table "\<lambda>e. e" dlq_to_entity dlq_id dlq_id dlq_merge dlq_merge
  by unfold_locales (auto simp: row_defs)

interpretation event_rows: keyed_table "\<lambda>e. e" Inr aud_id aud_id "\<lambda>e r. r" "\<lambda>e d. d"
  by unfold_locales auto

section \<open>Writing in a session\<close>

text \<open>The constraints of the tables, stated on entities.\<close>

definition unique_deliveries :: "(uuid \<rightharpoonup> delivery) \<Rightarrow> bool" where
  "unique_deliveries m \<longleftrightarrow> inj_on (\<lambda>d. (dl_provider_account_id d, dl_idempotency_key d)) (ran m)
     \<and> inj_on (\<lambda>d. (dl_provider_account_id d, dl_provider_document_id d)) {d \<in> ran m. dl_provider_document_id d \<noteq> None}"

definition unique_accounts :: "(uuid \<rightharpoonup> account) \<Rightarrow> bool" where
  "unique_accounts m \<longleftrightarrow>
     inj_on (\<lambda>a. (acc_tenant_id a, provider_type_value (acc_provider_type a), acc_account_name a)) (ran m)"

definition unique_documents :: "(uuid \<rightharpoonup> document) \<Rightarrow> bool" where
  "unique_documents m \<longleftrightarrow> inj_on (\<lambda>d. (doc_tenant_id d, doc_internal_document_id d)) (ran m)"

text \<open>What a write makes of a map, and the answer: a map that would break a constraint is refused.\<close>

definition wrote :: "('m \<Rightarrow> bool) \<Rightarrow> 'm \<Rightarrow> 'm \<Rightarrow> 'a \<Rightarrow> 'a res \<Rightarrow> 'm \<Rightarrow> bool" where
  "wrote unique m m1 a r m' \<longleftrightarrow> (if unique m1 then r = Inr a \<and> m' = m1 else r = Inl unique_violation \<and> m' = m)"

definition saved :: "((uuid \<rightharpoonup> 'e) \<Rightarrow> bool) \<Rightarrow> uuid \<Rightarrow> 'e \<Rightarrow> (uuid \<rightharpoonup> 'e) \<Rightarrow> 'a \<Rightarrow> 'a res \<Rightarrow> (uuid \<rightharpoonup> 'e) \<Rightarrow> bool" where
  "saved unique i e m a r m' \<longleftrightarrow> wrote (\<lambda>m1. m i = None \<and> unique m1) m (m(i \<mapsto> e)) a r m'"

definition updated :: "((uuid \<rightharpoonup> 'e) \<Rightarrow> bool) \<Rightarrow> uuid \<Rightarrow> ('e \<Rightarrow> 'e) \<Rightarrow> (uuid \<rightharpoonup> 'e) \<Rightarrow> 'a \<Rightarrow> 'a res \<Rightarrow> (uuid \<rightharpoonup> 'e) \<Rightarrow> bool" where
  "updated unique i f m a r m' \<longleftrightarrow>
     wrote unique m (case m i of None \<Rightarrow> m | Some e \<Rightarrow> m(i \<mapsto> f e)) a r m'"

locale stored_table = keyed_table +
  fixes rows_in :: "db \<Rightarrow> 'b list"
    and put :: "'b list \<Rightarrow> db \<Rightarrow> db"
    and added :: "'b \<Rightarrow> new_row"
    and allowed :: "'b list \<Rightarrow> bool"
    and unique :: "(uuid \<rightharpoonup> 'a) \<Rightarrow> bool"
  assumes insert_added: "insert_row (added r) D = put (rows_in D @ [r]) D"
    and put_rows: "put (rows_in D) D = D"
    and rows_put: "rows_in (put rows D) = rows"
    and put_allowed: "db_ok D \<Longrightarrow> db_ok (put rows D) \<longleftrightarrow> allowed rows"
    and keys_allowed: "allowed rows \<Longrightarrow> distinct (map rkey rows)"
    and allowed_unique: "good rows \<Longrightarrow> allowed rows \<longleftrightarrow> unique (rows_map rows)"
begin

lemma allowed_added:
  assumes "good rows"
  shows "allowed (rows @ [to_row e]) \<longleftrightarrow> rows_map rows (ekey e) = None \<and> unique ((rows_map rows)(ekey e \<mapsto> e))"
proof (cases "distinct (map rkey (rows @ [to_row e]))")
  case True
  with map_insert [OF assms True] allowed_unique [OF good_insert [OF assms True]] show ?thesis by simp
next
  case False
  then have "ekey e \<in> rkey ` set rows" using assms by (auto simp: good_rows_def key_to_row)
  then have "rows_map rows (ekey e) \<noteq> None" using get_None [of "ekey e" rows] lookup [OF assms, of "ekey e"] by auto
  with False keys_allowed show ?thesis by blast
qed

lemma save_session:
  assumes "db_ok D" and "good (rows_in D)"
    and "with_session (\<lambda>s. Inr (a, session_add (added (to_row e)) s)) D = (D', r)"
  shows "saved unique (ekey e) e (rows_map (rows_in D)) a r (rows_map (rows_in D')) \<and> db_ok D' \<and> good (rows_in D')
    \<and> D' = put (rows_in D') D"
proof (cases "allowed (rows_in D @ [to_row e])")
  case True
  note dist = keys_allowed [OF True]
  from assms(1,3) True have "D' = put (rows_in D @ [to_row e]) D" "r = Inr a"
    by (simp_all add: with_session_def session_add_def commit_def insert_added put_allowed)
  with True map_insert [OF assms(2) dist] good_insert [OF assms(2) dist] allowed_added [OF assms(2)] assms(1)
  show ?thesis by (simp add: saved_def wrote_def rows_put put_allowed)
next
  case False
  from assms(1,3) False have "D' = D" "r = Inl unique_violation"
    by (simp_all add: with_session_def session_add_def commit_def insert_added put_allowed)
  with False assms allowed_added [OF assms(2)] show ?thesis by (simp add: saved_def wrote_def put_rows)
qed

lemma update_session:
  assumes "db_ok D" and "good (rows_in D)"
    and "with_session (\<lambda>s. and_then (write_view (put (update_by rkey i (merge e) (rows_in (view s))) (view s)) s)
          (\<lambda>s'. Inr (a, s'))) D = (D', r)"
  shows "updated unique i (emerge e) (rows_map (rows_in D)) a r (rows_map (rows_in D')) \<and> db_ok D' \<and> good (rows_in D')
    \<and> D' = put (rows_in D') D"
proof -
  let ?rows = "update_by rkey i (merge e) (rows_in D)"
  note new = good_update [OF assms(2), of i e] map_update [OF assms(2), of i e]
  show ?thesis
  proof (cases "allowed ?rows")
    case True
    with assms(1,3) have "D' = put ?rows D" "r = Inr a"
      by (simp_all add: with_session_def write_view_def commit_def put_allowed)
    with True new allowed_unique [OF new(1)] assms(1) show ?thesis
      by (simp add: updated_def wrote_def rows_put put_allowed)
  next
    case False
    with assms(1,3) have "D' = D" "r = Inl unique_violation"
      by (simp_all add: with_session_def write_view_def put_allowed)
    with False new allowed_unique [OF new(1)] assms show ?thesis by (simp add: updated_def wrote_def put_rows)
  qed
qed

end

lemma provider_type_parsed: "parse_provider_type s = Some p \<Longrightarrow> provider_type_value p = s"
  unfolding parse_provider_type_def find_Some_iff by blast

lemma load_row_fields:
  "delivery_to_entity r = Inr d \<Longrightarrow> dl_idempotency_key d = dr_idempotency_key r
     \<and> dl_provider_document_id d = dr_provider_document_id r"
  "provider_to_entity m = Inr a \<Longrightarrow> acc_tenant_id a = ar_tenant_id m \<and> acc_account_name a = ar_account_name m
     \<and> provider_type_value (acc_provider_type a) = ar_provider_type m \<and> acc_is_active a = ar_is_active m
     \<and> acc_priority a = ar_priority m"
  by (auto simp: delivery_to_entity_def provider_to_entity_def split: option.splits dest: provider_type_parsed)

interpretation delivery_table: stored_table delivery_to_row delivery_to_entity dl_id dr_id delivery_merge delivery_emerge
    db_deliveries "\<lambda>rows D. D\<lparr>db_deliveries := rows\<rparr>" New_delivery deliveries_ok unique_deliveries
proof unfold_locales
  fix rows
  assume "delivery_rows.good rows"
  with delivery_rows.unique_columns [of rows "\<lambda>r. True" "\<lambda>d. True" "\<lambda>r. (dr_provider_account_id r, dr_idempotency_key r)"
      "\<lambda>d. (dl_provider_account_id d, dl_idempotency_key d)"]
    delivery_rows.unique_columns [of rows "\<lambda>r. dr_provider_document_id r \<noteq> None" "\<lambda>d. dl_provider_document_id d \<noteq> None"
      "\<lambda>r. (dr_provider_account_id r, dr_provider_document_id r)"
      "\<lambda>d. (dl_provider_account_id d, dl_provider_document_id d)"]
  show "deliveries_ok rows \<longleftrightarrow> unique_deliveries (delivery_rows.rows_map rows)"
    by (simp add: deliveries_ok_def unique_deliveries_def good_rows_def load_row_fields(1) delivery_to_entity_status
        map_filter_concat)
qed (auto simp: db_ok_def deliveries_ok_def)

interpretation account_table: stored_table account_to_row provider_to_entity acc_id ar_id account_merge account_emerge
    db_accounts "\<lambda>rows D. D\<lparr>db_accounts := rows\<rparr>" New_account accounts_ok unique_accounts
proof unfold_locales
  fix rows
  assume "account_rows.good rows"
  with account_rows.unique_columns [of rows "\<lambda>r. True" "\<lambda>d. True" "\<lambda>r. (ar_tenant_id r, ar_provider_type r, ar_account_name r)"
      "\<lambda>a. (acc_tenant_id a, provider_type_value (acc_provider_type a), acc_account_name a)"]
  show "accounts_ok rows \<longleftrightarrow> unique_accounts (account_rows.rows_map rows)"
    by (simp add: accounts_ok_def unique_accounts_def good_rows_def load_row_fields(2))
qed (auto simp: db_ok_def accounts_ok_def)

interpretation document_table: stored_table "\<lambda>d. d" document_to_entity doc_id doc_id "\<lambda>d r. r" "\<lambda>d e. e"
    db_documents "\<lambda>rows D. D\<lparr>db_documents := rows\<rparr>" New_document documents_ok unique_documents
proof unfold_locales
  fix rows
  assume "document_rows.good rows"
  with document_rows.unique_columns [of rows "\<lambda>r. True" "\<lambda>d. True" "\<lambda>r. (doc_tenant_id r, doc_internal_document_id r)"
      "\<lambda>d. (doc_tenant_id d, doc_internal_document_id d)"]
  show "documents_ok rows \<longleftrightarrow> unique_documents (document_rows.rows_map rows)"
    by (simp add: documents_ok_def unique_documents_def good_rows_def document_to_entity_def)
qed (auto simp: db_ok_def documents_ok_def)

interpretation letter_table: stored_table "\<lambda>e. e" dlq_to_entity dlq_id dlq_id dlq_merge dlq_merge
    db_dlq "\<lambda>rows D. D\<lparr>db_dlq := rows\<rparr>" New_dlq "\<lambda>rows. distinct (map dlq_id rows)" "\<lambda>m. True"
  by unfold_locales (auto simp: db_ok_def good_rows_def)

interpretation event_table: stored_table "\<lambda>e. e" Inr aud_id aud_id "\<lambda>e r. r" "\<lambda>e d. d"
    db_audit "\<lambda>rows D. D\<lparr>db_audit := rows\<rparr>" New_audit "\<lambda>rows. distinct (map aud_id rows)" "\<lambda>m. True"
  by unfold_locales (auto simp: db_ok_def good_rows_def)

end
