(* ===== verification/Requests.thy ===== *)
theory Requests
  imports Isolation RepoMaps
begin

text \<open>
  Calls as they come over HTTP: what the signatures of the routes and the request classes admit
  (\<open>src/presentation/api/v1\<close>, \<open>src/application/dto\<close>), the order in which a call is checked, and which calls fail
  for a reason that is not the caller's. The web framework resolves the dependencies of a route first (the
  token, then the role), then reports the parameters and bodies that do not validate, and then calls the
  handler. The lemmas go through the routes one by one: on a consistent database a handler answers or
  raises an HTTP error, with no effect then, except in the few cases that \<open>fault\<close> lists.
\<close>

section \<open>What a call may contain\<close>

text \<open>The five routes with a page take integers. \<open>Plain\<close> is any call whose page, if it has one, is a validated one.\<close>

datatype http_call =
    Documents_page int int
  | Dead_letters_page int int
  | Incoming_page_of int int
  | Document_events uuid int int
  | Delivery_events uuid int int
  | Plain user_call

text \<open>The small request classes, and the calls their routes make of them. No route builds the last two classes of
  the file, \<open>WebhookProcessResponse\<close> and \<open>ProviderHealthResponse\<close>.\<close>

record login_request =
  lg_email :: string
  lg_password :: string

definition login_request_valid :: "login_request \<Rightarrow> bool" where
  "login_request_valid b \<longleftrightarrow> 8 \<le> length (lg_password b)"

record refresh_request =
  rf_refresh_token :: string

record retry_delivery_request =
  rd_reason :: "string option"
  rd_force :: bool

record replay_entry_request =
  re_force :: bool

record replay_batch_request =
  rb_entry_ids :: "uuid list"
  rb_force :: bool

definition login_call :: "login_request \<Rightarrow> public_call" where
  "login_call b = Login (lg_email b) (lg_password b)"

definition refresh_call :: "refresh_request \<Rightarrow> public_call" where
  "refresh_call b = Refresh (rf_refresh_token b)"

definition retry_call :: "uuid \<Rightarrow> retry_delivery_request \<Rightarrow> http_call" where
  "retry_call i b = Plain (Retry_document i (rd_force b))"

definition replay_call :: "uuid \<Rightarrow> replay_entry_request \<Rightarrow> http_call" where
  "replay_call i b = Plain (Replay i (re_force b))"

definition batch_call :: "replay_batch_request \<Rightarrow> http_call" where
  "batch_call b = Plain (Replay_batch (rb_entry_ids b) (rb_force b))"

definition incoming_query :: "int \<Rightarrow> int \<Rightarrow> bool" where
  "incoming_query limit offset \<longleftrightarrow> 1 \<le> limit \<and> limit \<le> 100 \<and> 0 \<le> offset"

definition timeline_query :: "int \<Rightarrow> int \<Rightarrow> bool" where
  "timeline_query limit offset \<longleftrightarrow> 1 \<le> limit \<and> limit \<le> 200 \<and> 0 \<le> offset"

fun body_valid :: "user_call \<Rightarrow> bool" where
  "body_valid (Register_account q) = account_request_valid q"
| "body_valid (Send_document q file) = send_request_valid q"
| "body_valid (Replay_batch ids force) = batch_valid ids"
| "body_valid c = True"

text \<open>The lists of documents and of dead letters put no bounds on their page.\<close>

fun validated :: "http_call \<Rightarrow> bool" where
  "validated (Documents_page offset limit) = True"
| "validated (Dead_letters_page offset limit) = True"
| "validated (Incoming_page_of limit offset) = incoming_query limit offset"
| "validated (Document_events i limit offset) = timeline_query limit offset"
| "validated (Delivery_events i limit offset) = timeline_query limit offset"
| "validated (Plain c) = body_valid c"

text \<open>PostgreSQL refuses a negative \<open>LIMIT\<close> or \<open>OFFSET\<close>, and its driver an integer of more than 64 bits.\<close>

definition page_fits :: "int \<Rightarrow> int \<Rightarrow> bool" where
  "page_fits limit offset \<longleftrightarrow> 0 \<le> limit \<and> limit < 2 ^ 63 \<and> 0 \<le> offset \<and> offset < 2 ^ 63"

definition page_error :: exc where
  "page_error = OtherError ''DBAPIError''"

definition paged :: "int \<Rightarrow> int \<Rightarrow> (nat \<Rightarrow> nat \<Rightarrow> user_call) \<Rightarrow> user_call res" where
  "paged limit offset f = (if page_fits limit offset then Inr (f (nat limit) (nat offset)) else Inl page_error)"

fun call_of :: "http_call \<Rightarrow> user_call res" where
  "call_of (Documents_page offset limit) = paged limit offset (\<lambda>l k. List_documents k l)"
| "call_of (Dead_letters_page offset limit) = paged limit offset (\<lambda>l k. List_dlq k l)"
| "call_of (Incoming_page_of limit offset) = paged limit offset List_incoming"
| "call_of (Document_events i limit offset) = paged limit offset (Document_timeline i)"
| "call_of (Delivery_events i limit offset) = paged limit offset (Delivery_timeline i)"
| "call_of (Plain c) = Inr c"

fun for_admins :: "http_call \<Rightarrow> bool" where
  "for_admins (Plain c) = admin_only c"
| "for_admins h = False"

text \<open>\<open>details\<close> is the framework's text for what does not validate.\<close>

definition answer_call :: "api_env \<Rightarrow> (http_call \<Rightarrow> string) \<Rightarrow> string res \<Rightarrow> http_call \<Rightarrow> db \<Rightarrow> api_reply res \<times> db \<times> task_msg list" where
  "answer_call E details token h D =
     (case identify E token of
        Inl e \<Rightarrow> (Inl e, D, [])
      | Inr cu \<Rightarrow>
          if for_admins h \<and> \<not> is_admin cu then (Inl (ErrHTTP 403 ''Admin role required''), D, [])
          else if \<not> validated h then (Inl (ErrHTTP 422 (details h)), D, [])
          else (case call_of h of
                  Inl e \<Rightarrow> (Inl e, D, [])
                | Inr c \<Rightarrow> serve (user_route E cu c) D))"

text \<open>The routes without a token.\<close>

fun open_validated :: "public_call \<Rightarrow> bool" where
  "open_validated (Login email password) = login_request_valid \<lparr>lg_email = email, lg_password = password\<rparr>"
| "open_validated p = True"

definition answer_open_call :: "api_env \<Rightarrow> (public_call \<Rightarrow> string) \<Rightarrow> public_call \<Rightarrow> db \<Rightarrow> api_reply res \<times> db \<times> task_msg list" where
  "answer_open_call E details p D =
     (if \<not> open_validated p then (Inl (ErrHTTP 422 (details p)), D, []) else serve (open_route E p) D)"

section \<open>Which calls fail in the program\<close>

definition own_incoming :: "current_user \<Rightarrow> db \<Rightarrow> incoming_document list" where
  "own_incoming cu D = filter (\<lambda>r. inc_tenant_id r = cu_tenant_id cu) (db_incoming D)"

definition account_taken :: "current_user \<Rightarrow> account_request \<Rightarrow> db \<Rightarrow> bool" where
  "account_taken cu q D \<longleftrightarrow>
     list_ex (\<lambda>r. (ar_tenant_id r, ar_provider_type r, ar_account_name r) =
       (cu_tenant_id cu, rq_provider_type q, rq_account_name q)) (db_accounts D)"

fun route_fault :: "current_user \<Rightarrow> user_call \<Rightarrow> db \<Rightarrow> exc option" where
  "route_fault cu (Register_account q) D = (if account_taken cu q D then Some unique_violation else None)"
| "route_fault cu (List_incoming limit offset) D =
     (if 0 < limit \<and> offset < length (own_incoming cu D) then Some (AttributeError ''document_date'') else None)"
| "route_fault cu (Get_incoming i) D =
     (if list_ex (\<lambda>r. inc_id r = i) (own_incoming cu D) then Some (AttributeError ''document_date'') else None)"
| "route_fault cu c D = None"

definition fault :: "current_user \<Rightarrow> http_call \<Rightarrow> db \<Rightarrow> exc option" where
  "fault cu h D =
     (if for_admins h \<and> \<not> is_admin cu \<or> \<not> validated h then None
      else case call_of h of Inl e \<Rightarrow> Some e | Inr c \<Rightarrow> route_fault cu c D)"

text \<open>The uuids a request draws are new.\<close>

definition fresh_ids :: "api_env \<Rightarrow> db \<Rightarrow> bool" where
  "fresh_ids E D \<longleftrightarrow> ae_uuid E 1 \<notin> ar_id ` set (db_accounts D)
     \<and> sv_document_id (ae_send E) \<notin> doc_id ` set (db_documents D)
     \<and> sv_delivery_id (ae_send E) \<notin> dr_id ` set (db_deliveries D)
     \<and> (\<forall>r \<in> set (db_deliveries D). \<not> starts_with (dr_idempotency_key r) (uuid_str (sv_document_id (ae_send E))))"

definition callers_error :: "exc \<Rightarrow> bool" where
  "callers_error e \<longleftrightarrow> (\<exists>n t. e = ErrHTTP n t \<and> n \<in> {403, 404, 409, 422})"

text \<open>An answer, or an error of the caller that leaves no trace.\<close>

definition no_fault :: "'a res \<times> db \<times> task_msg list \<Rightarrow> db \<Rightarrow> bool" where
  "no_fault x D \<longleftrightarrow> (case x of (Inr r, D', ms) \<Rightarrow> True | (Inl e, D', ms) \<Rightarrow> callers_error e \<and> D' = D \<and> ms = [])"

lemma no_fault_simps [simp]: "no_fault (Inr r, D', ms) D"
  "no_fault (Inl e, D', ms) D \<longleftrightarrow> callers_error e \<and> D' = D \<and> ms = []"
  by (simp_all add: no_fault_def)

lemma callers_errors [simp]:
  "callers_error (ErrHTTP 403 t)" "callers_error (ErrHTTP 404 t)" "callers_error (ErrHTTP 409 t)" "callers_error (ErrHTTP 422 t)"
  by (simp_all add: callers_error_def)

lemma no_fault_replying [simp]: "no_fault (serve (replying f h) D) D \<longleftrightarrow> no_fault (serve h D) D"
  by (auto simp: serve_replying no_fault_def split: prod.splits sum.splits)

section \<open>Reading on a sound database\<close>

definition sound :: "db \<Rightarrow> bool" where
  "sound D \<longleftrightarrow> db_ok D \<and> good_rows delivery_to_entity dr_id (db_deliveries D)
     \<and> good_rows provider_to_entity ar_id (db_accounts D)"

lemma sound_consistent:
  assumes "consistent D" and "types_known D"
  shows "sound D"
proof -
  have "\<exists>d. delivery_to_entity r = Inr d" if "r \<in> set (db_deliveries D)" for r
  proof -
    have "recorded r" using assms(1) that by (simp add: consistent_def)
    then obtain st where "dr_unified_status r = status_value st"
      unfolding recorded_def
      by (metis insertE singletonD status_value.simps)
    then show ?thesis by (simp add: delivery_to_entity_def)
  qed
  moreover have "\<exists>a. provider_to_entity r = Inr a" if "r \<in> set (db_accounts D)" for r
    using assms(2) that by (auto simp: types_known_def provider_to_entity_def)
  ultimately show ?thesis
    using assms(1) by (auto simp: sound_def consistent_def db_ok_def deliveries_ok_def accounts_ok_def good_rows_def)
qed

lemma sound_rows:
  assumes "sound D"
  shows "db_ok D" "good_rows delivery_to_entity dr_id (db_deliveries D)"
    "good_rows provider_to_entity ar_id (db_accounts D)" "good_rows document_to_entity doc_id (db_documents D)"
    "good_rows dlq_to_entity dlq_id (db_dlq D)"
  using assms by (auto simp: sound_def db_ok_def documents_ok_def good_rows_def document_to_entity_def dlq_to_entity_def)

lemma found:
  assumes "sound D"
  shows "\<exists>o'. get_document_by_id i (open_session D) = Inr o'" "\<exists>o'. get_account_by_id i (open_session D) = Inr o'"
    "\<exists>o'. get_dlq_by_id i (open_session D) = Inr o'"
  using document_rows.lookup [OF sound_rows(4) [OF assms]] account_rows.lookup [OF sound_rows(3) [OF assms]]
    letter_rows.lookup [OF sound_rows(5) [OF assms]]
  by (simp_all add: get_document_by_id_def get_account_by_id_def get_dlq_by_id_def)


lemma own_document_cases:
  assumes "sound D"
  shows "(\<exists>d. own_document i cu (open_session D) = Inr d) \<or> own_document i cu (open_session D) = Inl (ErrHTTP 404 ''Document not found'')"
  using found(1) [OF assms, of i] by (auto simp: own_document_def split: option.splits)

lemma own_account_cases:
  assumes "sound D"
  shows "(\<exists>a. own_account i cu (open_session D) = Inr a) \<or> own_account i cu (open_session D) = Inl (ErrHTTP 404 ''Account not found'')"
  using found(2) [OF assms, of i] by (auto simp: own_account_def split: option.splits)

lemma own_entry_total: "sound D \<Longrightarrow> \<exists>o'. own_entry i cu (open_session D) = Inr o'"
  using found(3) [of D i] by (auto simp: own_entry_def split: option.splits)

lemma deliveries_listed: "sound D \<Longrightarrow> \<exists>ds. list_by_document i (open_session D) = Inr ds"
  unfolding list_by_document_def by (rule load_all_parses) (use sound_rows(2) in \<open>auto simp: good_rows_def\<close>)

lemma accounts_listed: "sound D \<Longrightarrow> \<exists>as. list_accounts_by_tenant t active (open_session D) = Inr as"
  unfolding list_accounts_by_tenant_def by (rule load_all_parses) (use sound_rows(3) in \<open>auto simp: good_rows_def\<close>)

lemma pages_listed:
  "\<exists>ds. list_documents_by_tenant t offset limit s = Inr ds" "\<exists>es. list_dlq_by_tenant t offset limit s = Inr es"
  unfolding list_documents_by_tenant_def list_dlq_by_tenant_def
  by (auto intro!: load_all_parses simp: document_to_entity_def dlq_to_entity_def)

lemma no_fault_shown: "(\<And>e. x = Inl e \<Longrightarrow> callers_error e) \<Longrightarrow> no_fault (map_sum id f x, D, []) D"
  by (cases x) simp_all

section \<open>Route by route\<close>

lemma scalar_of_key:
  assumes "distinct (map key rows)"
  shows "\<exists>o'. scalar_one_or_none (filter (\<lambda>r. key r = i) rows) = Inr o'"
proof (cases "\<exists>r \<in> set rows. key r = i")
  case True
  then obtain r where "r \<in> set rows" "key r = i" by blast
  with distinct_filter_one [OF assms] have "filter (\<lambda>r. key r = i) rows = [r]" by fastforce
  then show ?thesis by simp
next
  case False
  then have "filter (\<lambda>r. key r = i) rows = []" by (auto simp: filter_empty_conv)
  then show ?thesis by (simp only: scalar_simps) blast
qed

text \<open>What the reading handlers raise.\<close>

lemma reading_errors:
  assumes "sound D"
  shows "me cu (open_session D) = Inl e \<Longrightarrow> callers_error e"
    "list_provider_accounts cu active_only (open_session D) = Inl e \<Longrightarrow> callers_error e"
    "get_provider_account i cu (open_session D) = Inl e \<Longrightarrow> callers_error e"
    "list_documents cu offset limit (open_session D) = Inl e \<Longrightarrow> callers_error e"
    "get_document i cu (open_session D) = Inl e \<Longrightarrow> callers_error e"
    "list_deliveries i cu (open_session D) = Inl e \<Longrightarrow> callers_error e"
    "get_document_status i cu (open_session D) = Inl e \<Longrightarrow> callers_error e"
    "list_dlq cu offset limit (open_session D) = Inl e \<Longrightarrow> callers_error e"
    "get_dlq_entry i cu (open_session D) = Inl e \<Longrightarrow> callers_error e"
proof -
  have "distinct (map usr_id (db_users D))" using sound_rows(1) [OF assms] by (simp add: db_ok_def)
  from scalar_of_key [OF this, of "cu_user_id cu"] show "me cu (open_session D) = Inl e \<Longrightarrow> callers_error e"
    by (auto simp: me_def split: option.splits)
next
  show "list_provider_accounts cu active_only (open_session D) = Inl e \<Longrightarrow> callers_error e"
    using accounts_listed [OF assms, of "cu_tenant_id cu" active_only] by (auto simp: list_provider_accounts_def)
  show "get_provider_account i cu (open_session D) = Inl e \<Longrightarrow> callers_error e"
    using own_account_cases [OF assms, of i cu] by (auto simp: get_provider_account_def)
  show "list_documents cu offset limit (open_session D) = Inl e \<Longrightarrow> callers_error e"
    using pages_listed(1) [of "cu_tenant_id cu" offset limit "open_session D"] by (auto simp: list_documents_def)
  show "get_document i cu (open_session D) = Inl e \<Longrightarrow> callers_error e"
    using own_document_cases [OF assms, of i cu] by (auto simp: get_document_def)
  show "list_deliveries i cu (open_session D) = Inl e \<Longrightarrow> callers_error e"
    using own_document_cases [OF assms, of i cu] deliveries_listed [OF assms, of i] by (auto simp: list_deliveries_def)
  show "get_document_status i cu (open_session D) = Inl e \<Longrightarrow> callers_error e"
    using own_document_cases [OF assms, of i cu] deliveries_listed [OF assms, of i] by (auto simp: get_document_status_def)
  show "list_dlq cu offset limit (open_session D) = Inl e \<Longrightarrow> callers_error e"
    using pages_listed(2) [of "cu_tenant_id cu" offset limit "open_session D"] by (auto simp: list_dlq_def)
  show "get_dlq_entry i cu (open_session D) = Inl e \<Longrightarrow> callers_error e"
    using own_entry_total [OF assms, of i cu] by (auto simp: get_dlq_entry_def split: option.splits)
qed

text \<open>The incoming documents: a page or a document that exists cannot be shown.\<close>

lemma incoming_response_fails: "incoming_response_of r = Inl (AttributeError ''document_date'')"
  unfolding incoming_response_of_def by code_simp

lemma list_incoming_cases:
  "list_incoming cu limit offset (open_session D) =
     (case route_fault cu (List_incoming limit offset) D of
        Some e \<Rightarrow> Inl e | None \<Rightarrow> Inr (page_of [] limit offset))"
proof -
  let ?rs = "take limit (drop offset (sort_key (\<lambda>r. - inc_received_at r) (own_incoming cu D)))"
  have "?rs = [] \<longleftrightarrow> \<not> (0 < limit \<and> offset < length (own_incoming cu D))" by auto
  then show ?thesis
    by (cases ?rs) (auto simp: list_incoming_def own_incoming_def incoming_response_fails)
qed

lemma get_incoming_cases:
  assumes "db_ok D"
  shows "get_incoming i cu (open_session D) =
     (case route_fault cu (Get_incoming i) D of Some e \<Rightarrow> Inl e | None \<Rightarrow> Inl (ErrHTTP 404 ''Not found''))"
proof -
  have eq: "filter (\<lambda>r. inc_id r = i \<and> inc_tenant_id r = cu_tenant_id cu) (db_incoming D) =
      filter (\<lambda>r. inc_id r = i) (own_incoming cu D)"
    by (simp add: own_incoming_def conj_commute)
  have "distinct (map inc_id (own_incoming cu D))" using assms by (simp add: own_incoming_def db_ok_def distinct_map_filter)
  from scalar_of_key [OF this, of i] obtain o' where o: "scalar_one_or_none (filter (\<lambda>r. inc_id r = i) (own_incoming cu D)) = Inr o'"
    by blast
  then have "o' = None \<longleftrightarrow> \<not> list_ex (\<lambda>r. inc_id r = i) (own_incoming cu D)"
    by (auto simp: scalar_one_or_none_def filter_empty_conv list_ex_iff split: list.splits)
  with o show ?thesis
    by (cases o') (simp_all add: get_incoming_def eq incoming_response_fails)
qed

lemma reading_no_fault:
  assumes "sound D" and "\<not> writes c"
  shows "case route_fault cu c D of
      Some e \<Rightarrow> serve (user_route E cu c) D = (Inl e, D, [])
    | None \<Rightarrow> no_fault (serve (user_route E cu c) D) D"
proof -
  note ok = sound_rows(1) [OF assms(1)]
  show ?thesis
    using assms(2)
    by (cases c)
      (auto simp: list_incoming_cases get_incoming_cases [OF ok] serve_replying serve_reading [OF ok] simp del: no_fault_replying
        intro!: no_fault_shown dest: reading_errors [OF assms(1)])
qed

section \<open>Writing routes\<close>

lemma account_taken_iff:
  "account_taken cu q D \<longleftrightarrow> (cu_tenant_id cu, rq_provider_type q, rq_account_name q) \<in>
     (\<lambda>r. (ar_tenant_id r, ar_provider_type r, ar_account_name r)) ` set (db_accounts D)"
  by (force simp: account_taken_def list_ex_iff)

lemma register_cases:
  assumes "db_ok D" and "is_admin cu" and "account_request_valid q" and "new_id \<notin> ar_id ` set (db_accounts D)"
  shows "case route_fault cu (Register_account q) D of
      Some e \<Rightarrow> serve (register_provider_account new_id now q cu) D = (Inl e, D, [])
    | None \<Rightarrow> no_fault (serve (register_provider_account new_id now q cu) D) D"
proof -
  obtain p where p: "parse_provider_type (rq_provider_type q) = Some p" "provider_type_value p = rq_provider_type q"
    using assms(3) by (auto simp: account_request_valid_def parse_provider_type_def)
  let ?a = "create_account new_id now (cu_tenant_id cu) p (rq_account_name q) (rq_credentials q)
    (rq_webhook_secret q) (rq_rate_limit q) (rq_priority q)"
  have "db_ok (D\<lparr>db_accounts := db_accounts D @ [account_to_row ?a]\<rparr>) \<longleftrightarrow> \<not> account_taken cu q D"
    using assms(1,4) p(2)
    by (simp add: db_ok_def accounts_ok_def account_taken_iff account_to_row_def create_account_def)
  then show ?thesis
    using assms(2) p(1)
    by (auto simp: serve_def register_provider_account_def require_admin_def save_account_def session_add_def commit_def
        open_session_def no_fault_def Let_def)
qed

lemma commit_view: "db_ok (view s) \<Longrightarrow> pending s = [] \<Longrightarrow> commit s = Inr (view s)"
  by (simp add: commit_def)

lemma change_account_no_fault:
  assumes "sound D" and "is_admin cu"
  shows "no_fault (serve (change_account f i cu) D) D"
proof (cases "own_account i cu (open_session D)")
  case (Inl e)
  with own_account_cases [OF assms(1), of i cu] assms(2) show ?thesis
    by (auto simp: serve_def change_account_def require_admin_def)
next
  case (Inr a)
  let ?rows = "update_by ar_id (acc_id (f a)) (account_merge (f a)) (db_accounts D)"
  have "map (\<lambda>r. (ar_tenant_id r, ar_provider_type r, ar_account_name r)) ?rows =
      map (\<lambda>r. (ar_tenant_id r, ar_provider_type r, ar_account_name r)) (db_accounts D)"
    by (simp add: update_by_def account_merge_def)
  then have "db_ok (D\<lparr>db_accounts := ?rows\<rparr>)"
    using sound_rows(1) [OF assms(1)] by (simp add: db_ok_def accounts_ok_def accounts.keys_update)
  with Inr assms(2) show ?thesis
    by (simp add: serve_def change_account_def require_admin_def update_account_def write_view_def commit_view open_session_def)
qed

lemma send_no_fault:
  assumes "sound D" and "fresh_ids E D" and "\<forall>m. ae_publish E m = Inr ()"
  shows "no_fault (serve (send_document_endpoint (ae_send E) (ae_publish E) cu q file) D) D"
proof -
  let ?h = "send_document_endpoint (ae_send E) (ae_publish E) cu q file"
  have "distinct (map (\<lambda>r. (doc_tenant_id r, doc_internal_document_id r)) (db_documents D))"
    using sound_rows(1) [OF assms(1)] by (simp add: db_ok_def documents_ok_def)
  from scalar_of_key [OF this, of "(cu_tenant_id cu, sq_internal_document_id q)"] obtain x where
    "scalar_one_or_none (filter (\<lambda>r. doc_tenant_id r = cu_tenant_id cu
       \<and> doc_internal_document_id r = sq_internal_document_id q) (db_documents D)) = Inr x" by auto
  then obtain o' where o: "get_document_by_internal_id (cu_tenant_id cu) (sq_internal_document_id q) (open_session D) = Inr o'"
    by (cases x) (simp_all add: get_document_by_internal_id_def load_def document_to_entity_def)
  obtain a' where a: "get_account_by_id (sq_provider_account_id q) (open_session D) = Inr a'"
    using found(2) [OF assms(1)] by blast
  show ?thesis
  proof (cases "o' = None \<and> (\<exists>a. a' = Some a \<and> acc_tenant_id a = cu_tenant_id cu \<and> acc_is_active a)")
    case True
    then obtain a1 where "a' = Some a1" "acc_tenant_id a1 = cu_tenant_id cu" "acc_is_active a1" "o' = None" by blast
    with o a assms sound_rows(1) [OF assms(1)] have "sendable (ae_send E) (ae_publish E) cu q file a1 D"
      by (auto simp: sendable_def fresh_ids_def send_key_def starts_with_iff) metis
    from sent_request [OF this] show ?thesis by simp
  next
    case False
    then show ?thesis using o a
      by (auto simp: serve_def send_document_endpoint_def split: option.splits)
  qed
qed


lemma sound_session:
  assumes "sound (view s)" and "update_dlq e s = x"
  shows "x = Inr (s\<lparr>view := (view s)\<lparr>db_dlq := update_by dlq_id (dlq_id e) (dlq_merge e) (db_dlq (view s))\<rparr>\<rparr>)"
    and "sound ((view s)\<lparr>db_dlq := update_by dlq_id (dlq_id e) (dlq_merge e) (db_dlq (view s))\<rparr>)"
proof -
  have ok: "db_ok ((view s)\<lparr>db_dlq := update_by dlq_id (dlq_id e) (dlq_merge e) (db_dlq (view s))\<rparr>)"
    using sound_rows(1) [OF assms(1)] by (simp add: db_ok_def dead_letters.keys_update)
  then show "x = Inr (s\<lparr>view := (view s)\<lparr>db_dlq := update_by dlq_id (dlq_id e) (dlq_merge e) (db_dlq (view s))\<rparr>\<rparr>)"
    using assms(2) by (simp add: update_dlq_def write_view_def)
  from ok assms(1) show "sound ((view s)\<lparr>db_dlq := update_by dlq_id (dlq_id e) (dlq_merge e) (db_dlq (view s))\<rparr>)"
    by (simp add: sound_def)
qed

lemma own_entry_session: "sound (view s) \<Longrightarrow> \<exists>o'. own_entry i cu s = Inr o'"
  using own_entry_total [of "view s" i cu] by (simp add: own_entry_def get_dlq_by_id_def)

lemma publish_all_total: "\<forall>m. publish m = Inr () \<Longrightarrow> publish_all publish ms = Inr ()"
  by (induction ms) simp_all

lemma replay_entry_total:
  assumes "sound (view s)" and "\<forall>m. publish m = Inr ()"
  shows "\<exists>s' ms. replay_entry publish now e s = (Inr (), s', ms) \<and> sound (view s') \<and> pending s' = pending s"
  using sound_session [OF assms(1) refl, of "mark_replayed now e"] publish_all_total [of publish, OF assms(2)]
  by (simp add: replay_entry_def)

lemma replay_each_total:
  assumes "\<forall>m. publish m = Inr ()"
  shows "sound (view s) \<Longrightarrow>
    \<exists>k s' ms. replay_each publish clock force cu ids n s = (Inr k, s', ms) \<and> sound (view s') \<and> pending s' = pending s"
proof (induction ids arbitrary: n s)
  case (Cons i ids)
  obtain o' where o: "own_entry i cu s = Inr o'" using own_entry_session [OF Cons.prems] by blast
  show ?case
  proof (cases "\<exists>e. o' = Some e \<and> (dlq_retryable e \<or> force)")
    case True
    then obtain e where e: "o' = Some e" "dlq_retryable e \<or> force" by blast
    obtain s1 ms where 1: "replay_entry publish (clock n) e s = (Inr (), s1, ms)" "sound (view s1)" "pending s1 = pending s"
      using replay_entry_total [OF Cons.prems assms] by blast
    with Cons.IH [OF 1(2), of "n + 1"] o e show ?thesis by auto
  next
    case False
    with o Cons.IH [OF Cons.prems, of n] show ?thesis by (auto split: option.splits)
  qed
qed auto

lemma serve_total: "h (open_session D) = (Inr x, s, ms) \<Longrightarrow> db_ok (view s) \<Longrightarrow> pending s = [] \<Longrightarrow> no_fault (serve h D) D"
  by (simp add: serve_def commit_view)

lemma replay_no_fault:
  assumes "sound D" and "is_admin cu" and "\<forall>m. publish m = Inr ()"
  shows "no_fault (serve (replay_dlq_entry publish now i force cu) D) D"
    and "no_fault (serve (replay_batch publish clock ids force cu) D) D"
proof -
  obtain o' where o: "own_entry i cu (open_session D) = Inr o'" using own_entry_total [OF assms(1)] by blast
  show "no_fault (serve (replay_dlq_entry publish now i force cu) D) D"
  proof (cases "\<exists>e. o' = Some e \<and> (dlq_retryable e \<or> force)")
    case True
    then obtain e where e: "o' = Some e" "dlq_retryable e \<or> force" by blast
    obtain s1 ms where "replay_entry publish now e (open_session D) = (Inr (), s1, ms)" "sound (view s1)" "pending s1 = []"
      using replay_entry_total [of "open_session D" publish now e] assms(1,3) by auto
    with o e assms(2) show ?thesis
      by (intro serve_total [of _ _ "''replayed''" s1 ms]) (auto simp: replay_dlq_entry_def require_admin_def sound_rows(1))
  next
    case False
    with o assms(2) show ?thesis
      by (auto simp: serve_def replay_dlq_entry_def require_admin_def split: option.splits)
  qed
  obtain k s1 ms where "replay_each publish clock force cu ids 0 (open_session D) = (Inr k, s1, ms)" "sound (view s1)"
      "pending s1 = []"
    using replay_each_total [where publish = publish and s = "open_session D"] assms(1,3) by fastforce
  with assms(2) show "no_fault (serve (replay_batch publish clock ids force cu) D) D"
    by (intro serve_total [of _ _ k s1 ms]) (simp_all add: replay_batch_def require_admin_def sound_rows(1))
qed

text \<open>A replay does not look at \<open>replayed_at\<close>: an entry that stands twice in one batch is dispatched twice.\<close>

lemma replayed_again:
  assumes "sound D" and "own_entry i cu (open_session D) = Inr (Some e)" and "dlq_retryable e"
    and "dlq_delivery_id e = Some d" and "dlq_task_name e = ''send_document''" and "\<forall>m. publish m = Inr ()"
  shows "\<exists>s. replay_each publish clock force cu [i, i] 0 (open_session D) =
    (Inr 2, s, [Task_send (uuid_str d) '''', Task_send (uuid_str d) ''''])"
proof -
  let ?e = "mark_replayed (clock 0) e"
  let ?D = "D\<lparr>db_dlq := update_by dlq_id (dlq_id e) (dlq_merge ?e) (db_dlq D)\<rparr>"
  have get: "get_dlq_by_id i (open_session D) = Inr (Some e)" "dlq_tenant_id e = cu_tenant_id cu"
    using assms(2) by (auto simp: own_entry_def and_then_Inr_iff split: option.splits if_splits)
  have i: "dlq_id e = i"
    using dead_letters.get_Some_key [OF get(1) [unfolded get_dlq_by_id_def]] by (auto simp: dlq_to_entity_def)
  have "get_dlq_by_id i (open_session ?D) = Inr (Some (dlq_merge ?e e))"
    using dead_letters.get_update [OF get(1) [unfolded get_dlq_by_id_def], of ?e] by (simp add: get_dlq_by_id_def i)
  then have again: "own_entry i cu (open_session ?D) = Inr (Some (dlq_merge ?e e))"
    using get(2) by (simp add: own_entry_def dlq_merge_def)
  have D: "sound ?D" "update_dlq ?e (open_session D) = Inr (open_session ?D)"
    using sound_session [of "open_session D" ?e _, OF _ refl] assms(1) by (simp_all add: open_session_def mark_replayed_def)
  note upd = sound_session(1) [of "open_session ?D" _ _, OF _ refl]
  show ?thesis
    using assms(2-6) again D upd
    by (simp add: replay_entry_def replay_messages_def publish_all_total dlq_merge_def)
qed

lemma retry_no_fault:
  assumes "sound D" and "\<forall>m. publish m = Inr ()"
  shows "no_fault (serve (retry_document publish i force cu) D) D"
proof -
  obtain ds where ds: "list_by_document i (open_session D) = Inr ds" using deliveries_listed [OF assms(1)] by blast
  let ?fs = "filter (\<lambda>d. dl_status d = FAILED) ds"
  note ok = sound_rows(1) [OF assms(1)]
  have skip: "retry_each publish False fs s = (Inr (), s, [])" if "\<forall>d \<in> set fs. dl_status d = FAILED" for fs s
    using that by (induction fs) (simp_all add: delivery_is_terminal_def)
  have "\<exists>D' ms. retry_each publish force ?fs (open_session D) = (Inr (), open_session D', ms) \<and> db_ok D'"
  proof (cases force)
    case True
    have "distinct (map dl_id ?fs)" using distinct_listed [OF ok ds] by (rule distinct_map_filter)
    with retry_each_forced [where publish = publish and ds = ?fs, OF ok _ _ assms(2) [rule_format]] get_listed [OF ok ds] True
    show ?thesis by fastforce
  next
    case False
    with skip [of ?fs "open_session D"] ok show ?thesis by auto
  qed
  then obtain D' ms where D': "retry_each publish force ?fs (open_session D) = (Inr (), open_session D', ms)" "db_ok D'"
    by blast
  show ?thesis
  proof (cases "?fs = []")
    case True
    with ds show ?thesis by (simp add: serve_def retry_document_def)
  next
    case False
    with ds D' show ?thesis
      by (intro serve_total [of _ _ "''retry_dispatched''" "open_session D'" ms]) (simp_all add: retry_document_def Let_def)
  qed
qed

lemma writing_no_fault:
  assumes "sound D" and "fresh_ids E D" and "\<forall>m. ae_publish E m = Inr ()" and "writes c"
    and "admin_only c \<longrightarrow> is_admin cu" and "body_valid c"
  shows "case route_fault cu c D of
      Some e \<Rightarrow> serve (user_route E cu c) D = (Inl e, D, [])
    | None \<Rightarrow> no_fault (serve (user_route E cu c) D) D"
proof (cases c)
  case (Register_account q)
  have "ae_uuid E 1 \<notin> ar_id ` set (db_accounts D)" using assms(2) by (simp add: fresh_ids_def)
  with register_cases [OF sound_rows(1) [OF assms(1)] _ _ this, of cu q "ae_clock E 1"] Register_account assms(5,6)
  have "if account_taken cu q D
      then serve (user_route E cu c) D = (Inl unique_violation, D, []) else no_fault (serve (user_route E cu c) D) D"
    using Register_account by (cases "account_taken cu q D") (simp_all, simp add: serve_replying)
  with Register_account show ?thesis by (simp split: if_splits)
next
  case (Trigger_poll)
  have "no_fault (serve (trigger_poll (ae_publish E) cu) D) D"
    using assms(3,5) Trigger_poll sound_rows(1) [OF assms(1)]
    by (intro serve_total [of _ _ "''queued''" "open_session D" "[Task_poll_incoming]"])
      (simp_all add: trigger_poll_def require_admin_def)
  with Trigger_poll show ?thesis by simp
qed (use assms in \<open>auto simp: activate_account_def deactivate_account_def
  intro: change_account_no_fault send_no_fault replay_no_fault retry_no_fault\<close>)

lemma route_cases:
  assumes "sound D" and "fresh_ids E D" and "\<forall>m. ae_publish E m = Inr ()"
    and "admin_only c \<longrightarrow> is_admin cu" and "body_valid c"
  shows "case route_fault cu c D of
      Some e \<Rightarrow> serve (user_route E cu c) D = (Inl e, D, [])
    | None \<Rightarrow> no_fault (serve (user_route E cu c) D) D"
  using reading_no_fault [where c = c and cu = cu and E = E, OF assms(1)] writing_no_fault [OF assms(1-3) _ assms(4,5)] by blast

lemma paged_calls:
  assumes "validated h" and "call_of h = Inr c"
  shows "body_valid c" and "admin_only c \<longrightarrow> for_admins h"
  using assms by (cases h; auto simp: paged_def split: if_splits)+

section \<open>Which calls fail\<close>

text \<open>On a consistent database, with a broker that takes messages and fresh uuids: the call raises \<open>fault\<close>, or it is
  answered or refused without a trace.\<close>

theorem call_outcomes:
  assumes "consistent D" and "types_known D" and "fresh_ids E D" and "\<forall>m. ae_publish E m = Inr ()"
    and "identify E token = Inr cu"
  shows "case fault cu h D of
      Some e \<Rightarrow> answer_call E details token h D = (Inl e, D, []) \<and> \<not> callers_error e
    | None \<Rightarrow> no_fault (answer_call E details token h D) D"
proof (cases "for_admins h \<and> \<not> is_admin cu \<or> \<not> validated h")
  case True
  with assms(5) show ?thesis by (auto simp: answer_call_def fault_def)
next
  case False
  show ?thesis
  proof (cases "call_of h")
    case (Inl e)
    then have "e = page_error" by (cases h) (auto simp: paged_def split: if_splits)
    with Inl False assms(5) show ?thesis by (auto simp: answer_call_def fault_def page_error_def callers_error_def)
  next
    case (Inr c)
    have "\<not> callers_error e" if "route_fault cu c D = Some e" for e
      using that by (cases c) (auto simp: callers_error_def unique_violation_def split: if_splits)
    with Inr False assms(5) route_cases [OF sound_consistent [OF assms(1,2)] assms(3,4), of c cu] paged_calls [of h c]
    show ?thesis by (auto simp: answer_call_def fault_def split: option.splits)
  qed
qed

lemma fault_cases:
  assumes "fault cu h D = Some e"
  shows "e = page_error \<and> call_of h = Inl page_error
    \<or> (\<exists>q. h = Plain (Register_account q) \<and> e = unique_violation \<and> account_taken cu q D)
    \<or> own_incoming cu D \<noteq> []"
proof (cases "call_of h")
  case (Inl e')
  then have "e' = page_error" by (cases h) (auto simp: paged_def split: if_splits)
  with Inl assms show ?thesis by (simp add: fault_def split: if_splits)
next
  case (Inr c)
  with assms have c: "route_fault cu c D = Some e" by (simp add: fault_def split: if_splits)
  show ?thesis
  proof (cases c)
    case (Register_account q)
    with Inr have "h = Plain (Register_account q)" by (cases h) (auto simp: paged_def split: if_splits)
    with c Register_account show ?thesis by (simp split: if_splits)
  qed (use c in \<open>auto split: if_splits\<close>)
qed

end
