(* ===== verification/Operation.thy ===== *)
theory Operation
  imports Races Requests
begin

text \<open>
  Calls while the program runs. No step of the cluster stores an incoming document or an account of an unknown
  type; so what \<open>Requests\<close> shows of a consistent database holds in every reachable state, and there the
  incoming documents, which nothing can show, are the ones that were there at the start.
\<close>

section \<open>What no step changes\<close>

definition settled :: "db \<Rightarrow> db \<Rightarrow> bool" where
  "settled D D' \<longleftrightarrow> db_incoming D' = db_incoming D \<and> (types_known D \<longrightarrow> types_known D')"

lemma settled_refl [simp]: "settled D D"
  by (simp add: settled_def)

lemma settled_trans [trans]: "settled D D' \<Longrightarrow> settled D' D'' \<Longrightarrow> settled D D''"
  by (auto simp: settled_def)

lemma spares_settled: "spares t D D' \<Longrightarrow> settled D D'"
  by (simp add: spares_def same_for_def settled_def)

lemma moved_settled: "moved D D' \<Longrightarrow> settled D D'"
  by (simp add: moved_def settled_def types_known_def)

lemma other_tenant: "(t :: uuid) \<noteq> t + 1"
  by simp

lemma retry_each_settled:
  "retry_each publish force ds s = (r, s', ms) \<Longrightarrow> settled (view s) (view s') \<and> pending s' = pending s"
proof (induction ds arbitrary: s r s' ms)
  case (Cons d ds)
  have "settled (view s) (view s1) \<and> pending s1 = pending s" if "update_delivery (reset_for_retry d) s = Inr s1" for s1
    using that by (auto simp: update_delivery_def write_view_Inr settled_def types_known_def)
  with Cons show ?case by (auto split: if_splits sum.splits prod.splits intro: settled_trans)
qed simp

lemma retry_settled:
  assumes "serve (retry_document publish i force cu) D = (r, D', ms)"
  shows "settled D D'"
proof -
  have "settled D (view s') \<and> pending s' = []" if "retry_document publish i force cu (open_session D) = (x, s', n)" for x s' n
    using that retry_each_settled [of publish force _ "open_session D"]
    by (fastforce simp: retry_document_def Let_def split: sum.splits if_splits prod.splits)
  with assms show ?thesis by (fastforce simp: serve_def commit_def Let_def split: prod.splits sum.splits if_splits)
qed

lemma request_step_settled:
  assumes "request_step S S'"
  shows "settled (database S) (database S')"
  using assms
proof (cases rule: request_step.cases)
  case (retry publish i force cu r' D ms)
  with retry_settled [OF retry(2)] show ?thesis by simp
next
  case (send v publish cu q up r D ms)
  with send_serve [OF send(2) other_tenant] show ?thesis by (simp add: spares_settled)
next
  case (replay publish now i force cu r' D ms)
  with replay_serve [OF replay(2) other_tenant] show ?thesis by (simp add: spares_settled)
next
  case (batch publish clock ids force cu n D ms)
  with replay_batch_serve [OF batch(2) other_tenant] show ?thesis by (simp add: spares_settled)
next
  case (register new_id now rq cu ar D ms)
  with register_serve [OF register(2) other_tenant] show ?thesis by (simp add: spares_settled)
next
  case (activate now i cu ar D ms)
  with change_account_serve [OF activate(2) [unfolded activate_account_def] other_tenant]
  show ?thesis by (simp add: spares_settled activate_def)
next
  case (deactivate now i cu ar D ms)
  with change_account_serve [OF deactivate(2) [unfolded deactivate_account_def] other_tenant]
  show ?thesis by (simp add: spares_settled deactivate_def)
next
  case (poll publish cu r' D ms)
  with trigger_poll_serve [OF poll(2)] show ?thesis by (simp add: spares_settled)
qed simp

lemma run_settled:
  assumes "send_document env R i f w = (r, w')" and "consistent (w_db w)"
  shows "settled (w_db w) (w_db w')"
proof (cases "uuid_parse i")
  case (Inl e)
  with assms show ?thesis by (auto simp: send_document_def)
next
  case (Inr did)
  have "db_ok (w_db w)" using assms(2) by (simp add: consistent_def)
  from frame_moved [OF send_document_frame [OF assms(1) Inr this] assms(2)] show ?thesis by (rule moved_settled)
qed

lemma background_step_settled:
  assumes "background_step R S S'" and "consistent (database S)"
  shows "settled (database S) (database S')"
  using assms
proof (cases rule: background_step.cases)
  case (dead_letters set_gauge publish to_str now n D ms)
  with process_dlq_frame [OF dead_letters(2)] show ?thesis by (auto simp: settled_def types_known_def)
qed (use assms(2) in \<open>auto dest: run_settled\<close>)

lemma cluster_step_settled:
  assumes "cluster_step R C C'" and "cluster_ok C"
  shows "settled (cluster_db C) (cluster_db C')"
  using assms
proof (cases rule: cluster_step.cases)
  case (request S)
  with request_step_settled [OF request(2)] show ?thesis by simp
next
  case (background S)
  with background_step_settled [OF background(2)] assms(2) show ?thesis by (simp add: cluster_ok_def)
next
  case (work ks k ks' k' w')
  with stage_step_ok [of R k "wk_stage k" "sy_world (cl_system C)"] assms(2) show ?thesis
    by (auto simp: cluster_ok_def worker_step_def intro: moved_settled split: prod.splits)
next
  case (commit ps rows qs D)
  with commit_rows_consistent [OF commit(3)] assms(2) show ?thesis by (auto simp: cluster_ok_def intro: moved_settled)
qed auto

lemma reachable_settled:
  assumes "reachable R D0 C" and "consistent D0"
  shows "settled D0 (cluster_db C)"
  using assms(1)
proof (induction rule: reachable.induct)
  case (start x y)
  then show ?case by (simp add: fresh_cluster_def)
next
  case (further C C')
  with cluster_step_settled [OF further(2) reachable_ok [OF further(1) assms(2)]] show ?case by (blast intro: settled_trans)
qed

section \<open>Which calls fail\<close>



end
