(* ===== verification/Columns.thy ===== *)
theory Columns
  imports AdminApi
begin

text \<open>
  What the request classes admit and what the tables hold. The classes of \<open>src/application/dto\<close> bound the texts
  of a request; the ORM classes give each text column a width, and PostgreSQL rejects a longer text. The
  lemmas compare the two for the rows that the send and register routes store.
\<close>

section \<open>Text columns\<close>

text \<open>A null needs a nullable column, a text a text column that is wide enough.\<close>

fun cell_fits :: "column \<Rightarrow> string option \<Rightarrow> bool" where
  "cell_fits c None = col_null c"
| "cell_fits c (Some t) =
     (case col_type c of String_T w \<Rightarrow> length t \<le> w | Text_T \<Rightarrow> True | _ \<Rightarrow> False)"

definition row_fits :: "table \<Rightarrow> (string \<times> string option) list \<Rightarrow> bool" where
  "row_fits t cells =
     list_all (\<lambda>(n, v). case find (\<lambda>c. col_name c = n) (tab_columns t) of None \<Rightarrow> False | Some c \<Rightarrow> cell_fits c v) cells"

text \<open>The text cells of the rows that \<open>save\<close> constructs.\<close>

definition document_texts :: "document \<Rightarrow> (string \<times> string option) list" where
  "document_texts d =
     [(''document_type'', Some (doc_document_type d)), (''sender_inn'', Some (doc_sender_inn d)),
      (''sender_kpp'', doc_sender_kpp d), (''recipient_inn'', Some (doc_recipient_inn d)),
      (''recipient_kpp'', doc_recipient_kpp d), (''title'', Some (doc_title d)),
      (''file_name'', Some (doc_file_name d)), (''mime_type'', Some (doc_mime_type d)),
      (''file_checksum'', Some (doc_file_checksum d))]"

definition delivery_texts :: "delivery_row \<Rightarrow> (string \<times> string option) list" where
  "delivery_texts r =
     [(''provider_document_id'', dr_provider_document_id r), (''unified_status'', Some (dr_unified_status r)),
      (''provider_raw_status'', dr_provider_raw_status r), (''last_error_code'', dr_last_error_code r),
      (''last_error_message'', dr_last_error_message r), (''idempotency_key'', Some (dr_idempotency_key r))]"

definition account_texts :: "account_row \<Rightarrow> (string \<times> string option) list" where
  "account_texts r =
     [(''provider_type'', Some (ar_provider_type r)), (''account_name'', Some (ar_account_name r)),
      (''webhook_secret'', ar_webhook_secret r)]"

section \<open>Requests against columns\<close>

lemma length_uuid_str [simp]: "length (uuid_str u) = 36"
  by (simp add: uuid_str_def Let_def)

lemma length_bytes_hex [simp]: "length (bytes_hex bs) = 2 * length bs"
  by (induction bs) simp_all

lemma document_columns:
  "row_fits orm_edo_documents (document_texts d) \<longleftrightarrow>
     length (doc_document_type d) \<le> 64 \<and> length (doc_sender_inn d) \<le> 12
     \<and> (case doc_sender_kpp d of None \<Rightarrow> True | Some k \<Rightarrow> length k \<le> 9) \<and> length (doc_recipient_inn d) \<le> 12
     \<and> (case doc_recipient_kpp d of None \<Rightarrow> True | Some k \<Rightarrow> length k \<le> 9) \<and> length (doc_title d) \<le> 255
     \<and> length (doc_file_name d) \<le> 255 \<and> length (doc_mime_type d) \<le> 128 \<and> length (doc_file_checksum d) \<le> 64"
  by (cases "doc_sender_kpp d"; cases "doc_recipient_kpp d")
    (simp_all add: row_fits_def document_texts_def orm_edo_documents_def uuid_pk_mixin_def col_def)

lemma account_columns:
  "row_fits orm_provider_accounts (account_texts r) \<longleftrightarrow>
     length (ar_provider_type r) \<le> 32 \<and> length (ar_account_name r) \<le> 255
     \<and> (case ar_webhook_secret r of None \<Rightarrow> True | Some k \<Rightarrow> length k \<le> 255)"
  by (cases "ar_webhook_secret r")
    (simp_all add: row_fits_def account_texts_def orm_provider_accounts_def uuid_pk_mixin_def timestamp_mixin_def col_def)

lemma new_delivery_columns: "row_fits orm_document_deliveries (delivery_texts (delivery_to_row (new_delivery v cu a)))"
  by (simp add: row_fits_def delivery_texts_def orm_document_deliveries_def uuid_pk_mixin_def timestamp_mixin_def col_def
      delivery_to_row_def new_delivery_def create_delivery_def)

lemma kpp_width: "kpp_pattern k \<Longrightarrow> (case k of None \<Rightarrow> True | Some t \<Rightarrow> length t \<le> 9)"
  by (simp add: kpp_pattern_def split: option.splits)

lemma inn_width: "inn_pattern t \<Longrightarrow> length t \<le> 12"
  by (auto simp: inn_pattern_def)

lemma provider_type_width: "length (provider_type_value p) \<le> 32"
  by (cases p) simp_all

text \<open>C35: A request that passes validation fits the tables but for three texts that no class bounds. With a
  checksum of 32 bytes the document of a valid send request fits its columns exactly when the name of the
  uploaded file has at most 255 characters and its content type at most 128, its delivery always fits; the
  account of a valid registration fits exactly when the webhook secret has at most 255 characters.\<close>

theorem valid_requests_fit_columns:
  assumes "send_request_valid q" and "\<And>bs. length (sv_sha256 v bs) = 32" and "account_request_valid rq"
    and "parse_provider_type (rq_provider_type rq) = Some p"
  shows "(row_fits orm_edo_documents (document_texts (new_document v cu q file)) \<longleftrightarrow>
        length (or_default (up_filename file) ''document'') \<le> 255
        \<and> length (or_default (up_content_type file) ''application/octet-stream'') \<le> 128)
    \<and> row_fits orm_document_deliveries (delivery_texts (delivery_to_row (new_delivery v cu a)))
    \<and> (row_fits orm_provider_accounts (account_texts (account_to_row
          (create_account new_id now (cu_tenant_id cu) p (rq_account_name rq) (rq_credentials rq)
            (rq_webhook_secret rq) (rq_rate_limit rq) (rq_priority rq)))) \<longleftrightarrow>
        (case rq_webhook_secret rq of None \<Rightarrow> True | Some k \<Rightarrow> length k \<le> 255))"
proof -
  have "row_fits orm_edo_documents (document_texts (new_document v cu q file)) \<longleftrightarrow>
      length (or_default (up_filename file) ''document'') \<le> 255
      \<and> length (or_default (up_content_type file) ''application/octet-stream'') \<le> 128"
    using assms(1,2) kpp_width [of "sq_sender_kpp q"] kpp_width [of "sq_recipient_kpp q"]
      inn_width [of "sq_sender_inn q"] inn_width [of "sq_recipient_inn q"]
    by (simp add: document_columns new_document_def create_document_def send_request_valid_def)
  moreover have "row_fits orm_provider_accounts (account_texts (account_to_row
          (create_account new_id now (cu_tenant_id cu) p (rq_account_name rq) (rq_credentials rq)
            (rq_webhook_secret rq) (rq_rate_limit rq) (rq_priority rq)))) \<longleftrightarrow>
        (case rq_webhook_secret rq of None \<Rightarrow> True | Some k \<Rightarrow> length k \<le> 255)"
    using assms(3) provider_type_width [of p]
    by (simp add: account_columns account_to_row_def create_account_def account_request_valid_def)
  ultimately show ?thesis using new_delivery_columns by blast
qed

definition sample_registration :: account_request where
  "sample_registration = \<lparr>rq_provider_type = ''STUB'', rq_account_name = ''A'', rq_credentials = [],
     rq_webhook_secret = Some (replicate 300 CHR ''x''), rq_rate_limit = None, rq_priority = 100\<rparr>"

theorem valid_requests_fit_columns_witness:
  "\<not> row_fits orm_edo_documents (document_texts (new_document (sample_send_env\<lparr>sv_sha256 := \<lambda>bs. replicate 32 0\<rparr>) sample_cu
       sample_send_request (sample_upload\<lparr>up_filename := Some (replicate 256 CHR ''x'')\<rparr>)))
   \<and> \<not> row_fits orm_provider_accounts (account_texts (account_to_row
       (create_account 9 0 (cu_tenant_id sample_cu) STUB (rq_account_name sample_registration)
         (rq_credentials sample_registration) (rq_webhook_secret sample_registration)
         (rq_rate_limit sample_registration) (rq_priority sample_registration))))"
proof -
  let ?v = "sample_send_env\<lparr>sv_sha256 := \<lambda>bs. replicate 32 0\<rparr>"
  have q: "send_request_valid sample_send_request"
    by (simp add: send_request_valid_def sample_send_request_def inn_pattern_def kpp_pattern_def is_digit_def)
  have sha: "\<And>bs. length (sv_sha256 ?v bs) = 32" by simp
  have rq: "account_request_valid sample_registration"
    "parse_provider_type (rq_provider_type sample_registration) = Some STUB"
    by (simp_all add: account_request_valid_def sample_registration_def parse_provider_type_def)
  have name: "length (or_default (up_filename (sample_upload\<lparr>up_filename := Some (replicate 256 CHR ''x'')\<rparr>)) ''document'') = 256"
    by (simp add: or_default_def)
  have secret: "rq_webhook_secret sample_registration = Some (replicate 300 CHR ''x'')"
    by (simp add: sample_registration_def)
  from valid_requests_fit_columns [OF q sha rq, of sample_cu "sample_upload\<lparr>up_filename := Some (replicate 256 CHR ''x'')\<rparr>"
      sample_account 9 0] name secret
  show ?thesis by simp
qed

end
