(* ===== verification/Conformance.thy ===== *)
theory Conformance
  imports Tasks
begin

text \<open>
  Do the tasks use their collaborators as these are declared? Python looks a name up when the line runs, so a
  misspelt attribute or a missing argument shows only then. Here are the declarations of the classes the
  tasks use, as tables, and the \<open>use\<close> of a class, which fits its declaration or does not: calls (number of
  positional arguments and keyword names), attributes, constructed rows, label names. \<open>TaskRuns\<close> takes each
  task as a program over such uses.
\<close>

section \<open>Declarations\<close>

record signature =
  sg_positional :: "string list"
  sg_keyword_only :: "string list"
  sg_defaults :: "string list"

abbreviation takes :: "string list \<Rightarrow> signature" where
  "takes ps \<equiv> \<lparr>sg_positional = ps, sg_keyword_only = [], sg_defaults = []\<rparr>"

text \<open>Each argument once, none unknown, none missing that has no default.\<close>

definition accepts :: "signature \<Rightarrow> nat \<Rightarrow> string list \<Rightarrow> bool" where
  "accepts s n ks \<longleftrightarrow>
     (let open = drop n (sg_positional s) @ sg_keyword_only s in
      n \<le> length (sg_positional s) \<and> distinct ks \<and> list_all (\<lambda>k. k \<in> set open) ks
      \<and> list_all (\<lambda>p. p \<in> set ks \<or> p \<in> set (sg_defaults s)) open)"

definition breaker_signatures :: "(string \<times> signature) list" where
  "breaker_signatures =
     [(''CircuitBreaker'', takes [''redis_client'']),
      (''CircuitBreaker.get_state'', takes [''account_id'']),
      (''CircuitBreaker.record_success'', takes [''account_id'']),
      (''CircuitBreaker.record_failure'', takes [''account_id'']),
      (''CircuitBreaker.guard'', takes [''account_id''])]"

definition provider_signatures :: "(string \<times> signature) list" where
  "provider_signatures =
     [(''IEDOProvider.send_document'',
       \<lparr>sg_positional = [], sg_keyword_only = [''sender_inn'', ''sender_kpp'', ''recipient_inn'', ''recipient_kpp'',
          ''document_type'', ''title'', ''file_name'', ''mime_type'', ''file_bytes'', ''metadata''], sg_defaults = []\<rparr>),
      (''IEDOProvider.get_document_status'', takes [''provider_document_id'']),
      (''IEDOProvider.poll_incoming'',
       \<lparr>sg_positional = [], sg_keyword_only = [''since'', ''limit''], sg_defaults = [''since'', ''limit'']\<rparr>),
      (''IEDOProvider.validate_webhook'', takes [''payload'', ''headers'']),
      (''IEDOProvider.parse_webhook'', takes [''payload'']),
      (''IEDOProvider.health_check'', takes [])]"

definition factory_signatures :: "(string \<times> signature) list" where
  "factory_signatures = [(''ProviderFactory.create'', takes [''provider_type'', ''credentials''])]"

definition retry_signatures :: "(string \<times> signature) list" where
  "retry_signatures =
     [(''compute_next_retry'', takes [''retry_count'']), (''should_retry'', takes [''retry_count''])]"

definition delivery_signatures :: "(string \<times> signature) list" where
  "delivery_signatures =
     [(''DocumentDelivery.mark_sending'', takes []),
      (''DocumentDelivery.mark_sent'', takes [''provider_document_id'']),
      (''DocumentDelivery.mark_failed'', takes [''error_code'', ''error_message'']),
      (''DocumentDelivery.schedule_retry'', takes [''next_retry_at''])]"

definition audit_signatures :: "(string \<times> signature) list" where
  "audit_signatures =
     [(''AuditEvent.create'',
       \<lparr>sg_positional = [], sg_keyword_only = [''tenant_id'', ''resource_type'', ''resource_id'', ''event_type'',
          ''payload'', ''actor_user_id'', ''trace_id''], sg_defaults = [''payload'', ''actor_user_id'', ''trace_id'']\<rparr>)]"

definition repository_signatures :: "(string \<times> signature) list" where
  "repository_signatures =
     [(''SQLDeliveryRepository'', takes [''session'']), (''SQLDeliveryRepository.get_by_id'', takes [''delivery_id'']),
      (''SQLDeliveryRepository.update'', takes [''delivery'']),
      (''SQLProviderAccountRepository'', takes [''session'']),
      (''SQLProviderAccountRepository.get_by_id'', takes [''account_id'']),
      (''SQLAuditRepository'', takes [''session'']), (''SQLAuditRepository.save'', takes [''event''])]"

definition dead_letter_signatures :: "(string \<times> signature) list" where
  "dead_letter_signatures = [(''_write_dlq'', takes [''session'', ''delivery'', ''code'', ''message'', ''retryable''])]"

definition signatures :: "(string \<times> signature) list" where
  "signatures = breaker_signatures @ provider_signatures @ factory_signatures @ retry_signatures
     @ delivery_signatures @ audit_signatures @ repository_signatures @ dead_letter_signatures"

text \<open>The metrics, under the names of the variables that hold them.\<close>

datatype metric_kind = Counter | Gauge | Histogram "rat list"

record metric =
  mt_variable :: string
  mt_kind :: metric_kind
  mt_name :: string
  mt_labels :: "string list"

definition metrics :: "metric list" where
  "metrics =
     [\<lparr>mt_variable = ''DOCUMENT_SEND_TOTAL'', mt_kind = Counter, mt_name = ''edo_document_send_total'',
       mt_labels = [''provider_type'', ''status'']\<rparr>,
      \<lparr>mt_variable = ''DOCUMENT_SEND_DURATION_SECONDS'', mt_kind = Histogram [1 / 10, 1 / 2, 1, 5 / 2, 5, 10, 30],
       mt_name = ''edo_document_send_duration_seconds'', mt_labels = [''provider_type'']\<rparr>,
      \<lparr>mt_variable = ''DELIVERY_STATUS_TRANSITIONS'', mt_kind = Counter, mt_name = ''edo_delivery_status_transitions_total'',
       mt_labels = [''from_status'', ''to_status'', ''provider_type'']\<rparr>,
      \<lparr>mt_variable = ''DELIVERY_RETRIES'', mt_kind = Counter, mt_name = ''edo_delivery_retries_total'',
       mt_labels = [''provider_type'']\<rparr>,
      \<lparr>mt_variable = ''DELIVERIES_IN_DLQ'', mt_kind = Gauge, mt_name = ''edo_deliveries_in_dlq'',
       mt_labels = [''tenant_id'']\<rparr>,
      \<lparr>mt_variable = ''PROVIDER_HEALTH_STATUS'', mt_kind = Gauge, mt_name = ''edo_provider_health_status'',
       mt_labels = [''provider_account_id'', ''provider_type'']\<rparr>,
      \<lparr>mt_variable = ''PROVIDER_RESPONSE_TIME_MS'', mt_kind = Histogram [10, 50, 100, 250, 500, 1000, 2500, 5000],
       mt_name = ''edo_provider_response_time_ms'', mt_labels = [''provider_type'']\<rparr>,
      \<lparr>mt_variable = ''CIRCUIT_BREAKER_STATE'', mt_kind = Gauge, mt_name = ''edo_circuit_breaker_state'',
       mt_labels = [''provider_account_id'']\<rparr>,
      \<lparr>mt_variable = ''WEBHOOK_RECEIVED_TOTAL'', mt_kind = Counter, mt_name = ''edo_webhook_received_total'',
       mt_labels = [''provider_type'', ''signature_status'']\<rparr>,
      \<lparr>mt_variable = ''WEBHOOK_PROCESSING_ERRORS'', mt_kind = Counter, mt_name = ''edo_webhook_processing_errors_total'',
       mt_labels = [''provider_type'']\<rparr>,
      \<lparr>mt_variable = ''INCOMING_DOCUMENTS_POLLED'', mt_kind = Counter, mt_name = ''edo_incoming_documents_polled_total'',
       mt_labels = [''provider_type'']\<rparr>]"

definition metric_labels :: "(string \<times> string list) list" where
  "metric_labels = map (\<lambda>m. (mt_variable m, mt_labels m)) metrics"

text \<open>Fields of the entities and of the providers' result classes.\<close>

definition result_fields :: "(string \<times> string list) list" where
  "result_fields =
     [(''SendResult'', [''provider_document_id'', ''raw_status'']),
      (''StatusResult'', [''provider_document_id'', ''unified_status'', ''raw_status'', ''extra'']),
      (''IncomingDocumentData'', [''provider_document_id'', ''document_type'', ''sender_inn'', ''sender_name'',
        ''file_name'', ''mime_type'', ''unified_status'', ''metadata'', ''received_at'']),
      (''WebhookParseResult'', [''external_event_id'', ''provider_document_id'', ''unified_status'', ''raw_payload''])]"

definition delivery_fields :: "(string \<times> string list) list" where
  "delivery_fields =
     [(''DocumentDelivery'', [''id'', ''tenant_id'', ''document_id'', ''provider_account_id'', ''idempotency_key'',
        ''unified_status'', ''provider_document_id'', ''provider_raw_status'', ''retry_count'', ''next_retry_at'',
        ''last_error_code'', ''last_error_message'', ''sent_at'', ''delivered_at'', ''signed_at'', ''rejected_at'',
        ''final_at'', ''created_at'', ''updated_at''])]"

definition account_fields :: "(string \<times> string list) list" where
  "account_fields =
     [(''ProviderAccount'', [''id'', ''tenant_id'', ''provider_type'', ''account_name'', ''credentials_json'',
        ''is_active'', ''priority'', ''webhook_secret'', ''rate_limit_per_minute'', ''created_at'', ''updated_at''])]"

text \<open>The values that are not objects of a class of the repository: \<open>unified_status\<close> of the providers' results is a
  text, and \<open>health_check\<close> returns a pair.\<close>

definition plain_fields :: "(string \<times> string list) list" where
  "plain_fields = [(''str'', []), (''tuple'', [])]"

definition class_fields :: "(string \<times> string list) list" where
  "class_fields =
     [(''ProviderAccountModel'', attributes orm_provider_accounts),
      (''DocumentDeliveryModel'', attributes orm_document_deliveries),
      (''IncomingDocumentModel'', attributes orm_incoming_documents),
      (''WebhookEventModel'', attributes orm_webhook_events),
      (''DLQEntryModel'', attributes orm_dlq_entries),
      (''ProviderHealthSnapshotModel'', attributes orm_provider_health_snapshots)]
     @ result_fields @ delivery_fields @ account_fields @ plain_fields"

text \<open>Every method of the breaker and of the providers is a coroutine function: what a call returns is neither a
  context manager nor iterable.\<close>

definition context_managers :: "string list" where
  "context_managers = []"

definition iterables :: "string list" where
  "iterables = []"

section \<open>Uses\<close>

text \<open>\<open>Enter\<close> is an \<open>async with\<close> over the call of a function and \<open>Iterates\<close> a \<open>for\<close> over what a call returned without
  \<open>await\<close>; \<open>Sets\<close> is a value given to a metric itself, which needs it to have no labels.\<close>

datatype use =
    Call string nat "string list"
  | Attr string string
  | Build string "string list"
  | Enter string
  | Iterates string
  | Labels string "string list"
  | Sets string

fun fits :: "use \<Rightarrow> bool" where
  "fits (Call f n ks) = (case map_of signatures f of None \<Rightarrow> False | Some s \<Rightarrow> accepts s n ks)"
| "fits (Attr c a) = (case map_of class_fields c of None \<Rightarrow> False | Some fs \<Rightarrow> a \<in> set fs)"
| "fits (Build c ks) = (case map_of class_fields c of None \<Rightarrow> False | Some fs \<Rightarrow> distinct ks \<and> list_all (\<lambda>k. k \<in> set fs) ks)"
| "fits (Enter f) = (f \<in> set context_managers)"
| "fits (Iterates f) = (f \<in> set iterables)"
| "fits (Labels m ks) =
     (case map_of metric_labels m of None \<Rightarrow> False | Some ls \<Rightarrow> list_all (\<lambda>k. k \<in> set ls) ks \<and> list_all (\<lambda>l. l \<in> set ks) ls)"
| "fits (Sets m) = (map_of metric_labels m = Some [])"

definition broken :: "(nat \<times> use) list \<Rightarrow> nat list" where
  "broken uses = remdups (map fst (filter (\<lambda>(line, u). \<not> fits u) uses))"

end
