(* ===== verification/TaskRuns.thy ===== *)
theory TaskRuns
  imports Conformance
begin

text \<open>
  The background tasks as programs over uses of the repository's classes (\<open>Conformance\<close>), with their control
  flow: branches, loops, \<open>try\<close>, early returns. Data is left out, so a branch or a loop may go either way and a
  call into a library, a provider or the database may raise. \<open>runs ok p r\<close> says that the program can end with
  \<open>r\<close> when exactly the uses in \<open>ok\<close> succeed. Two analyses are proved sound: \<open>uses\<close>, what a run can meet, and \<open>must\<close>,
  what every run meets that gets to the end. They answer what comes after the first error of a task.
\<close>

section \<open>Programs\<close>

datatype prog =
    Skip
  | Use nat use
  | Extern nat
  | Return
  | Seq prog prog
  | Either prog prog
  | Each prog
  | Try prog prog
  | Try_some prog prog
  | Finally prog prog

text \<open>\<open>Use\<close> and \<open>Extern\<close> carry the source line. \<open>Try\<close> is \<open>except Exception\<close>; \<open>Try_some\<close> names a class of exceptions that
  no misuse raises.\<close>

primrec block :: "prog list \<Rightarrow> prog" where
  "block [] = Skip"
| "block (p # ps) = Seq p (block ps)"

text \<open>A run ends, returns early, stops at the misuse of a line, or raises for another reason.\<close>

datatype ending = Completed | Returned | Misuse nat | Raised

definition failed :: "ending \<Rightarrow> bool" where
  "failed r \<longleftrightarrow> r = Raised \<or> (\<exists>l. r = Misuse l)"

inductive runs :: "(nat \<times> use \<Rightarrow> bool) \<Rightarrow> prog \<Rightarrow> ending \<Rightarrow> bool" for ok where
  Skip: "runs ok Skip Completed"
| Use: "ok (l, u) \<Longrightarrow> runs ok (Use l u) Completed"
| Use_misuse: "\<not> ok (l, u) \<Longrightarrow> runs ok (Use l u) (Misuse l)"
| Extern: "runs ok (Extern l) Completed"
| Extern_raises: "runs ok (Extern l) Raised"
| Return: "runs ok Return Returned"
| Seq: "runs ok p Completed \<Longrightarrow> runs ok q r \<Longrightarrow> runs ok (Seq p q) r"
| Seq_stops: "runs ok p r \<Longrightarrow> r \<noteq> Completed \<Longrightarrow> runs ok (Seq p q) r"
| Either_left: "runs ok p r \<Longrightarrow> runs ok (Either p q) r"
| Either_right: "runs ok q r \<Longrightarrow> runs ok (Either p q) r"
| Each_none: "runs ok (Each p) Completed"
| Each_more: "runs ok p Completed \<Longrightarrow> runs ok (Each p) r \<Longrightarrow> runs ok (Each p) r"
| Each_stops: "runs ok p r \<Longrightarrow> r \<noteq> Completed \<Longrightarrow> runs ok (Each p) r"
| Try: "runs ok p r \<Longrightarrow> \<not> failed r \<Longrightarrow> runs ok (Try p h) r"
| Try_handled: "runs ok p r \<Longrightarrow> failed r \<Longrightarrow> runs ok h r' \<Longrightarrow> runs ok (Try p h) r'"
| Try_some: "runs ok p r \<Longrightarrow> runs ok (Try_some p h) r"
| Try_some_handled: "runs ok p Raised \<Longrightarrow> runs ok h r \<Longrightarrow> runs ok (Try_some p h) r"
| Finally: "runs ok p r \<Longrightarrow> runs ok q Completed \<Longrightarrow> runs ok (Finally p q) r"
| Finally_fails: "runs ok p r \<Longrightarrow> runs ok q r' \<Longrightarrow> r' \<noteq> Completed \<Longrightarrow> runs ok (Finally p q) r'"

inductive_cases runs_elims:
  "runs ok Skip r" "runs ok (Use l u) r" "runs ok (Extern l) r" "runs ok Return r" "runs ok (Seq p q) r"
  "runs ok (Either p q) r" "runs ok (Try p h) r" "runs ok (Try_some p h) r" "runs ok (Finally p q) r"

lemma failed_simps [simp]: "failed Raised" "failed (Misuse l)" "\<not> failed Completed" "\<not> failed Returned"
  by (simp_all add: failed_def)

text \<open>Every program has a run, whatever succeeds.\<close>

lemma runs_total: "\<exists>r. runs ok p r"
proof (induction p)
  case (Use l u)
  then show ?case by (cases "ok (l, u)") (blast intro: runs.intros)+
next
  case (Seq p q)
  then obtain r r' where "runs ok p r" "runs ok q r'" by blast
  then show ?case by (cases "r = Completed") (blast intro: runs.intros)+
next
  case (Try p h)
  then obtain r r' where "runs ok p r" "runs ok h r'" by blast
  then show ?case by (cases "failed r") (blast intro: runs.intros)+
next
  case (Finally p q)
  then obtain r r' where "runs ok p r" "runs ok q r'" by blast
  then show ?case by (cases "r' = Completed") (blast intro: runs.intros)+
qed (blast intro: runs.intros)+

section \<open>Analyses\<close>

primrec uses :: "prog \<Rightarrow> (nat \<times> use) list" where
  "uses Skip = []"
| "uses (Use l u) = [(l, u)]"
| "uses (Extern l) = []"
| "uses Return = []"
| "uses (Seq p q) = uses p @ uses q"
| "uses (Either p q) = uses p @ uses q"
| "uses (Each p) = uses p"
| "uses (Try p h) = uses p @ uses h"
| "uses (Try_some p h) = uses p @ uses h"
| "uses (Finally p q) = uses p @ uses q"

text \<open>A program whose uses all succeed stops at none of them.\<close>

theorem no_misuse:
  assumes "runs ok p r" and "\<forall>x \<in> set (uses p). ok x"
  shows "r \<noteq> Misuse l"
  using assms by (induction rule: runs.induct) auto

text \<open>What every run meets that reaches the end; \<open>None\<close> when no run does.\<close>

definition meet :: "'a list option \<Rightarrow> 'a list option \<Rightarrow> 'a list option" where
  "meet xs ys =
     (case (xs, ys) of
        (None, _) \<Rightarrow> ys
      | (_, None) \<Rightarrow> xs
      | (Some as, Some bs) \<Rightarrow> Some (filter (\<lambda>a. a \<in> set bs) as))"

definition join :: "'a list option \<Rightarrow> 'a list option \<Rightarrow> 'a list option" where
  "join xs ys = (case (xs, ys) of (Some as, Some bs) \<Rightarrow> Some (as @ bs) | _ \<Rightarrow> None)"

primrec must :: "prog \<Rightarrow> (nat \<times> use) list option" where
  "must Skip = Some []"
| "must (Use l u) = Some [(l, u)]"
| "must (Extern l) = Some []"
| "must Return = None"
| "must (Seq p q) = join (must p) (must q)"
| "must (Either p q) = meet (must p) (must q)"
| "must (Each p) = Some []"
| "must (Try p h) = meet (must p) (must h)"
| "must (Try_some p h) = meet (must p) (must h)"
| "must (Finally p q) = join (must p) (must q)"

definition met :: "(nat \<times> use \<Rightarrow> bool) \<Rightarrow> (nat \<times> use) list option \<Rightarrow> bool" where
  "met ok xs \<longleftrightarrow> (\<exists>as. xs = Some as \<and> (\<forall>a \<in> set as. ok a))"

lemma met_Some [simp]: "met ok (Some as) \<longleftrightarrow> (\<forall>a \<in> set as. ok a)"
  by (simp add: met_def)

lemma met_join: "met ok xs \<Longrightarrow> met ok ys \<Longrightarrow> met ok (join xs ys)"
  by (auto simp: met_def join_def)

lemma met_meet: "met ok xs \<or> met ok ys \<Longrightarrow> met ok (meet xs ys)"
  by (auto simp: met_def meet_def split: option.splits)

theorem completed_met:
  assumes "runs ok p Completed"
  shows "met ok (must p)"
  using assms
  by (induction p "Completed" rule: runs.induct) (auto intro: met_join met_meet simp: failed_def)

text \<open>The lines that are in the way: \<open>needed p\<close> are those of \<open>must p\<close> whose use does not fit its declaration. A program
  in which the uses of some lines \<open>M\<close> have been mended.\<close>

definition needed :: "prog \<Rightarrow> nat list" where
  "needed p = (case must p of None \<Rightarrow> [] | Some xs \<Rightarrow> broken xs)"

definition mended :: "nat set \<Rightarrow> nat \<times> use \<Rightarrow> bool" where
  "mended M = (\<lambda>(l, u). l \<in> M \<or> fits u)"

lemma broken_iff: "l \<in> set (broken xs) \<longleftrightarrow> (\<exists>u. (l, u) \<in> set xs \<and> \<not> fits u)"
  by (force simp: broken_def)

lemma needed_mended:
  assumes "runs (mended M) p Completed"
  shows "set (needed p) \<subseteq> M"
proof -
  obtain xs where xs: "must p = Some xs" "\<forall>x \<in> set xs. mended M x"
    using completed_met [OF assms] by (auto simp: met_def)
  then show ?thesis by (force simp: needed_def broken_iff mended_def)
qed

lemma conforming_never_misuses:
  assumes "runs (mended M) p r" and "broken (uses p) = []"
  shows "r \<noteq> Misuse l"
proof -
  have "mended M x" if "x \<in> set (uses p)" for x
  proof (cases x)
    case (Pair k u)
    have "k \<notin> set (broken (uses p))" by (simp add: assms(2))
    with Pair that show ?thesis unfolding broken_iff by (auto simp: mended_def)
  qed
  then show ?thesis using no_misuse [OF assms(1)] by blast
qed

end
