(* ===== verification/TaskPrograms.thy ===== *)
theory TaskPrograms
  imports TaskRuns
begin

text \<open>
  The six tasks that use classes of the repository, each with its control flow (\<open>infrastructure/queue/tasks\<close>).
  The evaluation order is Python's: arguments before the call, the columns of a statement before it is
  executed. Statistics, logging and assignments are left out: none of them can raise.
\<close>

section \<open>Polling\<close>

definition poll_ask :: prog where
  "poll_ask = block
     [Use 36 (Call ''CircuitBreaker.guard'' 0 []), Use 36 (Enter ''CircuitBreaker.guard''),
      Use 38 (Attr ''ProviderAccountModel'' ''provider_type''), Use 38 (Attr ''ProviderAccountModel'' ''credentials''),
      Use 37 (Call ''ProviderFactory.create'' 2 []), Extern 37, Use 40 (Attr ''ProviderAccountModel'' ''tenant_id''),
      Use 40 (Call ''IEDOProvider.poll_incoming'' 1 []), Extern 40]"

definition poll_store :: prog where
  "poll_store = block
     [Use 56 (Attr ''ProviderAccountModel'' ''tenant_id''), Use 57 (Attr ''ProviderAccountModel'' ''id''),
      Use 58 (Attr ''IncomingDocumentData'' ''provider_document_id''), Use 59 (Attr ''IncomingDocumentData'' ''sender_inn''),
      Use 60 (Attr ''IncomingDocumentData'' ''sender_name''), Use 61 (Attr ''IncomingDocumentData'' ''document_type''),
      Use 62 (Attr ''IncomingDocumentData'' ''document_date''), Use 63 (Attr ''IncomingDocumentData'' ''raw_payload''),
      Use 54 (Build ''IncomingDocumentModel'' [''id'', ''tenant_id'', ''provider_account_id'', ''provider_document_id'',
        ''sender_inn'', ''sender_name'', ''document_type'', ''document_date'', ''raw_payload'', ''received_at'']),
      Extern 66, Use 69 (Attr ''ProviderAccountModel'' ''provider_type''),
      Use 68 (Labels ''INCOMING_DOCUMENTS_POLLED'' [''provider''])]"

definition poll_document :: prog where
  "poll_document = block
     [Use 46 (Attr ''IncomingDocumentModel'' ''provider_document_id''),
      Use 47 (Attr ''IncomingDocumentData'' ''provider_document_id''),
      Use 48 (Attr ''IncomingDocumentModel'' ''provider_account_id''), Use 48 (Attr ''ProviderAccountModel'' ''id''),
      Extern 44, Either poll_store Skip]"

definition poll_account :: prog where
  "poll_account = block
     [Use 34 (Attr ''ProviderAccountModel'' ''id''), Use 34 (Call ''CircuitBreaker'' 2 []),
      Try (block [poll_ask, Each poll_document, Use 72 (Call ''CircuitBreaker.record_success'' 0 []), Extern 72])
        (block [Use 76 (Call ''CircuitBreaker.record_failure'' 0 []), Extern 76])]"

definition poll_run :: prog where
  "poll_run = block
     [Extern 23, Use 28 (Attr ''ProviderAccountModel'' ''is_active''), Extern 30, Each poll_account, Extern 83]"

section \<open>Status synchronisation\<close>

definition sync_ask :: prog where
  "sync_ask = block
     [Use 45 (Call ''CircuitBreaker.guard'' 0 []), Use 45 (Enter ''CircuitBreaker.guard''),
      Use 47 (Attr ''ProviderAccountModel'' ''provider_type''), Use 47 (Attr ''ProviderAccountModel'' ''credentials''),
      Use 46 (Call ''ProviderFactory.create'' 2 []), Extern 46,
      Use 50 (Attr ''DocumentDeliveryModel'' ''provider_document_id''),
      Use 49 (Call ''IEDOProvider.get_document_status'' 1 []), Extern 49]"

text \<open>Reading \<open>status\<close> back after it was assigned succeeds: the object has the attribute then, though no column.\<close>

definition sync_write :: prog where
  "sync_write = block
     [Use 53 (Attr ''DocumentDeliveryModel'' ''status''), Use 54 (Attr ''StatusResult'' ''unified_status''),
      Use 54 (Attr ''str'' ''value''), Use 55 (Attr ''StatusResult'' ''raw_status''),
      Either (Use 56 (Attr ''StatusResult'' ''raw_status'')) Skip,
      Either (block [Use 61 (Attr ''ProviderAccountModel'' ''provider_type''),
        Use 60 (Labels ''DELIVERY_STATUS_TRANSITIONS'' [''provider'', ''from_status'', ''to_status''])]) Skip]"

definition sync_delivery :: prog where
  "sync_delivery = block
     [Use 43 (Attr ''ProviderAccountModel'' ''id''), Use 43 (Call ''CircuitBreaker'' 2 []),
      Try (block [sync_ask, sync_write, Use 72 (Call ''CircuitBreaker.record_success'' 0 []), Extern 72])
        (block [Use 75 (Call ''CircuitBreaker.record_failure'' 0 []), Extern 75])]"

definition sync_run :: prog where
  "sync_run = block
     [Extern 24, Use 31 (Attr ''DocumentDeliveryModel'' ''provider_account_id''),
      Use 31 (Attr ''ProviderAccountModel'' ''id''), Use 34 (Attr ''DocumentDeliveryModel'' ''status''),
      Use 35 (Attr ''DocumentDeliveryModel'' ''provider_document_id''), Use 36 (Attr ''ProviderAccountModel'' ''is_active''),
      Extern 39, Each sync_delivery, Extern 82]"

section \<open>Health checks\<close>

definition health_ask :: prog where
  "health_ask = block
     [Use 62 (Attr ''ProviderAccountModel'' ''provider_type''), Use 62 (Attr ''ProviderAccountModel'' ''credentials''),
      Use 61 (Call ''ProviderFactory.create'' 2 []), Extern 61, Use 64 (Call ''IEDOProvider.health_check'' 0 []), Extern 64,
      Use 65 (Attr ''tuple'' ''is_healthy''), Either (Use 66 (Attr ''tuple'' ''detail'')) Skip]"

definition health_account :: prog where
  "health_account = block
     [Use 46 (Attr ''ProviderAccountModel'' ''id''), Use 46 (Call ''CircuitBreaker'' 2 []),
      Use 47 (Call ''CircuitBreaker.get_state'' 0 []), Extern 47, Use 50 (Attr ''ProviderAccountModel'' ''provider_type''),
      Use 51 (Attr ''ProviderAccountModel'' ''id''), Use 49 (Labels ''CIRCUIT_BREAKER_STATE'' [''provider'', ''account_id'']),
      Try health_ask Skip,
      Use 82 (Attr ''ProviderAccountModel'' ''provider_type''), Use 83 (Attr ''ProviderAccountModel'' ''id''),
      Use 81 (Labels ''PROVIDER_HEALTH_STATUS'' [''provider'', ''account_id'']),
      Use 87 (Attr ''ProviderAccountModel'' ''provider_type''), Use 88 (Attr ''ProviderAccountModel'' ''id''),
      Use 86 (Labels ''PROVIDER_RESPONSE_TIME_MS'' [''provider'', ''account_id'']),
      Use 93 (Attr ''ProviderAccountModel'' ''id''),
      Use 91 (Build ''ProviderHealthSnapshotModel'' [''id'', ''provider_account_id'', ''is_healthy'', ''response_time_ms'',
        ''circuit_state'', ''error_detail'', ''checked_at'']), Extern 100]"

definition health_run :: prog where
  "health_run = block
     [Extern 30, Use 38 (Attr ''ProviderAccountModel'' ''is_active''), Extern 36, Each health_account, Extern 102]"

section \<open>Webhooks\<close>

definition webhook_delivery :: prog where
  "webhook_delivery = block
     [Use 98 (Attr ''DocumentDeliveryModel'' ''provider_document_id''),
      Use 99 (Attr ''WebhookParseResult'' ''provider_document_id''),
      Use 100 (Attr ''DocumentDeliveryModel'' ''provider_account_id''), Extern 96,
      Either (Use 106 (Attr ''WebhookParseResult'' ''unified_status'')) Skip,
      Either (block
        [Use 107 (Attr ''DocumentDeliveryModel'' ''status''), Use 108 (Attr ''WebhookParseResult'' ''unified_status''),
         Use 108 (Attr ''str'' ''value''), Use 110 (Attr ''ProviderAccountModel'' ''provider_type''),
         Use 109 (Labels ''DELIVERY_STATUS_TRANSITIONS'' [''provider'', ''from_status'', ''to_status''])]) Skip]"

definition webhook_store :: prog where
  "webhook_store = block
     [Use 80 (Attr ''ProviderAccountModel'' ''tenant_id''), Extern 81,
      Use 82 (Attr ''WebhookParseResult'' ''provider_event_id''), Use 83 (Attr ''WebhookParseResult'' ''event_type''),
      Use 84 (Attr ''WebhookParseResult'' ''raw_payload''),
      Use 78 (Build ''WebhookEventModel'' [''id'', ''tenant_id'', ''provider_account_id'', ''provider_event_id'',
        ''event_type'', ''raw_payload'', ''received_at'', ''processed'', ''processed_at'']), Extern 89,
      Use 91 (Attr ''ProviderAccountModel'' ''provider_type''), Use 91 (Attr ''WebhookParseResult'' ''event_type''),
      Use 90 (Labels ''WEBHOOK_RECEIVED_TOTAL'' [''provider'', ''event_type'']),
      Use 94 (Attr ''WebhookParseResult'' ''provider_document_id''), Either webhook_delivery Skip]"

definition webhook_event_run :: prog where
  "webhook_event_run = block
     [Use 65 (Attr ''WebhookEventModel'' ''provider_event_id''), Use 65 (Attr ''WebhookParseResult'' ''provider_event_id''),
      Use 66 (Attr ''WebhookEventModel'' ''provider_account_id''), Extern 63, Either (Use 74 (Attr ''WebhookParseResult'' ''provider_event_id'')) webhook_store]"

definition webhook_account :: prog where
  "webhook_account = block
     [Use 48 (Attr ''ProviderAccountModel'' ''provider_type''), Use 48 (Attr ''ProviderAccountModel'' ''credentials''),
      Use 48 (Call ''ProviderFactory.create'' 2 []), Extern 48,
      Try (Use 51 (Call ''IEDOProvider.validate_webhook'' 2 []))
        (block [Use 54 (Attr ''ProviderAccountModel'' ''provider_type''),
          Use 53 (Labels ''WEBHOOK_PROCESSING_ERRORS'' [''provider'', ''reason'']), Return]),
      Use 59 (Call ''IEDOProvider.parse_webhook'' 2 []), Use 61 (Iterates ''IEDOProvider.parse_webhook''),
      Each webhook_event_run, Extern 121]"

definition webhook_run :: prog where
  "webhook_run = block
     [Use 39 (Attr ''ProviderAccountModel'' ''id''), Extern 39, Extern 37, Either Return Skip, webhook_account]"

section \<open>Dead letters\<close>

definition dead_letters_run :: prog where
  "dead_letters_run = block
     [Use 24 (Attr ''DLQEntryModel'' ''replayed_at''), Use 25 (Attr ''DLQEntryModel'' ''retryable''), Extern 27,
      Use 30 (Sets ''DELIVERIES_IN_DLQ''),
      Each (Try (block [Use 36 (Attr ''DLQEntryModel'' ''delivery_id''), Use 37 (Attr ''DLQEntryModel'' ''payload''), Extern 34])
        Skip), Extern 48]"

section \<open>The send task\<close>

definition dead_letter_run :: "nat \<Rightarrow> prog" where
  "dead_letter_run l = block
     [Use l (Call ''_write_dlq'' 4 [''retryable'']), Use 148 (Attr ''DocumentDelivery'' ''tenant_id''),
      Use 149 (Attr ''DocumentDelivery'' ''id''), Use 150 (Attr ''DocumentDelivery'' ''provider_account_id''),
      Use 152 (Attr ''DocumentDelivery'' ''id''),
      Use 146 (Build ''DLQEntryModel'' [''id'', ''tenant_id'', ''delivery_id'', ''provider_account_id'', ''task_name'',
        ''payload'', ''reason_code'', ''reason_message'', ''retryable'']), Extern 157]"

definition retry_run :: "nat \<Rightarrow> prog" where
  "retry_run l = block
     [Use l (Attr ''DocumentDelivery'' ''retry_count''), Use l (Call ''compute_next_retry'' 1 []), Extern l,
      Use l (Call ''DocumentDelivery.schedule_retry'' 1 [])]"

definition attempt_run :: prog where
  "attempt_run = block
     [Use 85 (Attr ''DocumentDelivery'' ''document_id''),
      Use 84 (Call ''IEDOProvider.send_document'' 0 [''sender_inn'', ''sender_kpp'', ''recipient_inn'', ''recipient_kpp'',
        ''document_type'', ''title'', ''file_name'', ''mime_type'', ''file_bytes'', ''metadata'']), Extern 84,
      Use 96 (Attr ''SendResult'' ''provider_document_id''), Use 96 (Call ''DocumentDelivery.mark_sent'' 1 []),
      Use 97 (Attr ''ProviderAccount'' ''id''), Use 97 (Call ''CircuitBreaker.record_success'' 1 []), Extern 97]"

definition transient_run :: prog where
  "transient_run = block
     [Use 100 (Attr ''ProviderAccount'' ''id''), Use 100 (Call ''CircuitBreaker.record_failure'' 1 []), Extern 100,
      Use 101 (Attr ''DocumentDelivery'' ''retry_count''), Use 101 (Call ''should_retry'' 1 []),
      Either (retry_run 102) (block [Use 110 (Call ''DocumentDelivery.mark_failed'' 2 []), dead_letter_run 111])]"

definition closing_run :: prog where
  "closing_run = block
     [Use 125 (Attr ''DocumentDelivery'' ''tenant_id''), Use 127 (Attr ''DocumentDelivery'' ''id''),
      Use 128 (Attr ''DocumentDelivery'' ''unified_status''), Use 129 (Attr ''DocumentDelivery'' ''unified_status''),
      Use 124 (Call ''AuditEvent.create'' 0 [''tenant_id'', ''resource_type'', ''resource_id'', ''event_type'', ''payload'']),
      Use 131 (Call ''SQLAuditRepository.save'' 1 []), Use 132 (Call ''SQLDeliveryRepository.update'' 1 []), Extern 132,
      Extern 133]"

definition send_run :: prog where
  "send_run = block
     [Extern 47, Extern 48, Use 49 (Call ''CircuitBreaker'' 1 []), Use 52 (Call ''SQLDeliveryRepository'' 1 []),
      Use 53 (Call ''SQLProviderAccountRepository'' 1 []), Use 54 (Call ''SQLAuditRepository'' 1 []),
      Use 56 (Call ''SQLDeliveryRepository.get_by_id'' 1 []), Extern 56, Either Return Skip,
      Use 61 (Attr ''DocumentDelivery'' ''provider_account_id''),
      Use 61 (Call ''SQLProviderAccountRepository.get_by_id'' 1 []), Extern 61,
      Either (Use 62 (Attr ''ProviderAccount'' ''is_active'')) Skip,
      Either (block [Use 63 (Call ''DocumentDelivery.mark_failed'' 2 []), Use 64 (Call ''SQLDeliveryRepository.update'' 1 []),
        Extern 64, Extern 65, Return]) Skip,
      Try_some (block [Use 69 (Attr ''ProviderAccount'' ''id''), Use 69 (Call ''CircuitBreaker.guard'' 1 []), Extern 69])
        (block [Use 71 (Call ''DocumentDelivery.mark_failed'' 2 []), retry_run 72,
          Use 73 (Call ''SQLDeliveryRepository.update'' 1 []), Extern 73, Extern 74, Return]),
      Use 77 (Call ''DocumentDelivery.mark_sending'' 0 []), Use 78 (Call ''SQLDeliveryRepository.update'' 1 []), Extern 78,
      Extern 79, Use 81 (Attr ''ProviderAccount'' ''provider_type''), Use 81 (Attr ''ProviderAccount'' ''credentials_json''),
      Use 81 (Call ''ProviderFactory.create'' 2 []), Extern 81,
      Finally (Try attempt_run (Either transient_run (Either
          (block [Use 114 (Call ''DocumentDelivery.mark_failed'' 2 []), dead_letter_run 115])
          (block [Use 119 (Call ''DocumentDelivery.mark_failed'' 2 []), dead_letter_run 120]))))
        closing_run,
      Use 135 (Attr ''DocumentDelivery'' ''unified_status'')]"

section \<open>Which task conforms\<close>

lemmas program_defs =
  poll_ask_def poll_store_def poll_document_def poll_account_def poll_run_def sync_ask_def sync_write_def
  sync_delivery_def sync_run_def health_ask_def health_account_def health_run_def webhook_delivery_def
  webhook_store_def webhook_event_run_def webhook_account_def webhook_run_def dead_letters_run_def

text \<open>The send task uses every class of the repository as it is declared, the dead-letter task all but the
  unlabelled gauge. The other four have a use that does not fit in almost every step.\<close>

lemma send_task_conforms_others_do_not:
  "broken (uses send_run) = [] \<and> broken (uses dead_letters_run) = [30]
   \<and> broken (uses poll_run) = [34, 36, 38, 40, 62, 63, 54, 68, 72, 76]
   \<and> broken (uses sync_run) = [34, 43, 45, 47, 53, 54, 60, 72, 75]
   \<and> broken (uses health_run) = [46, 47, 49, 62, 65, 66, 81, 86, 91]
   \<and> broken (uses webhook_run) = [48, 53, 59, 61, 65, 74, 82, 83, 78, 91, 90, 107, 108, 109]"
  by code_simp

text \<open>No task ever records a metric: every use of one fails, and no other part of the program has one.\<close>

fun records_metric :: "use \<Rightarrow> bool" where
  "records_metric (Labels m ks) = True"
| "records_metric (Sets m) = True"
| "records_metric u = False"

lemma no_metric_recorded:
  "list_all (\<lambda>(l, u). records_metric u \<longrightarrow> \<not> fits u)
     (concat (map uses [send_run, dead_letters_run, poll_run, sync_run, health_run, webhook_run]))"
  by code_simp

lemma needed_lines:
  "needed poll_account = [34]" "needed poll_ask = [36, 38, 40]" "needed poll_store = [62, 63, 54, 68]"
  "needed sync_delivery = [43]" "needed sync_ask = [45, 47]" "needed sync_write = [53, 54]"
  "needed health_account = [46, 47, 49, 81, 86, 91]" "needed health_ask = [62, 65]"
  "needed webhook_account = [48, 59, 61]" "needed webhook_store = [82, 83, 78, 91, 90]"
  by code_simp+

text \<open>What the program does as it stands: the uses in front of the first misuse succeed.\<close>

lemma fitting_uses:
  "fits (Attr ''ProviderAccountModel'' ''id'')" "fits (Attr ''ProviderAccountModel'' ''provider_type'')"
  "fits (Attr ''DocumentDeliveryModel'' ''provider_account_id'')"
  "fits (Call ''ProviderFactory.create'' 2 [])"
  "\<not> fits (Call ''CircuitBreaker'' 2 [])" "\<not> fits (Attr ''ProviderAccountModel'' ''credentials'')"
  "\<not> fits (Attr ''DocumentDeliveryModel'' ''status'')"
  by code_simp+

lemma runs_Seq_Use:
  "runs ok (Seq (Use l u) p) r \<longleftrightarrow> (if ok (l, u) then runs ok p r else r = Misuse l)"
  by (auto elim!: runs_elims intro: runs.intros)

lemma runs_Seq_Extern: "runs ok (Seq (Extern l) p) r \<longleftrightarrow> r = Raised \<or> runs ok p r"
  by (auto elim!: runs_elims intro: runs.intros)

lemma first_misuses:
  "runs (mended {}) poll_account r \<longleftrightarrow> r = Misuse 34"
  "runs (mended {}) sync_run r \<longleftrightarrow> r = Raised \<or> r = Misuse 34"
  "runs (mended {}) health_account r \<longleftrightarrow> r = Misuse 46"
  "runs (mended {}) webhook_account r \<longleftrightarrow> r = Misuse 48"
  by (simp_all add: poll_account_def sync_run_def health_account_def webhook_account_def runs_Seq_Use runs_Seq_Extern
      mended_def fitting_uses del: fits.simps)

text \<open>C36: The misuses decide what the tasks can do. No run of the send task, with whatever branches taken and
  whatever calls raising, stops at a use of a class that does not fit its declaration. As the program stands,
  polling an account ends at line 34 of its task, checking its health at line 46, a webhook of an existing
  account at line 48, and the status synchronisation at line 34 unless Redis fails before. Nor is one error all:
  whatever lines \<open>M\<close> are mended, an account is polled to the end only if the breaker's line 34 is in \<open>M\<close>, its provider
  is asked only if 36, 38 and 40 are, and a document is stored only if 54, 62, 63 and 68 are; and so on for the
  other tasks.\<close>

theorem misuses_block_the_tasks:
  assumes "runs (mended M) p r"
  shows "(p = send_run \<longrightarrow> (\<forall>l. r \<noteq> Misuse l))
    \<and> (M = {} \<longrightarrow> (p = poll_account \<longrightarrow> r = Misuse 34) \<and> (p = sync_run \<longrightarrow> r = Raised \<or> r = Misuse 34)
        \<and> (p = health_account \<longrightarrow> r = Misuse 46) \<and> (p = webhook_account \<longrightarrow> r = Misuse 48))
    \<and> (r = Completed \<longrightarrow>
        (p = poll_account \<longrightarrow> {34} \<subseteq> M) \<and> (p = poll_ask \<longrightarrow> {36, 38, 40} \<subseteq> M)
        \<and> (p = poll_store \<longrightarrow> {54, 62, 63, 68} \<subseteq> M)
        \<and> (p = sync_delivery \<longrightarrow> {43} \<subseteq> M) \<and> (p = sync_ask \<longrightarrow> {45, 47} \<subseteq> M) \<and> (p = sync_write \<longrightarrow> {53, 54} \<subseteq> M)
        \<and> (p = health_account \<longrightarrow> {46, 47, 49, 81, 86, 91} \<subseteq> M) \<and> (p = health_ask \<longrightarrow> {62, 65} \<subseteq> M)
        \<and> (p = webhook_account \<longrightarrow> {48, 59, 61} \<subseteq> M) \<and> (p = webhook_store \<longrightarrow> {78, 82, 83, 90, 91} \<subseteq> M))"
proof (intro conjI)
  show "p = send_run \<longrightarrow> (\<forall>l. r \<noteq> Misuse l)"
    using conforming_never_misuses [OF assms] send_task_conforms_others_do_not by simp
  show "M = {} \<longrightarrow> (p = poll_account \<longrightarrow> r = Misuse 34) \<and> (p = sync_run \<longrightarrow> r = Raised \<or> r = Misuse 34)
      \<and> (p = health_account \<longrightarrow> r = Misuse 46) \<and> (p = webhook_account \<longrightarrow> r = Misuse 48)"
    using assms first_misuses by blast
  have "set (needed p) \<subseteq> M" if "r = Completed" using needed_mended assms that by simp
  then show "r = Completed \<longrightarrow>
        (p = poll_account \<longrightarrow> {34} \<subseteq> M) \<and> (p = poll_ask \<longrightarrow> {36, 38, 40} \<subseteq> M)
        \<and> (p = poll_store \<longrightarrow> {54, 62, 63, 68} \<subseteq> M)
        \<and> (p = sync_delivery \<longrightarrow> {43} \<subseteq> M) \<and> (p = sync_ask \<longrightarrow> {45, 47} \<subseteq> M) \<and> (p = sync_write \<longrightarrow> {53, 54} \<subseteq> M)
        \<and> (p = health_account \<longrightarrow> {46, 47, 49, 81, 86, 91} \<subseteq> M) \<and> (p = health_ask \<longrightarrow> {62, 65} \<subseteq> M)
        \<and> (p = webhook_account \<longrightarrow> {48, 59, 61} \<subseteq> M) \<and> (p = webhook_store \<longrightarrow> {78, 82, 83, 90, 91} \<subseteq> M)"
    using needed_lines by auto
qed

text \<open>With the lines 34, 36, 38 and 40 mended the provider is asked; the handler of the account's \<open>try\<close> still raises
  as long as its own line 76 is not.\<close>

theorem misuses_block_the_tasks_witness:
  "runs (mended {36, 38, 40}) poll_ask Completed \<and> {36, 38, 40} \<subseteq> ({36, 38, 40} :: nat set)
    \<and> (\<exists>r. runs (mended {}) send_run r \<and> r \<noteq> Misuse 69)"
proof -
  have "runs (mended {36, 38, 40}) poll_ask Completed"
    by (simp add: poll_ask_def runs_Seq_Use runs_Seq_Extern mended_def fitting_uses runs.Skip del: fits.simps)
  moreover obtain r where "runs (mended {}) send_run r" using runs_total by blast
  ultimately show ?thesis using misuses_block_the_tasks by metis
qed

end
