(* ===== verification/TaskOptions.thy ===== *)
theory TaskOptions
  imports Tasks
begin

text \<open>
  What the tasks ask of Celery: the options of the application (\<open>infrastructure/queue/celery_app.py\<close>), those of each
  task (its decorator in \<open>infrastructure/queue/tasks\<close>), and the attempts that \<open>self.retry\<close> makes of a webhook's
  message. Celery itself is not part of the repository: its documentation has a message acknowledged after
  the run when \<open>acks_late\<close> is set, redelivered when the worker is lost and \<open>reject_on_worker_lost\<close> is set, and
  retried \<open>max_retries\<close> times, after which the exception is raised.
\<close>

section \<open>Options\<close>

record celery_options =
  co_broker :: string
  co_backend :: string
  co_task_serializer :: string
  co_result_serializer :: string
  co_accept_content :: "string list"
  co_timezone :: string
  co_enable_utc :: bool
  co_track_started :: bool
  co_acks_late :: bool
  co_reject_on_worker_lost :: bool
  co_prefetch_multiplier :: nat

definition celery_options_of :: "settings \<Rightarrow> celery_options" where
  "celery_options_of s =
     \<lparr>co_broker = redis_url s, co_backend = redis_url s, co_task_serializer = ''json'', co_result_serializer = ''json'',
      co_accept_content = [''json''], co_timezone = ''UTC'', co_enable_utc = True, co_track_started = True,
      co_acks_late = True, co_reject_on_worker_lost = True, co_prefetch_multiplier = 1\<rparr>"

text \<open>An option a decorator does not set is \<^term>\<open>None\<close>: the application's counts.\<close>

record task_options =
  to_queue :: "string option"
  to_max_retries :: nat
  to_retry_delay :: "nat option"
  to_acks_late :: "bool option"
  to_ignore_result :: bool

definition periodic_options :: "string \<Rightarrow> task_options" where
  "periodic_options queue =
     \<lparr>to_queue = Some queue, to_max_retries = 0, to_retry_delay = None, to_acks_late = None, to_ignore_result = True\<rparr>"

definition poll_options :: task_options where
  "poll_options = periodic_options ''edo.sync''"

definition sync_options :: task_options where
  "sync_options = periodic_options ''edo.sync''"

definition health_options :: task_options where
  "health_options = periodic_options ''edo.health''"

definition dlq_options :: task_options where
  "dlq_options = periodic_options ''edo.dlq''"

definition cleanup_options :: task_options where
  "cleanup_options = periodic_options ''edo.health''"

definition webhook_options :: task_options where
  "webhook_options =
     \<lparr>to_queue = Some ''edo.webhooks'', to_max_retries = 3, to_retry_delay = Some 10, to_acks_late = Some True,
      to_ignore_result = False\<rparr>"

definition send_options :: task_options where
  "send_options =
     \<lparr>to_queue = None, to_max_retries = 0, to_retry_delay = None, to_acks_late = Some True, to_ignore_result = False\<rparr>"

definition options_of :: "string \<Rightarrow> task_options option" where
  "options_of = map_of
     [(''src.infrastructure.queue.tasks.send_document_task.send_document'', send_options),
      (''edo.poll_incoming'', poll_options), (''edo.sync_statuses'', sync_options),
      (''edo.process_webhook'', webhook_options), (''edo.process_dlq'', dlq_options),
      (''edo.provider_health'', health_options), (''edo.cleanup_idempotency'', cleanup_options)]"

definition redelivered_when_lost :: "settings \<Rightarrow> task_options \<Rightarrow> bool" where
  "redelivered_when_lost s t \<longleftrightarrow>
     (case to_acks_late t of None \<Rightarrow> co_acks_late (celery_options_of s) | Some b \<Rightarrow> b)
     \<and> co_reject_on_worker_lost (celery_options_of s)"

text \<open>The registered tasks are the ones with options, the decorator and the routing table name one queue for each,
  the beat starts only registered tasks, and a message of any task comes back when its worker is lost.\<close>

lemma task_table:
  "list_all (\<lambda>(name, queue). options_of name \<noteq> None) registered_tasks"
  "list_all (\<lambda>(name, queue). case map_option to_queue (options_of name) of
      Some (Some q) \<Rightarrow> task_route name = Some q \<and> queue = Some q
    | _ \<Rightarrow> task_route name = Some ''edo.send'' \<and> queue = None) registered_tasks"
  "list_all (\<lambda>(entry, name, when). name \<in> set (map fst registered_tasks)) beat_schedule"
  by code_simp+

lemma lost_message_redelivered: "options_of name = Some t \<Longrightarrow> redelivered_when_lost s t"
  by (auto simp: options_of_def redelivered_when_lost_def celery_options_of_def send_options_def webhook_options_def
      periodic_options_def poll_options_def sync_options_def health_options_def dlq_options_def cleanup_options_def
      split: if_splits)

section \<open>The attempts of a webhook\<close>

text \<open>\<open>run k\<close> is the outcome of attempt \<open>k\<close>; the result is the times of the attempts in seconds and the exception
  that is raised in the end.\<close>

function webhook_attempts ::
  "task_options \<Rightarrow> (nat \<Rightarrow> webhook_outcome res) \<Rightarrow> nat \<Rightarrow> nat \<Rightarrow> nat list \<times> exc option"
where
  "webhook_attempts t run k now =
     (case run k of
        Inl e \<Rightarrow> ([now], Some e)
      | Inr Webhook_done \<Rightarrow> ([now], None)
      | Inr (Webhook_retry e) \<Rightarrow>
          if to_max_retries t \<le> k then ([now], Some e)
          else (case webhook_attempts t run (Suc k) (now + (case to_retry_delay t of None \<Rightarrow> 180 | Some d \<Rightarrow> d)) of
                  (ts, r) \<Rightarrow> (now # ts, r)))"
  by pat_completeness auto
termination by (relation "measure (\<lambda>(t, run, k, now). to_max_retries t - k)") auto

declare webhook_attempts.simps [simp del]

lemma attempts_bounded: "length (fst (webhook_attempts t run k now)) \<le> Suc (to_max_retries t - k)"
proof (induction t run k now rule: webhook_attempts.induct)
  case (1 t run k now)
  show ?case
  proof (cases "\<exists>e. run k = Inr (Webhook_retry e) \<and> \<not> to_max_retries t \<le> k")
    case True
    then obtain e where e: "run k = Inr (Webhook_retry e)" "\<not> to_max_retries t \<le> k" by blast
    have "length (fst (webhook_attempts t run (Suc k) (now + (case to_retry_delay t of None \<Rightarrow> 180 | Some d \<Rightarrow> d))))
        \<le> Suc (to_max_retries t - Suc k)" by (rule 1 [OF e(1) refl e(2)])
    then have "length (fst (webhook_attempts t run k now)) \<le> Suc (Suc (to_max_retries t - Suc k))"
      using e by (subst webhook_attempts.simps) (auto split: prod.splits)
    with e(2) show ?thesis by simp
  next
    case False
    then show ?thesis
      by (subst webhook_attempts.simps) (auto split: sum.splits webhook_outcome.splits)
  qed
qed

text \<open>A webhook of an existing account is attempted four times, ten seconds apart, and then dropped with the
  exception of every attempt: the attribute that the account's class lacks. No attempt stores anything, so
  the provider's report is lost. That holds whatever else changes in the database in between.\<close>

theorem webhook_dropped_after_four_attempts:
  assumes "\<And>k. distinct (map ar_id (db_accounts (D k))) \<and> i \<in> ar_id ` set (db_accounts (D k))"
    and "b64_decode body = Inr bs"
  shows "webhook_attempts webhook_options (\<lambda>k. process_webhook_task rest (uuid_str i) body (D k)) 0 now =
    ([now, now + 10, now + 20, now + 30], Some (AttributeError ''credentials''))"
proof -
  have "process_webhook_task rest (uuid_str i) body (D k) = Inr (Webhook_retry (AttributeError ''credentials''))" for k
  proof -
    obtain r where r: "r \<in> set (db_accounts (D k))" "i = ar_id r" using assms(1) [of k] by blast
    with distinct_filter_one [of ar_id "db_accounts (D k)" r] assms(1) [of k]
    have "filter (\<lambda>a. ar_id a = i) (db_accounts (D k)) = [r]" by simp
    from process_webhook_existing [OF this] assms(2) show ?thesis by (simp add: process_webhook_task_def)
  qed
  then show ?thesis
    by (simp add: webhook_options_def webhook_attempts.simps [of _ _ 0] webhook_attempts.simps [of _ _ "Suc 0"]
        webhook_attempts.simps [of _ _ "Suc (Suc 0)"] webhook_attempts.simps [of _ _ "Suc (Suc (Suc 0))"])
qed

end
