(* ===== verification/Seed.thy ===== *)
theory Seed
  imports Repositories
begin

text \<open>
  \<open>src/scripts/seed_demo_users.py\<close>: the demo tenant and its two users are created when they are missing and
  reset when they exist. The script runs in one transaction; each added row is flushed before the next
  query. The bcrypt hash of a call is a parameter, and so are the uuids that are drawn.
\<close>

section \<open>The script\<close>

record seed_env =
  sd_tenant_id :: uuid
  sd_admin_id :: uuid
  sd_viewer_id :: uuid
  sd_admin_hash :: string
  sd_viewer_hash :: string

definition ensure_tenant :: "uuid \<Rightarrow> db \<Rightarrow> (tenant \<times> db) res" where
  "ensure_tenant new_id D =
     and_then (scalar_one_or_none (filter (\<lambda>t. tn_slug t = ''demo-corp'') (db_tenants D))) (\<lambda>found.
       case found of
         None \<Rightarrow>
           (let t = \<lparr>tn_id = new_id, tn_name = ''Demo Corp'', tn_slug = ''demo-corp'', tn_is_active = True\<rparr>
            in Inr (t, D\<lparr>db_tenants := db_tenants D @ [t]\<rparr>))
       | Some t \<Rightarrow>
           (let f = (\<lambda>t. t\<lparr>tn_name := ''Demo Corp'', tn_is_active := True\<rparr>)
            in Inr (f t, D\<lparr>db_tenants := update_by tn_id (tn_id t) f (db_tenants D)\<rparr>)))"

definition ensure_user :: "uuid \<Rightarrow> uuid \<Rightarrow> string \<Rightarrow> string \<Rightarrow> string \<Rightarrow> db \<Rightarrow> db res" where
  "ensure_user new_id tenant_id email hashed role D =
     and_then (scalar_one_or_none (filter (\<lambda>u. usr_email u = email) (db_users D))) (\<lambda>found.
       case found of
         None \<Rightarrow>
           Inr (D\<lparr>db_users := db_users D @
             [\<lparr>usr_id = new_id, usr_tenant_id = tenant_id, usr_email = email, usr_hashed_password = hashed,
               usr_role = role, usr_is_active = True\<rparr>]\<rparr>)
       | Some u \<Rightarrow>
           Inr (D\<lparr>db_users := update_by usr_id (usr_id u)
             (\<lambda>u. u\<lparr>usr_tenant_id := tenant_id, usr_hashed_password := hashed, usr_role := role,
                    usr_is_active := True\<rparr>) (db_users D)\<rparr>))"

definition flush :: "db \<Rightarrow> db res" where
  "flush D = (if db_ok D then Inr D else Inl unique_violation)"

definition seed :: "seed_env \<Rightarrow> db \<Rightarrow> db res" where
  "seed v D =
     and_then (ensure_tenant (sd_tenant_id v) D) (\<lambda>(t, D1).
     and_then (flush D1) (\<lambda>D2.
     and_then (ensure_user (sd_admin_id v) (tn_id t) ''admin@demo.corp'' (sd_admin_hash v) ''admin'' D2) (\<lambda>D3.
     and_then (flush D3) (\<lambda>D4.
     and_then (ensure_user (sd_viewer_id v) (tn_id t) ''viewer@demo.corp'' (sd_viewer_hash v) ''viewer'' D4) flush))))"

section \<open>Insert or update by a unique key\<close>

text \<open>What both helpers do to a table: the row with the key is changed, or a new one is appended.\<close>

definition upsert :: "('r \<Rightarrow> string) \<Rightarrow> string \<Rightarrow> ('r \<Rightarrow> 'r) \<Rightarrow> 'r \<Rightarrow> 'r list \<Rightarrow> 'r list" where
  "upsert key k f new rows =
     (if k \<in> key ` set rows then map (\<lambda>r. if key r = k then f r else r) rows else rows @ [new])"

lemma upsert_keys: "(\<And>r. key (f r) = key r) \<Longrightarrow> key new = k \<Longrightarrow>
    map key (upsert key k f new rows) = (if k \<in> key ` set rows then map key rows else map key rows @ [k])"
  by (auto simp: upsert_def)

lemma upsert_distinct_keys:
  "(\<And>r. key (f r) = key r) \<Longrightarrow> key new = k \<Longrightarrow> distinct (map key rows)
     \<Longrightarrow> distinct (map key (upsert key k f new rows))"
  by (subst upsert_keys) auto

lemma upsert_ids:
  assumes "\<And>r. ident (f r) = ident r" and "k \<notin> key ` set rows \<Longrightarrow> ident new \<notin> ident ` set rows"
    and "distinct (map ident rows)"
  shows "distinct (map ident (upsert key k f new rows))"
    and "k \<in> key ` set rows \<Longrightarrow> map ident (upsert key k f new rows) = map ident rows"
proof -
  have m: "map ident (map (\<lambda>r. if key r = k then f r else r) rows) = map ident rows"
    using assms(1) by simp
  then show "map ident (upsert key k f new rows) = map ident rows" if "k \<in> key ` set rows"
    using that by (simp only: upsert_def if_True)
  with assms(2,3) show "distinct (map ident (upsert key k f new rows))"
    by (cases "k \<in> key ` set rows") (simp_all add: upsert_def del: map_map)
qed

lemma upsert_changed:
  assumes "distinct (map key rows)" and "\<And>r. key (f r) = key r" and "r0 \<in> set rows" and "key r0 = k"
  shows "filter (\<lambda>r. key r = k) (upsert key k f new rows) = [f r0]"
proof -
  have "filter (\<lambda>r. key r = k) rows = [r0]"
    using distinct_filter_one [OF assms(1,3)] assms(4) by simp
  moreover have "filter (\<lambda>r. key r = k) (map (\<lambda>r. if key r = k then f r else r) rows)
      = map f (filter (\<lambda>r. key r = k) rows)"
    using assms(2) by (induction rows) auto
  moreover have "k \<in> key ` set rows" using assms(3,4) by blast
  ultimately show ?thesis by (simp add: upsert_def)
qed

lemma upsert_added:
  assumes "k \<notin> key ` set rows" and "key new = k"
  shows "filter (\<lambda>r. key r = k) (upsert key k f new rows) = [new]"
proof -
  have "filter (\<lambda>r. key r = k) rows = []" using assms(1) by (auto simp: filter_empty_conv)
  with assms show ?thesis by (simp add: upsert_def)
qed

lemma upsert_other:
  assumes "\<And>r. key (f r) = key r" and "key new = k"
  shows "filter (\<lambda>r. key r \<noteq> k) (upsert key k f new rows) = filter (\<lambda>r. key r \<noteq> k) rows"
proof -
  have "filter (\<lambda>r. key r \<noteq> k) (map (\<lambda>r. if key r = k then f r else r) rows) = filter (\<lambda>r. key r \<noteq> k) rows"
    using assms(1) by (induction rows) auto
  with assms(2) show ?thesis by (simp add: upsert_def)
qed

text \<open>An update by primary key of the one row that has the unique key.\<close>

lemma update_by_upsert:
  assumes "distinct (map key rows)" and "distinct (map ident rows)"
  shows "case scalar_one_or_none (filter (\<lambda>r. key r = k) rows) of
      Inr None \<Rightarrow> rows @ [new] = upsert key k f new rows
    | Inr (Some r) \<Rightarrow> update_by ident (ident r) f rows = upsert key k f new rows
    | Inl e \<Rightarrow> False"
proof (cases "k \<in> key ` set rows")
  case True
  then obtain r where r: "r \<in> set rows" "key r = k" by auto
  have one: "filter (\<lambda>r. key r = k) rows = [r]"
    using distinct_filter_one [OF assms(1) r(1)] r(2) by simp
  have "ident q = ident r \<longleftrightarrow> key q = k" if "q \<in> set rows" for q
    using assms that r by (auto simp: distinct_map inj_on_def)
  then have "update_by ident (ident r) f rows = map (\<lambda>r. if key r = k then f r else r) rows"
    by (simp add: update_by_def)
  with True one show ?thesis by (simp add: upsert_def)
next
  case False
  then have "filter (\<lambda>r. key r = k) rows = []" by (auto simp: filter_empty_conv)
  with False show ?thesis by (simp add: upsert_def)
qed

section \<open>The two helpers\<close>

definition tenant_reset :: "tenant \<Rightarrow> tenant" where
  "tenant_reset t = t\<lparr>tn_name := ''Demo Corp'', tn_is_active := True\<rparr>"

definition tenant_new :: "uuid \<Rightarrow> tenant" where
  "tenant_new i = \<lparr>tn_id = i, tn_name = ''Demo Corp'', tn_slug = ''demo-corp'', tn_is_active = True\<rparr>"

definition user_reset :: "uuid \<Rightarrow> string \<Rightarrow> string \<Rightarrow> api_user \<Rightarrow> api_user" where
  "user_reset t h role u = u\<lparr>usr_tenant_id := t, usr_hashed_password := h, usr_role := role, usr_is_active := True\<rparr>"

definition user_new :: "uuid \<Rightarrow> uuid \<Rightarrow> string \<Rightarrow> string \<Rightarrow> string \<Rightarrow> api_user" where
  "user_new i t email h role = \<lparr>usr_id = i, usr_tenant_id = t, usr_email = email, usr_hashed_password = h,
     usr_role = role, usr_is_active = True\<rparr>"

lemma seed_rows [simp]:
  "tn_id (tenant_reset t) = tn_id t" "tn_slug (tenant_reset t) = tn_slug t" "tn_is_active (tenant_reset t)"
  "tn_id (tenant_new i) = i" "tn_slug (tenant_new i) = ''demo-corp''" "tn_is_active (tenant_new i)"
  "usr_id (user_reset ti h role u) = usr_id u" "usr_email (user_reset ti h role u) = usr_email u"
  "usr_id (user_new i ti email h role) = i" "usr_email (user_new i ti email h role) = email"
  by (simp_all add: tenant_reset_def tenant_new_def user_reset_def user_new_def)

definition seeded_tenants :: "uuid \<Rightarrow> tenant list \<Rightarrow> tenant list" where
  "seeded_tenants i = upsert tn_slug ''demo-corp'' tenant_reset (tenant_new i)"

definition seeded_users :: "uuid \<Rightarrow> uuid \<Rightarrow> string \<Rightarrow> string \<Rightarrow> string \<Rightarrow> api_user list \<Rightarrow> api_user list" where
  "seeded_users i t email h role = upsert usr_email email (user_reset t h role) (user_new i t email h role)"

lemma ensure_tenant_run:
  assumes "db_ok D"
  shows "\<exists>t. ensure_tenant i D = Inr (t, D\<lparr>db_tenants := seeded_tenants i (db_tenants D)\<rparr>)
    \<and> filter (\<lambda>t. tn_slug t = ''demo-corp'') (seeded_tenants i (db_tenants D)) = [t] \<and> tn_is_active t"
proof -
  have d: "distinct (map tn_slug (db_tenants D))" "distinct (map tn_id (db_tenants D))"
    using assms by (simp_all add: db_ok_def)
  note up = update_by_upsert [OF d, where k = "''demo-corp''" and new = "tenant_new i" and f = tenant_reset]
  show ?thesis
  proof (cases "''demo-corp'' \<in> tn_slug ` set (db_tenants D)")
    case False
    then have none: "filter (\<lambda>t. tn_slug t = ''demo-corp'') (db_tenants D) = []" by (auto simp: filter_empty_conv image_iff)
    then show ?thesis
      using up upsert_added [OF False, of "tenant_new i" tenant_reset]
      by (simp add: ensure_tenant_def seeded_tenants_def Let_def) (simp add: tenant_new_def)
  next
    case True
    then obtain t0 where t0: "t0 \<in> set (db_tenants D)" "tn_slug t0 = ''demo-corp''" by auto
    have one: "filter (\<lambda>t. tn_slug t = ''demo-corp'') (db_tenants D) = [t0]"
      using distinct_filter_one [OF d(1) t0(1)] t0(2) by simp
    then show ?thesis
      using up upsert_changed [OF d(1) _ t0, of tenant_reset "tenant_new i"]
      by (simp add: ensure_tenant_def seeded_tenants_def Let_def tenant_reset_def [symmetric])
  qed
qed

lemma ensure_user_run:
  assumes "db_ok D"
  shows "ensure_user i t email h role D = Inr (D\<lparr>db_users := seeded_users i t email h role (db_users D)\<rparr>)"
proof -
  have d: "distinct (map usr_email (db_users D))" "distinct (map usr_id (db_users D))"
    using assms by (simp_all add: db_ok_def)
  from update_by_upsert [OF d, where k = email and new = "user_new i t email h role" and f = "user_reset t h role"] show ?thesis
    by (auto simp: ensure_user_def seeded_users_def user_new_def user_reset_def [abs_def] split: sum.splits option.splits)
qed

section \<open>A run of the script\<close>

lemma db_ok_users:
  "distinct (map usr_id us) \<Longrightarrow> distinct (map usr_email us) \<Longrightarrow> db_ok D \<Longrightarrow> db_ok (D\<lparr>db_users := us\<rparr>)"
  by (simp add: db_ok_def)

lemma seeded_users_ok:
  assumes "db_ok D" and "email \<notin> usr_email ` set (db_users D) \<Longrightarrow> i \<notin> usr_id ` set (db_users D)"
  shows "db_ok (D\<lparr>db_users := seeded_users i t email h role (db_users D)\<rparr>)"
  using assms
  by (intro db_ok_users) (auto simp: seeded_users_def db_ok_def intro!: upsert_ids upsert_distinct_keys)

lemma seeded_tenants_ok:
  assumes "db_ok D" and "''demo-corp'' \<notin> tn_slug ` set (db_tenants D) \<Longrightarrow> i \<notin> tn_id ` set (db_tenants D)"
  shows "db_ok (D\<lparr>db_tenants := seeded_tenants i (db_tenants D)\<rparr>)"
proof -
  have "distinct (map tn_id (seeded_tenants i (db_tenants D)))"
    "distinct (map tn_slug (seeded_tenants i (db_tenants D)))"
    using assms by (auto simp: seeded_tenants_def db_ok_def intro!: upsert_ids upsert_distinct_keys)
  with assms(1) show ?thesis by (simp add: db_ok_def)
qed

lemma seeded_user_row:
  assumes "distinct (map usr_email us)"
  shows "\<exists>u. filter (\<lambda>u. usr_email u = email) (seeded_users i t email h role us) = [u]
    \<and> usr_email u = email \<and> usr_tenant_id u = t \<and> usr_hashed_password u = h \<and> usr_role u = role \<and> usr_is_active u"
proof (cases "email \<in> usr_email ` set us")
  case True
  then obtain u0 where "u0 \<in> set us" "usr_email u0 = email" by auto
  from upsert_changed [OF assms _ this, of "user_reset t h role" "user_new i t email h role"] this(2) show ?thesis
    by (auto simp: seeded_users_def user_reset_def)
next
  case False
  from upsert_added [OF False, of "user_new i t email h role" "user_reset t h role"] show ?thesis
    by (auto simp: seeded_users_def user_new_def)
qed

lemma seeded_users_emails:
  "usr_email ` set (seeded_users i t email h role us) = insert email (usr_email ` set us)"
proof -
  have "map usr_email (seeded_users i t email h role us) =
      (if email \<in> usr_email ` set us then map usr_email us else map usr_email us @ [email])"
    unfolding seeded_users_def by (rule upsert_keys) simp_all
  then have "set (map usr_email (seeded_users i t email h role us)) = insert email (set (map usr_email us))"
    by auto
  then show ?thesis by simp
qed

lemma seeded_users_ids: "usr_id ` set (seeded_users i t email h role us) \<subseteq> insert i (usr_id ` set us)"
  by (auto simp: seeded_users_def upsert_def)

text \<open>What the script may be run on: the uuids it draws for rows that are missing are new.\<close>

definition seedable :: "seed_env \<Rightarrow> db \<Rightarrow> bool" where
  "seedable v D \<longleftrightarrow> db_ok D
     \<and> (''demo-corp'' \<in> tn_slug ` set (db_tenants D) \<or> sd_tenant_id v \<notin> tn_id ` set (db_tenants D))
     \<and> (''admin@demo.corp'' \<in> usr_email ` set (db_users D) \<or> sd_admin_id v \<notin> usr_id ` set (db_users D))
     \<and> (''viewer@demo.corp'' \<in> usr_email ` set (db_users D)
        \<or> sd_viewer_id v \<notin> usr_id ` set (db_users D) \<and> sd_viewer_id v \<noteq> sd_admin_id v)"

definition seeded_db :: "seed_env \<Rightarrow> uuid \<Rightarrow> db \<Rightarrow> db" where
  "seeded_db v t D =
     D\<lparr>db_tenants := seeded_tenants (sd_tenant_id v) (db_tenants D),
       db_users := seeded_users (sd_viewer_id v) t ''viewer@demo.corp'' (sd_viewer_hash v) ''viewer''
         (seeded_users (sd_admin_id v) t ''admin@demo.corp'' (sd_admin_hash v) ''admin'' (db_users D))\<rparr>"

lemma seed_run:
  assumes "seedable v D"
  shows "\<exists>t. filter (\<lambda>t. tn_slug t = ''demo-corp'') (db_tenants (seeded_db v (tn_id t) D)) = [t] \<and> tn_is_active t
    \<and> seed v D = Inr (seeded_db v (tn_id t) D) \<and> db_ok (seeded_db v (tn_id t) D)"
proof -
  let ?D1 = "D\<lparr>db_tenants := seeded_tenants (sd_tenant_id v) (db_tenants D)\<rparr>"
  have ok: "db_ok D" using assms by (simp add: seedable_def)
  obtain t where t: "ensure_tenant (sd_tenant_id v) D = Inr (t, ?D1)"
    "filter (\<lambda>t. tn_slug t = ''demo-corp'') (seeded_tenants (sd_tenant_id v) (db_tenants D)) = [t]" "tn_is_active t"
    using ensure_tenant_run [OF ok] by blast
  have ok1: "db_ok ?D1" using assms by (intro seeded_tenants_ok [OF ok]) (auto simp: seedable_def)
  let ?us = "seeded_users (sd_admin_id v) (tn_id t) ''admin@demo.corp'' (sd_admin_hash v) ''admin'' (db_users D)"
  let ?D2 = "?D1\<lparr>db_users := ?us\<rparr>"
  have ok2: "db_ok ?D2"
    using seeded_users_ok [OF ok1, of "''admin@demo.corp''" "sd_admin_id v"] assms by (auto simp: seedable_def)
  have new: "sd_viewer_id v \<notin> usr_id ` set ?us"
    if "''viewer@demo.corp'' \<notin> usr_email ` set ?us"
  proof -
    have "''viewer@demo.corp'' \<notin> usr_email ` set (db_users D)" using that by (simp add: seeded_users_emails)
    with assms have "sd_viewer_id v \<notin> insert (sd_admin_id v) (usr_id ` set (db_users D))"
      by (auto simp: seedable_def)
    then show ?thesis using seeded_users_ids by blast
  qed
  have ok3: "db_ok (seeded_db v (tn_id t) D)"
    using seeded_users_ok [OF ok2, of "''viewer@demo.corp''" "sd_viewer_id v"] new by (simp add: seeded_db_def)
  have "seed v D = Inr (seeded_db v (tn_id t) D)"
    using ok1 ok2 ok3 by (simp add: seed_def t(1) flush_def ensure_user_run seeded_db_def)
  with t(2,3) ok3 show ?thesis by (intro exI [of _ t]) (simp add: seeded_db_def)
qed

lemma seeded_users_present:
  "email \<in> usr_email ` set us \<Longrightarrow> map usr_id (seeded_users i t email h role us) = map usr_id us"
  "email \<in> usr_email ` set us \<Longrightarrow> map usr_email (seeded_users i t email h role us) = map usr_email us"
  by (simp_all add: seeded_users_def upsert_def)

text \<open>Seeding succeeds on every consistent database and leaves exactly one demo tenant, active, and exactly
  one administrator and one viewer under their addresses, both active, in this tenant, with their role and
  the new password hash, whatever was stored under these names before; users with another address are
  untouched. Seeding again adds no row: the ids of all users and tenants stay the same.\<close>

theorem seed_demo_users:
  assumes "seedable v D"
  shows "\<exists>D' t a w. seed v D = Inr D' \<and> db_ok D'
    \<and> filter (\<lambda>t. tn_slug t = ''demo-corp'') (db_tenants D') = [t] \<and> tn_is_active t
    \<and> filter (\<lambda>u. usr_email u = ''admin@demo.corp'') (db_users D') = [a]
    \<and> usr_role a = ''admin'' \<and> usr_tenant_id a = tn_id t \<and> usr_is_active a \<and> usr_hashed_password a = sd_admin_hash v
    \<and> filter (\<lambda>u. usr_email u = ''viewer@demo.corp'') (db_users D') = [w]
    \<and> usr_role w = ''viewer'' \<and> usr_tenant_id w = tn_id t \<and> usr_is_active w \<and> usr_hashed_password w = sd_viewer_hash v
    \<and> filter (\<lambda>u. usr_email u \<noteq> ''admin@demo.corp'' \<and> usr_email u \<noteq> ''viewer@demo.corp'') (db_users D') =
       filter (\<lambda>u. usr_email u \<noteq> ''admin@demo.corp'' \<and> usr_email u \<noteq> ''viewer@demo.corp'') (db_users D)
    \<and> (\<exists>D''. seed again D' = Inr D'' \<and> map usr_id (db_users D'') = map usr_id (db_users D')
         \<and> map tn_id (db_tenants D'') = map tn_id (db_tenants D'))"
proof -
  obtain t where t: "filter (\<lambda>t. tn_slug t = ''demo-corp'') (db_tenants (seeded_db v (tn_id t) D)) = [t]"
    "tn_is_active t" "seed v D = Inr (seeded_db v (tn_id t) D)" "db_ok (seeded_db v (tn_id t) D)"
    using seed_run [OF assms] by blast
  let ?D' = "seeded_db v (tn_id t) D"
  let ?us = "seeded_users (sd_admin_id v) (tn_id t) ''admin@demo.corp'' (sd_admin_hash v) ''admin'' (db_users D)"
  have d: "distinct (map usr_email (db_users D))" using assms by (simp add: seedable_def db_ok_def)
  then have d2: "distinct (map usr_email ?us)" by (auto simp: seeded_users_def intro!: upsert_distinct_keys)
  obtain w where w: "filter (\<lambda>u. usr_email u = ''viewer@demo.corp'') (db_users ?D') = [w]"
    "usr_role w = ''viewer''" "usr_tenant_id w = tn_id t" "usr_is_active w" "usr_hashed_password w = sd_viewer_hash v"
    using seeded_user_row [OF d2, where email = "''viewer@demo.corp''" and t = "tn_id t" and h = "sd_viewer_hash v"
        and role = "''viewer''" and i = "sd_viewer_id v"] by (auto simp: seeded_db_def)
  have other: "filter (\<lambda>u. usr_email u \<noteq> ''viewer@demo.corp'') (db_users ?D') = filter (\<lambda>u. usr_email u \<noteq> ''viewer@demo.corp'') ?us"
    "filter (\<lambda>u. usr_email u \<noteq> ''admin@demo.corp'') ?us = filter (\<lambda>u. usr_email u \<noteq> ''admin@demo.corp'') (db_users D)"
    by (simp_all add: seeded_db_def seeded_users_def upsert_other)
  obtain a where a: "filter (\<lambda>u. usr_email u = ''admin@demo.corp'') ?us = [a]"
    "usr_role a = ''admin''" "usr_tenant_id a = tn_id t" "usr_is_active a" "usr_hashed_password a = sd_admin_hash v"
    using seeded_user_row [OF d] by blast
  have "filter (\<lambda>u. usr_email u = ''admin@demo.corp'') us =
      filter (\<lambda>u. usr_email u = ''admin@demo.corp'') (filter (\<lambda>u. usr_email u \<noteq> ''viewer@demo.corp'') us)" for us
    by (induction us) auto
  then have admin: "filter (\<lambda>u. usr_email u = ''admin@demo.corp'') (db_users ?D') = [a]"
    using other(1) a(1) by metis
  have rest: "filter (\<lambda>u. usr_email u \<noteq> ''admin@demo.corp'' \<and> usr_email u \<noteq> ''viewer@demo.corp'') (db_users ?D') =
      filter (\<lambda>u. usr_email u \<noteq> ''admin@demo.corp'' \<and> usr_email u \<noteq> ''viewer@demo.corp'') (db_users D)"
  proof -
    have two: "filter (\<lambda>u. usr_email u \<noteq> ''admin@demo.corp'' \<and> usr_email u \<noteq> ''viewer@demo.corp'') us =
        filter (\<lambda>u. usr_email u \<noteq> ''admin@demo.corp'') (filter (\<lambda>u. usr_email u \<noteq> ''viewer@demo.corp'') us)"
      "filter (\<lambda>u. usr_email u \<noteq> ''admin@demo.corp'') (filter (\<lambda>u. usr_email u \<noteq> ''viewer@demo.corp'') us) =
        filter (\<lambda>u. usr_email u \<noteq> ''viewer@demo.corp'') (filter (\<lambda>u. usr_email u \<noteq> ''admin@demo.corp'') us)" for us
      by (induction us) auto
    show ?thesis unfolding two(1) other(1) unfolding two(2) other(2) ..
  qed
  have present: "''demo-corp'' \<in> tn_slug ` set (db_tenants ?D')"
    "''admin@demo.corp'' \<in> usr_email ` set (db_users ?D')" "''viewer@demo.corp'' \<in> usr_email ` set (db_users ?D')"
    using t(1) by (auto simp: seeded_db_def seeded_users_emails dest!: filter_eq_ConsD)
  then have "seedable again ?D'" using t(4) by (simp add: seedable_def)
  from seed_run [OF this] obtain t' :: tenant where t': "seed again ?D' = Inr (seeded_db again (tn_id t') ?D')" by blast
  have "map usr_id (db_users (seeded_db again (tn_id t') ?D')) = map usr_id (db_users ?D')"
    using present(2,3) seeded_users_emails
    by (simp add: seeded_db_def [of again] seeded_users_present)
  moreover have "map tn_id (db_tenants (seeded_db again (tn_id t') ?D')) = map tn_id (db_tenants ?D')"
    using present(1) by (simp add: seeded_db_def [of again] seeded_tenants_def upsert_def)
  ultimately show ?thesis
    using t w a admin rest t' by blast
qed

definition sample_seed :: seed_env where
  "sample_seed = \<lparr>sd_tenant_id = 1, sd_admin_id = 2, sd_viewer_id = 3, sd_admin_hash = ''h1'', sd_viewer_hash = ''h2''\<rparr>"

theorem seed_demo_users_witness:
  "\<exists>D' a. seed sample_seed empty_db = Inr D'
    \<and> filter (\<lambda>u. usr_email u = ''admin@demo.corp'') (db_users D') = [a] \<and> usr_role a = ''admin''"
proof -
  have "seedable sample_seed empty_db"
    by (simp add: seedable_def sample_seed_def empty_db_def db_ok_def accounts_ok_def documents_ok_def deliveries_ok_def)
  from seed_demo_users [OF this, of sample_seed] show ?thesis by blast
qed

end
