(* ===== verification/RepoSpec.thy ===== *)
theory RepoSpec
  imports RepoMaps
begin

text \<open>
  The interfaces of \<open>src/domain/repositories\<close> and what they promise. A call of one of the five interfaces is a
  value; the promise is a relation on five finite maps from ids to entities, which says nothing of rows, of the
  texts of statuses or of sessions. The SQL repositories, each call in a transaction of its own, keep it.
\<close>

section \<open>The interfaces\<close>

datatype delivery_call =
    Save delivery
  | Get_by_id uuid
  | Get_by_idempotency_key uuid string
  | List_by_document uuid
  | List_pending_retries time
  | List_non_final "uuid option" nat
  | Update delivery

datatype account_call =
    Save_account account
  | Get_account uuid
  | List_accounts uuid bool
  | Update_account account

datatype letter_call =
    Save_letter dlq_entry
  | Get_letter uuid
  | List_retryable uuid
  | List_letters uuid nat nat
  | Update_letter dlq_entry

datatype event_call =
    Save_event audit_event
  | List_by_resource string uuid nat

datatype document_call =
    Save_doc document
  | Get_doc uuid
  | Get_by_internal_id uuid uuid
  | List_docs uuid nat nat

datatype repository_call =
    Deliveries delivery_call | Accounts account_call | Letters letter_call | Events event_call | Documents document_call

datatype 'e answer = Done | Found "'e option" | Listed "'e list"

datatype reply =
    Of_deliveries "delivery answer" | Of_accounts "account answer" | Of_letters "dlq_entry answer"
  | Of_events "audit_event answer" | Of_documents "document answer"

section \<open>The SQL repositories\<close>

text \<open>A method that reads leaves the session as it is; one that writes answers nothing.\<close>

definition reads :: "('a \<Rightarrow> 'b) \<Rightarrow> 'a res \<Rightarrow> session \<Rightarrow> ('b \<times> session) res" where
  "reads f r s = and_then r (\<lambda>x. Inr (f x, s))"

definition changes :: "'b \<Rightarrow> session res \<Rightarrow> ('b \<times> session) res" where
  "changes a r = and_then r (\<lambda>s'. Inr (a, s'))"

fun sql_delivery :: "delivery_call \<Rightarrow> session \<Rightarrow> (delivery answer \<times> session) res" where
  "sql_delivery (Save d) = (\<lambda>s. Inr (Done, save_delivery d s))"
| "sql_delivery (Get_by_id i) = (\<lambda>s. reads Found (get_delivery_by_id i s) s)"
| "sql_delivery (Get_by_idempotency_key account key) = (\<lambda>s. reads Found (get_by_idempotency_key account key s) s)"
| "sql_delivery (List_by_document i) = (\<lambda>s. reads Listed (list_by_document i s) s)"
| "sql_delivery (List_pending_retries now) = (\<lambda>s. reads Listed (list_pending_retries now s) s)"
| "sql_delivery (List_non_final account limit) = (\<lambda>s. reads Listed (list_non_final account limit s) s)"
| "sql_delivery (Update d) = (\<lambda>s. changes Done (update_delivery d s))"

fun sql_account :: "account_call \<Rightarrow> session \<Rightarrow> (account answer \<times> session) res" where
  "sql_account (Save_account a) = (\<lambda>s. Inr (Done, save_account a s))"
| "sql_account (Get_account i) = (\<lambda>s. reads Found (get_account_by_id i s) s)"
| "sql_account (List_accounts tenant active) = (\<lambda>s. reads Listed (list_accounts_by_tenant tenant active s) s)"
| "sql_account (Update_account a) = (\<lambda>s. changes Done (update_account a s))"

fun sql_letter :: "letter_call \<Rightarrow> session \<Rightarrow> (dlq_entry answer \<times> session) res" where
  "sql_letter (Save_letter e) = (\<lambda>s. Inr (Done, save_dlq e s))"
| "sql_letter (Get_letter i) = (\<lambda>s. reads Found (get_dlq_by_id i s) s)"
| "sql_letter (List_retryable tenant) = (\<lambda>s. reads Listed (list_retryable tenant s) s)"
| "sql_letter (List_letters tenant offset limit) = (\<lambda>s. reads Listed (list_dlq_by_tenant tenant offset limit s) s)"
| "sql_letter (Update_letter e) = (\<lambda>s. changes Done (update_dlq e s))"

fun sql_event :: "event_call \<Rightarrow> session \<Rightarrow> (audit_event answer \<times> session) res" where
  "sql_event (Save_event e) = (\<lambda>s. Inr (Done, save_audit e s))"
| "sql_event (List_by_resource rtype rid limit) = (\<lambda>s. reads Listed (Inr (list_by_resource rtype rid limit s)) s)"

fun sql_document :: "document_call \<Rightarrow> session \<Rightarrow> (document answer \<times> session) res" where
  "sql_document (Save_doc d) = (\<lambda>s. Inr (Done, save_document d s))"
| "sql_document (Get_doc i) = (\<lambda>s. reads Found (get_document_by_id i s) s)"
| "sql_document (Get_by_internal_id tenant i) = (\<lambda>s. reads Found (get_document_by_internal_id tenant i s) s)"
| "sql_document (List_docs tenant offset limit) = (\<lambda>s. reads Listed (list_documents_by_tenant tenant offset limit s) s)"

definition relabelled :: "('a \<Rightarrow> 'b) \<Rightarrow> ('a \<times> session) res \<Rightarrow> ('b \<times> session) res" where
  "relabelled f r = and_then r (\<lambda>(a, s). Inr (f a, s))"

fun sql_call :: "repository_call \<Rightarrow> session \<Rightarrow> (reply \<times> session) res" where
  "sql_call (Deliveries c) = (\<lambda>s. relabelled Of_deliveries (sql_delivery c s))"
| "sql_call (Accounts c) = (\<lambda>s. relabelled Of_accounts (sql_account c s))"
| "sql_call (Letters c) = (\<lambda>s. relabelled Of_letters (sql_letter c s))"
| "sql_call (Events c) = (\<lambda>s. relabelled Of_events (sql_event c s))"
| "sql_call (Documents c) = (\<lambda>s. relabelled Of_documents (sql_document c s))"

section \<open>The promise\<close>

definition of_account :: "uuid option \<Rightarrow> delivery \<Rightarrow> bool" where
  "of_account account d = (case account of None \<Rightarrow> True | Some a \<Rightarrow> dl_provider_account_id d = a)"

text \<open>A read answers and changes nothing.\<close>

definition finds :: "(uuid \<rightharpoonup> 'e) \<Rightarrow> 'e set \<Rightarrow> 'e answer res \<Rightarrow> (uuid \<rightharpoonup> 'e) \<Rightarrow> bool" where
  "finds m S r m' \<longleftrightarrow> m' = m \<and> (\<exists>x. r = Inr (Found x) \<and> set_option x = S)"

definition replies :: "(uuid \<rightharpoonup> 'e) \<Rightarrow> ('e list \<Rightarrow> bool) \<Rightarrow> 'e answer res \<Rightarrow> (uuid \<rightharpoonup> 'e) \<Rightarrow> bool" where
  "replies m p r m' \<longleftrightarrow> m' = m \<and> (\<exists>es. r = Inr (Listed es) \<and> p es)"

fun promised_delivery :: "delivery_call \<Rightarrow> (uuid \<rightharpoonup> delivery) \<Rightarrow> delivery answer res \<Rightarrow> (uuid \<rightharpoonup> delivery) \<Rightarrow> bool" where
  "promised_delivery (Save d) m r m' = saved unique_deliveries (dl_id d) d m Done r m'"
| "promised_delivery (Update d) m r m' = updated unique_deliveries (dl_id d) (delivery_emerge d) m Done r m'"
| "promised_delivery (Get_by_id i) m r m' = finds m (set_option (m i)) r m'"
| "promised_delivery (Get_by_idempotency_key account key) m r m' =
     finds m {d \<in> ran m. dl_provider_account_id d = account \<and> dl_idempotency_key d = key} r m'"
| "promised_delivery (List_by_document i) m r m' =
     replies m (listing_by (\<lambda>d. - dl_created_at d) {d \<in> ran m. dl_document_id d = i}) r m'"
| "promised_delivery (List_pending_retries now) m r m' =
     replies m (up_to 500 {d \<in> ran m. dl_status d = PENDING \<and> due now (dl_next_retry_at d)}) r m'"
| "promised_delivery (List_non_final account limit) m r m' =
     replies m (up_to limit {d \<in> ran m. \<not> delivery_is_terminal d \<and> of_account account d}) r m'"

fun promised_account :: "account_call \<Rightarrow> (uuid \<rightharpoonup> account) \<Rightarrow> account answer res \<Rightarrow> (uuid \<rightharpoonup> account) \<Rightarrow> bool" where
  "promised_account (Save_account a) m r m' = saved unique_accounts (acc_id a) a m Done r m'"
| "promised_account (Update_account a) m r m' = updated unique_accounts (acc_id a) (account_emerge a) m Done r m'"
| "promised_account (Get_account i) m r m' = finds m (set_option (m i)) r m'"
| "promised_account (List_accounts tenant active) m r m' =
     replies m (listing_by acc_priority {a \<in> ran m. acc_tenant_id a = tenant \<and> (active \<longrightarrow> acc_is_active a)}) r m'"

fun promised_letter :: "letter_call \<Rightarrow> (uuid \<rightharpoonup> dlq_entry) \<Rightarrow> dlq_entry answer res \<Rightarrow> (uuid \<rightharpoonup> dlq_entry) \<Rightarrow> bool" where
  "promised_letter (Save_letter e) m r m' = saved (\<lambda>m. True) (dlq_id e) e m Done r m'"
| "promised_letter (Update_letter e) m r m' = updated (\<lambda>m. True) (dlq_id e) (dlq_merge e) m Done r m'"
| "promised_letter (Get_letter i) m r m' = finds m (set_option (m i)) r m'"
| "promised_letter (List_retryable tenant) m r m' =
     replies m (listing {e \<in> ran m. dlq_tenant_id e = tenant \<and> dlq_retryable e \<and> dlq_replayed_at e = None}) r m'"
| "promised_letter (List_letters tenant offset limit) m r m' =
     replies m (page_by (\<lambda>e. - dlq_created_at e) {e \<in> ran m. dlq_tenant_id e = tenant} offset limit) r m'"

fun promised_event :: "event_call \<Rightarrow> (uuid \<rightharpoonup> audit_event) \<Rightarrow> audit_event answer res \<Rightarrow> (uuid \<rightharpoonup> audit_event) \<Rightarrow> bool" where
  "promised_event (Save_event e) m r m' = saved (\<lambda>m. True) (aud_id e) e m Done r m'"
| "promised_event (List_by_resource rtype rid limit) m r m' =
     replies m (page_by (\<lambda>e. - aud_created_at e) {e \<in> ran m. aud_resource_type e = rtype \<and> aud_resource_id e = rid} 0 limit)
       r m'"

fun promised_document :: "document_call \<Rightarrow> (uuid \<rightharpoonup> document) \<Rightarrow> document answer res \<Rightarrow> (uuid \<rightharpoonup> document) \<Rightarrow> bool" where
  "promised_document (Save_doc d) m r m' = saved unique_documents (doc_id d) d m Done r m'"
| "promised_document (Get_doc i) m r m' = finds m (set_option (m i)) r m'"
| "promised_document (Get_by_internal_id tenant i) m r m' =
     finds m {d \<in> ran m. doc_tenant_id d = tenant \<and> doc_internal_document_id d = i} r m'"
| "promised_document (List_docs tenant offset limit) m r m' =
     replies m (page_by (\<lambda>d. - doc_created_at d) {d \<in> ran m. doc_tenant_id d = tenant} offset limit) r m'"

text \<open>The five maps; a call changes the map of its own repository.\<close>

record stores =
  st_deliveries :: "uuid \<rightharpoonup> delivery"
  st_accounts :: "uuid \<rightharpoonup> account"
  st_letters :: "uuid \<rightharpoonup> dlq_entry"
  st_events :: "uuid \<rightharpoonup> audit_event"
  st_documents :: "uuid \<rightharpoonup> document"

fun promised :: "repository_call \<Rightarrow> stores \<Rightarrow> reply res \<Rightarrow> stores \<Rightarrow> bool" where
  "promised (Deliveries c) m r m' \<longleftrightarrow> (\<exists>a t. r = map_sum id Of_deliveries a
     \<and> promised_delivery c (st_deliveries m) a t \<and> m' = m\<lparr>st_deliveries := t\<rparr>)"
| "promised (Accounts c) m r m' \<longleftrightarrow> (\<exists>a t. r = map_sum id Of_accounts a
     \<and> promised_account c (st_accounts m) a t \<and> m' = m\<lparr>st_accounts := t\<rparr>)"
| "promised (Letters c) m r m' \<longleftrightarrow> (\<exists>a t. r = map_sum id Of_letters a
     \<and> promised_letter c (st_letters m) a t \<and> m' = m\<lparr>st_letters := t\<rparr>)"
| "promised (Events c) m r m' \<longleftrightarrow> (\<exists>a t. r = map_sum id Of_events a
     \<and> promised_event c (st_events m) a t \<and> m' = m\<lparr>st_events := t\<rparr>)"
| "promised (Documents c) m r m' \<longleftrightarrow> (\<exists>a t. r = map_sum id Of_documents a
     \<and> promised_document c (st_documents m) a t \<and> m' = m\<lparr>st_documents := t\<rparr>)"

section \<open>The tables as maps\<close>

definition stores_of :: "db \<Rightarrow> stores" where
  "stores_of D =
     \<lparr>st_deliveries = map_rows delivery_to_entity dr_id (db_deliveries D),
      st_accounts = map_rows provider_to_entity ar_id (db_accounts D),
      st_letters = map_rows dlq_to_entity dlq_id (db_dlq D),
      st_events = map_rows Inr aud_id (db_audit D),
      st_documents = map_rows document_to_entity doc_id (db_documents D)\<rparr>"

lemma stores_of_simps [simp]:
  "st_deliveries (stores_of D) = map_rows delivery_to_entity dr_id (db_deliveries D)"
  "st_accounts (stores_of D) = map_rows provider_to_entity ar_id (db_accounts D)"
  "st_letters (stores_of D) = map_rows dlq_to_entity dlq_id (db_dlq D)"
  "st_events (stores_of D) = map_rows Inr aud_id (db_audit D)"
  "st_documents (stores_of D) = map_rows document_to_entity doc_id (db_documents D)"
  by (simp_all add: stores_of_def)

text \<open>The constraints hold, and every stored status and provider type is one of its enumeration.\<close>

definition readable :: "db \<Rightarrow> bool" where
  "readable D \<longleftrightarrow> db_ok D \<and> (\<forall>r \<in> set (db_deliveries D). parse_status (dr_unified_status r) \<noteq> None)
     \<and> (\<forall>r \<in> set (db_accounts D). parse_provider_type (ar_provider_type r) \<noteq> None)"

lemma delivery_loads: "(\<exists>d. delivery_to_entity r = Inr d) \<longleftrightarrow> parse_status (dr_unified_status r) \<noteq> None"
  by (auto simp: delivery_to_entity_def split: option.splits)

lemma account_loads: "(\<exists>a. provider_to_entity r = Inr a) \<longleftrightarrow> parse_provider_type (ar_provider_type r) \<noteq> None"
  by (auto simp: provider_to_entity_def split: option.splits)

lemma readable_iff:
  "readable D \<longleftrightarrow> db_ok D \<and> good_rows delivery_to_entity dr_id (db_deliveries D)
     \<and> good_rows provider_to_entity ar_id (db_accounts D)"
  using db_ok_tables [of D] by (auto simp: readable_def good_rows_def delivery_loads account_loads)

lemma readable_good:
  assumes "readable D"
  shows "db_ok D" "delivery_rows.good (db_deliveries D)" "account_rows.good (db_accounts D)"
    "letter_rows.good (db_dlq D)" "event_rows.good (db_audit D)" "document_rows.good (db_documents D)"
  using assms db_ok_tables [of D]
  by (simp_all add: readable_iff) (simp_all add: good_rows_def dlq_to_entity_def document_to_entity_def db_ok_def)

section \<open>One call\<close>

text \<open>The session of a call that reads commits nothing.\<close>

lemma read_session:
  assumes "db_ok D" and "with_session (\<lambda>s. reads f (q s) s) D = (D', r)" and "q (open_session D) = Inr x"
  shows "D' = D \<and> r = Inr (f x)"
  using assms by (simp add: with_session_def reads_def commit_def)

lemma finds_read:
  assumes "db_ok D" and "with_session (\<lambda>s. reads Found (q s) s) D = (D', r)"
    and "\<exists>x. q (open_session D) = Inr x \<and> set_option x = S"
  shows "D' = D \<and> finds m S r m"
  using assms read_session [OF assms(1,2)] by (auto simp: finds_def)

lemma replies_read:
  assumes "db_ok D" and "with_session (\<lambda>s. reads Listed (q s) s) D = (D', r)"
    and "\<exists>es. q (open_session D) = Inr es \<and> p es"
  shows "D' = D \<and> replies m p r m"
  using assms read_session [OF assms(1,2)] by (auto simp: replies_def)

lemma status_row: "delivery_to_entity r = Inr d \<Longrightarrow> dr_unified_status r = status_value (dl_status d)"
  using delivery_to_entity_status by blast

lemmas row_of_delivery = status_row delivery_to_entity_status load_row_fields(1)

text \<open>A database after a call: readable, with the maps that the call promised.\<close>

definition holds :: "db \<Rightarrow> stores \<Rightarrow> bool" where
  "holds D m \<longleftrightarrow> readable D \<and> stores_of D = m"

lemma holds_same:
  assumes "readable D"
  shows "holds D ((stores_of D)\<lparr>st_deliveries := st_deliveries (stores_of D)\<rparr>)"
    "holds D ((stores_of D)\<lparr>st_accounts := st_accounts (stores_of D)\<rparr>)"
    "holds D ((stores_of D)\<lparr>st_letters := st_letters (stores_of D)\<rparr>)"
    "holds D ((stores_of D)\<lparr>st_events := st_events (stores_of D)\<rparr>)"
    "holds D ((stores_of D)\<lparr>st_documents := st_documents (stores_of D)\<rparr>)"
  using assms by (simp_all add: holds_def)

lemma holds_put:
  assumes "readable D" and "db_ok D'"
  shows "delivery_rows.good (db_deliveries D') \<Longrightarrow> D' = D\<lparr>db_deliveries := db_deliveries D'\<rparr>
      \<Longrightarrow> holds D' ((stores_of D)\<lparr>st_deliveries := st_deliveries (stores_of D')\<rparr>)"
    and "account_rows.good (db_accounts D') \<Longrightarrow> D' = D\<lparr>db_accounts := db_accounts D'\<rparr>
      \<Longrightarrow> holds D' ((stores_of D)\<lparr>st_accounts := st_accounts (stores_of D')\<rparr>)"
    and "D' = D\<lparr>db_dlq := db_dlq D'\<rparr> \<Longrightarrow> holds D' ((stores_of D)\<lparr>st_letters := st_letters (stores_of D')\<rparr>)"
    and "D' = D\<lparr>db_audit := db_audit D'\<rparr> \<Longrightarrow> holds D' ((stores_of D)\<lparr>st_events := st_events (stores_of D')\<rparr>)"
    and "D' = D\<lparr>db_documents := db_documents D'\<rparr> \<Longrightarrow> holds D' ((stores_of D)\<lparr>st_documents := st_documents (stores_of D')\<rparr>)"
  using assms by ((cases D, cases D', simp add: holds_def readable_iff stores_of_def)+)

lemma delivery_call_kept:
  assumes "readable D" and "with_session (sql_delivery c) D = (D', r)"
  shows "promised_delivery c (st_deliveries (stores_of D)) r (st_deliveries (stores_of D'))
    \<and> holds D' ((stores_of D)\<lparr>st_deliveries := st_deliveries (stores_of D')\<rparr>)"
proof (cases c)
  case (Save d)
  with delivery_table.save_session [OF readable_good(1,2) [OF assms(1)], of Done d D' r] assms
    holds_put(1) [OF assms(1)]
  show ?thesis by (simp add: save_delivery_def)
next
  case (Update d)
  with delivery_table.update_session [OF readable_good(1,2) [OF assms(1)], of "dl_id d" d Done D' r] assms
    holds_put(1) [OF assms(1)]
  show ?thesis by (simp add: changes_def update_delivery_def)
next
  case (Get_by_id i)
  have "\<exists>x. get_delivery_by_id i (open_session D) = Inr x \<and> set_option x = set_option (st_deliveries (stores_of D) i)"
    using delivery_rows.lookup [OF readable_good(2) [OF assms(1)], of i] by (simp add: get_delivery_by_id_def)
  from finds_read [where m = "st_deliveries (stores_of D)" and q = "get_delivery_by_id i",
      OF readable_good(1) [OF assms(1)] _ this, of D' r] assms Get_by_id holds_same(1) [OF assms(1)]
  show ?thesis by simp
next
  case (Get_by_idempotency_key account key)
  have unique: "unique_deliveries (st_deliveries (stores_of D))"
    using delivery_table.allowed_unique [OF readable_good(2) [OF assms(1)]] readable_good(1) [OF assms(1)]
    by (simp add: db_ok_def)
  have "\<exists>x. get_by_idempotency_key account key (open_session D) = Inr x \<and> set_option x
      = {d \<in> ran (st_deliveries (stores_of D)). dl_provider_account_id d = account \<and> dl_idempotency_key d = key}"
    unfolding get_by_idempotency_key_def stores_of_simps open_session_view
    by (rule delivery_rows.query_one [OF readable_good(2) [OF assms(1)]])
      (use unique in \<open>auto simp: row_of_delivery unique_deliveries_def inj_on_def\<close>)
  from finds_read [where m = "st_deliveries (stores_of D)" and q = "get_by_idempotency_key account key",
      OF readable_good(1) [OF assms(1)] _ this, of D' r] assms Get_by_idempotency_key holds_same(1) [OF assms(1)]
  show ?thesis by simp
next
  case (List_by_document i)
  have "\<exists>ds. list_by_document i (open_session D) = Inr ds
      \<and> listing_by (\<lambda>d. - dl_created_at d) {d \<in> ran (st_deliveries (stores_of D)). dl_document_id d = i} ds"
    unfolding list_by_document_def stores_of_simps open_session_view
    by (rule delivery_rows.query_by [OF readable_good(2) [OF assms(1)]]) (auto simp: row_of_delivery)
  from replies_read [where m = "st_deliveries (stores_of D)" and q = "list_by_document i",
      OF readable_good(1) [OF assms(1)] _ this, of D' r] assms List_by_document holds_same(1) [OF assms(1)]
  show ?thesis by simp
next
  case (List_pending_retries now)
  have "\<exists>ds. list_pending_retries now (open_session D) = Inr ds
      \<and> up_to 500 {d \<in> ran (st_deliveries (stores_of D)). dl_status d = PENDING \<and> due now (dl_next_retry_at d)} ds"
    unfolding list_pending_retries_def stores_of_simps open_session_view
    by (rule delivery_rows.query_up_to [OF readable_good(2) [OF assms(1)]])
      (auto simp: row_of_delivery simp del: status_value.simps)
  from replies_read [where m = "st_deliveries (stores_of D)" and q = "list_pending_retries now",
      OF readable_good(1) [OF assms(1)] _ this, of D' r] assms List_pending_retries holds_same(1) [OF assms(1)]
  show ?thesis by simp
next
  case (List_non_final account limit)
  have "\<exists>ds. list_non_final account limit (open_session D) = Inr ds
      \<and> up_to limit {d \<in> ran (st_deliveries (stores_of D)). \<not> delivery_is_terminal d \<and> of_account account d} ds"
    unfolding list_non_final_def stores_of_simps open_session_view
    by (rule delivery_rows.query_up_to [OF readable_good(2) [OF assms(1)]])
      (auto simp: row_of_delivery non_final_values_iff delivery_is_terminal_def of_account_def split: option.splits)
  from replies_read [where m = "st_deliveries (stores_of D)" and q = "list_non_final account limit",
      OF readable_good(1) [OF assms(1)] _ this, of D' r] assms List_non_final holds_same(1) [OF assms(1)]
  show ?thesis by simp
qed

lemma account_call_kept:
  assumes "readable D" and "with_session (sql_account c) D = (D', r)"
  shows "promised_account c (st_accounts (stores_of D)) r (st_accounts (stores_of D'))
    \<and> holds D' ((stores_of D)\<lparr>st_accounts := st_accounts (stores_of D')\<rparr>)"
proof (cases c)
  case (Save_account a)
  with account_table.save_session [OF readable_good(1,3) [OF assms(1)], of Done a D' r] assms
    holds_put(2) [OF assms(1)]
  show ?thesis by (simp add: save_account_def)
next
  case (Update_account a)
  with account_table.update_session [OF readable_good(1,3) [OF assms(1)], of "acc_id a" a Done D' r] assms
    holds_put(2) [OF assms(1)]
  show ?thesis by (simp add: changes_def update_account_def)
next
  case (Get_account i)
  have "\<exists>x. get_account_by_id i (open_session D) = Inr x \<and> set_option x = set_option (st_accounts (stores_of D) i)"
    using account_rows.lookup [OF readable_good(3) [OF assms(1)], of i] by (simp add: get_account_by_id_def)
  from finds_read [where m = "st_accounts (stores_of D)" and q = "get_account_by_id i",
      OF readable_good(1) [OF assms(1)] _ this, of D' r] assms Get_account holds_same(2) [OF assms(1)]
  show ?thesis by simp
next
  case (List_accounts tenant active)
  have "\<exists>as. list_accounts_by_tenant tenant active (open_session D) = Inr as \<and> listing_by acc_priority
      {a \<in> ran (st_accounts (stores_of D)). acc_tenant_id a = tenant \<and> (active \<longrightarrow> acc_is_active a)} as"
    unfolding list_accounts_by_tenant_def stores_of_simps open_session_view
    by (rule account_rows.query_by [OF readable_good(3) [OF assms(1)]]) (auto simp: load_row_fields(2))
  from replies_read [where m = "st_accounts (stores_of D)" and q = "list_accounts_by_tenant tenant active",
      OF readable_good(1) [OF assms(1)] _ this, of D' r] assms List_accounts holds_same(2) [OF assms(1)]
  show ?thesis by simp
qed

lemma letter_call_kept:
  assumes "readable D" and "with_session (sql_letter c) D = (D', r)"
  shows "promised_letter c (st_letters (stores_of D)) r (st_letters (stores_of D'))
    \<and> holds D' ((stores_of D)\<lparr>st_letters := st_letters (stores_of D')\<rparr>)"
proof (cases c)
  case (Save_letter e)
  with letter_table.save_session [OF readable_good(1,4) [OF assms(1)], of Done e D' r] assms
    holds_put(3) [OF assms(1)]
  show ?thesis by (simp add: save_dlq_def)
next
  case (Update_letter e)
  with letter_table.update_session [OF readable_good(1,4) [OF assms(1)], of "dlq_id e" e Done D' r] assms
    holds_put(3) [OF assms(1)]
  show ?thesis by (simp add: changes_def update_dlq_def)
next
  case (Get_letter i)
  have "\<exists>x. get_dlq_by_id i (open_session D) = Inr x \<and> set_option x = set_option (st_letters (stores_of D) i)"
    using letter_rows.lookup [OF readable_good(4) [OF assms(1)], of i] by (simp add: get_dlq_by_id_def)
  from finds_read [where m = "st_letters (stores_of D)" and q = "get_dlq_by_id i",
      OF readable_good(1) [OF assms(1)] _ this, of D' r] assms Get_letter holds_same(3) [OF assms(1)]
  show ?thesis by simp
next
  case (List_retryable tenant)
  have "\<exists>es. list_retryable tenant (open_session D) = Inr es \<and> listing {e \<in> ran (st_letters (stores_of D)).
      dlq_tenant_id e = tenant \<and> dlq_retryable e \<and> dlq_replayed_at e = None} es"
    unfolding list_retryable_def stores_of_simps open_session_view
    by (rule letter_rows.query [OF readable_good(4) [OF assms(1)]]) (auto simp: dlq_to_entity_def)
  from replies_read [where m = "st_letters (stores_of D)" and q = "list_retryable tenant",
      OF readable_good(1) [OF assms(1)] _ this, of D' r] assms List_retryable holds_same(3) [OF assms(1)]
  show ?thesis by simp
next
  case (List_letters tenant offset limit)
  have "\<exists>es. list_dlq_by_tenant tenant offset limit (open_session D) = Inr es \<and> page_by (\<lambda>e. - dlq_created_at e)
      {e \<in> ran (st_letters (stores_of D)). dlq_tenant_id e = tenant} offset limit es"
    unfolding list_dlq_by_tenant_def stores_of_simps open_session_view
    by (rule letter_rows.query_page [OF readable_good(4) [OF assms(1)]]) (auto simp: dlq_to_entity_def)
  from replies_read [where m = "st_letters (stores_of D)" and q = "list_dlq_by_tenant tenant offset limit",
      OF readable_good(1) [OF assms(1)] _ this, of D' r] assms List_letters holds_same(3) [OF assms(1)]
  show ?thesis by simp
qed

lemma load_all_Inr_id: "load_all Inr rs = Inr rs"
  by (simp add: load_all_Inr)

lemma event_call_kept:
  assumes "readable D" and "with_session (sql_event c) D = (D', r)"
  shows "promised_event c (st_events (stores_of D)) r (st_events (stores_of D'))
    \<and> holds D' ((stores_of D)\<lparr>st_events := st_events (stores_of D')\<rparr>)"
proof (cases c)
  case (Save_event e)
  with event_table.save_session [OF readable_good(1,5) [OF assms(1)], of Done e D' r] assms
    holds_put(4) [OF assms(1)]
  show ?thesis by (simp add: save_audit_def)
next
  case (List_by_resource rtype rid limit)
  have "\<exists>es. load_all Inr (take limit (drop 0 (sort_key (\<lambda>r. - aud_created_at r)
        (filter (\<lambda>r. aud_resource_type r = rtype \<and> aud_resource_id r = rid) (db_audit D))))) = Inr es
      \<and> page_by (\<lambda>e. - aud_created_at e) {e \<in> ran (st_events (stores_of D)).
          aud_resource_type e = rtype \<and> aud_resource_id e = rid} 0 limit es"
    unfolding stores_of_simps by (rule event_rows.query_page [OF readable_good(5) [OF assms(1)]]) auto
  then have "\<exists>es. Inr (list_by_resource rtype rid limit (open_session D)) = (Inr es :: audit_event list res)
      \<and> page_by (\<lambda>e. - aud_created_at e) {e \<in> ran (st_events (stores_of D)).
          aud_resource_type e = rtype \<and> aud_resource_id e = rid} 0 limit es"
    by (simp add: load_all_Inr_id list_by_resource_def)
  from replies_read [where m = "st_events (stores_of D)" and q = "\<lambda>s. Inr (list_by_resource rtype rid limit s)",
      OF readable_good(1) [OF assms(1)] _ this, of D' r] assms List_by_resource holds_same(4) [OF assms(1)]
  show ?thesis by simp
qed

lemma document_call_kept:
  assumes "readable D" and "with_session (sql_document c) D = (D', r)"
  shows "promised_document c (st_documents (stores_of D)) r (st_documents (stores_of D'))
    \<and> holds D' ((stores_of D)\<lparr>st_documents := st_documents (stores_of D')\<rparr>)"
proof (cases c)
  case (Save_doc d)
  with document_table.save_session [OF readable_good(1,6) [OF assms(1)], of Done d D' r] assms
    holds_put(5) [OF assms(1)]
  show ?thesis by (simp add: save_document_def)
next
  case (Get_doc i)
  have "\<exists>x. get_document_by_id i (open_session D) = Inr x \<and> set_option x = set_option (st_documents (stores_of D) i)"
    using document_rows.lookup [OF readable_good(6) [OF assms(1)], of i] by (simp add: get_document_by_id_def)
  from finds_read [where m = "st_documents (stores_of D)" and q = "get_document_by_id i",
      OF readable_good(1) [OF assms(1)] _ this, of D' r] assms Get_doc holds_same(5) [OF assms(1)]
  show ?thesis by simp
next
  case (Get_by_internal_id tenant i)
  have unique: "unique_documents (st_documents (stores_of D))"
    using document_table.allowed_unique [OF readable_good(6) [OF assms(1)]] readable_good(1) [OF assms(1)]
    by (simp add: db_ok_def)
  have "\<exists>x. get_document_by_internal_id tenant i (open_session D) = Inr x \<and> set_option x
      = {d \<in> ran (st_documents (stores_of D)). doc_tenant_id d = tenant \<and> doc_internal_document_id d = i}"
    unfolding get_document_by_internal_id_def stores_of_simps open_session_view
    by (rule document_rows.query_one [OF readable_good(6) [OF assms(1)]])
      (use unique in \<open>auto simp: document_to_entity_def unique_documents_def inj_on_def\<close>)
  from finds_read [where m = "st_documents (stores_of D)" and q = "get_document_by_internal_id tenant i",
      OF readable_good(1) [OF assms(1)] _ this, of D' r] assms Get_by_internal_id holds_same(5) [OF assms(1)]
  show ?thesis by simp
next
  case (List_docs tenant offset limit)
  have "\<exists>ds. list_documents_by_tenant tenant offset limit (open_session D) = Inr ds
      \<and> page_by (\<lambda>d. - doc_created_at d) {d \<in> ran (st_documents (stores_of D)). doc_tenant_id d = tenant} offset limit ds"
    unfolding list_documents_by_tenant_def stores_of_simps open_session_view
    by (rule document_rows.query_page [OF readable_good(6) [OF assms(1)]]) (auto simp: document_to_entity_def)
  from replies_read [where m = "st_documents (stores_of D)" and q = "list_documents_by_tenant tenant offset limit",
      OF readable_good(1) [OF assms(1)] _ this, of D' r] assms List_docs holds_same(5) [OF assms(1)]
  show ?thesis by simp
qed

lemma call_kept:
  assumes "readable D" and "with_session (sql_call c) D = (D', r)"
  shows "promised c (stores_of D) r (stores_of D') \<and> readable D'"
proof -
  have split: "with_session (\<lambda>s. relabelled f (w s)) D = (D', r)
      \<longleftrightarrow> (\<exists>r'. with_session w D = (D', r') \<and> r = map_sum id f r')" for f and w :: "session \<Rightarrow> ('a \<times> session) res"
    by (auto simp: with_session_def relabelled_def split: sum.splits prod.splits)
  show ?thesis
    using assms delivery_call_kept [OF assms(1), of _ D'] account_call_kept [OF assms(1), of _ D']
      letter_call_kept [OF assms(1), of _ D'] event_call_kept [OF assms(1), of _ D']
      document_call_kept [OF assms(1), of _ D']
    by (cases c) (simp add: split holds_def, blast)+
qed

section \<open>Sequences of calls\<close>

text \<open>Each call in a transaction of its own; a call that raises leaves the tables as they were.\<close>

fun run_calls :: "repository_call list \<Rightarrow> db \<Rightarrow> reply res list \<times> db" where
  "run_calls [] D = ([], D)"
| "run_calls (c # cs) D =
     (let (D1, r) = with_session (sql_call c) D; (rs, D') = run_calls cs D1 in (r # rs, D'))"

fun promised_all :: "repository_call list \<Rightarrow> stores \<Rightarrow> reply res list \<Rightarrow> stores \<Rightarrow> bool" where
  "promised_all [] m [] m' \<longleftrightarrow> m' = m"
| "promised_all (c # cs) m (r # rs) m' \<longleftrightarrow> (\<exists>m1. promised c m r m1 \<and> promised_all cs m1 rs m')"
| "promised_all _ m _ m' \<longleftrightarrow> False"


lemma map_no_rows: "map_rows f key [] = Map.empty"
  by (simp add: map_rows_def get_row_def select_by_def load_def fun_eq_iff)

lemma set_option_single: "set_option x = {e} \<longleftrightarrow> x = Some e"
  by (cases x) auto

lemma promised_all_Cons:
  "promised_all (c # cs) m rs m' \<longleftrightarrow> (\<exists>r rs' m1. rs = r # rs' \<and> promised c m r m1 \<and> promised_all cs m1 rs' m')"
  by (cases rs) auto

lemma promised_all_Nil: "promised_all [] m rs m' \<longleftrightarrow> rs = [] \<and> m' = m"
  by (cases rs) auto


end
