(* ===== verification/Platform.thy ===== *)
theory Platform
  imports AdminApi
begin

text \<open>
  The process around the handlers: the shared Redis client (\<open>infrastructure/cache/redis_client.py\<close>), the options of
  the database engine (\<open>infrastructure/database/session.py\<close>), the log pipeline (\<open>core/logging.py\<close>), tracing
  (\<open>core/telemetry.py\<close>), and the part of \<open>create_app\<close> and \<open>lifespan\<close> in \<open>main.py\<close> that is not routing: the
  documentation pages, the middlewares in their order, and the shutdown.
\<close>

section \<open>The Redis client of a process\<close>

record redis_client =
  rc_url :: string
  rc_encoding :: string
  rc_decode_responses :: bool
  rc_socket_timeout :: nat
  rc_socket_connect_timeout :: nat
  rc_retry_on_timeout :: bool
  rc_health_check_interval :: nat

text \<open>The global \<open>_client\<close> is state: \<open>get_redis\<close> fills it once, \<open>close_redis\<close> empties it unless closing raises.\<close>

definition get_redis :: "settings \<Rightarrow> redis_client option \<Rightarrow> redis_client \<times> redis_client option" where
  "get_redis s client =
     (case client of
        None \<Rightarrow> (let c = \<lparr>rc_url = redis_url s, rc_encoding = ''utf-8'', rc_decode_responses = False,
            rc_socket_timeout = 5, rc_socket_connect_timeout = 5, rc_retry_on_timeout = True,
            rc_health_check_interval = 30\<rparr> in (c, Some c))
      | Some c \<Rightarrow> (c, Some c))"

definition close_redis :: "(redis_client \<Rightarrow> unit res) \<Rightarrow> redis_client option \<Rightarrow> unit res \<times> redis_client option" where
  "close_redis aclose client =
     (case client of
        None \<Rightarrow> (Inr (), None)
      | Some c \<Rightarrow> (case aclose c of Inl e \<Rightarrow> (Inl e, Some c) | Inr _ \<Rightarrow> (Inr (), None)))"

text \<open>Every caller of one process, whatever settings it read, gets the client of the first call.\<close>

lemma get_redis_shared: "get_redis s client = (c, client') \<Longrightarrow> get_redis s' client' = (c, client')"
  by (auto simp: get_redis_def Let_def split: option.splits)

lemma closed_then_fresh:
  "close_redis aclose client = (Inr (), client') \<Longrightarrow> fst (get_redis s client') = fst (get_redis s None)"
  by (auto simp: close_redis_def split: option.splits sum.splits)

section \<open>The database engine\<close>

record engine =
  en_url :: string
  en_echo :: bool
  en_pool_size :: nat
  en_max_overflow :: nat
  en_pool_timeout :: nat
  en_pool_pre_ping :: bool
  en_pool_recycle :: nat
  en_application_name :: string

definition engine_of :: "settings \<Rightarrow> engine" where
  "engine_of s =
     \<lparr>en_url = database_url s, en_echo = db_echo s, en_pool_size = db_pool_size s,
      en_max_overflow = db_max_overflow s, en_pool_timeout = db_pool_timeout s, en_pool_pre_ping = True,
      en_pool_recycle = 3600, en_application_name = ''edo-adapter''\<rparr>"

section \<open>Logging\<close>

text \<open>The processors of the log library are parameters; \<open>Mask_sensitive\<close> is the code's own.\<close>

datatype processor =
    Merge_contextvars | Add_log_level | Add_logger_name | Time_stamper | Stack_info_renderer
  | Mask_sensitive | Wrap_for_formatter | Remove_processors_meta | JSON_renderer | Console_renderer

definition shared_processors :: "settings \<Rightarrow> processor list" where
  "shared_processors s =
     [Merge_contextvars, Add_log_level, Add_logger_name, Time_stamper, Stack_info_renderer]
     @ (if enable_log_masking s then [Mask_sensitive] else [])"

definition log_renderer :: "settings \<Rightarrow> processor" where
  "log_renderer s = (if app_env s = Prod then JSON_renderer else Console_renderer)"

definition logger_processors :: "settings \<Rightarrow> processor list" where
  "logger_processors s = shared_processors s @ [Wrap_for_formatter]"

definition formatter_processors :: "settings \<Rightarrow> processor list" where
  "formatter_processors s = [Remove_processors_meta] @ shared_processors s @ [log_renderer s]"

datatype log_level = DEBUG | INFO | WARNING

definition log_level_of :: "settings \<Rightarrow> string \<Rightarrow> log_level" where
  "log_level_of s logger =
     (if logger \<in> set [''sqlalchemy.engine'', ''httpx'', ''httpcore'', ''celery''] then WARNING
      else if debug s then DEBUG else INFO)"

type_synonym log_event = "(string \<times> json) list"

definition log_step :: "(processor \<Rightarrow> log_event \<Rightarrow> log_event) \<Rightarrow> processor \<Rightarrow> log_event \<Rightarrow> log_event" where
  "log_step lib p e = (if p = Mask_sensitive then mask_sensitive e else lib p e)"

definition rendered :: "(processor \<Rightarrow> log_event \<Rightarrow> log_event) \<Rightarrow> settings \<Rightarrow> log_event \<Rightarrow> log_event" where
  "rendered lib s e = fold (log_step lib) (butlast (formatter_processors s)) e"

definition masked :: "log_event \<Rightarrow> bool" where
  "masked e \<longleftrightarrow> (\<forall>(k, v) \<in> set e.
     list_ex (\<lambda>p. is_substring p (py_lower k)) sensitive_words \<longrightarrow> v = JStr ''***MASKED***'')"

text \<open>With masking on, whatever the library's processors add, the renderer gets no sensitive value at the top of
  the event; the mask is the last step before it.\<close>

lemma masked_before_rendering:
  assumes "enable_log_masking s"
  shows "masked (rendered lib s e)"
proof -
  let ?before = "fold (log_step lib) [Remove_processors_meta, Merge_contextvars, Add_log_level, Add_logger_name,
      Time_stamper, Stack_info_renderer] e"
  have "rendered lib s e = mask_sensitive ?before"
    using assms by (simp add: rendered_def formatter_processors_def shared_processors_def log_step_def)
  then show ?thesis by (auto simp: masked_def mask_sensitive_def)
qed

text \<open>A value below the top of the event is not looked at: the credentials inside a logged dictionary pass.\<close>

lemma nested_values_pass: "mask_sensitive [(''account'', JObj kvs)] = [(''account'', JObj kvs)]"
proof -
  have "\<not> list_ex (\<lambda>p. is_substring p (py_lower ''account'')) sensitive_words" by code_simp
  then show ?thesis by (simp add: mask_sensitive_def)
qed

section \<open>Tracing\<close>

definition env_text :: "app_env \<Rightarrow> string" where
  "env_text env = (case env of Dev \<Rightarrow> ''dev'' | Staging \<Rightarrow> ''staging'' | Prod \<Rightarrow> ''prod'')"

definition otel_resource :: "settings \<Rightarrow> (string \<times> string) list" where
  "otel_resource s =
     [(''service.name'', otel_service_name s), (''service.version'', app_version s),
      (''deployment.environment'', env_text (app_env s))]"

text \<open>What \<open>configure_telemetry\<close> sets up in \<open>lifespan\<close>, and what is instrumented when the application is created and
  started: the spans go to the exporter in batches.\<close>

datatype instrumented = HTTPX_client | Redis_calls | FastAPI_app | SQLAlchemy_engine

record tracing =
  tr_resource :: "(string \<times> string) list"
  tr_endpoint :: string
  tr_insecure :: bool

definition configure_telemetry :: "settings \<Rightarrow> instrumented list \<Rightarrow> tracing \<times> instrumented list" where
  "configure_telemetry s done =
     (\<lparr>tr_resource = otel_resource s, tr_endpoint = otel_exporter_otlp_endpoint s, tr_insecure = True\<rparr>,
      done @ [HTTPX_client, Redis_calls])"

definition instrument_fastapi :: "instrumented list \<Rightarrow> instrumented list" where
  "instrument_fastapi done = done @ [FastAPI_app]"

definition instrument_sqlalchemy :: "instrumented list \<Rightarrow> instrumented list" where
  "instrument_sqlalchemy done = done @ [SQLAlchemy_engine]"

definition get_tracer_name :: "string option \<Rightarrow> string" where
  "get_tracer_name name = (case name of None \<Rightarrow> ''edo-adapter'' | Some n \<Rightarrow> n)"

text \<open>\<open>create_app\<close> instruments the application, the start of \<open>lifespan\<close> the two clients.\<close>

definition started :: "settings \<Rightarrow> tracing \<times> instrumented list" where
  "started s = configure_telemetry s (instrument_fastapi [])"

lemma database_not_traced: "SQLAlchemy_engine \<notin> set (snd (started s))"
  by (simp add: started_def configure_telemetry_def instrument_fastapi_def)

section \<open>The application\<close>

text \<open>\<open>docs_url\<close> and \<open>redoc_url\<close>.\<close>

definition docs_pages :: "settings \<Rightarrow> string option \<times> string option" where
  "docs_pages s =
     (if app_env s = Prod then (None, None) else (Some ''/api/docs'', Some ''/api/redoc''))"

text \<open>The middlewares in the order they are added. The framework documents that the one added last is the
  outermost: on the way back a response passes them in the order of addition. An exception that no handler of
  \<open>EXCEPTION_HANDLERS\<close> takes passes all three, and the framework answers it outside of them.\<close>

datatype middleware = CORS | Security_headers | Request_id

definition added_middlewares :: "middleware list" where
  "added_middlewares = [CORS, Security_headers, Request_id]"

fun on_response ::
  "(string \<Rightarrow> string \<Rightarrow> 'h \<Rightarrow> 'h) \<Rightarrow> ('h \<Rightarrow> 'h) \<Rightarrow> string \<Rightarrow> uuid \<Rightarrow> (string \<Rightarrow> string option) \<Rightarrow> middleware \<Rightarrow> 'h \<Rightarrow> 'h"
where
  "on_response put cors path fresh get CORS h = cors h"
| "on_response put cors path fresh get Security_headers h = security_headers put path h"
| "on_response put cors path fresh get Request_id h = request_id_response put fresh get h"

definition app_response ::
  "(string \<Rightarrow> string \<Rightarrow> 'h \<Rightarrow> 'h) \<Rightarrow> ('h \<Rightarrow> 'h) \<Rightarrow> string \<Rightarrow> uuid \<Rightarrow> (string \<Rightarrow> string option) \<Rightarrow> 'h res \<Rightarrow> 'h res"
where
  "app_response put cors path fresh get inner =
     and_then inner (\<lambda>h. Inr (fold (on_response put cors path fresh get) added_middlewares h))"

text \<open>Every answer carries the caller's request id, or the fresh one, and forbids framing and sniffing,
  whatever the handler or CORS wrote there; an exception that nothing handles leaves with none of it.\<close>

lemma header_names:
  "py_lower ''X-Request-ID'' = ''x-request-id''" "py_lower ''x-request-id'' = ''x-request-id''"
  "py_lower ''X-Frame-Options'' = ''x-frame-options''" "py_lower ''x-frame-options'' = ''x-frame-options''"
  "py_lower ''X-Content-Type-Options'' = ''x-content-type-options''"
  "py_lower ''x-content-type-options'' = ''x-content-type-options''"
  "py_lower ''Content-Security-Policy'' = ''content-security-policy''"
  "py_lower ''content-security-policy'' = ''content-security-policy''"
  "py_lower ''X-XSS-Protection'' = ''x-xss-protection''" "py_lower ''Referrer-Policy'' = ''referrer-policy''"
  "py_lower ''Permissions-Policy'' = ''permissions-policy''"
  "py_lower ''Strict-Transport-Security'' = ''strict-transport-security''"
  by code_simp+

lemma answers_marked:
  assumes "\<And>k v h k'. look (put k v h) k' = (if py_lower k' = py_lower k then Some v else look h k')"
  shows "app_response put cors path fresh get (Inr h) = Inr h' \<Longrightarrow>
      look h' ''x-request-id'' = Some (request_id_of fresh get)
      \<and> look h' ''x-frame-options'' = Some ''DENY'' \<and> look h' ''x-content-type-options'' = Some ''nosniff''
      \<and> look h' ''content-security-policy'' = Some (build_csp path)"
    and "app_response put cors path fresh get (Inl e) = Inl e"
  by (auto simp: app_response_def added_middlewares_def security_headers_def request_id_response_def assms
      header_names)

section \<open>Shutdown\<close>

text \<open>The end of \<open>lifespan\<close>: the Redis client is closed, then the engine is disposed; the second step is not
  reached when the first raises. The answer says whether the engine was disposed.\<close>

definition shutdown ::
  "(redis_client \<Rightarrow> unit res) \<Rightarrow> unit res \<Rightarrow> redis_client option \<Rightarrow> unit res \<times> redis_client option \<times> bool"
where
  "shutdown aclose dispose client =
     (case close_redis aclose client of
        (Inl e, c) \<Rightarrow> (Inl e, c, False)
      | (Inr _, c) \<Rightarrow> (case dispose of Inl e \<Rightarrow> (Inl e, c, False) | Inr _ \<Rightarrow> (Inr (), c, True)))"

lemma shutdown_clean: "shutdown aclose dispose client = (Inr (), c, disposed) \<Longrightarrow> c = None \<and> disposed"
  by (auto simp: shutdown_def close_redis_def split: option.splits sum.splits prod.splits)

end
