(* ===== verification/MigrationEnv.thy ===== *)
theory MigrationEnv
  imports Platform
begin

text \<open>
  The environment the migrations run in (\<open>infrastructure/database/migrations/env.py\<close>): the database URL of the
  settings goes through an option of the configuration file, whose values interpolate \<open>%(name)s\<close> as
  Python's \<open>configparser\<close> does; online, the pending revisions run in one transaction on the engine of that
  URL; offline, their statements are printed. The schema and the two revisions are those of \<open>Schema\<close>.
\<close>

section \<open>An option of the configuration\<close>

text \<open>A reference \<open>(name)s\<close> behind a percent sign: the name and the rest of the text.\<close>

fun reference :: "string \<Rightarrow> (string \<times> string) option" where
  "reference [] = None"
| "reference (c # t) =
     (let name = takeWhile (\<lambda>c. c \<noteq> CHR '')'') t; rest = dropWhile (\<lambda>c. c \<noteq> CHR '')'') t in
      if c = CHR ''('' \<and> name \<noteq> [] \<and> starts_with rest '')s'' then Some (name, drop 2 rest) else None)"

lemma reference_shorter [termination_simp]: "reference t = Some (name, rest) \<Longrightarrow> length rest < Suc (length t)"
  using length_dropWhile_le [of "\<lambda>c. c \<noteq> CHR '')''" "tl t"]
  by (cases t) (auto simp: Let_def split: if_splits)

text \<open>\<open>set\<close> refuses a value in which a percent sign is left when doubled ones and references are removed.\<close>

fun drop_doubled :: "string \<Rightarrow> string" where
  "drop_doubled [] = []"
| "drop_doubled [c] = [c]"
| "drop_doubled (c # d # t) = (if c = CHR ''%'' \<and> d = CHR ''%'' then drop_doubled t else c # drop_doubled (d # t))"

fun drop_references :: "string \<Rightarrow> string" where
  "drop_references [] = []"
| "drop_references (c # t) =
     (if c = CHR ''%'' then (case reference t of Some (name, rest) \<Rightarrow> drop_references rest | None \<Rightarrow> c # drop_references t)
      else c # drop_references t)"

definition set_main_option :: "string \<Rightarrow> string res" where
  "set_main_option v =
     (if CHR ''%'' \<in> set (drop_references (drop_doubled v)) then Inl (ValueError ''invalid interpolation syntax'') else Inr v)"

text \<open>Reading it back; \<open>opts\<close> are the values of the options of the section, by their names in lower case.\<close>

fun interpolated :: "(string \<Rightarrow> string option) \<Rightarrow> string \<Rightarrow> string res" where
  "interpolated opts [] = Inr []"
| "interpolated opts (c # t) =
     (if c \<noteq> CHR ''%'' then and_then (interpolated opts t) (\<lambda>v. Inr (c # v))
      else if starts_with t ''%'' then and_then (interpolated opts (tl t)) (\<lambda>v. Inr (CHR ''%'' # v))
      else (case reference t of
              None \<Rightarrow> Inl (OtherError ''InterpolationSyntaxError'')
            | Some (name, rest) \<Rightarrow>
                (case opts (py_lower name) of
                   None \<Rightarrow> Inl (OtherError ''InterpolationMissingOptionError'')
                 | Some w \<Rightarrow> and_then (interpolated opts rest) (\<lambda>v. Inr (w @ v)))))"

definition main_option :: "(string \<Rightarrow> string option) \<Rightarrow> string \<Rightarrow> string res" where
  "main_option opts v = and_then (set_main_option v) (interpolated opts)"

section \<open>Running the revisions\<close>

record migrated =
  mg_revision :: "string option"
  mg_tables :: schema

definition revisions :: "(string \<times> ddl list) list" where
  "revisions = [(''0001_initial_schema'', upgrade_0001), (''0002_align_orm_schema'', upgrade_0002)]"

definition to_run :: "string option \<Rightarrow> (string \<times> ddl list) list res" where
  "to_run current =
     (case current of
        None \<Rightarrow> Inr revisions
      | Some r \<Rightarrow>
          (case dropWhile (\<lambda>(name, _). name \<noteq> r) revisions of
             [] \<Rightarrow> Inl (OtherError ''CommandError'')
           | _ # rest \<Rightarrow> Inr rest))"

text \<open>\<open>upgrade head\<close> in one transaction.\<close>

definition do_run_migrations :: "migrated \<Rightarrow> migrated res" where
  "do_run_migrations m =
     and_then (to_run (mg_revision m)) (\<lambda>rs.
       case run_ddl (concat (map snd rs)) (mg_tables m) of
         None \<Rightarrow> Inl (OtherError ''ProgrammingError'')
       | Some ts \<Rightarrow> Inr \<lparr>mg_revision = (if rs = [] then mg_revision m else Some (fst (last rs))), mg_tables = ts\<rparr>)"

definition run_migrations_online ::
  "(string \<Rightarrow> unit res) \<Rightarrow> (string \<Rightarrow> string option) \<Rightarrow> settings \<Rightarrow> migrated \<Rightarrow> unit res \<times> migrated"
where
  "run_migrations_online connect opts s m =
     (case and_then (main_option opts (database_url s)) (\<lambda>url. and_then (connect url) (\<lambda>_. do_run_migrations m)) of
        Inl e \<Rightarrow> (Inl e, m)
      | Inr m' \<Rightarrow> (Inr (), m'))"

text \<open>Offline the statements from the first revision on are the output.\<close>

definition run_migrations_offline :: "(string \<Rightarrow> string option) \<Rightarrow> settings \<Rightarrow> ddl list res" where
  "run_migrations_offline opts s =
     and_then (main_option opts (database_url s)) (\<lambda>url. Inr (concat (map snd revisions)))"

section \<open>Properties\<close>

lemma plain_option:
  assumes "CHR ''%'' \<notin> set v"
  shows "main_option opts v = Inr v"
proof -
  have "set (drop_doubled t) \<subseteq> set t" for t by (induction t rule: drop_doubled.induct) auto
  moreover have "set (drop_references t) \<subseteq> set t" if "CHR ''%'' \<notin> set t" for t
    using that by (induction t) auto
  moreover have "interpolated opts t = Inr t" if "CHR ''%'' \<notin> set t" for t
    using that by (induction t) auto
  ultimately show ?thesis using assms by (force simp: main_option_def set_main_option_def)
qed

lemma revision_names: "''0001_initial_schema'' \<noteq> ''0002_align_orm_schema''" "map snd revisions = [upgrade_0001, upgrade_0002]"
  by (simp_all add: revisions_def)

text \<open>\<open>alembic upgrade head\<close> takes an empty database to the tables of the ORM classes, on the database of the
  settings and no other; once more it changes nothing.\<close>

theorem upgrade_head:
  assumes "CHR ''%'' \<notin> set (database_url s)" and "connect (database_url s) = Inr ()"
  shows "run_migrations_online connect opts s \<lparr>mg_revision = None, mg_tables = []\<rparr> =
      (Inr (), \<lparr>mg_revision = Some ''0002_align_orm_schema'', mg_tables = migrated_schema\<rparr>)"
    and "run_migrations_online connect opts s \<lparr>mg_revision = Some ''0002_align_orm_schema'', mg_tables = ts\<rparr> =
      (Inr (), \<lparr>mg_revision = Some ''0002_align_orm_schema'', mg_tables = ts\<rparr>)"
    and "list_all2 same_shape migrated_schema orm_schema"
  using run_0002 assms(2) same_shapes
  by (simp_all add: run_migrations_online_def plain_option [OF assms(1)] do_run_migrations_def to_run_def revisions_def)

text \<open>What fails leaves the database as it was: a revision, the connection, or the URL.\<close>

theorem failed_upgrade_keeps_database:
  "run_migrations_online connect opts s m = (Inl e, m') \<Longrightarrow> m' = m"
  by (auto simp: run_migrations_online_def split: sum.splits)

text \<open>A URL is percent-encoded where a password has characters of its syntax, and the engine of the application
  decodes it; here such a sign is taken for interpolation syntax, and the migrations do not start.\<close>

lemma encoded_option_refused:
  assumes "CHR ''%'' \<notin> set a" and "CHR ''%'' \<notin> set b" and "c \<noteq> CHR ''%''" and "c \<noteq> CHR ''(''"
  shows "main_option opts (a @ CHR ''%'' # c # b) = Inl (ValueError ''invalid interpolation syntax'')"
proof -
  have doubled: "drop_doubled t = t" if "CHR ''%'' \<notin> set t" for t
    using that by (induction t rule: drop_doubled.induct) auto
  have "drop_doubled (x @ CHR ''%'' # c # b) = x @ CHR ''%'' # c # b" if "CHR ''%'' \<notin> set x" for x
    using that
  proof (induction x rule: drop_doubled.induct)
    case 1
    then show ?case using assms(2,3) doubled [of "c # b"] by simp
  qed (use assms(2,3) doubled [of "c # b"] in auto)
  moreover have "drop_references (x @ CHR ''%'' # c # b) = x @ CHR ''%'' # drop_references (c # b)" if "CHR ''%'' \<notin> set x" for x
    using that assms(4) by (induction x) (auto simp: Let_def)
  ultimately show ?thesis using assms(1) by (simp add: main_option_def set_main_option_def)
qed

lemma digits_no_percent: "CHR ''%'' \<notin> set (show_nat n)"
proof (induction n rule: show_nat.induct)
  case (1 n)
  have "CHR ''%'' \<noteq> char_of (48 + k)" if "k < 10" for k :: nat
  proof
    assume "CHR ''%'' = char_of (48 + k)"
    then have "of_char (CHR ''%'') = (of_char (char_of (48 + k)) :: nat)" by simp
    with that show False by simp
  qed
  with 1 show ?case by (subst show_nat.simps) auto
qed

theorem encoded_password_stops_migrations:
  assumes "postgres_password s = p @ CHR ''%'' # c # q" and "c \<noteq> CHR ''%''" and "c \<noteq> CHR ''(''"
    and "CHR ''%'' \<notin> set (p @ q @ postgres_user s @ postgres_host s @ postgres_db s)"
  shows "run_migrations_online connect opts s m = (Inl (ValueError ''invalid interpolation syntax''), m)"
    and "run_migrations_offline opts s = Inl (ValueError ''invalid interpolation syntax'')"
proof -
  let ?a = "''postgresql+asyncpg://'' @ postgres_user s @ '':'' @ p"
  let ?b = "q @ ''@'' @ postgres_host s @ '':'' @ show_nat (postgres_port s) @ ''/'' @ postgres_db s"
  have "database_url s = ?a @ CHR ''%'' # c # ?b" by (simp add: database_url_def assms(1))
  moreover have "CHR ''%'' \<notin> set ?a" "CHR ''%'' \<notin> set ?b" using assms(4) digits_no_percent by auto
  ultimately have "main_option opts (database_url s) = Inl (ValueError ''invalid interpolation syntax'')"
    using encoded_option_refused [OF _ _ assms(2,3)] by presburger
  then show "run_migrations_online connect opts s m = (Inl (ValueError ''invalid interpolation syntax''), m)"
    "run_migrations_offline opts s = Inl (ValueError ''invalid interpolation syntax'')"
    by (simp_all add: run_migrations_online_def run_migrations_offline_def)
qed

end
