(* ===== verification/Spec2Isabelle.thy ===== *)
theory Spec2Isabelle
  imports Operation Columns TaskPrograms TaskOptions Seed RepoSpec MigrationEnv
begin

text \<open>
  A verification development of the EDO adapter under \<open>src/src\<close>: a web service that accepts documents of
  tenants, a task queue whose workers send them through electronic-document-exchange providers (Diadoc,
  SBIS, Kontur, and a stub), and the reliability layer between them (circuit breaker, retries, dead
  letters), on PostgreSQL and Redis.

  Parts and theories, in the order of the imports:
    \<^item> \<open>Prelude\<close>: results as sums (\<open>'a res\<close>, an exception or a value), \<open>and_then\<close>, JSON values and dictionaries,
      Python's text operations on character lists, generic list lemmas.
    \<^item> \<open>ValueObjects\<close> (\<open>domain/value_objects\<close>), \<open>Exceptions\<close> (\<open>domain/exceptions\<close>, \<open>presentation/exception_handlers.py\<close>,
      the exceptions of the libraries as constructors of \<open>exc\<close>), \<open>Codec\<close> and \<open>Base64\<close> (uuid texts, hexadecimal and
      base64 bytes), \<open>Entities\<close> and \<open>Lifecycle\<close> (\<open>domain/entities\<close>), \<open>Config\<close> (\<open>core/config.py\<close>).
    \<^item> \<open>RetryBackoff\<close>, \<open>RedisStore\<close>, \<open>CircuitBreaker\<close>, \<open>BreakerProps\<close> (\<open>infrastructure/reliability\<close>): the breaker runs over
      any store that satisfies the locale \<open>redis_store\<close>, which is interpreted on a store with failures; an
      abstract breaker (state, counters, opening time) is refined by the Redis one.
    \<^item> \<open>Database\<close>, \<open>Repositories\<close>, \<open>RepoProps\<close>, \<open>RepoMaps\<close>, \<open>RepoSpec\<close>, \<open>Schema\<close>, \<open>Seed\<close> (\<open>infrastructure/database\<close>, \<open>scripts\<close>): tables
      are lists of rows, a session is a view with pending rows, \<open>commit\<close> checks primary keys and unique
      constraints; the locale \<open>entity_table\<close> states what mappers and update statements promise and is
      interpreted on the four tables, its extensions \<open>keyed_table\<close> and \<open>stored_table\<close> on five, which behave as
      maps; \<open>RepoSpec\<close> takes the calls of \<open>domain/repositories\<close> on five maps from ids to entities as what the SQL
      repositories implement; the migrations are scripts of table operations.
    \<^item> \<open>ProviderInterface\<close>, \<open>StubProvider\<close>, \<open>RemoteProviders\<close>, \<open>ProviderProps\<close> (\<open>infrastructure/providers\<close>): the adapters over
      an HTTP client that is a parameter.
    \<^item> \<open>SendTask\<close>, \<open>SendProps\<close>, \<open>Workers\<close>, \<open>Tasks\<close> (\<open>infrastructure/queue\<close>): the send task with its commits and exception
      paths; the same task cut into the pieces between which other processes act; the other tasks, routing
      and schedule.
    \<^item> \<open>Auth\<close>, \<open>DocumentsApi\<close>, \<open>DocumentsProps\<close>, \<open>AdminApi\<close> (\<open>core/security.py\<close>, \<open>presentation\<close>, \<open>infrastructure/security\<close>): a
      handler is a function on the request's session that may publish messages; \<open>serve\<close> commits.
    \<^item> \<open>System\<close>: the processes together. The state is the database, Redis, the stub's dictionaries and the
      broker's messages; requests and background steps are two inductive relations.
    \<^item> \<open>Conformance\<close>, \<open>TaskRuns\<close>, \<open>TaskPrograms\<close>: what the tasks use of the repository's classes, line by line, against the
      declarations: each task is a program over such uses with its branches, loops and handlers, \<open>runs\<close> are its
      outcomes, and two analyses of programs are proved sound for them.
    \<^item> \<open>Columns\<close>: the bounds of the request classes (\<open>application/dto\<close>) against the widths of the tables.
    \<^item> \<open>Gateway\<close>, \<open>Isolation\<close> (\<open>main.py\<close>, \<open>presentation/deps.py\<close> and the routers): every route behind its guard as one
      function of the call, and what a call may do to another tenant. \<open>Requests\<close>: the bounds and patterns a call must
      meet first, the order of the checks, and which calls fail in the program itself; \<open>Operation\<close> takes that to
      every reachable state.
    \<^item> \<open>Platform\<close>: what surrounds the handlers in a process: the shared Redis client, the engine's options, the log
      pipeline, tracing, the middlewares in their order, the shutdown. \<open>MigrationEnv\<close>: the environment of the
      migrations. \<open>TaskOptions\<close>: the options of Celery and of each task, and the attempts of a webhook.
    \<^item> \<open>Cluster\<close>, \<open>Races\<close> and this theory: the deployed program, with runs of the send task at any stage, send
      requests between their publication and their commit, lost workers and lost requests.

  What the properties show. A sent document arrives (\<open>sent_document_arrives\<close>); each outcome of a provider call
  has exactly the recorded effect (\<open>send_accepted\<close>, \<open>send_transient\<close>, \<open>send_other_error\<close>) and a worker touches one
  delivery only; the pieces of the task, run without interruption, are the task; in every reachable state the
  data is consistent, and what the status route shows is one of four statuses with its evidence; the breaker
  refines its abstract machine; the repositories refine maps from ids to entities; tenants see their own data and no call
  of others changes what they see; authentication fails closed and a refused call has no effect; migrations
  build the tables of the ORM classes, and a valid request fits them but for three texts; a user's call fails
  in the program itself only where \<open>calls_that_fail\<close> says. Others state where the program falls short of its
  intent: scheduled retries are never sent, a request publishes before it commits, two overlapping requests for one document
  publish both, two overlapping runs lose the provider's acceptance, four background tasks raise at once and
  have such an error in almost every step, a failure closes an open breaker.

  Bounds and loops. Uuids are 128 bit words, bytes 8 bit words, times integers in microseconds, delays
  rationals; Python's integers are \<open>nat\<close> or \<open>int\<close>. \<open>2 ** n\<close> overflows a float from 1024 on, which \<open>retry_delay\<close>
  states. The only loop that may not end, the cleanup scan, is a partial function, and
  \<open>cleanup_returns_iff_scan_ends\<close> says when it returns; no definition uses fuel.

  Parameters. Code outside the repository is an argument: the HTTP client, Redis (by its locale), the token
  and password libraries (\<open>token_lib\<close>, \<open>checkpw\<close>), hashes, the broker (\<open>publish\<close>), metric gauges, the clock, random
  numbers and fresh uuids.

  Not modelled: what is logged, traced and counted, indexes and server defaults, foreign keys as
  constraints of the running database (\<open>consistent\<close> proves what they would protect), the parsing of
  HTTP requests (a call has its arguments), CORS decisions, and the
  instrumentation libraries. Interleaving: the runs of the send task interleave with everything
  at each of their accesses to the database and to Redis, and a send request at its commit; the other requests
  and tasks are single steps, and the accesses of one run between two commits see one state of the tables.
  Code behind a call that always raises (in the polling, synchronisation, health and webhook tasks) is an
  arbitrary continuation in \<open>Tasks\<close>. \<open>TaskPrograms\<close> has the control flow of all of it but not the data: the rows it
  builds and the attributes it reads have names that the classes lack, so it computes no values to state.
\<close>

section \<open>From the request to the provider\<close>

text \<open>C1: A document that is sent arrives. After a request that is accepted and committed, the worker that
  takes the request's message hands the uploaded file to the provider of the chosen account; when the
  provider accepts it, the task returns \<open>SENT\<close> and the status route then answers the user \<open>SENT\<close>, with one
  delivery that carries the provider's document id.\<close>

theorem sent_document_arrives:
  assumes "redis_store R contents up" and "sendable v publish cu q file a (w_db w)" and "consistent (w_db w)"
    and "br_holds contents up (w_redis w) (uuid_str (acc_id a)) b"
    and "br_state (br_look (we_cfg env) (we_clock env 0) b) \<noteq> OPEN"
    and "create_provider (pe_to_str (we_provider env)) (acc_provider_type a) (acc_credentials_json a) = Inr p"
    and "we_audit_id env \<notin> aud_id ` set (db_audit (w_db w))" and "we_dlq_id env \<notin> dlq_id ` set (db_dlq (w_db w))"
    and "provider_send (we_provider env) (worker_args (new_delivery v cu a) (up_bytes file)) p (w_stub w) = (Inr answer, stub')"
    and "sr_provider_document_id answer = JStr pid"
    and "free_for (sv_delivery_id v) (new_delivery v cu a) (Some pid) (sent_db v cu q file a (w_db w))"
    and "serve (send_document_endpoint v publish cu q file) (w_db w) = (r, D, [Task_send i f])"
  shows "\<exists>w' dr. send_document env R i f (w\<lparr>w_db := D\<rparr>) = (Inr ''SENT'', w')
    \<and> get_document_status (sv_document_id v) cu (open_session (w_db w')) =
        Inr \<lparr>ds_document_id = sv_document_id v, ds_unified_status = ''SENT'', ds_deliveries = [dr]\<rparr>
    \<and> rs_id dr = sv_delivery_id v \<and> rs_provider_document_id dr = Some pid"
proof -
  let ?d = "new_delivery v cu a" and ?did = "sv_delivery_id v"
  let ?D = "sent_db v cu q file a (w_db w)" and ?d' = "mark_sent (we_clock env 4) pid (sending env (new_delivery v cu a))"
  have i: "D = ?D" "i = uuid_str ?did" "f = bytes_hex (up_bytes file)"
    using sent_request [OF assms(2)] assms(12) by simp_all
  have acc: "get_account_by_id (acc_id a) (open_session ?D) = Inr (Some a)" "acc_is_active a"
    using assms(2) get_account_id sent_db_account by (auto simp: sendable_def)
  have "db_audit ?D = db_audit (w_db w)" "db_dlq ?D = db_dlq (w_db w)" by (simp_all add: sent_db_def)
  then have "ready contents up env (w\<lparr>w_db := ?D\<rparr>) ?did ?d a p b"
    using assms(4-8) acc sent_db_get [OF assms(2)] sent_db_ok [OF assms(2)] by (simp add: ready_def)
  from accepted_outcome [OF assms(1) this _ assms(10), of "up_bytes file" stub'] assms(9,11)
  have out: "outcome env R contents up ?did (up_bytes file) (w\<lparr>w_db := ?D\<rparr>) a ?d' []
      (br_success (we_cfg env) (we_clock env 5) (br_look (we_cfg env) (we_clock env 0) b)) stub'"
    by simp
  let ?E = "finished_db env ?did ?d' [] ?D"
  from out obtain w' where w': "send_document env R i f (w\<lparr>w_db := D\<rparr>) = (Inr ''SENT'', w')" "w_db w' = ?E"
    and get: "get_delivery_by_id ?did (open_session ?E) = Inr (Some ?d')"
    unfolding outcome_def i by (auto simp: mark_sent_def)
  have "dr_document_id row = sv_document_id v \<longleftrightarrow> dr_id row = ?did" if "row \<in> set (db_deliveries ?E)" for row
    using finished_rows [OF that] sent_db_rows_of_document [OF assms(3,2)] by metis
  from list_by_document_one [OF get this] have "list_by_document (sv_document_id v) (open_session ?E) = Inr [?d']" .
  moreover have "own_document (sv_document_id v) cu (open_session ?E) = Inr (new_document v cu q file)"
    by (rule own_new_document [OF assms(2)]) (simp add: finished_db_def)
  ultimately show ?thesis
    using w' by (intro exI [of _ w'] exI [of _ "delivery_response_of ?d'"])
      (simp add: get_document_status_def best_status_def delivery_response_of_def mark_sent_def)
qed

definition sample_start :: "mem_store system" where
  "sample_start =
     \<lparr>sy_world = \<lparr>w_db = account_db, w_redis = mem_empty, w_stub = stub_empty\<rparr>, sy_queue = []\<rparr>"

abbreviation accepting :: worker_env where
  "accepting \<equiv> sample_env (Inr (sample_response 200 [(''documentId'', JStr ''D-1'')]))"

theorem sent_document_arrives_witness:
  "\<exists>w' dr. send_document accepting mem_redis (uuid_str 22) (bytes_hex [1, 2])
      ((sy_world sample_start)\<lparr>w_db := sent_db sample_send_env sample_cu sample_send_request sample_upload
         sample_account account_db\<rparr>) = (Inr ''SENT'', w')
    \<and> get_document_status 21 sample_cu (open_session (w_db w')) =
        Inr \<lparr>ds_document_id = 21, ds_unified_status = ''SENT'', ds_deliveries = [dr]\<rparr>
    \<and> rs_provider_document_id dr = Some ''D-1''"
proof -
  let ?w = "sy_world sample_start"
  have ids: "sv_delivery_id sample_send_env = 22" "sv_document_id sample_send_env = 21" "up_bytes sample_upload = [1, 2]"
    by (simp_all add: sample_send_env_def sample_upload_def)
  have w: "w_db ?w = account_db" "w_redis ?w = mem_empty" by (simp_all add: sample_start_def)
  have free: "free_for 22 d pid (sent_db sample_send_env sample_cu sample_send_request sample_upload sample_account
      account_db)" for d pid
    using ids by (simp add: free_for_def provider_id_free_def sent_db_def)
  show ?thesis
    using sent_document_arrives [OF mem.redis_store_axioms, where w = ?w and env = accepting, unfolded w,
      OF sample_sendable account_db_consistent mem_empty_holds fresh_not_open
        sample_create_provider _ _ sample_send _ free [folded ids(1)] sent_request [OF sample_sendable]]
    by (simp add: ids) blast
qed

text \<open>C4: A scheduled retry is never sent. When an attempt fails with a transient error inside the retry budget,
  the worker stores the time of the next attempt; but no message for the delivery is left on the broker,
  and no sequence of background steps (worker runs for other deliveries, the dead-letter task, changes to
  Redis and the providers) ever touches it again: it stays pending, with its \<open>next_retry_at\<close> in the
  past, until a user intervenes.\<close>

theorem scheduled_retry_never_sent:
  assumes "redis_store R contents up" and "ready contents up env (sy_world S) did d a p b"
    and "provider_send (we_provider env) (worker_args d bs) p (w_stub (sy_world S)) = (Inl (Domain e), stub')"
    and "is_instance e C_ProviderTransient"
    and "dl_retry_count d < default_retry_max_attempts (we_cfg env)"
      "default_retry_max_attempts (we_cfg env) \<le> 1024"
    and "filter (addressed did) q = []"
      "filter (\<lambda>e. dlq_delivery_id e = Some did) (open_entries (database S)) = []"
    and "send_document env R (uuid_str did) (bytes_hex bs) (sy_world S) = (r, w')"
    and "(background_step R)\<^sup>*\<^sup>* \<lparr>sy_world = w', sy_queue = q\<rparr> S'"
  shows "\<exists>t. compute_next_retry (we_cfg env) (we_uniform env) (we_clock env 9) (dl_retry_count d) = Inr t
    \<and> get_delivery_by_id did (open_session (database S')) =
        Inr (Some (schedule_retry (we_clock env 10) t (sending env d)))"
proof -
  obtain t where t: "compute_next_retry (we_cfg env) (we_uniform env) (we_clock env 9) (dl_retry_count d) = Inr t"
    "stranded did (schedule_retry (we_clock env 10) t (sending env d)) \<lparr>sy_world = w', sy_queue = q\<rparr>"
    using stranded_after_retry [OF assms(1-9)] by blast
  from stranded_forever [OF assms(10) t(2)] t(1) show ?thesis by (auto simp: stranded_def)
qed

text \<open>C10: The send route publishes before it commits. A worker that takes the message in between finds no
  delivery, answers \<open>not_found\<close> and changes nothing; the message is then gone, and after the commit the new
  delivery stays pending for ever: no background step ever sends it.\<close>

theorem early_worker_strands_delivery:
  assumes "sendable v publish cu q file a (database S)"
    and "filter (addressed (sv_delivery_id v)) (sy_queue S) = []"
    and "filter (\<lambda>e. dlq_delivery_id e = Some (sv_delivery_id v)) (open_entries (database S)) = []"
    and "(background_step R)\<^sup>*\<^sup>* (after_request (sent_db v cu q file a (database S)) [] S) S'"
  shows "send_document env R (uuid_str (sv_delivery_id v)) (bytes_hex (up_bytes file)) (sy_world S) =
      (Inr ''not_found'', sy_world S)
    \<and> get_delivery_by_id (sv_delivery_id v) (open_session (database S')) = Inr (Some (new_delivery v cu a))
    \<and> dl_status (new_delivery v cu a) = PENDING"
proof -
  have "filter (\<lambda>r. dr_id r = sv_delivery_id v) (db_deliveries (database S)) = []"
    using assms(1) by (auto simp: sendable_def filter_empty_conv image_iff)
  then have "get_delivery_by_id (sv_delivery_id v) (open_session (database S)) = Inr None"
    by (simp add: get_delivery_by_id_def get_row_def select_by_def load_def)
  moreover have "stranded (sv_delivery_id v) (new_delivery v cu a) S'"
    by (rule stranded_forever [OF assms(4) stranded_after_commit [OF assms(1-3)]])
  ultimately show ?thesis by (simp add: send_document_def run_delivery_def stranded_def)
qed

theorem scheduled_retry_never_sent_witness:
  "\<exists>t. get_delivery_by_id 1 (open_session (w_db (snd (send_document (sample_env (Inr (sample_response 503 [])))
      mem_redis (uuid_str 1) (bytes_hex []) (sample_world (sample_retried 0)))))) =
    Inr (Some (schedule_retry 10 t (mark_sending 3 (sample_retried 0))))"
proof -
  let ?env = "sample_env (Inr (sample_response 503 []))"
  let ?S = "\<lparr>sy_world = sample_world (sample_retried 0), sy_queue = []\<rparr>"
  obtain e where e: "projl (kontur_handle_errors (sample_response 503 []) ''send'') = Domain e"
    "is_instance e C_ProviderTransient"
    by (simp add: kontur_handle_errors_def status_error_def sample_response_def is_instance_def)
  have rdy: "ready mem_contents mem_up ?env (sy_world ?S) 1 (sample_retried 0) sample_account sample_provider fresh_breaker"
    using sample_ready by simp
  have send: "provider_send (we_provider ?env) (worker_args (sample_retried 0) []) sample_provider (w_stub (sy_world ?S))
      = (Inl (Domain e), stub_empty)"
    using sample_send_error [of 503] e(1) by (simp add: sample_world_def)
  have cfg: "dl_retry_count (sample_retried 0) < default_retry_max_attempts (we_cfg ?env)"
    "default_retry_max_attempts (we_cfg ?env) \<le> 1024"
    by (simp_all add: sample_retried_def sample_env_def default_settings_def)
  have alone: "filter (addressed 1) [] = []"
    "filter (\<lambda>e. dlq_delivery_id e = Some 1) (open_entries (database ?S)) = []"
    by (simp_all add: open_entries_def sample_world_def empty_db_def)
  from scheduled_retry_never_sent [OF mem.redis_store_axioms rdy send e(2) cfg alone prod.collapse [symmetric]
      rtranclp.rtrancl_refl [of "background_step mem_redis"]]
  show ?thesis by (auto simp: sending_def sample_env_def)
qed

theorem early_worker_strands_delivery_witness:
  "send_document accepting mem_redis (uuid_str 22) (bytes_hex [1, 2]) (sy_world sample_start) =
      (Inr ''not_found'', sy_world sample_start)
   \<and> get_delivery_by_id 22 (open_session (sent_db sample_send_env sample_cu sample_send_request sample_upload
        sample_account account_db)) = Inr (Some (new_delivery sample_send_env sample_cu sample_account))"
proof -
  have s: "sendable sample_send_env (\<lambda>m. Inr ()) sample_cu sample_send_request sample_upload sample_account
      (database sample_start)"
    using sample_sendable by (simp add: sample_start_def)
  have alone: "filter (addressed (sv_delivery_id sample_send_env)) (sy_queue sample_start) = []"
    "filter (\<lambda>e. dlq_delivery_id e = Some (sv_delivery_id sample_send_env)) (open_entries (database sample_start)) = []"
    by (simp_all add: sample_start_def open_entries_def)
  from early_worker_strands_delivery [OF s alone rtranclp.rtrancl_refl, of accepting mem_redis]
  show ?thesis by (simp add: sample_send_env_def sample_upload_def sample_start_def)
qed

section \<open>A message that is delivered twice\<close>

text \<open>C11: Delivering a message twice sends the document twice. The tasks acknowledge late, so the broker may hand
  out a message again after its run; the second run does not look at the delivery's status: the provider
  gets the same document once more, the task answers \<open>SENT\<close> again, and the provider's second document id
  replaces the first, which is lost.\<close>

theorem redelivery_sends_again:
  assumes R: "redis_store R contents up" and rdy: "ready contents up env w did d a p b"
    and send1: "provider_send (we_provider env) (worker_args d bs) p (w_stub w) = (Inr answer1, stub1)"
      "sr_provider_document_id answer1 = JStr pid1" "free_for did d (Some pid1) (w_db w)"
    and run1: "send_document env R (uuid_str did) (bytes_hex bs) w = (r1, w1)"
    and env2: "br_state (br_look (we_cfg env2) (we_clock env2 0)
        (br_success (we_cfg env) (we_clock env 5) (br_look (we_cfg env) (we_clock env 0) b))) \<noteq> OPEN"
      "create_provider (pe_to_str (we_provider env2)) (acc_provider_type a) (acc_credentials_json a) = Inr p"
      "we_audit_id env2 \<notin> aud_id ` set (db_audit (w_db w1))" "we_dlq_id env2 \<notin> dlq_id ` set (db_dlq (w_db w1))"
    and send2: "provider_send (we_provider env2) (worker_args d bs) p stub1 = (Inr answer2, stub2)"
      "sr_provider_document_id answer2 = JStr pid2"
      "free_for did d (Some pid2) (w_db w1)"
  shows "\<exists>w2 d1 d2. send_document env2 R (uuid_str did) (bytes_hex bs) w1 = (Inr ''SENT'', w2)
    \<and> get_delivery_by_id did (open_session (w_db w1)) = Inr (Some d1) \<and> dl_provider_document_id d1 = Some pid1
    \<and> get_delivery_by_id did (open_session (w_db w2)) = Inr (Some d2) \<and> dl_provider_document_id d2 = Some pid2"
proof -
  let ?d1 = "mark_sent (we_clock env 4) pid1 (sending env d)"
  let ?b1 = "br_success (we_cfg env) (we_clock env 5) (br_look (we_cfg env) (we_clock env 0) b)"
  have "outcome env R contents up did bs w a ?d1 [] ?b1 stub1"
    by (rule accepted_outcome [OF R rdy send1])
  with run1 have w1: "w_db w1 = finished_db env did ?d1 [] (w_db w)" "w_stub w1 = stub1"
    "br_holds contents up (w_redis w1) (uuid_str (acc_id a)) ?b1"
    "get_delivery_by_id did (open_session (w_db w1)) = Inr (Some ?d1)"
    by (auto simp: outcome_def)
  have keep: "dl_provider_account_id ?d1 = dl_provider_account_id d" "worker_args ?d1 bs = worker_args d bs"
    "free_for did ?d1 (Some pid2) (w_db w1)"
    using send2(3) by (simp_all add: mark_sent_def worker_args_def free_for_def)
  have "db_ok (w_db w)" using rdy by (simp add: ready_def)
  with send_document_frame [OF run1 uuid_parse_str] have "db_ok (w_db w1)" by blast
  moreover have "get_account_by_id (dl_provider_account_id d) (open_session (w_db w1)) = Inr (Some a)" "acc_is_active a"
    using rdy by (simp_all add: ready_def w1(1) get_account_by_id_def finished_db_def)
  ultimately have "ready contents up env2 w1 did ?d1 a p ?b1"
    using env2 w1(3,4) keep(1) by (simp add: ready_def)
  from accepted_outcome [OF R this _ send2(2) keep(3)] send2(1) w1(2) keep(2)
  have out: "outcome env2 R contents up did bs w1 a (mark_sent (we_clock env2 4) pid2 (sending env2 ?d1)) []
      (br_success (we_cfg env2) (we_clock env2 5) (br_look (we_cfg env2) (we_clock env2 0) ?b1)) stub2"
    by simp
  show ?thesis
    using out w1(4) unfolding outcome_def by (auto simp: mark_sent_def)
qed

lemma sample_first_run:
  "\<exists>w1. send_document accepting mem_redis (uuid_str 1) (bytes_hex []) (sample_world (sample_retried 0)) = (Inr ''SENT'', w1)
    \<and> db_audit (w_db w1) = [delivery_audit 10 11 (mark_sent 4 ''D-1'' (mark_sending 3 (sample_retried 0)))]
    \<and> db_dlq (w_db w1) = [] \<and> map dr_id (db_deliveries (w_db w1)) = [1]"
proof -
  have "provider_send (we_provider accepting) (worker_args (sample_retried 0) []) sample_provider
      (w_stub (sample_world (sample_retried 0))) = (Inr \<lparr>sr_provider_document_id = JStr ''D-1'', sr_raw_status = ''sent''\<rparr>, stub_empty)"
    by (simp add: sample_send) (simp add: sample_world_def)
  from accepted_outcome [OF mem.redis_store_axioms sample_ready this _ sample_free, of "''D-1''"]
  show ?thesis
    by (auto simp: outcome_def finished_db_def sample_world_def empty_db_def set_delivery_def update_by_def
        delivery_merge_def sample_env_def sending_def mark_sent_def sample_retried_def create_delivery_def)
qed

definition accepting_again :: worker_env where
  "accepting_again = (sample_env (Inr (sample_response 200 [(''documentId'', JStr ''D-2'')])))\<lparr>we_audit_id := 12\<rparr>"

theorem redelivery_sends_again_witness:
  "\<exists>w1 w2 d2. send_document accepting mem_redis (uuid_str 1) (bytes_hex []) (sample_world (sample_retried 0)) = (Inr ''SENT'', w1)
    \<and> send_document accepting_again mem_redis (uuid_str 1) (bytes_hex []) w1 = (Inr ''SENT'', w2)
    \<and> get_delivery_by_id 1 (open_session (w_db w2)) = Inr (Some d2) \<and> dl_provider_document_id d2 = Some ''D-2''"
proof -
  obtain w1 where w1: "send_document accepting mem_redis (uuid_str 1) (bytes_hex []) (sample_world (sample_retried 0)) = (Inr ''SENT'', w1)"
    and db: "db_audit (w_db w1) = [delivery_audit 10 11 (mark_sent 4 ''D-1'' (mark_sending 3 (sample_retried 0)))]"
      "db_dlq (w_db w1) = []" "map dr_id (db_deliveries (w_db w1)) = [1]"
    using sample_first_run by (elim exE conjE) (rule that; assumption)
  have send1: "provider_send (we_provider accepting) (worker_args (sample_retried 0) []) sample_provider
      (w_stub (sample_world (sample_retried 0))) = (Inr \<lparr>sr_provider_document_id = JStr ''D-1'', sr_raw_status = ''sent''\<rparr>, stub_empty)"
    by (simp add: sample_send) (simp add: sample_world_def)
  have send2: "provider_send (we_provider accepting_again) (worker_args (sample_retried 0) []) sample_provider stub_empty
      = (Inr \<lparr>sr_provider_document_id = JStr ''D-2'', sr_raw_status = ''sent''\<rparr>, stub_empty)"
    by (simp add: accepting_again_def sample_env_def sample_provider_def kontur_send_def sample_response_def
      kontur_handle_errors_def status_error_def)
  have closed: "br_state (br_look cfg now (br_success cfg' now' (br_look cfg'' now'' fresh_breaker))) \<noteq> OPEN"
    for cfg cfg' cfg'' now now' now''
    by (simp add: br_look_def br_success_def fresh_breaker_def)
  have ids: "we_audit_id accepting_again \<notin> aud_id ` set (db_audit (w_db w1))"
    "we_dlq_id accepting_again \<notin> dlq_id ` set (db_dlq (w_db w1))"
    by (simp_all add: db accepting_again_def delivery_audit_def create_audit_event_def)
  have free: "free_for 1 (sample_retried 0) (Some ''D-2'') (w_db w1)"
    using db(3) by (auto simp: free_for_def provider_id_free_def)
  have e: "pid = pid'" if "JStr pid = JStr pid'" for pid pid' using that by simp
  from redelivery_sends_again [OF mem.redis_store_axioms sample_ready send1 _ sample_free w1 closed sample_create_provider
      ids send2 _ free] w1
  show ?thesis by auto
qed

section \<open>Tenants and time lines\<close>

text \<open>C5: In every state the program reaches from a consistent database, with any number of send runs in
  progress at any stage, repeated or broken off, and any requests and dead-letter runs between them, the
  constraints hold and a user is shown only deliveries of the user's own tenant: the document a route
  opens for its user has deliveries of this tenant only.\<close>

theorem deliveries_shown_in_tenant:
  assumes "reachable R D0 C" and "consistent D0"
    and "own_document i cu (open_session (cluster_db C)) = Inr doc"
    and "list_by_document i (open_session (cluster_db C)) = Inr ds"
  shows "db_ok (cluster_db C) \<and> dl_tenant_id ` set ds \<subseteq> {cu_tenant_id cu}"
proof -
  have c: "consistent (cluster_db C)" by (rule reachable_consistent [OF assms(1,2)])
  have "dl_tenant_id d = cu_tenant_id cu" if "d \<in> set ds" for d
    using tenant_of_listed [OF c assms(3,4) that] .
  with c show ?thesis by (auto simp: consistent_def)
qed

text \<open>C6: Whatever happens after a consistent start, also when send runs overlap or break off, the status route
  answers with one of four statuses only, for the document and for each of its deliveries: no delivery is
  ever shown as delivered, signed or rejected by the recipient, for the tasks that would learn it cannot
  run. A delivery shown as SENT has its sending time and one shown as FAILED has an error code and a
  message.\<close>

theorem statuses_shown:
  assumes "reachable R D0 C" and "consistent D0"
    and "get_document_status i cu (open_session (cluster_db C)) = Inr answer"
  shows "insert (ds_unified_status answer) (rs_unified_status ` set (ds_deliveries answer))
        \<subseteq> {''PENDING'', ''SENDING'', ''SENT'', ''FAILED''}
    \<and> (\<forall>x \<in> set (ds_deliveries answer). rs_unified_status x = ''SENT'' \<longrightarrow> rs_sent_at x = Some (rs_updated_at x))
    \<and> (\<forall>x \<in> set (ds_deliveries answer). rs_unified_status x = ''FAILED'' \<longrightarrow>
          rs_last_error_code x \<noteq> None \<and> rs_last_error_message x \<noteq> None)"
proof -
  obtain ds where ds: "list_by_document i (open_session (cluster_db C)) = Inr ds"
    and answer: "answer = \<lparr>ds_document_id = i, ds_unified_status = status_value (best_status (map dl_status ds)),
      ds_deliveries = map delivery_response_of ds\<rparr>"
    using assms(3) by (auto simp: get_document_status_def and_then_Inr_iff)
  have rec: "\<forall>d \<in> set ds. records d"
    using recorded_listed [OF reachable_consistent [OF assms(1,2)] ds] by blast
  have "insert (ds_unified_status answer) (rs_unified_status ` set (ds_deliveries answer))
        \<subseteq> {''PENDING'', ''SENDING'', ''SENT'', ''FAILED''}"
    using best_status_shown [OF rec] shown_recorded(1) rec by (simp only: answer) force
  then show ?thesis using rec shown_recorded(2,3) by (auto simp: answer)
qed

text \<open>The audit time line of a document is always empty. Every event that is ever written is about a
  delivery, so the route that lists the events of a document answers with no item in every reachable
  state.\<close>

theorem document_timeline_always_empty:
  assumes "reachable R D0 C" and "consistent D0"
  shows "document_audit_timeline i cu limit offset (open_session (cluster_db C)) = page_of [] limit offset"
proof -
  have "filter (\<lambda>e. aud_resource_type e = ''document'' \<and> aud_resource_id e = i \<and> aud_tenant_id e = cu_tenant_id cu)
      (db_audit (cluster_db C)) = []"
    using reachable_consistent [OF assms] by (auto simp: consistent_def filter_empty_conv)
  then show ?thesis by (simp add: document_audit_timeline_def audit_timeline_def)
qed

text \<open>A run of the system: a request is served, then the worker sends the document.\<close>

definition sample_sent :: "mem_store system" where
  "sample_sent = after_request (sent_db sample_send_env sample_cu sample_send_request sample_upload sample_account account_db)
     [Task_send (uuid_str 22) ''0102''] sample_start"

definition sample_cluster :: "mem_store cluster" where
  "sample_cluster = \<lparr>cl_system = sample_sent, cl_workers = [], cl_requests = []\<rparr>"

lemma sample_cluster_reachable: "reachable mem_redis account_db sample_cluster"
proof -
  let ?C = "fresh_cluster account_db mem_empty stub_empty"
  have hex: "bytes_hex [1, 2] = ''0102''" by code_simp
  have "reachable mem_redis account_db ?C" by (rule reachable.start)
  moreover have "request_step (cl_system ?C) sample_sent"
    using request_step.send [of sample_send_env "\<lambda>m. Inr ()" sample_cu sample_send_request sample_upload sample_start]
      sent_request [OF sample_sendable] hex
    by (simp add: sample_sent_def sample_start_def fresh_cluster_def sample_upload_def) (simp add: sample_send_env_def)
  then have "cluster_step mem_redis ?C sample_cluster"
    using cluster_step.request [of ?C sample_sent mem_redis] by (simp add: sample_cluster_def fresh_cluster_def)
  ultimately show ?thesis by (rule reachable.further)
qed

theorem deliveries_shown_in_tenant_witness:
  "dl_tenant_id ` set [new_delivery sample_send_env sample_cu sample_account] \<subseteq> {2}"
proof -
  let ?D = "sent_db sample_send_env sample_cu sample_send_request sample_upload sample_account account_db"
  have D: "cluster_db sample_cluster = ?D" by (simp add: sample_cluster_def sample_sent_def)
  have own: "own_document 21 sample_cu (open_session (cluster_db sample_cluster)) =
      Inr (new_document sample_send_env sample_cu sample_send_request sample_upload)"
    using own_new_document [OF sample_sendable, of ?D] by (simp add: D sample_send_env_def)
  have "list_by_document 21 (open_session ?D) = Inr [new_delivery sample_send_env sample_cu sample_account]"
    using list_by_document_one [OF sent_db_get [OF sample_sendable], of 21]
      sent_db_rows_of_document [OF account_db_consistent sample_sendable]
    by (simp add: sample_send_env_def)
  with deliveries_shown_in_tenant [OF sample_cluster_reachable account_db_consistent own] show ?thesis
    by (simp add: D sample_cu_def)
qed

theorem statuses_shown_witness:
  "\<exists>answer. get_document_status 21 sample_cu (open_session (cluster_db sample_cluster)) = Inr answer
    \<and> ds_unified_status answer \<in> {''PENDING'', ''SENDING'', ''SENT'', ''FAILED''}"
proof -
  have D: "cluster_db sample_cluster =
      sent_db sample_send_env sample_cu sample_send_request sample_upload sample_account account_db"
    by (simp add: sample_cluster_def sample_sent_def)
  have "own_document 21 sample_cu (open_session (cluster_db sample_cluster)) =
      Inr (new_document sample_send_env sample_cu sample_send_request sample_upload)"
    using own_new_document [OF sample_sendable, of "cluster_db sample_cluster"] by (simp add: D sample_send_env_def)
  moreover have "list_by_document 21 (open_session (cluster_db sample_cluster)) =
      Inr [new_delivery sample_send_env sample_cu sample_account]"
    using list_by_document_one [OF sent_db_get [OF sample_sendable], of 21]
      sent_db_rows_of_document [OF account_db_consistent sample_sendable]
    by (simp add: D sample_send_env_def)
  ultimately obtain answer where answer:
    "get_document_status 21 sample_cu (open_session (cluster_db sample_cluster)) = Inr answer"
    by (auto simp: get_document_status_def)
  from statuses_shown [OF sample_cluster_reachable account_db_consistent answer] answer show ?thesis by blast
qed

theorem document_timeline_always_empty_witness:
  "document_audit_timeline 21 sample_cu 50 0 (open_session (cluster_db sample_cluster)) = page_of [] 50 0"
  by (rule document_timeline_always_empty [OF sample_cluster_reachable account_db_consistent])

end
